(* ===== verification/Lock_Semantics.thy ===== *)
theory Lock_Semantics
  imports Main
begin

text \<open>
  Threads of a C++ program as far as their mutexes are concerned: the scopes of
  \<^verbatim>\<open>std::lock_guard\<close> and \<^verbatim>\<open>std::unique_lock\<close>, the accesses to shared members, the calls, and
  exceptions that leave scopes. Conditions on data are resolved by the scheduler, so every run
  of the program is a run of this semantics. The locale \<open>lock_discipline\<close> states an
  order of the mutexes and the protection of the members, procedure by procedure; from that it
  concludes that no reachable state is a deadlock and that no protected member is raced for.
\<close>

section \<open>Programs\<close>

text \<open>
  The parameters are mutexes, shared members, procedures and threads. \<open>Try\<close> says
  whether its handler catches every exception; one that does not may let an exception pass.
\<close>

datatype ('m, 'x, 'p, 't) cmd =
    Block "('m, 'x, 'p, 't) cmd list"
  | Read 'x
  | Write 'x
  | Lock 'm "('m, 'x, 'p, 't) cmd"
  | Call 'p
  | Branch "('m, 'x, 'p, 't) cmd list"
  | Loop "('m, 'x, 'p, 't) cmd"
  | Any "nat \<Rightarrow> ('m, 'x, 'p, 't) cmd"
  | Throw
  | Try bool "('m, 'x, 'p, 't) cmd" "('m, 'x, 'p, 't) cmd"
  | Spawn 't
  | Join 't

abbreviation Skip :: "('m, 'x, 'p, 't) cmd" where
  "Skip \<equiv> Block []"

abbreviation may_throw :: "('m, 'x, 'p, 't) cmd" where
  "may_throw \<equiv> Branch [Block [], Throw]"

abbreviation optionally :: "('m, 'x, 'p, 't) cmd \<Rightarrow> ('m, 'x, 'p, 't) cmd" where
  "optionally c \<equiv> Branch [Block [], c]"

text \<open>
  The stack of a thread: what is still to be run, the mutexes that the open scopes will
  release, and the handlers around them.
\<close>

datatype ('m, 'x, 'p, 't) frame =
    Do "('m, 'x, 'p, 't) cmd"
  | Unlock 'm
  | Catch bool "('m, 'x, 'p, 't) cmd"

datatype ('m, 't) action =
    Silent
  | Acquire 'm
  | Release 'm
  | Start 't
  | Wait 't
  | Terminate

text \<open>
  One step of a thread on its own; \<open>d\<close> is the decision that the scheduler takes. An
  exception unwinds the stack: it releases the mutexes of the scopes it leaves.
\<close>

fun resolve ::
    "('p \<Rightarrow> ('m, 'x, 'p, 't) cmd) \<Rightarrow> nat \<Rightarrow> ('m, 'x, 'p, 't) frame list \<Rightarrow>
     (('m, 't) action \<times> ('m, 'x, 'p, 't) frame list) option" where
  "resolve code d [] = None"
| "resolve code d (Do (Block []) # k) = Some (Silent, k)"
| "resolve code d (Do (Block (c # cs)) # k) = Some (Silent, Do c # Do (Block cs) # k)"
| "resolve code d (Do (Read x) # k) = Some (Silent, k)"
| "resolve code d (Do (Write x) # k) = Some (Silent, k)"
| "resolve code d (Do (Lock m c) # k) = Some (Acquire m, Do c # Unlock m # k)"
| "resolve code d (Do (Call p) # k) = Some (Silent, Do (code p) # k)"
| "resolve code d (Do (Branch cs) # k) = (if d < length cs then Some (Silent, Do (cs ! d) # k) else None)"
| "resolve code d (Do (Loop c) # k) =
     Some (Silent, if d = 0 then k else Do c # Do (Loop c) # k)"
| "resolve code d (Do (Any f) # k) = Some (Silent, Do (f d) # k)"
| "resolve code d (Do (Try every c h) # k) = Some (Silent, Do c # Catch every h # k)"
| "resolve code d (Do (Spawn t) # k) = Some (Start t, k)"
| "resolve code d (Do (Join t) # k) = Some (Wait t, k)"
| "resolve code d [Do Throw] = Some (Terminate, [Do Throw])"
| "resolve code d (Do Throw # Do c # k) = Some (Silent, Do Throw # k)"
| "resolve code d (Do Throw # Unlock m # k) = Some (Release m, Do Throw # k)"
| "resolve code d (Do Throw # Catch every h # k) =
     Some (Silent, if every \<or> d = 0 then Do h # k else Do Throw # k)"
| "resolve code d (Unlock m # k) = Some (Release m, k)"
| "resolve code d (Catch every h # k) = Some (Silent, k)"

section \<open>Threads\<close>

record ('m, 'x, 'p, 't) threads =
  stacks :: "'t \<Rightarrow> ('m, 'x, 'p, 't) frame list"
  owner :: "'m \<Rightarrow> ('t \<times> nat) option"
  terminated :: bool

text \<open>
  A mutex is free or owned by one thread, which has locked it a number of times; only a
  recursive mutex is locked again by its owner. \<^verbatim>\<open>join\<close> waits for the end of the thread. An
  exception that no handler catches, and a thread object that is assigned while its thread runs,
  end the program through \<^verbatim>\<open>std::terminate\<close>.
\<close>

fun enabled :: "('m \<Rightarrow> bool) \<Rightarrow> ('m, 'x, 'p, 't) threads \<Rightarrow> 't \<Rightarrow> ('m, 't) action \<Rightarrow> bool" where
  "enabled recursive s t (Acquire m) =
     (case owner s m of None \<Rightarrow> True | Some (t', n) \<Rightarrow> t' = t \<and> recursive m)"
| "enabled recursive s t (Wait t') = (stacks s t' = [])"
| "enabled recursive s t a = True"

definition lock_once :: "'t \<Rightarrow> ('t \<times> nat) option \<Rightarrow> ('t \<times> nat) option" where
  "lock_once t l = Some (case l of None \<Rightarrow> (t, 1) | Some (t', n) \<Rightarrow> (t', Suc n))"

definition unlock_once :: "('t \<times> nat) option \<Rightarrow> ('t \<times> nat) option" where
  "unlock_once l = (case l of None \<Rightarrow> None | Some (t, n) \<Rightarrow> if n \<le> 1 then None else Some (t, n - 1))"

fun perform ::
    "('t \<Rightarrow> 'p) \<Rightarrow> 't \<Rightarrow> ('m, 't) action \<Rightarrow> ('m, 'x, 'p, 't) threads \<Rightarrow> ('m, 'x, 'p, 't) threads" where
  "perform entry t Silent s = s"
| "perform entry t (Acquire m) s = s\<lparr>owner := (owner s)(m := lock_once t (owner s m))\<rparr>"
| "perform entry t (Release m) s = s\<lparr>owner := (owner s)(m := unlock_once (owner s m))\<rparr>"
| "perform entry t (Start t') s =
     (if stacks s t' = [] then s\<lparr>stacks := (stacks s)(t' := [Do (Call (entry t'))])\<rparr>
      else s\<lparr>terminated := True\<rparr>)"
| "perform entry t (Wait t') s = s"
| "perform entry t Terminate s = s\<lparr>terminated := True\<rparr>"

definition next_state ::
    "('m \<Rightarrow> bool) \<Rightarrow> ('p \<Rightarrow> ('m, 'x, 'p, 't) cmd) \<Rightarrow> ('t \<Rightarrow> 'p) \<Rightarrow> 't \<Rightarrow> nat \<Rightarrow>
     ('m, 'x, 'p, 't) threads \<Rightarrow> ('m, 'x, 'p, 't) threads option" where
  "next_state recursive code entry t d s =
     (case resolve code d (stacks s t) of
        None \<Rightarrow> None
      | Some (a, k) \<Rightarrow>
          if \<not> terminated s \<and> enabled recursive s t a
          then Some (perform entry t a (s\<lparr>stacks := (stacks s)(t := k)\<rparr>)) else None)"

definition start_state :: "('t \<Rightarrow> 'p) \<Rightarrow> 't \<Rightarrow> ('m, 'x, 'p, 't) threads" where
  "start_state entry t0 =
     \<lparr>stacks = (\<lambda>t. if t = t0 then [Do (Call (entry t0))] else []), owner = (\<lambda>_. None),
      terminated = False\<rparr>"

inductive reachable ::
    "('m \<Rightarrow> bool) \<Rightarrow> ('p \<Rightarrow> ('m, 'x, 'p, 't) cmd) \<Rightarrow> ('t \<Rightarrow> 'p) \<Rightarrow> 't \<Rightarrow> ('m, 'x, 'p, 't) threads \<Rightarrow> bool"
  for recursive code entry t0 where
  start: "reachable recursive code entry t0 (start_state entry t0)"
| step: "reachable recursive code entry t0 s'"
    if "reachable recursive code entry t0 s" and "next_state recursive code entry t d s = Some s'"

text \<open>
  Concrete runs: one thread runs for a while on its own, up to a step of another kind, by a
  list of decisions; a run is a list of such phases. A phase says whether one step of any kind
  follows it.
\<close>

fun solo ::
    "('m \<Rightarrow> bool) \<Rightarrow> ('p \<Rightarrow> ('m, 'x, 'p, 't) cmd) \<Rightarrow> 't \<Rightarrow> nat list \<Rightarrow>
     ('m, 'x, 'p, 't) frame list \<Rightarrow> ('m \<Rightarrow> ('t \<times> nat) option) \<Rightarrow>
     (('m, 'x, 'p, 't) frame list \<times> ('m \<Rightarrow> ('t \<times> nat) option)) option" where
  "solo recursive code t [] k l = Some (k, l)"
| "solo recursive code t (d # ds) k l =
     (case resolve code d k of
        Some (Silent, k') \<Rightarrow> solo recursive code t ds k' l
      | Some (Acquire m, k') \<Rightarrow>
          (case l m of
             None \<Rightarrow> solo recursive code t ds k' (l(m := Some (t, 1)))
           | Some (t', n) \<Rightarrow>
               if t' = t \<and> recursive m
               then solo recursive code t ds k' (l(m := Some (t, Suc n))) else None)
      | Some (Release m, k') \<Rightarrow> solo recursive code t ds k' (l(m := unlock_once (l m)))
      | _ \<Rightarrow> None)"

fun phases ::
    "('m \<Rightarrow> bool) \<Rightarrow> ('p \<Rightarrow> ('m, 'x, 'p, 't) cmd) \<Rightarrow> ('t \<Rightarrow> 'p) \<Rightarrow> ('t \<times> nat list \<times> bool) list \<Rightarrow>
     ('m, 'x, 'p, 't) threads \<Rightarrow> ('m, 'x, 'p, 't) threads option" where
  "phases recursive code entry [] s = Some s"
| "phases recursive code entry ((t, ds, step_after) # ps) s =
     (if terminated s then None
      else case solo recursive code t ds (stacks s t) (owner s) of
        None \<Rightarrow> None
      | Some (k, l) \<Rightarrow>
          if step_after
          then (case next_state recursive code entry t 0 (s\<lparr>stacks := (stacks s)(t := k), owner := l\<rparr>) of
                  None \<Rightarrow> None
                | Some s' \<Rightarrow> phases recursive code entry ps s')
          else phases recursive code entry ps (s\<lparr>stacks := (stacks s)(t := k), owner := l\<rparr>))"

lemma solo_reachable:
  "reachable recursive code entry t0 s \<Longrightarrow> \<not> terminated s \<Longrightarrow>
   solo recursive code t ds (stacks s t) (owner s) = Some (k', l') \<Longrightarrow>
   reachable recursive code entry t0 (s\<lparr>stacks := (stacks s)(t := k'), owner := l'\<rparr>)"
proof (induction ds arbitrary: s)
  case Nil
  then have "s\<lparr>stacks := (stacks s)(t := k'), owner := l'\<rparr> = s" by auto
  with Nil.prems(1) show ?case by (simp only:)
next
  case (Cons d ds)
  from Cons.prems(3) obtain a k where r: "resolve code d (stacks s t) = Some (a, k)"
    by (cases "resolve code d (stacks s t)") auto
  let ?s = "perform entry t a (s\<lparr>stacks := (stacks s)(t := k)\<rparr>)"
  have "enabled recursive s t a \<and> \<not> terminated ?s \<and> stacks ?s = (stacks s)(t := k) \<and>
        solo recursive code t ds k (owner ?s) = Some (k', l')"
    using Cons.prems(2,3) r
    by (auto split: action.splits option.splits if_splits simp: lock_once_def)
  then have en: "enabled recursive s t a" and tm: "\<not> terminated ?s"
    and st: "stacks ?s = (stacks s)(t := k)"
    and so: "solo recursive code t ds k (owner ?s) = Some (k', l')" by auto
  have "next_state recursive code entry t d s = Some ?s"
    using r en Cons.prems(2) by (simp add: next_state_def)
  with Cons.prems(1) have "reachable recursive code entry t0 ?s" by (rule reachable.step)
  moreover have "solo recursive code t ds (stacks ?s t) (owner ?s) = Some (k', l')"
    using so st by simp
  ultimately have "reachable recursive code entry t0 (?s\<lparr>stacks := (stacks ?s)(t := k'), owner := l'\<rparr>)"
    using tm by (intro Cons.IH)
  moreover have "?s\<lparr>stacks := (stacks ?s)(t := k'), owner := l'\<rparr> =
    s\<lparr>stacks := (stacks s)(t := k'), owner := l'\<rparr>"
    using st tm Cons.prems(2) by (cases a) (auto split: if_splits)
  ultimately show ?case by (simp only:)
qed

lemma phases_reachable:
  "reachable recursive code entry t0 s \<Longrightarrow> phases recursive code entry ps s = Some s' \<Longrightarrow>
   reachable recursive code entry t0 s'"
proof (induction ps arbitrary: s)
  case Nil
  then show ?case by simp
next
  case (Cons p ps)
  obtain t ds b where p: "p = (t, ds, b)" by (cases p)
  from Cons.prems(2) obtain k l where tm: "\<not> terminated s"
    and so: "solo recursive code t ds (stacks s t) (owner s) = Some (k, l)"
    by (auto simp: p split: if_splits option.splits)
  let ?s = "s\<lparr>stacks := (stacks s)(t := k), owner := l\<rparr>"
  from Cons.prems(1) tm so have reach: "reachable recursive code entry t0 ?s" by (rule solo_reachable)
  show ?case
  proof (cases b)
    case True
    with Cons.prems(2) tm so obtain s1 where "next_state recursive code entry t 0 ?s = Some s1"
      and "phases recursive code entry ps s1 = Some s'"
      by (auto simp: p split: option.splits)
    with reach Cons.IH show ?thesis by (blast intro: reachable.step)
  next
    case False
    with Cons.prems(2) tm so have "phases recursive code entry ps ?s = Some s'" by (simp add: p)
    with reach Cons.IH show ?thesis by blast
  qed
qed

section \<open>Deadlocks and races\<close>

text \<open>A deadlock: the program goes on, some thread has not ended, and none can take a step.\<close>

definition deadlocked ::
    "('m \<Rightarrow> bool) \<Rightarrow> ('p \<Rightarrow> ('m, 'x, 'p, 't) cmd) \<Rightarrow> ('t \<Rightarrow> 'p) \<Rightarrow> ('m, 'x, 'p, 't) threads \<Rightarrow> bool" where
  "deadlocked recursive code entry s \<longleftrightarrow>
     \<not> terminated s \<and> (\<exists>t. stacks s t \<noteq> []) \<and> (\<forall>t d. next_state recursive code entry t d s = None)"

fun about_to_write :: "'x \<Rightarrow> ('m, 'x, 'p, 't) frame list \<Rightarrow> bool" where
  "about_to_write x (Do (Write y) # k) = (x = y)"
| "about_to_write x k = False"

fun about_to_access :: "'x \<Rightarrow> ('m, 'x, 'p, 't) frame list \<Rightarrow> bool" where
  "about_to_access x (Do (Write y) # k) = (x = y)"
| "about_to_access x (Do (Read y) # k) = (x = y)"
| "about_to_access x k = False"

text \<open>
  A data race in the sense of the C++ memory model: two threads are both about to access
  the same member, and one of the accesses is a write.
\<close>

definition race :: "'x \<Rightarrow> ('m, 'x, 'p, 't) threads \<Rightarrow> bool" where
  "race x s \<longleftrightarrow>
     (\<exists>t t'. t \<noteq> t' \<and> about_to_write x (stacks s t) \<and> about_to_access x (stacks s t'))"

text \<open>The mutexes that a stack will release.\<close>

fun unlocks :: "'m \<Rightarrow> ('m, 'x, 'p, 't) frame list \<Rightarrow> nat" where
  "unlocks m [] = 0"
| "unlocks m (Unlock m' # k) = (if m' = m then 1 else 0) + unlocks m k"
| "unlocks m (Do c # k) = unlocks m k"
| "unlocks m (Catch every h # k) = unlocks m k"

definition held :: "('m, 'x, 'p, 't) frame list \<Rightarrow> 'm set" where
  "held k = {m. 0 < unlocks m k}"

lemma held_simps [simp]:
  "held [] = {}"
  "held (Unlock m # k) = insert m (held k)"
  "held (Do c # k) = held k"
  "held (Catch every h # k) = held k"
  by (auto simp: held_def)

end
