(* ===== verification/Thread_Code.thy ===== *)
theory Thread_Code
  imports Lock_Semantics
begin

text \<open>
  The threads of the gateway: which mutexes every function locks, in which scopes, which shared
  members it reads and writes there, what it calls, and where an exception may leave it. Values
  are left out (they are the subject of the other theories): a condition is a \<open>Branch\<close>, a
  loop is a \<open>Loop\<close>, and the scheduler decides. Members that are atomic, that are not changed
  after the construction of their object or that are local do not appear.
\<close>

section \<open>Mutexes, members and threads\<close>

text \<open>
  A number identifies a dashboard client; the observer adds one data set to each, so
  \<open>valuesMutex c\<close> is the one of the data set of client \<open>c\<close>.
\<close>

datatype mutex =
    clientMutex
  | callbacksMutex
  | dashboardClientsMutex
  | machineIdentificationsCacheMutex
  | dataSetMutex nat
  | valuesMutex nat

text \<open>\<^verbatim>\<open>std::recursive_mutex\<close> or \<^verbatim>\<open>std::mutex\<close>.\<close>

fun is_recursive :: "mutex \<Rightarrow> bool" where
  "is_recursive clientMutex = True"
| "is_recursive callbacksMutex = False"
| "is_recursive dashboardClientsMutex = False"
| "is_recursive machineIdentificationsCacheMutex = False"
| "is_recursive (dataSetMutex c) = True"
| "is_recursive (valuesMutex c) = False"

text \<open>
  The client object of the stack has two members: its lifetime (\<open>mem_clientObject\<close>), and what the
  services do with it (\<open>mem_client\<close>).
\<close>

datatype member =
    mem_clientObject
  | mem_client
  | mem_channelState
  | mem_subscriptionId
  | mem_callbacks
  | mem_uriToIndexCache
  | mem_indexToUriCache
  | mem_namespaceArray
  | mem_dataTypeArray
  | mem_superTypes
  | mem_typeMap
  | mem_nameToId
  | mem_subTypes
  | mem_expectedObjectTypeNames
  | mem_knownMachines
  | mem_knownMachineToolsSet
  | mem_parentOfMachine
  | mem_invalidMachines
  | mem_machineIdentificationsCache
  | mem_dashboardClients
  | mem_onlineMachines
  | mem_machineNames
  | mem_publishMachinesOnline
  | mem_subscribedValues nat
  | mem_browsedNodes nat
  | mem_dataSets nat
  | mem_latestMessages nat
  | mem_values nat

datatype thread = Main_thread | Connect_thread | Update_thread

text \<open>The functions.\<close>

datatype subscription_proc =
    P_stack_service | P_createDataChangeCallback | P_dataChange | P_valueCallback nat
    | P_createSubscription | P_deleteSubscription | P_Subscription_Unsubscribe
    | P_Subscription_Subscribe

datatype connection_proc =
    P_SessionIsConnected | P_OpcUaClient | P_connect | P_on_connected | P_checkConnection
    | P_initializeNamespaceCache | P_updateNamespaceCache | P_verifyCompatibleNamespaceCache
    | P_fillNamespaceCache | P_connectionStatusChanged bool | P_OpcUaClient_destructor
    | P_disconnect | P_threadConnectExecution | P_VerifyConnection

datatype browse_proc =
    P_readNodeBrowseName | P_readNodeClass | P_browseSuperType | P_isSameOrSubtypeUa
    | P_isSameOrSubtype | P_Browse | P_BrowseWithResultTypeFilter | P_nodeClassFromNodeId
    | P_BrowseWithContextAndFilter bool | P_ReferenceDescriptionsToBrowseResults bool
    | P_ReferenceDescriptionToBrowseResult | P_getUaBrowseContext | P_TranslateBrowsePathToNodeId
    | P_OpcUaClient_Subscribe | P_OpcUaClient_Unsubscribe | P_readValues2 | P_Namespaces
    | P_BrowseModellingRule | P_readTypes | P_browseTypes

datatype dashboard_proc =
    P_addDataSet nat | P_TransformToNodeIds nat | P_OptionalAndMandatory nat
    | P_PlaceholderTransform nat | P_BrowsePlaceholder nat | P_preparePlaceholderNodesTypeId nat
    | P_subscribeValues nat | P_handleSubscribeChildNodes nat | P_handleSubscribeChildNode nat
    | P_handleSubscribePlaceholderChildNode nat | P_subscribeValue nat | P_Publish nat
    | P_getJson nat | P_Unsubscribe nat

datatype observer_proc =
    P_UpdateMachines | P_canBrowseMachineList | P_browseForMachines | P_findComponentsFolder
    | P_machineListsNotEqual | P_recreateKnownMachineToolsMap | P_findNewAndOfflineMachines
    | P_removeOfflineMachines | P_ignoreInvalidMachinesTemporarily | P_addNewMachine
    | P_addMachine | P_removeMachine | P_isOnline | P_browseIdentificationValues
    | P_FillIdentificationValues

datatype gateway_proc =
    P_PublishAll | P_publishMachinesList | P_startUpdateMachineThread | P_update_thread
    | P_stopMachineUpdateThread | P_Iterate | P_DashboardOpcUaClient_destructor | P_main

datatype proc =
    Sub subscription_proc
  | Con connection_proc
  | Bro browse_proc
  | Das dashboard_proc
  | Obs observer_proc
  | Gat gateway_proc

type_synonym code = "(mutex, member, proc, thread) cmd"

section \<open>Calls of the stack and their callbacks\<close>

text \<open>
  A service of the stack works on the client object. While it waits for its response it
  may deliver any number of notifications, on the thread of the caller.
\<close>

definition locks_stack_service :: code where
  "locks_stack_service = Block [Write mem_client, Loop (Call (Sub P_createDataChangeCallback))]"

definition locks_createDataChangeCallback :: code where
  "locks_createDataChangeCallback = Call (Sub P_dataChange)"

definition locks_dataChange :: code where
  "locks_dataChange = Lock callbacksMutex (Loop (Block
     [Read mem_callbacks,
      optionally (Block [may_throw, Any (\<lambda>c. Call (Sub (P_valueCallback c)))])]))"

text \<open>
  The lambda of \<^verbatim>\<open>subscribeValue\<close>. Its \<^verbatim>\<open>std::unique_lock<...>(valueMap_mutex);\<close> declares
  a variable of the name \<^verbatim>\<open>valueMap_mutex\<close> that owns no mutex.
\<close>

definition locks_valueCallback :: "nat \<Rightarrow> code" where
  "locks_valueCallback c = Write (mem_values c)"

section \<open>Subscription\<close>

definition locks_createSubscription :: code where
  "locks_createSubscription = Block [Call (Sub P_stack_service), optionally (Write mem_subscriptionId)]"

definition locks_deleteSubscription :: code where
  "locks_deleteSubscription = Block [Read mem_subscriptionId, Call (Sub P_stack_service)]"

definition locks_Subscription_Unsubscribe :: code where
  "locks_Subscription_Unsubscribe = Block
     [Lock callbacksMutex (Loop (Block [Read mem_callbacks, optionally (Write mem_callbacks)])),
      Loop may_throw, Read mem_subscriptionId, Call (Sub P_stack_service)]"

definition locks_Subscription_Subscribe :: code where
  "locks_Subscription_Subscribe = Block
     [Read mem_uriToIndexCache, may_throw,
      Try False
        (Block [Read mem_subscriptionId, Call (Sub P_stack_service), may_throw,
                Lock callbacksMutex (Write mem_callbacks)])
        Throw]"

section \<open>OPC UA client\<close>

definition locks_SessionIsConnected :: code where
  "locks_SessionIsConnected = Block [Read mem_client, Write mem_channelState]"

text \<open>\<^verbatim>\<open>UA_Client_new\<close> runs in the list of initializers, without the mutex.\<close>

definition locks_OpcUaClient :: code where
  "locks_OpcUaClient = Block
     [Write mem_clientObject, Lock clientMutex (Write mem_client), Call (Con P_connect), Spawn Connect_thread]"

definition locks_connect :: code where
  "locks_connect = Block
     [Lock clientMutex (Call (Sub P_stack_service)),
      Branch [Call (Con (P_connectionStatusChanged False)), Call (Con (P_connectionStatusChanged True))]]"

definition locks_on_connected :: code where
  "locks_on_connected = Block
     [Call (Con P_updateNamespaceCache), Lock clientMutex (Call (Sub P_createSubscription))]"

definition locks_readNodeBrowseName :: code where
  "locks_readNodeBrowseName = Block
     [Read mem_uriToIndexCache, may_throw, Call (Con P_checkConnection),
      Lock clientMutex (Block [Call (Sub P_stack_service), may_throw])]"

definition locks_readNodeClass :: code where
  "locks_readNodeClass = Block
     [Call (Con P_checkConnection),
      Try True (Lock clientMutex (Block [Call (Sub P_stack_service), may_throw])) Skip]"

definition locks_checkConnection :: code where
  "locks_checkConnection = Lock clientMutex (Block
     [optionally (Call (Con P_SessionIsConnected)),
      optionally (Block [Call (Con (P_connectionStatusChanged False)), Throw])])"

definition locks_browseSuperType :: code where
  "locks_browseSuperType = Block
     [Call (Bro P_readNodeClass), may_throw, Lock clientMutex (Call (Sub P_stack_service)), may_throw]"

definition locks_isSameOrSubtypeUa :: code where
  "locks_isSameOrSubtypeUa = optionally (Block
     [Read mem_superTypes,
      Branch [Call (Bro P_isSameOrSubtypeUa),
              Block [Call (Bro P_browseSuperType), Write mem_superTypes, Call (Bro P_isSameOrSubtypeUa)]]])"

definition locks_isSameOrSubtype :: code where
  "locks_isSameOrSubtype = Block
     [Read mem_uriToIndexCache, may_throw, Try False (Call (Bro P_isSameOrSubtypeUa)) Skip]"

definition locks_initializeNamespaceCache :: code where
  "locks_initializeNamespaceCache = Lock clientMutex (Block
     [Write mem_namespaceArray, Call (Sub P_stack_service), Write mem_namespaceArray,
      Write mem_uriToIndexCache, Write mem_indexToUriCache])"

definition locks_updateNamespaceCache :: code where
  "locks_updateNamespaceCache = Block
     [Read mem_indexToUriCache, Call (Con P_initializeNamespaceCache), Read mem_namespaceArray,
      Call (Con P_fillNamespaceCache), Call (Con P_verifyCompatibleNamespaceCache)]"

definition locks_verifyCompatibleNamespaceCache :: code where
  "locks_verifyCompatibleNamespaceCache = Loop (Read mem_indexToUriCache)"

definition locks_fillNamespaceCache :: code where
  "locks_fillNamespaceCache = Loop (Block
     [Read mem_uriToIndexCache,
      optionally (Block [Write mem_uriToIndexCache, Write mem_indexToUriCache,
                         optionally (Write mem_dataTypeArray)])])"

text \<open>The argument says whether the new state is \<^verbatim>\<open>UA_SERVERSTATE_RUNNING\<close>.\<close>

definition locks_connectionStatusChanged :: "bool \<Rightarrow> code" where
  "locks_connectionStatusChanged up = (if up then Call (Con P_on_connected) else Skip)"

text \<open>\<^verbatim>\<open>UA_Client_delete\<close> runs after the body, when the members are destroyed.\<close>

definition locks_OpcUaClient_destructor :: code where
  "locks_OpcUaClient_destructor = Block
     [optionally (Join Connect_thread),
      Lock clientMutex (Block [Call (Sub P_deleteSubscription), Call (Con P_disconnect)]),
      Write mem_clientObject]"

definition locks_disconnect :: code where
  "locks_disconnect = Lock clientMutex (Block [Call (Sub P_deleteSubscription), Call (Sub P_stack_service)])"

definition locks_threadConnectExecution :: code where
  "locks_threadConnectExecution = Loop (optionally (Call (Con P_connect)))"

definition locks_Browse :: code where
  "locks_Browse = Block [Call (Bro P_getUaBrowseContext), Call (Bro (P_BrowseWithContextAndFilter False))]"

definition locks_BrowseWithResultTypeFilter :: code where
  "locks_BrowseWithResultTypeFilter = Block
     [Call (Bro P_getUaBrowseContext), Read mem_uriToIndexCache, may_throw, Call (Bro P_nodeClassFromNodeId),
      Call (Bro (P_BrowseWithContextAndFilter True))]"

definition locks_nodeClassFromNodeId :: code where
  "locks_nodeClassFromNodeId = Block [Call (Bro P_readNodeClass), may_throw]"

text \<open>The argument says whether the filter is the subtype test.\<close>

definition locks_BrowseWithContextAndFilter :: "bool \<Rightarrow> code" where
  "locks_BrowseWithContextAndFilter subtypes = Block
     [Read mem_uriToIndexCache, may_throw, Call (Con P_checkConnection),
      Lock clientMutex (Call (Sub P_stack_service)),
      optionally (Block [Call (Con P_updateNamespaceCache), Throw]),
      Call (Bro (P_ReferenceDescriptionsToBrowseResults subtypes))]"

definition locks_ReferenceDescriptionsToBrowseResults :: "bool \<Rightarrow> code" where
  "locks_ReferenceDescriptionsToBrowseResults subtypes = Loop (Block
     [if subtypes then Call (Bro P_isSameOrSubtypeUa) else Skip,
      optionally (Call (Bro P_ReferenceDescriptionToBrowseResult))])"

definition locks_ReferenceDescriptionToBrowseResult :: code where
  "locks_ReferenceDescriptionToBrowseResult = Block [Read mem_indexToUriCache, may_throw]"

definition locks_getUaBrowseContext :: code where
  "locks_getUaBrowseContext = optionally (Block [Read mem_uriToIndexCache, may_throw])"

definition locks_TranslateBrowsePathToNodeId :: code where
  "locks_TranslateBrowsePathToNodeId = Block
     [Call (Con P_checkConnection), may_throw, Read mem_uriToIndexCache, may_throw,
      Lock clientMutex (Call (Sub P_stack_service)),
      optionally (Block [optionally (Call (Con P_updateNamespaceCache)), Throw]),
      may_throw,
      Loop (Try False (Block [Read mem_indexToUriCache, may_throw]) Skip),
      Read mem_indexToUriCache, may_throw]"

definition locks_OpcUaClient_Subscribe :: code where
  "locks_OpcUaClient_Subscribe =
     Lock clientMutex (Try False (Call (Sub P_Subscription_Subscribe)) (Call (Con P_updateNamespaceCache)))"

definition locks_OpcUaClient_Unsubscribe :: code where
  "locks_OpcUaClient_Unsubscribe = Lock clientMutex (Call (Sub P_Subscription_Unsubscribe))"

definition locks_readValues2 :: code where
  "locks_readValues2 = Block
     [Loop (Block [Read mem_uriToIndexCache, may_throw]),
      Lock clientMutex (Block [Call (Sub P_stack_service), may_throw])]"

definition locks_Namespaces :: code where
  "locks_Namespaces = Loop (Read mem_indexToUriCache)"

definition locks_VerifyConnection :: code where
  "locks_VerifyConnection = Lock clientMutex (Call (Sub P_stack_service))"

definition locks_BrowseModellingRule :: code where
  "locks_BrowseModellingRule = Call (Bro P_Browse)"

section \<open>Type reader\<close>

definition locks_browseTypes :: code where
  "locks_browseTypes = Block
     [Call (Bro P_Browse),
      Loop (Block [Try False (Call (Bro P_BrowseModellingRule)) Skip,
                   optionally (Write mem_nameToId), Call (Bro P_browseTypes)])]"

definition locks_readTypes :: code where
  "locks_readTypes = Block
     [Write mem_nameToId, Call (Bro P_browseTypes), Write mem_nameToId, Call (Bro P_browseTypes),
      Call (Bro P_Namespaces), Loop (Write mem_typeMap), Loop (Block [Read mem_typeMap, Write mem_typeMap]),
      Write mem_expectedObjectTypeNames,
      Loop (Try False (Block [Read mem_typeMap, may_throw, Write mem_expectedObjectTypeNames]) Skip)]"

section \<open>Dashboard client\<close>

definition locks_addDataSet :: "nat \<Rightarrow> code" where
  "locks_addDataSet c = Try False
     (Block [Call (Das (P_TransformToNodeIds c)), Call (Das (P_subscribeValues c)),
             Lock (dataSetMutex c) (Write (mem_dataSets c))])
     may_throw"

definition locks_Publish :: "nat \<Rightarrow> code" where
  "locks_Publish c = Lock (dataSetMutex c) (Loop (Block
     [Read (mem_dataSets c), Call (Das (P_getJson c)), optionally (Write (mem_latestMessages c))]))"

definition locks_Unsubscribe :: "nat \<Rightarrow> code" where
  "locks_Unsubscribe c = Block
     [Loop (Read (mem_subscribedValues c)), Write (mem_subscribedValues c),
      Call (Bro P_OpcUaClient_Unsubscribe),
      Lock (dataSetMutex c) (Write (mem_dataSets c))]"

definition locks_getJson :: "nat \<Rightarrow> code" where
  "locks_getJson c = Block [Loop (Lock (valuesMutex c) (Read (mem_values c))), may_throw]"

definition locks_TransformToNodeIds :: "nat \<Rightarrow> code" where
  "locks_TransformToNodeIds c = Block
     [Write (mem_browsedNodes c),
      optionally (Block
        [Loop (Branch [Call (Das (P_OptionalAndMandatory c)), Call (Das (P_PlaceholderTransform c)), Skip]),
         Write (mem_browsedNodes c)])]"

definition locks_OptionalAndMandatoryTransformToNodeId :: "nat \<Rightarrow> code" where
  "locks_OptionalAndMandatoryTransformToNodeId c = Try False
     (Block [Call (Bro P_TranslateBrowsePathToNodeId), optionally (Call (Das (P_TransformToNodeIds c)))])
     may_throw"

definition locks_OptionalAndMandatoryPlaceholderTransformToNodeId :: "nat \<Rightarrow> code" where
  "locks_OptionalAndMandatoryPlaceholderTransformToNodeId c = Try False
     (Call (Das (P_BrowsePlaceholder c))) may_throw"

definition locks_BrowsePlaceholder :: "nat \<Rightarrow> code" where
  "locks_BrowsePlaceholder c = Block
     [may_throw, Call (Bro P_BrowseWithResultTypeFilter), Call (Das (P_preparePlaceholderNodesTypeId c))]"

definition locks_preparePlaceholderNodesTypeId :: "nat \<Rightarrow> code" where
  "locks_preparePlaceholderNodesTypeId c = Loop (Block
     [optionally (Call (Bro P_Browse)), Read mem_typeMap, optionally (Call (Das (P_TransformToNodeIds c)))])"

definition locks_subscribeValues :: "nat \<Rightarrow> code" where
  "locks_subscribeValues c = Block
     [optionally (Call (Das (P_subscribeValue c))), Call (Das (P_handleSubscribeChildNodes c))]"

definition locks_handleSubscribeChildNodes :: "nat \<Rightarrow> code" where
  "locks_handleSubscribeChildNodes c = Loop (Branch
     [Call (Das (P_handleSubscribeChildNode c)), Call (Das (P_handleSubscribePlaceholderChildNode c)), Skip])"

definition locks_handleSubscribeChildNode :: "nat \<Rightarrow> code" where
  "locks_handleSubscribeChildNode c = optionally (Call (Das (P_subscribeValues c)))"

definition locks_handleSubscribePlaceholderChildNode :: "nat \<Rightarrow> code" where
  "locks_handleSubscribePlaceholderChildNode c = optionally (Loop (Call (Das (P_subscribeValues c))))"

definition locks_subscribeValue :: "nat \<Rightarrow> code" where
  "locks_subscribeValue c = Try False
     (Block [Loop (Read (mem_subscribedValues c)),
             optionally (Block [Call (Bro P_OpcUaClient_Subscribe), Write (mem_subscribedValues c)])])
     Skip"

section \<open>Machine observer\<close>

definition locks_UpdateMachines :: code where
  "locks_UpdateMachines = Block
     [Loop (Read mem_knownMachines), Call (Obs P_canBrowseMachineList),
      optionally (Block
        [Call (Obs P_machineListsNotEqual), Call (Obs P_findNewAndOfflineMachines), Call (Obs P_removeOfflineMachines),
         Loop (Block [Call (Obs P_ignoreInvalidMachinesTemporarily), optionally (Call (Obs P_addNewMachine))]),
         Lock machineIdentificationsCacheMutex (Write mem_machineIdentificationsCache)])]"

definition locks_machineListsNotEqual :: code where
  "locks_machineListsNotEqual = Block
     [Read mem_knownMachineToolsSet, optionally (Call (Obs P_recreateKnownMachineToolsMap))]"

definition locks_recreateKnownMachineToolsMap :: code where
  "locks_recreateKnownMachineToolsMap = Block
     [Read mem_knownMachineToolsSet, Call (Obs P_removeOfflineMachines), Write mem_knownMachineToolsSet,
      Loop (Write mem_knownMachineToolsSet)]"

definition locks_ignoreInvalidMachinesTemporarily :: code where
  "locks_ignoreInvalidMachinesTemporarily = Block
     [Read mem_invalidMachines,
      optionally (Block [Write mem_invalidMachines, optionally (Write mem_invalidMachines)])]"

definition locks_canBrowseMachineList :: code where
  "locks_canBrowseMachineList = Try False (Call (Obs P_browseForMachines)) Skip"

definition locks_findComponentsFolder :: code where
  "locks_findComponentsFolder = Try False
     (Block [Call (Bro P_TranslateBrowsePathToNodeId), optionally (Call (Obs P_browseForMachines))]) Skip"

definition locks_browseForMachines :: code where
  "locks_browseForMachines = Block
     [Call (Bro P_Browse),
      Loop (optionally (Block
        [optionally (Try False (Call (Bro P_Browse)) Skip),
         Try False
           (Block
             [Read mem_subTypes,
              optionally (Block
                [Write mem_subTypes,
                 Loop (Block [Call (Bro P_isSameOrSubtype), optionally (Write mem_subTypes)])]),
              optionally (Call (Bro P_Browse)), may_throw, Call (Bro P_BrowseWithResultTypeFilter),
              optionally (Block [Call (Obs P_findComponentsFolder), Write mem_parentOfMachine])])
           Skip]))]"

definition locks_findNewAndOfflineMachines :: code where
  "locks_findNewAndOfflineMachines = Loop (Try False (Call (Obs P_isOnline)) Skip)"

definition locks_removeOfflineMachines :: code where
  "locks_removeOfflineMachines = Loop (Call (Obs P_removeMachine))"

definition locks_addNewMachine :: code where
  "locks_addNewMachine = Try False
     (Block [Call (Obs P_addMachine), Write mem_knownMachines]) (Write mem_invalidMachines)"

section \<open>Dashboard machine observer\<close>

definition locks_PublishAll :: code where
  "locks_PublishAll = Block
     [Lock dashboardClientsMutex
        (Loop (Block [Read mem_dashboardClients, Any (\<lambda>c. Call (Das (P_Publish c)))])),
      Write mem_publishMachinesOnline,
      optionally (Block [Call (Gat P_publishMachinesList), Write mem_publishMachinesOnline])]"

text \<open>The constructor and the destructor of the observer consist of starting and stopping the thread.\<close>

definition locks_startUpdateMachineThread :: code where
  "locks_startUpdateMachineThread = optionally (Spawn Update_thread)"

definition locks_update_thread :: code where
  "locks_update_thread = Loop (optionally (Call (Obs P_UpdateMachines)))"

definition locks_stopMachineUpdateThread :: code where
  "locks_stopMachineUpdateThread = optionally (Join Update_thread)"

definition locks_publishMachinesList :: code where
  "locks_publishMachinesList = Lock dashboardClientsMutex (Lock machineIdentificationsCacheMutex (Block
     [Read mem_expectedObjectTypeNames,
      Loop (Block [Read mem_onlineMachines, Read mem_machineIdentificationsCache, may_throw]), may_throw,
      Loop (Block [Read mem_invalidMachines, Read mem_machineIdentificationsCache, may_throw]),
      may_throw]))"

definition locks_addMachine :: code where
  "locks_addMachine = Try False
     (optionally (Block
       [Read mem_parentOfMachine, Read mem_typeMap, may_throw, Read mem_dashboardClients,
        optionally (Block [Any (\<lambda>c. Call (Das (P_Unsubscribe c))), Write mem_dashboardClients]),
        Any (\<lambda>c. Call (Das (P_addDataSet c))),
        Lock dashboardClientsMutex
          (Block [Write mem_dashboardClients, Write mem_onlineMachines, Write mem_machineNames])]))
     Throw"

definition locks_removeMachine :: code where
  "locks_removeMachine = Lock dashboardClientsMutex (Block
     [Write mem_knownMachines, Read mem_dashboardClients,
      optionally (Block [Any (\<lambda>c. Call (Das (P_Unsubscribe c))), Write mem_dashboardClients]),
      Read mem_onlineMachines, optionally (Write mem_onlineMachines)])"

definition locks_isOnline :: code where
  "locks_isOnline = Try False
     (Block [Read mem_typeMap, may_throw, Read mem_nameToId,
             optionally (Block [Call (Bro P_BrowseWithResultTypeFilter),
                                optionally (Call (Obs P_browseIdentificationValues))])])
     Skip"

definition locks_browseIdentificationValues :: code where
  "locks_browseIdentificationValues = Block
     [Read mem_typeMap, may_throw, Call (Obs P_FillIdentificationValues), Call (Bro P_readValues2), may_throw,
      Read mem_machineNames, may_throw]"

definition locks_FillIdentificationValuesFromBrowseResult :: code where
  "locks_FillIdentificationValuesFromBrowseResult = Call (Bro P_Browse)"

section \<open>The gateway\<close>

definition locks_Iterate :: code where
  "locks_Iterate = Block
     [Lock clientMutex (Call (Sub P_stack_service)),
      optionally (Call (Gat P_PublishAll)),
      optionally (Call (Con P_VerifyConnection))]"

text \<open>
  The members of \<^verbatim>\<open>DashboardOpcUaClient\<close> are destroyed in reverse order: the observer,
  when there is one, before the OPC UA client.
\<close>

definition locks_DashboardOpcUaClient_destructor :: code where
  "locks_DashboardOpcUaClient_destructor = Block
     [optionally (Call (Gat P_stopMachineUpdateThread)), Call (Con P_OpcUaClient_destructor)]"

text \<open>
  The rounds of \<^verbatim>\<open>main\<close>, between resets; the last one may end before the connection is
  established.
\<close>

definition locks_main :: code where
  "locks_main = Block
     [Loop (Block
        [Call (Con P_OpcUaClient), Loop (Try False (Call (Bro P_readTypes)) Skip), Call (Bro P_readTypes),
         Call (Gat P_startUpdateMachineThread), Loop (Call (Gat P_Iterate)),
         Call (Gat P_DashboardOpcUaClient_destructor)]),
      optionally (Block [Call (Con P_OpcUaClient), Call (Gat P_DashboardOpcUaClient_destructor)])]"

section \<open>The program\<close>

fun subscription_code :: "subscription_proc \<Rightarrow> code" where
  "subscription_code P_stack_service = locks_stack_service"
| "subscription_code P_createDataChangeCallback = locks_createDataChangeCallback"
| "subscription_code P_dataChange = locks_dataChange"
| "subscription_code (P_valueCallback c) = locks_valueCallback c"
| "subscription_code P_createSubscription = locks_createSubscription"
| "subscription_code P_deleteSubscription = locks_deleteSubscription"
| "subscription_code P_Subscription_Unsubscribe = locks_Subscription_Unsubscribe"
| "subscription_code P_Subscription_Subscribe = locks_Subscription_Subscribe"

fun connection_code :: "connection_proc \<Rightarrow> code" where
  "connection_code P_SessionIsConnected = locks_SessionIsConnected"
| "connection_code P_OpcUaClient = locks_OpcUaClient"
| "connection_code P_connect = locks_connect"
| "connection_code P_on_connected = locks_on_connected"
| "connection_code P_checkConnection = locks_checkConnection"
| "connection_code P_initializeNamespaceCache = locks_initializeNamespaceCache"
| "connection_code P_updateNamespaceCache = locks_updateNamespaceCache"
| "connection_code P_verifyCompatibleNamespaceCache = locks_verifyCompatibleNamespaceCache"
| "connection_code P_fillNamespaceCache = locks_fillNamespaceCache"
| "connection_code (P_connectionStatusChanged b) = locks_connectionStatusChanged b"
| "connection_code P_OpcUaClient_destructor = locks_OpcUaClient_destructor"
| "connection_code P_disconnect = locks_disconnect"
| "connection_code P_threadConnectExecution = locks_threadConnectExecution"
| "connection_code P_VerifyConnection = locks_VerifyConnection"

fun browse_code :: "browse_proc \<Rightarrow> code" where
  "browse_code P_readNodeBrowseName = locks_readNodeBrowseName"
| "browse_code P_readNodeClass = locks_readNodeClass"
| "browse_code P_browseSuperType = locks_browseSuperType"
| "browse_code P_isSameOrSubtypeUa = locks_isSameOrSubtypeUa"
| "browse_code P_isSameOrSubtype = locks_isSameOrSubtype"
| "browse_code P_Browse = locks_Browse"
| "browse_code P_BrowseWithResultTypeFilter = locks_BrowseWithResultTypeFilter"
| "browse_code P_nodeClassFromNodeId = locks_nodeClassFromNodeId"
| "browse_code (P_BrowseWithContextAndFilter b) = locks_BrowseWithContextAndFilter b"
| "browse_code (P_ReferenceDescriptionsToBrowseResults b) = locks_ReferenceDescriptionsToBrowseResults b"
| "browse_code P_ReferenceDescriptionToBrowseResult = locks_ReferenceDescriptionToBrowseResult"
| "browse_code P_getUaBrowseContext = locks_getUaBrowseContext"
| "browse_code P_TranslateBrowsePathToNodeId = locks_TranslateBrowsePathToNodeId"
| "browse_code P_OpcUaClient_Subscribe = locks_OpcUaClient_Subscribe"
| "browse_code P_OpcUaClient_Unsubscribe = locks_OpcUaClient_Unsubscribe"
| "browse_code P_readValues2 = locks_readValues2"
| "browse_code P_Namespaces = locks_Namespaces"
| "browse_code P_BrowseModellingRule = locks_BrowseModellingRule"
| "browse_code P_readTypes = locks_readTypes"
| "browse_code P_browseTypes = locks_browseTypes"

fun dashboard_code :: "dashboard_proc \<Rightarrow> code" where
  "dashboard_code (P_addDataSet c) = locks_addDataSet c"
| "dashboard_code (P_TransformToNodeIds c) = locks_TransformToNodeIds c"
| "dashboard_code (P_OptionalAndMandatory c) = locks_OptionalAndMandatoryTransformToNodeId c"
| "dashboard_code (P_PlaceholderTransform c) = locks_OptionalAndMandatoryPlaceholderTransformToNodeId c"
| "dashboard_code (P_BrowsePlaceholder c) = locks_BrowsePlaceholder c"
| "dashboard_code (P_preparePlaceholderNodesTypeId c) = locks_preparePlaceholderNodesTypeId c"
| "dashboard_code (P_subscribeValues c) = locks_subscribeValues c"
| "dashboard_code (P_handleSubscribeChildNodes c) = locks_handleSubscribeChildNodes c"
| "dashboard_code (P_handleSubscribeChildNode c) = locks_handleSubscribeChildNode c"
| "dashboard_code (P_handleSubscribePlaceholderChildNode c) = locks_handleSubscribePlaceholderChildNode c"
| "dashboard_code (P_subscribeValue c) = locks_subscribeValue c"
| "dashboard_code (P_Publish c) = locks_Publish c"
| "dashboard_code (P_getJson c) = locks_getJson c"
| "dashboard_code (P_Unsubscribe c) = locks_Unsubscribe c"

fun observer_code :: "observer_proc \<Rightarrow> code" where
  "observer_code P_UpdateMachines = locks_UpdateMachines"
| "observer_code P_canBrowseMachineList = locks_canBrowseMachineList"
| "observer_code P_browseForMachines = locks_browseForMachines"
| "observer_code P_findComponentsFolder = locks_findComponentsFolder"
| "observer_code P_machineListsNotEqual = locks_machineListsNotEqual"
| "observer_code P_recreateKnownMachineToolsMap = locks_recreateKnownMachineToolsMap"
| "observer_code P_findNewAndOfflineMachines = locks_findNewAndOfflineMachines"
| "observer_code P_removeOfflineMachines = locks_removeOfflineMachines"
| "observer_code P_ignoreInvalidMachinesTemporarily = locks_ignoreInvalidMachinesTemporarily"
| "observer_code P_addNewMachine = locks_addNewMachine"
| "observer_code P_addMachine = locks_addMachine"
| "observer_code P_removeMachine = locks_removeMachine"
| "observer_code P_isOnline = locks_isOnline"
| "observer_code P_browseIdentificationValues = locks_browseIdentificationValues"
| "observer_code P_FillIdentificationValues = locks_FillIdentificationValuesFromBrowseResult"

fun gateway_code :: "gateway_proc \<Rightarrow> code" where
  "gateway_code P_PublishAll = locks_PublishAll"
| "gateway_code P_publishMachinesList = locks_publishMachinesList"
| "gateway_code P_startUpdateMachineThread = locks_startUpdateMachineThread"
| "gateway_code P_update_thread = locks_update_thread"
| "gateway_code P_stopMachineUpdateThread = locks_stopMachineUpdateThread"
| "gateway_code P_Iterate = locks_Iterate"
| "gateway_code P_DashboardOpcUaClient_destructor = locks_DashboardOpcUaClient_destructor"
| "gateway_code P_main = locks_main"

fun thread_code :: "proc \<Rightarrow> code" where
  "thread_code (Sub p) = subscription_code p"
| "thread_code (Con p) = connection_code p"
| "thread_code (Bro p) = browse_code p"
| "thread_code (Das p) = dashboard_code p"
| "thread_code (Obs p) = observer_code p"
| "thread_code (Gat p) = gateway_code p"

text \<open>The functions that the threads run.\<close>

fun thread_entry :: "thread \<Rightarrow> proc" where
  "thread_entry Main_thread = Gat P_main"
| "thread_entry Connect_thread = Con P_threadConnectExecution"
| "thread_entry Update_thread = Gat P_update_thread"

abbreviation gateway_reachable :: "(mutex, member, proc, thread) threads \<Rightarrow> bool" where
  "gateway_reachable \<equiv> reachable is_recursive thread_code thread_entry Main_thread"

end
