(* ===== verification/Lock_Discipline.thy ===== *)
theory Lock_Discipline
  imports Lock_Semantics
begin

text \<open>
  A discipline for the mutexes of a program, checked procedure by procedure, and what follows
  from it for every interleaving: the bookkeeping of the mutexes, mutual exclusion, no deadlock,
  no race for a protected member.
\<close>

section \<open>The check\<close>

text \<open>
  The order of the mutexes; which members a thread may access while it holds a set of
  mutexes; which procedures it may call then; and an order of the threads for \<^verbatim>\<open>join\<close>.
\<close>

record ('m, 'x, 'p, 't) discipline =
  rank :: "'m \<Rightarrow> nat"
  access :: "'t \<Rightarrow> 'm set \<Rightarrow> 'x \<Rightarrow> bool"
  callable :: "'t \<Rightarrow> 'm set \<Rightarrow> 'p \<Rightarrow> bool"
  thread_rank :: "'t \<Rightarrow> nat"

primrec obeys ::
    "('m \<Rightarrow> bool) \<Rightarrow> ('m, 'x, 'p, 't) discipline \<Rightarrow> 't \<Rightarrow> ('m, 'x, 'p, 't) cmd \<Rightarrow> 'm set \<Rightarrow> bool" where
  "obeys recursive D t (Block cs) = (\<lambda>A. list_all (\<lambda>b. b A) (map (obeys recursive D t) cs))"
| "obeys recursive D t (Read x) = (\<lambda>A. access D t A x)"
| "obeys recursive D t (Write x) = (\<lambda>A. access D t A x)"
| "obeys recursive D t (Lock m c) = (\<lambda>A.
     (m \<in> A \<and> recursive m \<or> (\<forall>h \<in> A. rank D h < rank D m)) \<and> obeys recursive D t c (insert m A))"
| "obeys recursive D t (Call p) = (\<lambda>A. callable D t A p)"
| "obeys recursive D t (Branch cs) = (\<lambda>A. cs \<noteq> [] \<and> list_all (\<lambda>b. b A) (map (obeys recursive D t) cs))"
| "obeys recursive D t (Loop c) = (\<lambda>A. obeys recursive D t c A)"
| "obeys recursive D t (Any f) = (\<lambda>A. \<forall>n. obeys recursive D t (f n) A)"
| "obeys recursive D t Throw = (\<lambda>A. True)"
| "obeys recursive D t (Try every c h) = (\<lambda>A. obeys recursive D t c A \<and> obeys recursive D t h A)"
| "obeys recursive D t (Spawn t') = (\<lambda>A. True)"
| "obeys recursive D t (Join t') = (\<lambda>A. A = {} \<and> thread_rank D t' < thread_rank D t)"

lemma obeys_Nil [simp]: "obeys recursive D t (Block []) A"
  by simp

lemma obeys_nth:
  "obeys recursive D t (Branch cs) A \<Longrightarrow> d < length cs \<Longrightarrow> obeys recursive D t (cs ! d) A"
  by (simp add: list_all_length)

fun stack_ok ::
    "('m \<Rightarrow> bool) \<Rightarrow> ('m, 'x, 'p, 't) discipline \<Rightarrow> 't \<Rightarrow> ('m, 'x, 'p, 't) frame list \<Rightarrow> bool" where
  "stack_ok recursive D t [] = True"
| "stack_ok recursive D t (Do c # k) = (obeys recursive D t c (held k) \<and> stack_ok recursive D t k)"
| "stack_ok recursive D t (Unlock m # k) = stack_ok recursive D t k"
| "stack_ok recursive D t (Catch every h # k) =
     (obeys recursive D t h (held k) \<and> stack_ok recursive D t k)"

text \<open>The bookkeeping of one mutex agrees with the open scopes of every thread.\<close>

definition owned :: "('t \<times> nat) option \<Rightarrow> 't \<Rightarrow> nat" where
  "owned l t = (case l of None \<Rightarrow> 0 | Some (t', n) \<Rightarrow> if t' = t then n else 0)"

definition owner_ok :: "('m, 'x, 'p, 't) threads \<Rightarrow> bool" where
  "owner_ok s \<longleftrightarrow>
     (\<forall>m t. unlocks m (stacks s t) = owned (owner s m) t) \<and> (\<forall>m t n. owner s m = Some (t, n) \<longrightarrow> 0 < n)"

lemma owned_lock_once [simp]:
  "(\<And>t' n. l = Some (t', n) \<Longrightarrow> t' = t) \<Longrightarrow>
   owned (lock_once t l) t' = owned l t' + (if t' = t then 1 else 0)"
  by (auto simp: owned_def lock_once_def split: option.splits)

lemma owned_unlock_once:
  "0 < owned l t \<Longrightarrow> owned (unlock_once l) t' = (if t' = t then owned l t' - 1 else owned l t')"
  by (auto simp: owned_def unlock_once_def split: option.splits if_splits)

lemma owned_positive: "0 < owned l t \<Longrightarrow> 0 < owned l t' \<Longrightarrow> t = t'"
  by (auto simp: owned_def split: option.splits if_splits)

definition threads_ok ::
    "('m \<Rightarrow> bool) \<Rightarrow> ('m, 'x, 'p, 't) discipline \<Rightarrow> ('m, 'x, 'p, 't) threads \<Rightarrow> bool" where
  "threads_ok recursive D s \<longleftrightarrow> owner_ok s \<and> (\<forall>t. stack_ok recursive D t (stacks s t))"

section \<open>The bookkeeping of the mutexes\<close>

text \<open>What a step does to the open scopes, whatever the program.\<close>

lemma resolve_unlocks:
  "resolve code d k = Some (a, k') \<Longrightarrow>
   (case a of
      Acquire m \<Rightarrow> unlocks m' k' = unlocks m' k + (if m' = m then 1 else 0)
    | Release m \<Rightarrow> unlocks m' k = unlocks m' k' + (if m' = m then 1 else 0)
    | _ \<Rightarrow> unlocks m' k' = unlocks m' k)"
  by (induction code d k rule: resolve.induct) (auto split: if_splits)

lemma owner_ok_start: "owner_ok (start_state entry t0)"
  by (simp add: owner_ok_def start_state_def owned_def)

lemma owner_ok_next:
  assumes "owner_ok s" and "next_state recursive code entry t d s = Some s'"
  shows "owner_ok s'"
proof -
  from assms(2) obtain a k where r: "resolve code d (stacks s t) = Some (a, k)"
    and en: "enabled recursive s t a" and s': "s' = perform entry t a (s\<lparr>stacks := (stacks s)(t := k)\<rparr>)"
    by (auto simp: next_state_def split: option.splits if_splits)
  have u: "unlocks m (stacks s t') = owned (owner s m) t'" for m t'
    using assms(1) by (simp add: owner_ok_def)
  have p: "0 < n" if "owner s m = Some (t', n)" for m t' n
    using assms(1) that by (auto simp: owner_ok_def)
  have e: "owned (owner s m) t' = 0" if "stacks s t' = []" for m t'
    using u [of m t'] that by simp
  note k = resolve_unlocks [OF r]
  show ?thesis
  proof (cases a)
    case (Acquire m)
    have own: "t' = t" if "owner s m = Some (t', n)" for t' n
      using en Acquire that by simp
    show ?thesis
      using k p u own by (auto simp: owner_ok_def s' Acquire lock_once_def owned_def split: option.splits)
  next
    case (Release m)
    have "0 < owned (owner s m) t"
      using k [of m] Release u [of m t] by simp
    then obtain j where [simp]: "owner s m = Some (t, Suc j)"
      by (cases "owner s m") (auto simp: owned_def gr0_conv_Suc split: if_splits)
    have "unlocks m' k = owned (unlock_once (owner s m)) t" if "m' = m" for m'
      using k [of m] Release u [of m t] that by (simp add: owned_def unlock_once_def)
    moreover have "unlocks m' k = owned (owner s m') t" if "m' \<noteq> m" for m'
      using k [of m'] Release u [of m' t] that by simp
    ultimately show ?thesis
      using p u by (auto simp: owner_ok_def s' Release owned_unlock_once)
        (auto simp: unlock_once_def owned_def split: if_splits)
  qed (use k u p e in \<open>auto simp: owner_ok_def s'\<close>)
qed

section \<open>What the discipline gives\<close>

text \<open>
  The interface of the two sides: a program whose procedures obey the discipline, called
  where it allows. Everything below holds for all its interleavings.
\<close>

locale lock_discipline =
  fixes recursive :: "'m \<Rightarrow> bool"
    and code :: "'p \<Rightarrow> ('m, 'x, 'p, 't) cmd"
    and entry :: "'t \<Rightarrow> 'p"
    and t0 :: "'t"
    and D :: "('m, 'x, 'p, 't) discipline"
    and guarded :: "'x \<Rightarrow> bool"
  assumes code_obeys: "callable D t A p \<Longrightarrow> obeys recursive D t (code p) A"
    and entry_callable: "callable D t {} (entry t)"
    and guarded_exclusive:
      "guarded x \<Longrightarrow> access D t A x \<Longrightarrow> access D t' A' x \<Longrightarrow> t \<noteq> t' \<Longrightarrow> A \<inter> A' \<noteq> {}"
    and finite_threads: "finite (UNIV :: 't set)"
begin

lemma stack_ok_resolve:
  "resolve code d k = Some (a, k') \<Longrightarrow> stack_ok recursive D t k \<Longrightarrow> stack_ok recursive D t k'"
  by (cases "(code, d, k)" rule: resolve.cases)
     (auto split: if_splits simp: code_obeys list_all_iff)

lemma threads_ok_start: "threads_ok recursive D (start_state entry t0)"
  by (simp add: threads_ok_def owner_ok_start) (simp add: start_state_def entry_callable)

lemma threads_ok_next:
  assumes "threads_ok recursive D s" and "next_state recursive code entry t d s = Some s'"
  shows "threads_ok recursive D s'"
proof -
  from assms(2) obtain a k where r: "resolve code d (stacks s t) = Some (a, k)"
    and s': "s' = perform entry t a (s\<lparr>stacks := (stacks s)(t := k)\<rparr>)"
    by (auto simp: next_state_def split: option.splits if_splits)
  have k: "stack_ok recursive D t k"
    using stack_ok_resolve [OF r] assms(1) by (simp add: threads_ok_def)
  have "stack_ok recursive D t' (stacks s' t')" for t'
    using assms(1) k entry_callable by (cases a) (auto simp: s' threads_ok_def)
  with owner_ok_next [OF _ assms(2)] assms(1) show ?thesis
    by (simp add: threads_ok_def)
qed

lemma reachable_ok: "reachable recursive code entry t0 s \<Longrightarrow> threads_ok recursive D s"
  by (induction rule: reachable.induct) (auto intro: threads_ok_start threads_ok_next)

text \<open>A thread that has something left to do can go on, unless a mutex or a thread keeps it waiting.\<close>

lemma stack_progress:
  assumes "stack_ok recursive D t k" and "k \<noteq> []"
  obtains d a k' where "resolve code d k = Some (a, k')"
    and "\<And>m. a = Acquire m \<Longrightarrow>
           m \<in> held k \<and> recursive m \<or> (\<forall>h \<in> held k. rank D h < rank D m)"
    and "\<And>t'. a = Wait t' \<Longrightarrow> held k = {} \<and> thread_rank D t' < thread_rank D t"
proof -
  from assms have "\<exists>a k'. resolve code 0 k = Some (a, k') \<and>
     (\<forall>m. a = Acquire m \<longrightarrow> m \<in> held k \<and> recursive m \<or> (\<forall>h \<in> held k. rank D h < rank D m)) \<and>
     (\<forall>t'. a = Wait t' \<longrightarrow> held k = {} \<and> thread_rank D t' < thread_rank D t)"
    by (cases "(code, 0 :: nat, k)" rule: resolve.cases) auto
  then show ?thesis using that by blast
qed

text \<open>The two ways in which a thread of a deadlock waits.\<close>

definition waits_for :: "('m, 'x, 'p, 't) threads \<Rightarrow> 't \<Rightarrow> 'm \<Rightarrow> 't \<Rightarrow> bool" where
  "waits_for s t m t' \<longleftrightarrow>
     m \<in> held (stacks s t') \<and> (\<forall>h \<in> held (stacks s t). rank D h < rank D m)"

lemma deadlocked_waits:
  assumes "threads_ok recursive D s" and "deadlocked recursive code entry s" and "stacks s t \<noteq> []"
  shows "(\<exists>m t'. waits_for s t m t') \<or>
    (\<exists>t'. held (stacks s t) = {} \<and> stacks s t' \<noteq> [] \<and> thread_rank D t' < thread_rank D t)"
proof -
  from assms(1) have ok: "stack_ok recursive D t (stacks s t)" by (simp add: threads_ok_def)
  from stack_progress [OF ok assms(3)] obtain d a k' where r: "resolve code d (stacks s t) = Some (a, k')"
    and acq: "\<And>m. a = Acquire m \<Longrightarrow> m \<in> held (stacks s t) \<and> recursive m \<or>
           (\<forall>h \<in> held (stacks s t). rank D h < rank D m)"
    and wait: "\<And>t'. a = Wait t' \<Longrightarrow> held (stacks s t) = {} \<and> thread_rank D t' < thread_rank D t"
    by metis
  have u: "unlocks m (stacks s t') = owned (owner s m) t'" for m t'
    using assms(1) by (simp add: threads_ok_def owner_ok_def)
  have p: "0 < n" if "owner s m = Some (t', n)" for m t' n
    using assms(1) that by (auto simp: threads_ok_def owner_ok_def)
  from assms(2) r have blocked: "\<not> enabled recursive s t a"
    by (auto simp: deadlocked_def next_state_def split: option.splits if_splits)
  show ?thesis
  proof (cases a)
    case (Acquire m)
    with blocked obtain t' n where o: "owner s m = Some (t', n)" and no: "\<not> (t' = t \<and> recursive m)"
      by (auto split: option.splits)
    have h: "m \<in> held (stacks s t')"
      using u [of m t'] o p [OF o] by (simp add: held_def owned_def)
    have "\<not> (m \<in> held (stacks s t) \<and> recursive m)"
      using no u [of m t] o by (auto simp: held_def owned_def split: if_splits)
    with acq [OF Acquire] h have "waits_for s t m t'" by (auto simp: waits_for_def)
    then show ?thesis by blast
  next
    case (Wait t')
    with blocked wait [OF Wait] show ?thesis by auto
  qed (use blocked in auto)
qed

theorem no_deadlock:
  assumes "threads_ok recursive D s"
  shows "\<not> deadlocked recursive code entry s"
proof
  assume dead: "deadlocked recursive code entry s"
  note waits = deadlocked_waits [OF assms dead]
  define W where "W = {t. stacks s t \<noteq> [] \<and> (\<exists>m t'. waits_for s t m t')}"
  define wanted where "wanted t = (SOME m. \<exists>t'. waits_for s t m t')" for t
  have wanted: "\<exists>t'. waits_for s t (wanted t) t'" if "t \<in> W" for t
  proof -
    from that have "\<exists>m t'. waits_for s t m t'" by (simp add: W_def)
    then show ?thesis unfolding wanted_def by (rule someI_ex)
  qed
  have up: "\<exists>t' \<in> W. rank D (wanted t) < rank D (wanted t')" if t: "t \<in> W" for t
  proof -
    from wanted [OF t] obtain t' where t': "waits_for s t (wanted t) t'" by blast
    then have h: "wanted t \<in> held (stacks s t')" unfolding waits_for_def by (rule conjunct1)
    then have ne: "stacks s t' \<noteq> []" using held_simps(1) by (metis empty_iff)
    from h have "held (stacks s t') \<noteq> {}" by blast
    with waits [OF ne] have "\<exists>m t''. waits_for s t' m t''" by simp
    with ne have "t' \<in> W" by (simp add: W_def)
    moreover from wanted [OF this] obtain t'' where "waits_for s t' (wanted t') t''" by blast
    with h have "rank D (wanted t) < rank D (wanted t')" by (simp add: waits_for_def)
    ultimately show ?thesis by blast
  qed
  have fin: "finite ((\<lambda>t. rank D (wanted t)) ` W)"
    using finite_threads by (simp add: finite_subset [OF subset_UNIV])
  have "W = {}"
  proof (rule ccontr)
    assume "W \<noteq> {}"
    then have "Max ((\<lambda>t. rank D (wanted t)) ` W) \<in> (\<lambda>t. rank D (wanted t)) ` W"
      using fin by (intro Max_in) auto
    then obtain t where t: "t \<in> W" and max: "rank D (wanted t) = Max ((\<lambda>t. rank D (wanted t)) ` W)"
      by force
    from up [OF t] obtain t' where t': "t' \<in> W" and less: "rank D (wanted t) < rank D (wanted t')"
      by blast
    from t' fin have "rank D (wanted t') \<le> Max ((\<lambda>t. rank D (wanted t)) ` W)" by (intro Max_ge) auto
    with less max show False by simp
  qed
  then have down: "\<exists>t'. stacks s t' \<noteq> [] \<and> thread_rank D t' < thread_rank D t"
    if "stacks s t \<noteq> []" for t
    using waits [OF that] that \<open>W = {}\<close> by (auto simp: W_def)
  have "stacks s t = []" for t
  proof (induction "thread_rank D t" arbitrary: t rule: less_induct)
    case less
    then show ?case using down by blast
  qed
  with dead show False by (simp add: deadlocked_def)
qed

theorem mutual_exclusion:
  assumes "threads_ok recursive D s" and "m \<in> held (stacks s t)" and "m \<in> held (stacks s t')"
  shows "t = t'"
proof -
  from assms have "0 < owned (owner s m) t" and "0 < owned (owner s m) t'"
    by (simp_all add: threads_ok_def owner_ok_def held_def)
  then show ?thesis by (rule owned_positive)
qed

lemma stack_ok_access:
  "stack_ok recursive D t k \<Longrightarrow> about_to_access x k \<Longrightarrow> access D t (held k) x"
  by (induction x k rule: about_to_access.induct) auto

theorem no_race:
  assumes "threads_ok recursive D s" and "guarded x"
  shows "\<not> race x s"
proof
  assume "race x s"
  then obtain t t' where ne: "t \<noteq> t'" and w: "about_to_write x (stacks s t)"
    and a': "about_to_access x (stacks s t')"
    by (auto simp: race_def)
  from w have a: "about_to_access x (stacks s t)"
    by (cases "(x, stacks s t)" rule: about_to_write.cases) auto
  from assms(1) a a' have "access D t (held (stacks s t)) x" and "access D t' (held (stacks s t')) x"
    by (auto simp: threads_ok_def intro: stack_ok_access)
  from guarded_exclusive [OF assms(2) this ne] obtain m
    where "m \<in> held (stacks s t)" and "m \<in> held (stacks s t')" by blast
  with mutual_exclusion [OF assms(1)] ne show False by blast
qed

text \<open>A thread that has ended, whether by a return or by an exception, holds no mutex.\<close>

theorem ended_holds_nothing:
  assumes "threads_ok recursive D s" and "stacks s t = []" and "owner s m = Some (t', n)"
  shows "t' \<noteq> t"
proof
  assume "t' = t"
  with assms(1,3) have "0 < unlocks m (stacks s t)"
    by (auto simp: threads_ok_def owner_ok_def owned_def)
  with assms(2) show False by simp
qed

end

end
