(* ===== verification/Thread_Safety.thy ===== *)
theory Thread_Safety
  imports Thread_Code Lock_Discipline
begin

text \<open>
  The discipline that the threads of the gateway follow, checked function by function, and what
  it gives: no deadlock, and no race for the members that a mutex or one thread protects. Nothing
  is claimed of the other members: with the conditions on data left to the scheduler, an
  interleaving of the model that races need not be one of the program.
\<close>

section \<open>The discipline\<close>

fun mutex_rank :: "mutex \<Rightarrow> nat" where
  "mutex_rank dashboardClientsMutex = 0"
| "mutex_rank machineIdentificationsCacheMutex = 1"
| "mutex_rank clientMutex = 2"
| "mutex_rank callbacksMutex = 3"
| "mutex_rank (dataSetMutex c) = 4"
| "mutex_rank (valuesMutex c) = 5"

datatype protection = By_mutex mutex | By_thread thread | Unprotected

fun protected_by :: "member \<Rightarrow> protection" where
  "protected_by mem_client = By_mutex clientMutex"
| "protected_by mem_clientObject = By_thread Main_thread"
| "protected_by mem_channelState = By_mutex clientMutex"
| "protected_by mem_subscriptionId = By_mutex clientMutex"
| "protected_by mem_callbacks = By_mutex callbacksMutex"
| "protected_by mem_machineIdentificationsCache = By_mutex machineIdentificationsCacheMutex"
| "protected_by mem_onlineMachines = By_mutex dashboardClientsMutex"
| "protected_by (mem_dataSets c) = By_mutex (dataSetMutex c)"
| "protected_by (mem_latestMessages c) = By_mutex (dataSetMutex c)"
| "protected_by mem_expectedObjectTypeNames = By_thread Main_thread"
| "protected_by mem_publishMachinesOnline = By_thread Main_thread"
| "protected_by mem_superTypes = By_thread Update_thread"
| "protected_by mem_subTypes = By_thread Update_thread"
| "protected_by mem_knownMachines = By_thread Update_thread"
| "protected_by mem_knownMachineToolsSet = By_thread Update_thread"
| "protected_by mem_parentOfMachine = By_thread Update_thread"
| "protected_by mem_machineNames = By_thread Update_thread"
| "protected_by (mem_subscribedValues c) = By_thread Update_thread"
| "protected_by (mem_browsedNodes c) = By_thread Update_thread"
| "protected_by _ = Unprotected"

definition may_access :: "thread \<Rightarrow> mutex set \<Rightarrow> member \<Rightarrow> bool" where
  "may_access t A x =
     (case protected_by x of By_mutex m \<Rightarrow> m \<in> A | By_thread t' \<Rightarrow> t = t' | Unprotected \<Rightarrow> True)"

text \<open>
  The contract of a function: a bound from below for the ranks of the mutexes it
  acquires, whether its caller holds \<open>clientMutex\<close>, the thread it belongs to, and whether it
  waits for threads.
\<close>

fun level :: "proc \<Rightarrow> nat" where
  "level (Sub (P_valueCallback c)) = 6"
| "level (Sub p) = 3"
| "level (Con P_SessionIsConnected) = 6"
| "level (Con P_verifyCompatibleNamespaceCache) = 6"
| "level (Con P_fillNamespaceCache) = 6"
| "level (Con p) = 2"
| "level (Bro P_ReferenceDescriptionToBrowseResult) = 6"
| "level (Bro P_getUaBrowseContext) = 6"
| "level (Bro P_Namespaces) = 6"
| "level (Bro p) = 2"
| "level (Das (P_Publish c)) = 4"
| "level (Das (P_getJson c)) = 5"
| "level (Das p) = 2"
| "level (Obs P_canBrowseMachineList) = 2"
| "level (Obs P_browseForMachines) = 2"
| "level (Obs P_findComponentsFolder) = 2"
| "level (Obs P_findNewAndOfflineMachines) = 2"
| "level (Obs P_ignoreInvalidMachinesTemporarily) = 6"
| "level (Obs P_isOnline) = 2"
| "level (Obs P_browseIdentificationValues) = 2"
| "level (Obs P_FillIdentificationValues) = 2"
| "level (Obs p) = 0"
| "level (Gat P_startUpdateMachineThread) = 6"
| "level (Gat P_stopMachineUpdateThread) = 6"
| "level (Gat P_DashboardOpcUaClient_destructor) = 2"
| "level (Gat p) = 0"

fun needs_client :: "proc \<Rightarrow> bool" where
  "needs_client (Sub p) = (p \<in> {P_stack_service, P_createSubscription, P_deleteSubscription,
     P_Subscription_Unsubscribe, P_Subscription_Subscribe})"
| "needs_client (Con p) = (p = P_SessionIsConnected)"
| "needs_client p = False"

fun runs_on :: "proc \<Rightarrow> thread option" where
  "runs_on (Sub p) = None"
| "runs_on (Con p) = (if p \<in> {P_OpcUaClient, P_OpcUaClient_destructor} then Some Main_thread else None)"
| "runs_on (Bro p) =
     (if p \<in> {P_readTypes, P_browseTypes} then Some Main_thread
      else if p \<in> {P_isSameOrSubtypeUa, P_isSameOrSubtype, P_BrowseWithResultTypeFilter,
        P_BrowseWithContextAndFilter True, P_ReferenceDescriptionsToBrowseResults True}
      then Some Update_thread else None)"
| "runs_on (Das (P_Publish c)) = Some Main_thread"
| "runs_on (Das (P_getJson c)) = Some Main_thread"
| "runs_on (Das p) = Some Update_thread"
| "runs_on (Obs p) = Some Update_thread"
| "runs_on (Gat p) = Some (if p = P_update_thread then Update_thread else Main_thread)"

fun joins :: "proc \<Rightarrow> bool" where
  "joins (Con p) = (p = P_OpcUaClient_destructor)"
| "joins (Gat p) = (p \<in> {P_stopMachineUpdateThread, P_DashboardOpcUaClient_destructor, P_main})"
| "joins p = False"

definition may_call :: "thread \<Rightarrow> mutex set \<Rightarrow> proc \<Rightarrow> bool" where
  "may_call t A p \<longleftrightarrow>
     (\<forall>h \<in> A. mutex_rank h < level p \<or> h = clientMutex \<and> level p = 2) \<and>
     (needs_client p \<longrightarrow> clientMutex \<in> A) \<and>
     (\<forall>t'. runs_on p = Some t' \<longrightarrow> t = t') \<and>
     (joins p \<longrightarrow> A = {})"

definition gateway_discipline :: "(mutex, member, proc, thread) discipline" where
  "gateway_discipline = \<lparr>rank = mutex_rank, access = may_access, callable = may_call,
     thread_rank = (\<lambda>t. if t = Main_thread then 1 else 0)\<rparr>"

section \<open>Every function obeys it\<close>

abbreviation follows :: "thread \<Rightarrow> code \<Rightarrow> mutex set \<Rightarrow> bool" where
  "follows t \<equiv> obeys is_recursive gateway_discipline t"

lemma gateway_discipline_simps [simp]:
  "rank gateway_discipline = mutex_rank"
  "access gateway_discipline = may_access"
  "callable gateway_discipline = may_call"
  "thread_rank gateway_discipline t = (if t = Main_thread then 1 else 0)"
  by (simp_all add: gateway_discipline_def)

lemma rank_below_client [simp]: "mutex_rank m < 2 \<longleftrightarrow> m \<in> {dashboardClientsMutex, machineIdentificationsCacheMutex}"
  by (cases m) auto

lemmas subscription_locks = locks_stack_service_def locks_createDataChangeCallback_def
  locks_dataChange_def locks_valueCallback_def locks_createSubscription_def
  locks_deleteSubscription_def locks_Subscription_Unsubscribe_def locks_Subscription_Subscribe_def

lemma subscription_follows:
  "may_call t A (Sub p) \<Longrightarrow> follows t (subscription_code p) A"
  by (cases p) (auto simp: subscription_locks may_call_def may_access_def)

lemmas connection_locks = locks_SessionIsConnected_def locks_OpcUaClient_def locks_connect_def
  locks_on_connected_def locks_checkConnection_def locks_initializeNamespaceCache_def
  locks_updateNamespaceCache_def locks_verifyCompatibleNamespaceCache_def
  locks_fillNamespaceCache_def locks_connectionStatusChanged_def locks_OpcUaClient_destructor_def
  locks_disconnect_def locks_threadConnectExecution_def locks_VerifyConnection_def

lemma connection_follows:
  "may_call t A (Con p) \<Longrightarrow> follows t (connection_code p) A"
  by (cases p) (auto simp: connection_locks may_call_def may_access_def)

lemmas browse_locks = locks_readNodeBrowseName_def locks_readNodeClass_def locks_browseSuperType_def
  locks_isSameOrSubtypeUa_def locks_isSameOrSubtype_def locks_Browse_def
  locks_BrowseWithResultTypeFilter_def locks_nodeClassFromNodeId_def
  locks_BrowseWithContextAndFilter_def locks_ReferenceDescriptionsToBrowseResults_def
  locks_ReferenceDescriptionToBrowseResult_def locks_getUaBrowseContext_def
  locks_TranslateBrowsePathToNodeId_def locks_OpcUaClient_Subscribe_def
  locks_OpcUaClient_Unsubscribe_def locks_readValues2_def locks_Namespaces_def
  locks_BrowseModellingRule_def locks_readTypes_def locks_browseTypes_def

lemma browse_follows:
  "may_call t A (Bro p) \<Longrightarrow> follows t (browse_code p) A"
  by (cases p) (auto simp: browse_locks may_call_def may_access_def)

lemmas dashboard_locks = locks_addDataSet_def locks_TransformToNodeIds_def
  locks_OptionalAndMandatoryTransformToNodeId_def
  locks_OptionalAndMandatoryPlaceholderTransformToNodeId_def locks_BrowsePlaceholder_def
  locks_preparePlaceholderNodesTypeId_def locks_subscribeValues_def
  locks_handleSubscribeChildNodes_def locks_handleSubscribeChildNode_def
  locks_handleSubscribePlaceholderChildNode_def locks_subscribeValue_def locks_Publish_def
  locks_getJson_def locks_Unsubscribe_def

lemma dashboard_follows:
  "may_call t A (Das p) \<Longrightarrow> follows t (dashboard_code p) A"
  by (cases p) (auto simp: dashboard_locks may_call_def may_access_def)

lemmas observer_locks = locks_UpdateMachines_def locks_canBrowseMachineList_def
  locks_browseForMachines_def locks_findComponentsFolder_def locks_machineListsNotEqual_def
  locks_recreateKnownMachineToolsMap_def locks_findNewAndOfflineMachines_def
  locks_removeOfflineMachines_def locks_ignoreInvalidMachinesTemporarily_def
  locks_addNewMachine_def locks_addMachine_def locks_removeMachine_def locks_isOnline_def
  locks_browseIdentificationValues_def locks_FillIdentificationValuesFromBrowseResult_def

lemma observer_follows:
  "may_call t A (Obs p) \<Longrightarrow> follows t (observer_code p) A"
  by (cases p) (auto simp: observer_locks may_call_def may_access_def)

lemmas gateway_locks = locks_PublishAll_def locks_publishMachinesList_def
  locks_startUpdateMachineThread_def locks_update_thread_def locks_stopMachineUpdateThread_def
  locks_Iterate_def locks_DashboardOpcUaClient_destructor_def locks_main_def

lemma gateway_follows:
  "may_call t A (Gat p) \<Longrightarrow> follows t (gateway_code p) A"
  by (cases p) (auto simp: gateway_locks may_call_def may_access_def)

section \<open>All interleavings\<close>

lemma UNIV_thread: "(UNIV :: thread set) = {Main_thread, Connect_thread, Update_thread}"
  by (auto intro: thread.exhaust)

instance thread :: finite
  by standard (simp add: UNIV_thread)

definition guarded :: "member \<Rightarrow> bool" where
  "guarded x = (protected_by x \<noteq> Unprotected)"

interpretation gateway_threads:
  lock_discipline is_recursive thread_code thread_entry Main_thread gateway_discipline guarded
proof
  show "follows t (thread_code p) A" if "callable gateway_discipline t A p" for t A p
    using that by (cases p) (simp_all add: subscription_follows connection_follows browse_follows
      dashboard_follows observer_follows gateway_follows)
  show "callable gateway_discipline t {} (thread_entry t)" for t
    by (cases t) (simp_all add: may_call_def)
  show "A \<inter> A' \<noteq> {}" if "guarded x" "access gateway_discipline t A x"
    "access gateway_discipline t' A' x" "t \<noteq> t'" for x t A t' A'
    using that by (auto simp: guarded_def may_access_def split: protection.splits)
qed simp

text \<open>A run of phases from the start of the program.\<close>

definition reaches ::
    "(thread \<times> nat list \<times> bool) list \<Rightarrow> ((mutex, member, proc, thread) threads \<Rightarrow> bool) \<Rightarrow> bool" where
  "reaches ps P = (case phases is_recursive thread_code thread_entry ps
     (start_state thread_entry Main_thread) of None \<Rightarrow> False | Some s \<Rightarrow> P s)"

lemma reachesD:
  assumes "reaches ps P"
  shows "\<exists>s. gateway_reachable s \<and> P s"
proof -
  from assms obtain s where s: "phases is_recursive thread_code thread_entry ps
     (start_state thread_entry Main_thread) = Some s" and "P s"
    by (auto simp: reaches_def split: option.splits)
  from phases_reachable [OF reachable.start s] have "gateway_reachable s" .
  with \<open>P s\<close> show ?thesis by blast
qed

text \<open>Decisions written as runs of the first choice, each ended by one of its own.\<close>

definition choices :: "(nat \<times> nat) list \<Rightarrow> nat list" where
  "choices ns = concat (map (\<lambda>(n, d). replicate n 0 @ [d]) ns)"

section \<open>A run in which a thread waits\<close>

text \<open>
  The main thread publishes, and the update thread waits for it with the removal of a
  machine.
\<close>

fun waiting :: "thread \<Rightarrow> (mutex, member, proc, thread) threads \<Rightarrow> bool" where
  "waiting t s = (case stacks s t of
     Do (Lock m c) # k \<Rightarrow> \<not> enabled is_recursive s t (Acquire m) | _ \<Rightarrow> False)"

lemma removal_waits_run: "reaches
   [(Main_thread, choices
      [(2, 1), (20, 1), (46, 1), (5, 0)], True),
    (Main_thread, choices
      [(13, 1), (17, 1), (39, 1), (17, 1), (45, 1)], True),
    (Main_thread, choices
      [(1, 1), (11, 1), (3, 1), (6, 1), (5, 1), (0, 0)], False),
    (Update_thread, choices
      [(1, 1), (0, 1), (11, 1), (17, 1), (33, 1), (5, 1), (5, 1), (0, 0)], False)]
   (\<lambda>s. waiting Update_thread s \<and> dashboardClientsMutex \<in> held (stacks s Main_thread))"
  by (simp only: held_def mem_Collect_eq) code_simp

section \<open>Properties\<close>

text \<open>
  C6: The threads of the gateway never block each other for good: in every state that some
  interleaving reaches, one of them can go on unless all have ended or the program is terminated.
  The order of the mutexes is \<^verbatim>\<open>m_dashboardClients_mutex\<close>,
  \<^verbatim>\<open>m_machineIdentificationsCache_mutex\<close>, \<^verbatim>\<open>m_clientMutex\<close>, \<^verbatim>\<open>m_callbacks_mutex\<close>,
  \<^verbatim>\<open>m_dataSetMutex\<close>, \<^verbatim>\<open>values_mutex\<close>; threads are joined with no mutex held.
\<close>

theorem gateway_never_deadlocks:
  assumes "gateway_reachable s"
  shows "\<not> deadlocked is_recursive thread_code thread_entry s"
  by (rule gateway_threads.no_deadlock [OF gateway_threads.reachable_ok [OF assms]])

theorem gateway_never_deadlocks_witness:
  "\<exists>s. waiting Update_thread s \<and> \<not> deadlocked is_recursive thread_code thread_entry s"
  using reachesD [OF removal_waits_run] gateway_never_deadlocks by blast

text \<open>
  C7: No interleaving races for a member that a mutex or a thread protects: the client object
  of the stack, the callbacks of subscriptions, the identifications, the online machines, the
  data sets and the last messages are only used under their mutex, the members of the search for
  machines only by the update thread, and the client object of the stack is created and deleted
  by the main thread. A thread that has ended, by a return or an exception, has
  released every mutex.
\<close>

theorem protected_members_never_raced:
  assumes "gateway_reachable s" and "protected_by x \<noteq> Unprotected"
  shows "\<not> race x s \<and> (\<forall>t m. stacks s t = [] \<longrightarrow> owned (owner s m) t = 0)"
proof -
  note ok = gateway_threads.reachable_ok [OF assms(1)]
  have "owned (owner s m) t = 0" if "stacks s t = []" for t m
    using gateway_threads.ended_holds_nothing [OF ok that]
    by (auto simp: owned_def split: option.splits)
  with gateway_threads.no_race [OF ok] assms(2) show ?thesis by (simp add: guarded_def)
qed

theorem protected_members_never_raced_witness:
  "\<exists>s. waiting Update_thread s \<and> \<not> race mem_onlineMachines s"
proof -
  from reachesD [OF removal_waits_run] obtain s where "gateway_reachable s" and "waiting Update_thread s"
    by blast
  with protected_members_never_raced [of s mem_onlineMachines] show ?thesis by auto
qed

end
