(* ===== verification/Prelude.thy ===== *)
theory Prelude
  imports Main "HOL-Library.Char_ord" "HOL-Library.List_Lexorder"
begin

text \<open>
  Shared vocabulary of the development: the effect type of the C++ member functions, the
  loop forms they use, the text formatting of \<^verbatim>\<open>std::ostream\<close>, and the lemma
  collections \<open>act_defs\<close> and \<open>fmt_simps\<close>.
\<close>

named_theorems act_defs \<open>unfolding of the effect combinators\<close>
named_theorems fmt_simps \<open>facts about formatted numbers\<close>

section \<open>Effects\<close>

text \<open>
  A member function runs on a state and ends in one of two ways. It returns a value, or it
  ends abruptly: by a C++ exception, by undefined behaviour (a call such as
  \<^verbatim>\<open>front()\<close> on an empty list), or, for the recursions that are given fuel, because
  the fuel is used up. Only an exception can be caught. The state reached so far is kept in
  every case, as C++ does not roll back.
\<close>

datatype 'e abrupt = Throw 'e | Undefined | OutOfFuel

type_synonym ('s, 'e, 'a) act = "'s \<Rightarrow> ('e abrupt + 'a) \<times> 's"

definition ret :: "'a \<Rightarrow> ('s, 'e, 'a) act" where
  "ret x s = (Inr x, s)"

definition raise :: "'e \<Rightarrow> ('s, 'e, 'a) act" where
  "raise e s = (Inl (Throw e), s)"

definition undefined_behaviour :: "('s, 'e, 'a) act" where
  "undefined_behaviour s = (Inl Undefined, s)"

definition no_fuel :: "('s, 'e, 'a) act" where
  "no_fuel s = (Inl OutOfFuel, s)"

definition seq :: "('s, 'e, 'a) act \<Rightarrow> ('a \<Rightarrow> ('s, 'e, 'b) act) \<Rightarrow> ('s, 'e, 'b) act" where
  "seq m f s = (case m s of (Inl e, t) \<Rightarrow> (Inl e, t) | (Inr x, t) \<Rightarrow> f x t)"

definition reads :: "('s \<Rightarrow> 'a) \<Rightarrow> ('s, 'e, 'a) act" where
  "reads f s = (Inr (f s), s)"

definition update :: "('s \<Rightarrow> 's) \<Rightarrow> ('s, 'e, unit) act" where
  "update f s = (Inr (), f s)"

text \<open>
  A \<^verbatim>\<open>try\<close> block: the handlers are tried in the order the source has them;
  \<open>None\<close> says that no \<^verbatim>\<open>catch\<close> clause matches.
\<close>

definition try_catch ::
  "('s, 'e, 'a) act \<Rightarrow> ('e \<Rightarrow> ('s, 'e, 'a) act option) \<Rightarrow> ('s, 'e, 'a) act" where
  "try_catch m h s =
     (case m s of
        (Inl (Throw e), t) \<Rightarrow> (case h e of None \<Rightarrow> (Inl (Throw e), t) | Some k \<Rightarrow> k t)
      | r \<Rightarrow> r)"

text \<open>The range-based \<^verbatim>\<open>for\<close> loop.\<close>

fun for_each :: "'b list \<Rightarrow> ('b \<Rightarrow> ('s, 'e, unit) act) \<Rightarrow> ('s, 'e, unit) act" where
  "for_each [] f = ret ()"
| "for_each (x # xs) f = seq (f x) (\<lambda>_. for_each xs f)"

text \<open>
  A call on a member object: \<open>zoom\<close> runs an action on one part of the state, given by its
  getter and its update function.
\<close>

definition zoom :: "('s \<Rightarrow> 't) \<Rightarrow> ('t \<Rightarrow> 's \<Rightarrow> 's) \<Rightarrow> ('t, 'e, 'a) act \<Rightarrow> ('s, 'e, 'a) act" where
  "zoom get put m s = (case m (get s) of (r, t) \<Rightarrow> (r, put t s))"

lemmas act_core [act_defs] =
  ret_def raise_def undefined_behaviour_def no_fuel_def seq_def reads_def update_def try_catch_def
  zoom_def

lemma seq_ret [simp]: "seq (ret x) f = f x"
  by (rule ext) (simp add: act_defs)

lemma seq_reads [simp]: "seq (reads f) g s = g (f s) s"
  by (simp add: act_defs)

lemma seq_update [simp]: "seq (update f) g s = g () (f s)"
  by (simp add: act_defs)

lemma seq_raise [simp]: "seq (raise e) f = raise e"
  by (rule ext) (simp add: act_defs)

lemma seq_ret_right [simp]: "seq m ret = m"
  by (rule ext) (simp add: act_defs split: prod.splits sum.splits)

lemma seq_assoc: "seq (seq m f) g = seq m (\<lambda>x. seq (f x) g)"
  by (rule ext) (simp add: act_defs split: prod.splits sum.splits)

lemma try_catch_ret [simp]: "try_catch (ret x) h = ret x"
  by (rule ext) (simp add: act_defs)

lemma seq_cong [fundef_cong]:
  assumes "m s = m' s'"
    and "\<And>x t. m' s' = (Inr x, t) \<Longrightarrow> f x t = f' x t"
    and "s = s'"
  shows "seq m f s = seq m' f' s'"
  using assms by (auto simp: seq_def split: prod.splits sum.splits)

text \<open>Pure code that may throw: an exception or a value.\<close>

definition ebind :: "('e + 'a) \<Rightarrow> ('a \<Rightarrow> 'e + 'b) \<Rightarrow> 'e + 'b" where
  "ebind m f = (case m of Inl e \<Rightarrow> Inl e | Inr x \<Rightarrow> f x)"

definition lift_sum :: "('e + 'a) \<Rightarrow> ('s, 'e, 'a) act" where
  "lift_sum r = (case r of Inl e \<Rightarrow> raise e | Inr x \<Rightarrow> ret x)"

lemma ebind_simps [simp]: "ebind (Inl e) f = Inl e" "ebind (Inr x) f = f x"
  by (simp_all add: ebind_def)

lemma ebind_cong [fundef_cong]:
  "m = m' \<Longrightarrow> (\<And>x. m' = Inr x \<Longrightarrow> f x = f' x) \<Longrightarrow> ebind m f = ebind m' f'"
  by (cases m') auto

lemma ebind_Inr_iff: "ebind m f = Inr y \<longleftrightarrow> (\<exists>x. m = Inr x \<and> f x = Inr y)"
  by (cases m) auto

definition gives :: "('a \<Rightarrow> bool) \<Rightarrow> ('e + 'a) \<Rightarrow> bool" where
  "gives Q r \<longleftrightarrow> (case r of Inl e \<Rightarrow> True | Inr x \<Rightarrow> Q x)"

lemma gives_simps [simp]: "gives Q (Inl e)" "gives Q (Inr x) \<longleftrightarrow> Q x"
  by (simp_all add: gives_def)

lemma gives_iff: "gives Q r \<longleftrightarrow> (\<forall>x. r = Inr x \<longrightarrow> Q x)"
  by (cases r) auto

lemma gives_ebind: "gives R m \<Longrightarrow> (\<And>x. R x \<Longrightarrow> gives Q (f x)) \<Longrightarrow> gives Q (ebind m f)"
  by (cases m) auto

lemma gives_if: "(c \<Longrightarrow> gives Q a) \<Longrightarrow> (\<not> c \<Longrightarrow> gives Q b) \<Longrightarrow> gives Q (if c then a else b)"
  by simp

lemma gives_True [simp]: "gives (\<lambda>_. True) r"
  by (cases r) auto

lemma lift_sum_simps [simp]: "lift_sum (Inl e) = raise e" "lift_sum (Inr x) = ret x"
  by (simp_all add: lift_sum_def)

lemma seq_elim:
  assumes "seq m f s = (r, t)"
  obtains (abrupt) e where "m s = (Inl e, t)" and "r = Inl e"
    | (result) x u where "m s = (Inr x, u)" and "f x u = (r, t)"
  using assms by (auto simp: seq_def split: prod.splits sum.splits)

text \<open>
  The Hoare triple of actions: from a state with \<open>P\<close>, a value and the state it comes with
  satisfy \<open>Q\<close>, an abrupt end and its state satisfy \<open>E\<close>.
\<close>

definition hoare ::
    "('s \<Rightarrow> bool) \<Rightarrow> ('s, 'e, 'a) act \<Rightarrow> ('a \<Rightarrow> 's \<Rightarrow> bool) \<Rightarrow> ('e abrupt \<Rightarrow> 's \<Rightarrow> bool) \<Rightarrow> bool" where
  "hoare P m Q E \<longleftrightarrow> (\<forall>s. P s \<longrightarrow> (case m s of (Inl e, t) \<Rightarrow> E e t | (Inr x, t) \<Rightarrow> Q x t))"

lemma hoareI:
  assumes "\<And>s e t. P s \<Longrightarrow> m s = (Inl e, t) \<Longrightarrow> E e t" and "\<And>s x t. P s \<Longrightarrow> m s = (Inr x, t) \<Longrightarrow> Q x t"
  shows "hoare P m Q E"
  unfolding hoare_def using assms by (auto split: prod.splits sum.splits)

lemma hoare_value: "hoare P m Q E \<Longrightarrow> P s \<Longrightarrow> m s = (Inr x, t) \<Longrightarrow> Q x t"
  by (force simp: hoare_def)

lemma hoare_abrupt: "hoare P m Q E \<Longrightarrow> P s \<Longrightarrow> m s = (Inl e, t) \<Longrightarrow> E e t"
  by (force simp: hoare_def)

lemma hoare_weaken:
  assumes "hoare P' m Q' E'" and "\<And>s. P s \<Longrightarrow> P' s"
    and "\<And>x t. Q' x t \<Longrightarrow> Q x t" and "\<And>e t. E' e t \<Longrightarrow> E e t"
  shows "hoare P m Q E"
  using assms unfolding hoare_def by (fastforce split: prod.splits sum.splits)

lemma hoare_ret: "(\<And>s. P s \<Longrightarrow> Q x s) \<Longrightarrow> hoare P (ret x) Q E"
  by (simp add: hoare_def act_defs)

lemma hoare_raise: "(\<And>s. P s \<Longrightarrow> E (Throw e) s) \<Longrightarrow> hoare P (raise e) Q E"
  by (simp add: hoare_def act_defs)

lemma hoare_undefined: "(\<And>s. P s \<Longrightarrow> E Undefined s) \<Longrightarrow> hoare P undefined_behaviour Q E"
  by (simp add: hoare_def act_defs)

lemma hoare_no_fuel: "(\<And>s. P s \<Longrightarrow> E OutOfFuel s) \<Longrightarrow> hoare P no_fuel Q E"
  by (simp add: hoare_def act_defs)

lemma hoare_reads: "(\<And>s. P s \<Longrightarrow> Q (f s) s) \<Longrightarrow> hoare P (reads f) Q E"
  by (simp add: hoare_def act_defs)

lemma hoare_update: "(\<And>s. P s \<Longrightarrow> Q () (f s)) \<Longrightarrow> hoare P (update f) Q E"
  by (simp add: hoare_def act_defs)

lemma hoare_seq:
  assumes "hoare P m R E" and "\<And>x. hoare (R x) (f x) Q E"
  shows "hoare P (seq m f) Q E"
proof (rule hoareI)
  fix s e t assume "P s" and "seq m f s = (Inl e, t)"
  then show "E e t"
    using assms by (auto elim!: seq_elim dest: hoare_abrupt hoare_value)
next
  fix s x t assume "P s" and "seq m f s = (Inr x, t)"
  then show "Q x t"
    using assms by (auto elim!: seq_elim dest: hoare_value)
qed

lemma hoare_try_catch:
  assumes "hoare P m Q E'"
    and "\<And>e. (case h e of None \<Rightarrow> (\<forall>s. E' (Throw e) s \<longrightarrow> E (Throw e) s) | Some k \<Rightarrow> hoare (E' (Throw e)) k Q E)"
    and "\<And>s. E' Undefined s \<Longrightarrow> E Undefined s" and "\<And>s. E' OutOfFuel s \<Longrightarrow> E OutOfFuel s"
  shows "hoare P (try_catch m h) Q E"
  unfolding hoare_def
proof (intro allI impI)
  fix s assume "P s"
  obtain r t where m: "m s = (r, t)" by (cases "m s")
  show "case try_catch m h s of (Inl e, t) \<Rightarrow> E e t | (Inr x, t) \<Rightarrow> Q x t"
  proof (cases r)
    case (Inl a)
    with hoare_abrupt [OF assms(1) \<open>P s\<close>] m have E': "E' a t" by simp
    show ?thesis
    proof (cases a)
      case (Throw e)
      with E' Inl m assms(2) [of e] show ?thesis
        by (auto simp: try_catch_def hoare_def split: option.splits)
    qed (use E' Inl m assms(3,4) in \<open>auto simp: try_catch_def\<close>)
  next
    case (Inr x)
    with hoare_value [OF assms(1) \<open>P s\<close>] m show ?thesis by (simp add: try_catch_def)
  qed
qed

lemma hoare_branch:
  assumes "\<And>s. m s = (if b s then m1 (f s) else m2 (f s))" and "hoare P1 m1 Q E" and "hoare P2 m2 Q E"
    and "\<And>s. P s \<Longrightarrow> b s \<Longrightarrow> P1 (f s)" and "\<And>s. P s \<Longrightarrow> \<not> b s \<Longrightarrow> P2 (f s)"
  shows "hoare P m Q E"
  unfolding hoare_def
proof (intro allI impI)
  fix s assume "P s"
  then show "case m s of (Inl e, t) \<Rightarrow> E e t | (Inr x, t) \<Rightarrow> Q x t"
    using assms(2,3) assms(4,5) [of s] unfolding hoare_def assms(1) by (cases "b s") auto
qed

text \<open>
  The special case that most component proofs use: started in a state with \<open>P\<close>, an action
  keeps \<open>P\<close>, ends abruptly only in the ways \<open>A\<close> allows, and returns only values with
  \<open>Q\<close>. Invariants, exception classes and termination within fuel are instances of it.
\<close>

definition runs :: "('s \<Rightarrow> bool) \<Rightarrow> ('e abrupt \<Rightarrow> bool) \<Rightarrow> ('a \<Rightarrow> bool) \<Rightarrow> ('s, 'e, 'a) act \<Rightarrow> bool" where
  "runs P A Q m \<longleftrightarrow>
     (\<forall>s. P s \<longrightarrow> P (snd (m s)) \<and> (case fst (m s) of Inl e \<Rightarrow> A e | Inr x \<Rightarrow> Q x))"

named_theorems runs_rules \<open>rules of the judgement\<close>

lemma runs_hoare: "runs P A Q m \<longleftrightarrow> hoare P m (\<lambda>x t. P t \<and> Q x) (\<lambda>e t. P t \<and> A e)"
proof -
  have "(P (snd p) \<and> (case fst p of Inl e \<Rightarrow> A e | Inr x \<Rightarrow> Q x)) =
      (case p of (Inl e, t) \<Rightarrow> P t \<and> A e | (Inr x, t) \<Rightarrow> P t \<and> Q x)" for p
    by (cases p; cases "fst p") auto
  then show ?thesis by (simp add: runs_def hoare_def)
qed

lemma runsI:
  assumes "\<And>s r t. P s \<Longrightarrow> m s = (r, t) \<Longrightarrow> P t \<and> (case r of Inl e \<Rightarrow> A e | Inr x \<Rightarrow> Q x)"
  shows "runs P A Q m"
  unfolding runs_def using assms by (metis prod.collapse)

lemma runsD:
  "runs P A Q m \<Longrightarrow> P s \<Longrightarrow> m s = (r, t) \<Longrightarrow> P t \<and> (case r of Inl e \<Rightarrow> A e | Inr x \<Rightarrow> Q x)"
  by (auto simp: runs_def)

lemma runs_abrupt: "runs P A Q m \<Longrightarrow> P s \<Longrightarrow> m s = (Inl e, t) \<Longrightarrow> A e"
  by (force dest: runsD)

lemma runs_value: "runs P A Q m \<Longrightarrow> P s \<Longrightarrow> m s = (Inr x, t) \<Longrightarrow> Q x"
  by (force dest: runsD)

lemma runs_state: "runs P A Q m \<Longrightarrow> P s \<Longrightarrow> P (snd (m s))"
  by (simp add: runs_def)

lemma runs_weaken:
  "runs P A Q m \<Longrightarrow> (\<And>e. A e \<Longrightarrow> A' e) \<Longrightarrow> (\<And>x. Q x \<Longrightarrow> Q' x) \<Longrightarrow> runs P A' Q' m"
  unfolding runs_def by (auto split: sum.splits)

lemma runs_ret [runs_rules]: "Q x \<Longrightarrow> runs P A Q (ret x)"
  by (simp add: runs_def act_defs)

lemma runs_raise [runs_rules]: "A (Throw e) \<Longrightarrow> runs P A Q (raise e)"
  by (simp add: runs_def act_defs)

lemma runs_undefined [runs_rules]: "A Undefined \<Longrightarrow> runs P A Q undefined_behaviour"
  by (simp add: runs_def act_defs)

lemma runs_no_fuel: "A OutOfFuel \<Longrightarrow> runs P A Q no_fuel"
  by (simp add: runs_def act_defs)

lemma runs_reads: "(\<And>s. P s \<Longrightarrow> Q (f s)) \<Longrightarrow> runs P A Q (reads f)"
  by (simp add: runs_def act_defs)

lemma runs_update: "(\<And>s. P s \<Longrightarrow> P (f s)) \<Longrightarrow> Q () \<Longrightarrow> runs P A Q (update f)"
  by (simp add: runs_def act_defs)

lemma runs_seq:
  assumes "runs P A R m" and "\<And>x. R x \<Longrightarrow> runs P A Q (f x)"
  shows "runs P A Q (seq m f)"
proof (rule runsI)
  fix s r t assume "P s" and "seq m f s = (r, t)"
  from this(2) show "P t \<and> (case r of Inl e \<Rightarrow> A e | Inr x \<Rightarrow> Q x)"
  proof (cases rule: seq_elim)
    case (abrupt e)
    then show ?thesis using runsD [OF assms(1) \<open>P s\<close>] by fastforce
  next
    case (result x u)
    then have "R x" "P u" using runsD [OF assms(1) \<open>P s\<close> result(1)] by auto
    then show ?thesis using runsD [OF assms(2)] result(2) by blast
  qed
qed

lemma runs_seq_any: "runs P A (\<lambda>_. True) m \<Longrightarrow> (\<And>x. runs P A Q (f x)) \<Longrightarrow> runs P A Q (seq m f)"
  by (blast intro: runs_seq)

lemma runs_try_catch:
  assumes "runs P A' Q m"
    and "\<And>e. A' (Throw e) \<Longrightarrow> (case h e of None \<Rightarrow> A (Throw e) | Some k \<Rightarrow> runs P A Q k)"
    and "A' Undefined \<Longrightarrow> A Undefined" and "A' OutOfFuel \<Longrightarrow> A OutOfFuel"
  shows "runs P A Q (try_catch m h)"
  unfolding runs_def
proof (intro allI impI)
  fix s assume "P s"
  obtain r t where m: "m s = (r, t)" by (cases "m s")
  note r = runsD [OF assms(1) \<open>P s\<close> m]
  show "P (snd (try_catch m h s)) \<and>
      (case fst (try_catch m h s) of Inl e \<Rightarrow> A e | Inr x \<Rightarrow> Q x)"
  proof (cases r)
    case (Inl a)
    then show ?thesis
    proof (cases a)
      case (Throw e)
      with r Inl m assms(2) [of e] show ?thesis
        by (auto simp: try_catch_def runs_def split: option.splits)
    qed (use r Inl m assms(3,4) in \<open>auto simp: try_catch_def\<close>)
  qed (use r m in \<open>auto simp: try_catch_def\<close>)
qed

lemma runs_for_each:
  "(\<And>x. x \<in> set xs \<Longrightarrow> runs P A (\<lambda>_. True) (f x)) \<Longrightarrow> runs P A (\<lambda>_. True) (for_each xs f)"
  by (induction xs) (auto intro: runs_seq_any runs_ret)

lemma runs_lift_sum:
  "(\<And>e. r = Inl e \<Longrightarrow> A (Throw e)) \<Longrightarrow> (\<And>x. r = Inr x \<Longrightarrow> Q x) \<Longrightarrow> runs P A Q (lift_sum r)"
  by (cases r) (auto intro: runs_ret runs_raise)

lemma runs_zoom:
  assumes "runs R A Q m" and "\<And>s. P s \<Longrightarrow> R (get s)" and "\<And>s t. P s \<Longrightarrow> R t \<Longrightarrow> P (put t s)"
  shows "runs P A Q (zoom get put m)"
  using assms unfolding runs_def zoom_def by (auto split: prod.splits sum.splits) (metis fst_conv snd_conv sum.simps)+

lemma runs_if: "(c \<Longrightarrow> runs P A Q m) \<Longrightarrow> (\<not> c \<Longrightarrow> runs P A Q n) \<Longrightarrow> runs P A Q (if c then m else n)"
  by simp

lemma for_each_append: "for_each (xs @ ys) f = seq (for_each xs f) (\<lambda>_. for_each ys f)"
  by (induction xs) (simp_all add: seq_assoc)

section \<open>Formatted numbers\<close>

text \<open>
  \<^verbatim>\<open>operator<<\<close> of an integer: decimal by default, lower-case hexadecimal after
  \<^verbatim>\<open>std::hex\<close>, upper case after \<^verbatim>\<open>std::uppercase\<close>, and
  \<^verbatim>\<open>setw(n) << setfill('0')\<close> pads on the left.
\<close>

definition digit :: "bool \<Rightarrow> nat \<Rightarrow> char" where
  "digit upper d = char_of (if d < 10 then 48 + d else (if upper then 55 else 87) + d)"

fun show_base :: "nat \<Rightarrow> bool \<Rightarrow> nat \<Rightarrow> string" where
  "show_base b upper n =
     (if b \<le> 1 \<or> n < b then [digit upper n] else show_base b upper (n div b) @ [digit upper (n mod b)])"

declare show_base.simps [simp del]

definition show_nat :: "nat \<Rightarrow> string" where
  "show_nat n = show_base 10 False n"

definition show_int :: "int \<Rightarrow> string" where
  "show_int i = (if i < 0 then CHR ''-'' # show_nat (nat (- i)) else show_nat (nat i))"

definition show_hex :: "nat \<Rightarrow> string" where
  "show_hex n = show_base 16 False n"

definition pad_left :: "nat \<Rightarrow> char \<Rightarrow> string \<Rightarrow> string" where
  "pad_left w c s = replicate (w - length s) c @ s"

lemma length_pad_left [fmt_simps]: "length (pad_left w c s) = max w (length s)"
  by (auto simp: pad_left_def)

lemma of_char_digit: "d < 16 \<Longrightarrow>
    of_char (digit u d) = (if d < 10 then 48 + d else (if u then 55 else 87) + d :: nat)"
  by (auto simp: digit_def)

lemma digit_eq_iff:
  assumes "d < 16" and "e < 16"
  shows "digit u d = digit u e \<longleftrightarrow> d = e"
proof
  assume "digit u d = digit u e"
  then have "(of_char (digit u d) :: nat) = of_char (digit u e)" by simp
  with assms show "d = e" by (auto simp: of_char_digit split: if_splits)
qed simp

lemma show_base_not_Nil [fmt_simps]: "show_base b u n \<noteq> []"
  by (subst show_base.simps) auto

lemma show_base_inj:
  "1 < b \<Longrightarrow> b \<le> 16 \<Longrightarrow> show_base b u m = show_base b u n \<Longrightarrow> m = n"
proof (induction b u m arbitrary: n rule: show_base.induct)
  case (1 b u m)
  note base = show_base.simps [of b u m] show_base.simps [of b u n]
  have dig16: "k mod b < 16" for k
    using "1.prems"(1,2) by (meson less_le_trans mod_less_divisor less_trans zero_less_one)
  show ?case
  proof (cases "m < b \<or> n < b")
    case True
    with "1.prems" base show ?thesis
      by (auto simp: digit_eq_iff show_base_not_Nil show_base_not_Nil [symmetric] split: if_splits)
  next
    case False
    with "1.prems" base have eq: "show_base b u (m div b) = show_base b u (n div b)"
      and "digit u (m mod b) = digit u (n mod b)" by auto
    then have "m mod b = n mod b" by (simp add: digit_eq_iff dig16)
    moreover have "m div b = n div b"
      using False "1.prems"(1,2) eq by (intro "1.IH") auto
    ultimately show ?thesis by (metis div_mult_mod_eq)
  qed
qed

lemma show_nat_inj: "show_nat m = show_nat n \<longleftrightarrow> m = n"
  by (auto simp: show_nat_def dest: show_base_inj [of 10, rotated 2])

end
