(* ===== verification/Std_Map.thy ===== *)
theory Std_Map
  imports Prelude
begin

text \<open>
  The containers of the C++ standard library that the program keeps its state in.
  \<^verbatim>\<open>std::map\<close> is a list of pairs with strictly increasing keys (the order in which
  its iterators run): \<open>sm_insert\<close> is \<^verbatim>\<open>insert\<close>, which keeps an existing entry,
  \<open>sm_assign\<close> is \<^verbatim>\<open>m[k] = v\<close>, which replaces it. \<^verbatim>\<open>std::set\<close> is the
  strictly increasing list of its elements. The locale \<open>finite_map\<close> is the contract
  that clients of a map use.
\<close>

named_theorems smap_simps \<open>lookups in updated maps\<close>

type_synonym ('k, 'v) smap = "('k \<times> 'v) list"

fun sm_find :: "('k::linorder, 'v) smap \<Rightarrow> 'k \<Rightarrow> 'v option" where
  "sm_find [] k = None"
| "sm_find ((k', v) # m) k = (if k = k' then Some v else sm_find m k)"

fun sm_insert :: "'k::linorder \<Rightarrow> 'v \<Rightarrow> ('k, 'v) smap \<Rightarrow> ('k, 'v) smap" where
  "sm_insert k v [] = [(k, v)]"
| "sm_insert k v ((k', v') # m) =
     (if k < k' then (k, v) # (k', v') # m
      else if k = k' then (k', v') # m
      else (k', v') # sm_insert k v m)"

fun sm_assign :: "'k::linorder \<Rightarrow> 'v \<Rightarrow> ('k, 'v) smap \<Rightarrow> ('k, 'v) smap" where
  "sm_assign k v [] = [(k, v)]"
| "sm_assign k v ((k', v') # m) =
     (if k < k' then (k, v) # (k', v') # m
      else if k = k' then (k, v) # m
      else (k', v') # sm_assign k v m)"

definition sm_erase :: "'k::linorder \<Rightarrow> ('k, 'v) smap \<Rightarrow> ('k, 'v) smap" where
  "sm_erase k m = [p \<leftarrow> m. fst p \<noteq> k]"

definition sm_keys :: "('k, 'v) smap \<Rightarrow> 'k list" where
  "sm_keys m = map fst m"

definition sm_ok :: "('k::linorder, 'v) smap \<Rightarrow> bool" where
  "sm_ok m \<longleftrightarrow> sorted_wrt (<) (sm_keys m)"

section \<open>The contract of a finite map\<close>

locale finite_map =
  fixes find :: "'m \<Rightarrow> 'k \<Rightarrow> 'v option"
    and ins :: "'k \<Rightarrow> 'v \<Rightarrow> 'm \<Rightarrow> 'm"
    and assign :: "'k \<Rightarrow> 'v \<Rightarrow> 'm \<Rightarrow> 'm"
    and erase :: "'k \<Rightarrow> 'm \<Rightarrow> 'm"
    and ok :: "'m \<Rightarrow> bool"
  assumes find_ins: "ok m \<Longrightarrow>
      find (ins k v m) k' = (if k' = k \<and> find m k = None then Some v else find m k')"
    and find_assign: "ok m \<Longrightarrow> find (assign k v m) k' = (if k' = k then Some v else find m k')"
    and find_erase: "find (erase k m) k' = (if k' = k then None else find m k')"
    and ok_ins: "ok m \<Longrightarrow> ok (ins k v m)"
    and ok_assign: "ok m \<Longrightarrow> ok (assign k v m)"
    and ok_erase: "ok m \<Longrightarrow> ok (erase k m)"
begin

lemma ins_present: "ok m \<Longrightarrow> find m k = Some w \<Longrightarrow> find (ins k v m) k' = find m k'"
  by (auto simp: find_ins)

lemma ok_fold_assign: "ok m \<Longrightarrow> ok (fold (\<lambda>(k, v). assign k v) kvs m)"
  by (induction kvs arbitrary: m) (auto simp: ok_assign)

lemma find_fold_assign:
  "ok m \<Longrightarrow> find (fold (\<lambda>(k, v). assign k v) kvs m) k =
     (case map_of (rev kvs) k of None \<Rightarrow> find m k | Some v \<Rightarrow> Some v)"
  by (induction kvs arbitrary: m)
    (auto simp: ok_assign find_assign map_add_def split: option.splits)

lemma ok_fold_ins: "ok m \<Longrightarrow> ok (fold (\<lambda>(k, v). ins k v) kvs m)"
  by (induction kvs arbitrary: m) (auto simp: ok_ins)

lemma find_fold_ins:
  "ok m \<Longrightarrow> find (fold (\<lambda>(k, v). ins k v) kvs m) k =
     (case find m k of None \<Rightarrow> map_of kvs k | Some v \<Rightarrow> Some v)"
  by (induction kvs arbitrary: m) (auto simp: ok_ins find_ins split: option.splits)

lemma ok_fold_erase: "ok m \<Longrightarrow> ok (fold erase ks m)"
  by (induction ks arbitrary: m) (auto simp: ok_erase)

lemma find_fold_erase: "find (fold erase ks m) k = (if k \<in> set ks then None else find m k)"
  by (induction ks arbitrary: m) (auto simp: find_erase)

end

lemma sm_keys_simps [simp]: "sm_keys [] = []" "sm_keys ((k, v) # m) = k # sm_keys m"
  by (simp_all add: sm_keys_def)

lemma sm_ok_simps [simp]:
  "sm_ok []" "sm_ok ((k, v) # m) \<longleftrightarrow> (\<forall>k' \<in> set (sm_keys m). k < k') \<and> sm_ok m"
  by (simp_all add: sm_ok_def)

lemma set_sm_keys_insert [simp]: "set (sm_keys (sm_insert k v m)) = insert k (set (sm_keys m))"
  by (induction m rule: sm_insert.induct) auto

lemma set_sm_keys_assign [simp]: "set (sm_keys (sm_assign k v m)) = insert k (set (sm_keys m))"
  by (induction m rule: sm_assign.induct) auto

lemma set_sm_keys_erase [simp]: "set (sm_keys (sm_erase k m)) = set (sm_keys m) - {k}"
  by (auto simp: sm_keys_def sm_erase_def)

lemma sm_find_None_iff: "sm_find m k = None \<longleftrightarrow> k \<notin> set (sm_keys m)"
  by (induction m k rule: sm_find.induct) auto

lemma sm_find_Some_key: "sm_find m k = Some v \<Longrightarrow> k \<in> set (sm_keys m)"
  using sm_find_None_iff by force

lemma sm_find_mem: "sm_find m k = Some v \<Longrightarrow> (k, v) \<in> set m"
  by (induction m k rule: sm_find.induct) (auto split: if_splits)

lemma sm_mem_find: "sm_ok m \<Longrightarrow> (k, v) \<in> set m \<Longrightarrow> sm_find m k = Some v"
  by (induction m k rule: sm_find.induct) (auto simp: sm_keys_def)

lemma sm_ok_distinct: "sm_ok m \<Longrightarrow> distinct (sm_keys m)"
  by (simp add: sm_ok_def strict_sorted_iff)

interpretation sm: finite_map sm_find sm_insert sm_assign sm_erase sm_ok
proof
  fix m :: "('a::linorder, 'b) smap" and k k' :: 'a and v :: 'b
  show "sm_find (sm_insert k v m) k' =
      (if k' = k \<and> sm_find m k = None then Some v else sm_find m k')" if "sm_ok m"
    using that
    by (induction k v m rule: sm_insert.induct) (auto simp: sm_find_None_iff dest!: sm_find_Some_key dest: order.asym)
  show "sm_find (sm_assign k v m) k' = (if k' = k then Some v else sm_find m k')" if "sm_ok m"
    using that by (induction k v m rule: sm_assign.induct) auto
  show "sm_find (sm_erase k m) k' = (if k' = k then None else sm_find m k')"
  proof (cases "k' = k")
    case True
    then show ?thesis by (simp add: sm_find_None_iff)
  next
    case False
    then show ?thesis
      by (induction m k' rule: sm_find.induct) (auto simp: sm_erase_def)
  qed
  show "sm_ok (sm_insert k v m)" if "sm_ok m"
    using that by (induction k v m rule: sm_insert.induct) (auto intro: less_trans)
  show "sm_ok (sm_assign k v m)" if "sm_ok m"
    using that by (induction k v m rule: sm_assign.induct) (auto intro: less_trans)
  show "sm_ok (sm_erase k m)" if "sm_ok m"
    using that
    by (simp add: sm_ok_def sm_keys_def sm_erase_def sorted_wrt_map sorted_wrt_filter)
qed

lemmas sm_facts [smap_simps] =
  sm.find_ins sm.find_assign sm.find_erase sm.ok_ins sm.ok_assign sm.ok_erase

section \<open>Sets\<close>

type_synonym 'a sset = "'a list"

definition ss_insert :: "'a::linorder \<Rightarrow> 'a sset \<Rightarrow> 'a sset" where
  "ss_insert x s = (if x \<in> set s then s else insort x s)"

definition ss_erase :: "'a \<Rightarrow> 'a sset \<Rightarrow> 'a sset" where
  "ss_erase x s = [y \<leftarrow> s. y \<noteq> x]"

definition ss_of_list :: "'a::linorder list \<Rightarrow> 'a sset" where
  "ss_of_list xs = fold ss_insert xs []"

definition ss_ok :: "'a::linorder sset \<Rightarrow> bool" where
  "ss_ok s \<longleftrightarrow> sorted_wrt (<) s"

lemma set_ss_insert [simp]: "set (ss_insert x s) = insert x (set s)"
  by (auto simp: ss_insert_def set_insort_key)

lemma set_ss_erase [simp]: "set (ss_erase x s) = set s - {x}"
  by (auto simp: ss_erase_def)

lemma set_fold_ss_insert: "set (fold ss_insert xs s) = set xs \<union> set s"
  by (induction xs arbitrary: s) auto

lemma set_ss_of_list [simp]: "set (ss_of_list xs) = set xs"
  by (simp add: ss_of_list_def set_fold_ss_insert)

lemma ss_ok_insert: "ss_ok s \<Longrightarrow> ss_ok (ss_insert x s)"
  by (auto simp: ss_ok_def ss_insert_def strict_sorted_iff sorted_insort distinct_insort)

lemma ss_ok_erase: "ss_ok s \<Longrightarrow> ss_ok (ss_erase x s)"
  by (simp add: ss_ok_def ss_erase_def sorted_wrt_filter)

lemma ss_ok_of_list: "ss_ok (ss_of_list xs)"
proof -
  have "ss_ok s \<Longrightarrow> ss_ok (fold ss_insert xs s)" for s
    by (induction xs arbitrary: s) (auto simp: ss_ok_insert)
  then show ?thesis by (simp add: ss_of_list_def ss_ok_def)
qed

lemma ss_eqI: "ss_ok s \<Longrightarrow> ss_ok t \<Longrightarrow> set s = set t \<Longrightarrow> s = t"
  unfolding ss_ok_def strict_sorted_iff by (blast intro: sorted_distinct_set_unique)

end
