(* ===== verification/Exceptions.thy ===== *)
theory Exceptions
  imports Std_Map
begin

text \<open>
  The exception classes of \<^verbatim>\<open>DashboardClient/Exceptions\<close>,
  \<^verbatim>\<open>MachineObserver/Exceptions\<close>, \<^verbatim>\<open>OpcUaClient/Exceptions\<close> and
  \<^verbatim>\<open>Util/Exceptions\<close>, with the standard ones the program throws or catches.
  A \<^verbatim>\<open>catch\<close> clause is a predicate on the dynamic class of the exception.
\<close>

datatype exn =
    StdException string
  | InvalidArgument string
  | LibraryException string
  | UmatiException string
  | OpcUaException string
  | OpcUaNonGoodStatusCodeException string
  | ClientNotConnected string
  | ElementNotFound string
  | MachineInvalidException string
  | MachineInvalidChildException string bool
  | MachineOfflineException string
  | ConfigurationException string

fun what :: "exn \<Rightarrow> string" where
  "what (StdException s) = s"
| "what (InvalidArgument s) = s"
| "what (LibraryException s) = s"
| "what (UmatiException s) = s"
| "what (OpcUaException s) = s"
| "what (OpcUaNonGoodStatusCodeException s) = s"
| "what (ClientNotConnected s) = s"
| "what (ElementNotFound s) = s"
| "what (MachineInvalidException s) = s"
| "what (MachineInvalidChildException s b) = s"
| "what (MachineOfflineException s) = s"
| "what (ConfigurationException s) = s"

text \<open>\<^verbatim>\<open>class OpcUaNonGoodStatusCodeException : public OpcUaException\<close>.\<close>

fun is_OpcUaException :: "exn \<Rightarrow> bool" where
  "is_OpcUaException (OpcUaException s) = True"
| "is_OpcUaException (OpcUaNonGoodStatusCodeException s) = True"
| "is_OpcUaException _ = False"

fun is_ClientNotConnected :: "exn \<Rightarrow> bool" where
  "is_ClientNotConnected (ClientNotConnected s) = True"
| "is_ClientNotConnected _ = False"

fun is_UmatiException :: "exn \<Rightarrow> bool" where
  "is_UmatiException (StdException s) = False"
| "is_UmatiException (InvalidArgument s) = False"
| "is_UmatiException (LibraryException s) = False"
| "is_UmatiException (ConfigurationException s) = False"
| "is_UmatiException _ = True"

fun is_MachineInvalidException :: "exn \<Rightarrow> bool" where
  "is_MachineInvalidException (MachineInvalidException s) = True"
| "is_MachineInvalidException _ = False"

fun is_MachineOfflineException :: "exn \<Rightarrow> bool" where
  "is_MachineOfflineException (MachineOfflineException s) = True"
| "is_MachineOfflineException _ = False"

text \<open>
  \<^verbatim>\<open>throw ex;\<close> inside \<^verbatim>\<open>catch (std::exception &ex)\<close> copies the base class
  only: the new exception is a plain \<^verbatim>\<open>std::exception\<close>, and neither the class nor
  the message of the caught one survives.
\<close>

definition rethrow_sliced :: "exn \<Rightarrow> exn" where
  "rethrow_sliced e = StdException ''std::exception''"

lemma is_OpcUa_imp_Umati: "is_OpcUaException e \<Longrightarrow> is_UmatiException e"
  by (cases e) auto

lemma not_OpcUa_rethrow_sliced [simp]: "\<not> is_OpcUaException (rethrow_sliced e)"
  by (simp add: rethrow_sliced_def)

end
