(* ===== verification/Json.thy ===== *)
theory Json
  imports Exceptions "HOL-Library.Word"
begin

text \<open>
  The JSON values of \<^verbatim>\<open>nlohmann::json\<close> as far as the program uses them. An object is
  a \<^verbatim>\<open>std::map\<close>. A floating-point number is kept as the bit pattern it came from,
  because the program only moves it. Accessing a member of a value that is neither an object
  nor null throws, as the library documents for \<^verbatim>\<open>operator[]\<close>. Serialization
  (\<^verbatim>\<open>dump\<close>) belongs to the library and is a parameter of its users; \<open>dump_ok\<close> is what
  the program relies on.
\<close>

datatype real_bits = OfFloat "32 word" | OfDouble "64 word"

datatype json =
    JNull
  | JBool bool
  | JInt int
  | JReal real_bits
  | JStr string
  | JArr "json list"
  | JObj "(string \<times> json) list"

definition type_error :: exn where
  "type_error = LibraryException ''[json.exception.type_error.305]''"

text \<open>\<^verbatim>\<open>j[key] = v\<close>\<close>

fun json_put :: "string \<Rightarrow> json \<Rightarrow> json \<Rightarrow> exn + json" where
  "json_put k v JNull = Inr (JObj [(k, v)])"
| "json_put k v (JObj m) = Inr (JObj (sm_assign k v m))"
| "json_put k v _ = Inl type_error"

text \<open>\<^verbatim>\<open>j.push_back(v)\<close>\<close>

fun json_push :: "json \<Rightarrow> json \<Rightarrow> exn + json" where
  "json_push v JNull = Inr (JArr [v])"
| "json_push v (JArr vs) = Inr (JArr (vs @ [v]))"
| "json_push v _ = Inl (LibraryException ''[json.exception.type_error.308]'')"

text \<open>\<^verbatim>\<open>j.empty()\<close>\<close>

fun json_empty :: "json \<Rightarrow> bool" where
  "json_empty JNull = True"
| "json_empty (JArr vs) = (vs = [])"
| "json_empty (JObj m) = (m = [])"
| "json_empty _ = False"

text \<open>Reading a member; \<open>None\<close> when it is absent.\<close>

fun json_get :: "string \<Rightarrow> json \<Rightarrow> json option" where
  "json_get k (JObj m) = sm_find m k"
| "json_get k _ = None"

definition json_is_object :: "json \<Rightarrow> bool" where
  "json_is_object j \<longleftrightarrow> (case j of JObj m \<Rightarrow> True | _ \<Rightarrow> False)"

definition json_open :: "json \<Rightarrow> bool" where
  "json_open j \<longleftrightarrow> j = JNull \<or> json_is_object j"

text \<open>A value whose objects are maps: keys strictly increasing at every level.\<close>

fun json_ok :: "json \<Rightarrow> bool" where
  "json_ok (JArr vs) = list_all json_ok vs"
| "json_ok (JObj m) = (sm_ok m \<and> list_all (\<lambda>p. json_ok (snd p)) m)"
| "json_ok _ = True"

text \<open>
  What the program relies on, and the library documents: the text null is written for the null
  value and for numbers that are infinite or no numbers (all bits of the exponent are set), and for
  nothing else.
\<close>

fun non_finite :: "real_bits \<Rightarrow> bool" where
  "non_finite (OfFloat w) \<longleftrightarrow> unat w div 2 ^ 23 mod 2 ^ 8 = 2 ^ 8 - 1"
| "non_finite (OfDouble w) \<longleftrightarrow> unat w div 2 ^ 52 mod 2 ^ 11 = 2 ^ 11 - 1"

fun dumps_null :: "json \<Rightarrow> bool" where
  "dumps_null JNull = True"
| "dumps_null (JReal r) = non_finite r"
| "dumps_null _ = False"

definition dump_ok :: "(nat \<Rightarrow> json \<Rightarrow> exn + string) \<Rightarrow> bool" where
  "dump_ok dump \<longleftrightarrow> (\<forall>indent j s. dump indent j = Inr s \<longrightarrow> (s = ''null'' \<longleftrightarrow> dumps_null j) \<and> s \<noteq> '''')"

lemma dump_okD: "dump_ok dump \<Longrightarrow> dump i j = Inr s \<Longrightarrow> (s = ''null'' \<longleftrightarrow> dumps_null j)"
  by (auto simp: dump_ok_def)

lemma dump_ok_nonempty: "dump_ok dump \<Longrightarrow> dump i j = Inr s \<Longrightarrow> s \<noteq> ''''"
  by (auto simp: dump_ok_def)

lemma json_put_open: "json_open j \<longleftrightarrow> (\<exists>j'. json_put k v j = Inr j')"
  by (cases j) (auto simp: json_open_def json_is_object_def)

lemma json_put_Inl: "json_put k v j = Inl e \<longleftrightarrow> \<not> json_open j \<and> e = type_error"
  by (cases j) (auto simp: json_open_def json_is_object_def)

lemma json_put_result_object: "json_put k v j = Inr j' \<Longrightarrow> json_is_object j'"
  by (cases j) (auto simp: json_is_object_def)

lemma json_get_put:
  "json_put k v j = Inr j' \<Longrightarrow> json_ok j \<Longrightarrow> json_get k' j' = (if k' = k then Some v else json_get k' j)"
  by (cases j) (auto simp: smap_simps)

lemma list_all_assign:
  "list_all (\<lambda>p. P (snd p)) m \<Longrightarrow> P v \<Longrightarrow> list_all (\<lambda>p. P (snd p)) (sm_assign k v m)"
  by (induction k v m rule: sm_assign.induct) auto

lemma json_ok_put: "json_put k v j = Inr j' \<Longrightarrow> json_ok j \<Longrightarrow> json_ok v \<Longrightarrow> json_ok j'"
  by (cases j) (auto simp: smap_simps list_all_assign)

lemma gives_put: "json_ok j \<Longrightarrow> json_ok v \<Longrightarrow> gives json_ok (json_put k v j)"
  by (simp add: gives_iff json_ok_put)

lemma json_open_put: "json_put k v j = Inr j' \<Longrightarrow> json_open j'"
  by (auto simp: json_open_def dest: json_put_result_object)

lemma json_not_empty_put: "json_put k v j = Inr j' \<Longrightarrow> \<not> json_empty j'"
proof -
  have "sm_assign k v m \<noteq> []" for m by (cases "(k, v, m)" rule: sm_assign.cases) auto
  then show "json_put k v j = Inr j' \<Longrightarrow> ?thesis" by (cases j) auto
qed

end
