(* ===== verification/Ua_Model.thy ===== *)
theory Ua_Model
  imports Exceptions
begin

text \<open>
  \<^verbatim>\<open>ModelOpcUa\<close>: node ids, qualified names, modelling rules, node classes, browse
  results, the definition part of a node, and the instance nodes that a machine is turned
  into. Type nodes, which are shared and mutated through pointers, live in the heap of
  \<^verbatim>\<open>Type_Heap\<close>.
\<close>

section \<open>Node ids\<close>

datatype NodeId_t = NodeId (nUri: string) (nId: string)

definition ns0Uri :: string where
  "ns0Uri = ''http://opcfoundation.org/UA/''"

definition NodeId_isNull :: "NodeId_t \<Rightarrow> bool" where
  "NodeId_isNull n \<longleftrightarrow> nUri n = '''' \<and> nId n = ''''"

definition NodeId_to_string :: "NodeId_t \<Rightarrow> string" where
  "NodeId_to_string n =
     (if nUri n \<noteq> '''' then ''nsu='' @ nUri n @ '';'' else '''') @
     (if nId n = '''' then ''i=0'' else nId n)"

text \<open>\<^verbatim>\<open>operator==\<close> reads an empty URI as the one of namespace 0.\<close>

definition NodeId_eq :: "NodeId_t \<Rightarrow> NodeId_t \<Rightarrow> bool" where
  "NodeId_eq a b \<longleftrightarrow>
     (let cmpUri1 = (if nUri a = '''' then ''http://opcfoundation.org/UA/'' else nUri a);
          cmpUri2 = (if nUri b = '''' then ''http://opcfoundation.org/UA/'' else nUri b)
      in cmpUri1 = cmpUri2 \<and> nId a = nId b)"

text \<open>\<^verbatim>\<open>operator<\<close> compares the URIs as they are. Maps and sets use this order.\<close>

definition NodeId_less :: "NodeId_t \<Rightarrow> NodeId_t \<Rightarrow> bool" where
  "NodeId_less a b = (if nUri a \<noteq> nUri b then nUri a < nUri b else nId a < nId b)"

instantiation NodeId_t :: linorder
begin

definition less_NodeId_t :: "NodeId_t \<Rightarrow> NodeId_t \<Rightarrow> bool" where
  "less_NodeId_t a b = NodeId_less a b"

definition less_eq_NodeId_t :: "NodeId_t \<Rightarrow> NodeId_t \<Rightarrow> bool" where
  "less_eq_NodeId_t a b \<longleftrightarrow> NodeId_less a b \<or> a = b"

instance
proof
  fix a b c :: NodeId_t
  show "a < b \<longleftrightarrow> a \<le> b \<and> \<not> b \<le> a"
    by (cases a; cases b) (auto simp: less_NodeId_t_def less_eq_NodeId_t_def NodeId_less_def)
  show "a \<le> a" by (simp add: less_eq_NodeId_t_def)
  show "a \<le> b \<Longrightarrow> b \<le> c \<Longrightarrow> a \<le> c"
    by (cases a; cases b; cases c)
      (auto simp: less_eq_NodeId_t_def NodeId_less_def split: if_splits)
  show "a \<le> b \<Longrightarrow> b \<le> a \<Longrightarrow> a = b"
    by (cases a; cases b) (auto simp: less_eq_NodeId_t_def NodeId_less_def split: if_splits)
  show "a \<le> b \<or> b \<le> a"
    by (cases a; cases b) (auto simp: less_eq_NodeId_t_def NodeId_less_def)
qed

end

lemma NodeId_eq_refl [simp]: "NodeId_eq a a"
  by (simp add: NodeId_eq_def)

lemma NodeId_eq_sym: "NodeId_eq a b \<longleftrightarrow> NodeId_eq b a"
  by (auto simp: NodeId_eq_def Let_def)

lemma NodeId_eq_trans: "NodeId_eq a b \<Longrightarrow> NodeId_eq b c \<Longrightarrow> NodeId_eq a c"
  by (auto simp: NodeId_eq_def Let_def)

text \<open>
  The two comparisons of node ids disagree on exactly one kind of pair. Two ids are equal
  for \<^verbatim>\<open>operator==\<close> and still two different keys for the maps and sets ordered by
  \<^verbatim>\<open>operator<\<close> if and only if they have the same identifier and one of them has the
  empty URI while the other spells out the URI of namespace 0.
\<close>

theorem NodeId_eq_vs_order:
  "NodeId_eq a b \<and> (NodeId_less a b \<or> NodeId_less b a) \<longleftrightarrow>
     nId a = nId b \<and>
     ((nUri a = '''' \<and> nUri b = ns0Uri) \<or> (nUri a = ns0Uri \<and> nUri b = ''''))"
  by (cases a; cases b) (auto simp: NodeId_eq_def NodeId_less_def ns0Uri_def)

text \<open>The printed form identifies a node when the URI holds no semicolon.\<close>

definition NodeId_plain :: "NodeId_t \<Rightarrow> bool" where
  "NodeId_plain n \<longleftrightarrow> CHR '';'' \<notin> set (nUri n) \<and> nId n \<noteq> '''' \<and> take 4 (nId n) \<noteq> ''nsu=''"

lemma NodeId_to_string_inj:
  assumes "NodeId_plain a" and "NodeId_plain b" and "NodeId_to_string a = NodeId_to_string b"
  shows "a = b"
proof -
  have split_at: "u = u'" if "u @ CHR '';'' # i = u' @ CHR '';'' # i'"
    "CHR '';'' \<notin> set u" "CHR '';'' \<notin> set u'" for u u' i i' :: string
    using that
    by (induction u arbitrary: u') (auto simp: Cons_eq_append_conv split: if_splits)
  show ?thesis
    using assms split_at [of "nUri a" "nId a" "nUri b" "nId b"]
    by (cases a; cases b)
      (auto simp: NodeId_plain_def NodeId_to_string_def split: if_splits)
qed

section \<open>Qualified names\<close>

datatype QualifiedName_t = QualifiedName (qUri: string) (qName: string)

definition QualifiedName_isNull :: "QualifiedName_t \<Rightarrow> bool" where
  "QualifiedName_isNull q \<longleftrightarrow> qUri q = '''' \<and> qName q = ''''"

definition QualifiedName_to_string :: "QualifiedName_t \<Rightarrow> string" where
  "QualifiedName_to_string q = (if qUri q \<noteq> '''' then ''nsu='' @ qUri q @ '';'' else '''') @ qName q"

text \<open>\<^verbatim>\<open>operator==\<close> compares both parts: it is the equality of the datatype.\<close>

definition QualifiedName_eq :: "QualifiedName_t \<Rightarrow> QualifiedName_t \<Rightarrow> bool" where
  "QualifiedName_eq a b \<longleftrightarrow> qUri a = qUri b \<and> qName a = qName b"

lemma QualifiedName_eq_iff [simp]: "QualifiedName_eq a b \<longleftrightarrow> a = b"
  by (cases a; cases b) (simp add: QualifiedName_eq_def)

section \<open>Modelling rules and node classes\<close>

datatype ModellingRule_t = RuleNone | Optional | Mandatory | OptionalPlaceholder | MandatoryPlaceholder

fun ModellingRule_value :: "ModellingRule_t \<Rightarrow> nat" where
  "ModellingRule_value RuleNone = 0"
| "ModellingRule_value Optional = 1"
| "ModellingRule_value Mandatory = 2"
| "ModellingRule_value OptionalPlaceholder = 3"
| "ModellingRule_value MandatoryPlaceholder = 4"

definition ModellingRuleToString :: "ModellingRule_t \<Rightarrow> string" where
  "ModellingRuleToString rule =
     (let modellingRules =
        [''None'', ''Optional'', ''Madatory'', ''OptionalPlaceholder'', ''MandatoryPlacehoder''];
        idx = ModellingRule_value rule
      in modellingRules ! (if idx \<ge> length modellingRules then 0 else idx))"

datatype NodeClass_t =
  Object | Variable | Method | ObjectType | VariableType | ReferenceType | DataType | View

fun NodeClass_value :: "NodeClass_t \<Rightarrow> nat" where
  "NodeClass_value Object = 1"
| "NodeClass_value Variable = 2"
| "NodeClass_value Method = 4"
| "NodeClass_value ObjectType = 8"
| "NodeClass_value VariableType = 16"
| "NodeClass_value ReferenceType = 32"
| "NodeClass_value DataType = 64"
| "NodeClass_value View = 128"

text \<open>The loop \<^verbatim>\<open>while (classInt > 1) { classInt = classInt >> 1; idx++; }\<close>.\<close>

fun class_index :: "nat \<Rightarrow> nat \<Rightarrow> nat" where
  "class_index classInt idx = (if classInt > 1 then class_index (classInt div 2) (idx + 1) else idx)"

declare class_index.simps [simp del]

definition NodeClassToString :: "nat \<Rightarrow> string" where
  "NodeClassToString classInt =
     (let nodeClasses = [''Object'', ''Variable'', ''Method'', ''ObjectType'', ''VariableType'',
        ''ReferenceType'', ''DataType'', ''View''];
        idx = class_index classInt 0
      in if idx \<ge> length nodeClasses then ''Unknown'' else nodeClasses ! idx)"

lemma class_index_power: "class_index (2 ^ k) i = i + k"
proof (induction k arbitrary: i)
  case 0
  show ?case by (simp add: class_index.simps [of "Suc 0"])
next
  case (Suc k)
  have "0 < (2::nat) ^ k" by simp
  then have "1 < (2::nat) * 2 ^ k" by linarith
  with Suc show ?case by (simp add: class_index.simps [of "2 * 2 ^ k"])
qed

lemma class_index_bounds:
  "0 < n \<Longrightarrow> 2 ^ (class_index n i - i) \<le> n \<and> n < 2 ^ Suc (class_index n i - i) \<and> i \<le> class_index n i"
proof (induction n i rule: class_index.induct)
  case (1 n i)
  show ?case
  proof (cases "1 < n")
    case True
    let ?k = "class_index (n div 2) (i + 1)"
    from True "1.IH" have ih: "2 ^ (?k - (i + 1)) \<le> n div 2" "n div 2 < 2 ^ Suc (?k - (i + 1))"
      "i + 1 \<le> ?k" by auto
    then have eq: "?k - i = Suc (?k - (i + 1))" by arith
    from ih have "2 ^ Suc (?k - (i + 1)) \<le> n" "n < 2 ^ Suc (Suc (?k - (i + 1)))" by auto
    with True ih(3) eq show ?thesis by (simp add: class_index.simps [of n i])
  next
    case False
    with "1.prems" show ?thesis by (simp add: class_index.simps [of n i])
  qed
qed

section \<open>Browse results\<close>

record BrowseResult_t =
  brNodeClass :: NodeClass_t
  brNodeId :: NodeId_t
  brTypeDefinition :: NodeId_t
  brReferenceTypeId :: NodeId_t
  brBrowseName :: QualifiedName_t

section \<open>Definitions of nodes and instance nodes\<close>

record NodeDefinition =
  ModellingRule :: ModellingRule_t
  NodeClass :: NodeClass_t
  ReferenceType :: NodeId_t
  SpecifiedTypeNodeId :: NodeId_t
  SpecifiedBrowseName :: QualifiedName_t

text \<open>The copy constructor that replaces the browse name.\<close>

definition NodeDefinition_renamed :: "NodeDefinition \<Rightarrow> QualifiedName_t \<Rightarrow> NodeDefinition" where
  "NodeDefinition_renamed nd specifiedBrowseName = nd\<lparr>SpecifiedBrowseName := specifiedBrowseName\<rparr>"

text \<open>
  Instance nodes. The values of a data set are kept in a map whose keys are pointers to nodes,
  so each node carries the identity \<open>node_ptr\<close> that \<^verbatim>\<open>make_shared\<close> gives it.
\<close>

datatype Node =
    SimpleNode (node_ptr: nat) (node_def: NodeDefinition) (ChildNodes: "Node list")
      (simpleNodeId: NodeId_t) (TypeNodeId: NodeId_t) (nodeOfBaseDataVariableType: bool)
  | PlaceholderNode (node_ptr: nat) (node_def: NodeDefinition) (Instances: "PlaceholderElement list")
and PlaceholderElement =
    PlaceholderElement (elNode: Node) (elBrowseName: QualifiedName_t) (elTypeDefinition: NodeId_t)

definition PlaceholderNode_addInstance :: "PlaceholderElement \<Rightarrow> PlaceholderElement list \<Rightarrow> PlaceholderElement list" where
  "PlaceholderNode_addInstance el insts = insts @ [el]"

definition SimpleNode_isAvaliable :: "Node \<Rightarrow> bool" where
  "SimpleNode_isAvaliable n \<longleftrightarrow> \<not> NodeId_isNull (simpleNodeId n)"

abbreviation BrowseName_of :: "Node \<Rightarrow> QualifiedName_t" where
  "BrowseName_of n \<equiv> SpecifiedBrowseName (node_def n)"

abbreviation Rule_of :: "Node \<Rightarrow> ModellingRule_t" where
  "Rule_of n \<equiv> ModellingRule (node_def n)"

abbreviation Class_of :: "Node \<Rightarrow> NodeClass_t" where
  "Class_of n \<equiv> NodeClass (node_def n)"

text \<open>All nodes of an instance tree, in the order of a depth-first walk.\<close>

fun nodes_of :: "Node \<Rightarrow> Node list" and nodes_of_el :: "PlaceholderElement \<Rightarrow> Node list" where
  "nodes_of (SimpleNode p d cs n t b) = SimpleNode p d cs n t b # concat (map nodes_of cs)"
| "nodes_of (PlaceholderNode p d es) = PlaceholderNode p d es # concat (map nodes_of_el es)"
| "nodes_of_el (PlaceholderElement n q t) = nodes_of n"

section \<open>Well-known nodes\<close>

definition NodeId_HasComponent :: NodeId_t where
  "NodeId_HasComponent = NodeId ns0Uri ''i=47''"

definition NodeId_HierarchicalReferences :: NodeId_t where
  "NodeId_HierarchicalReferences = NodeId ns0Uri ''i=33''"

definition NodeId_HasTypeDefinition :: NodeId_t where
  "NodeId_HasTypeDefinition = NodeId ns0Uri ''i=40''"

definition NodeId_HasInterface :: NodeId_t where
  "NodeId_HasInterface = NodeId ns0Uri ''i=17603''"

definition NodeId_Organizes :: NodeId_t where
  "NodeId_Organizes = NodeId ns0Uri ''i=35''"

definition NodeId_PropertyType :: NodeId_t where
  "NodeId_PropertyType = NodeId '''' ''i=68''"

definition NodeId_BaseObjectType :: NodeId_t where
  "NodeId_BaseObjectType = NodeId ns0Uri ''i=58''"

definition NodeId_Folder :: NodeId_t where
  "NodeId_Folder = NodeId ns0Uri ''i=61''"

definition NodeId_FunctionalGroup :: NodeId_t where
  "NodeId_FunctionalGroup = NodeId ''http://opcfoundation.org/UA/DI/'' ''i=1005''"

definition NodeId_UndefinedType :: NodeId_t where
  "NodeId_UndefinedType = NodeId ns0Uri ''i=0''"

definition NodeId_MissingType :: NodeId_t where
  "NodeId_MissingType = NodeId '''' ''i=0''"

definition nsUriMachinery :: string where
  "nsUriMachinery = ''http://opcfoundation.org/UA/Machinery/''"

definition NodeId_MachinesFolder :: NodeId_t where
  "NodeId_MachinesFolder = NodeId nsUriMachinery ''i=1001''"

definition QualifiedName_ComponentsFolder :: QualifiedName_t where
  "QualifiedName_ComponentsFolder = QualifiedName nsUriMachinery ''Components''"

definition NodeId_BaseVariableType :: NodeId_t where
  "NodeId_BaseVariableType = NodeId '''' ''i=63''"

lemmas well_known_defs =
  NodeId_HasComponent_def NodeId_HierarchicalReferences_def NodeId_HasTypeDefinition_def
  NodeId_HasInterface_def NodeId_Organizes_def NodeId_PropertyType_def NodeId_BaseObjectType_def
  NodeId_Folder_def NodeId_FunctionalGroup_def NodeId_UndefinedType_def NodeId_MissingType_def
  NodeId_MachinesFolder_def QualifiedName_ComponentsFolder_def nsUriMachinery_def ns0Uri_def

end
