(* ===== verification/Data_Client.thy ===== *)
theory Data_Client
  imports Json Ua_Model
begin

text \<open>
  \<^verbatim>\<open>DashboardClient/IDashboardDataClient\<close>: the interface to the data source, a record
  with one field per virtual method. A method runs on the world of the data source, of type
  \<open>'w\<close>, and may throw. A value callback is data, of type \<open>'cb\<close>, which the receiver
  interprets.
\<close>

section \<open>Browse contexts\<close>

datatype BrowseDirection = FORWARD | BACKWARD | BOTH

record BrowseContext_t =
  browseDirection :: BrowseDirection
  referenceTypeId :: NodeId_t
  includeSubtypes :: bool
  nodeClassMask :: "32 word"
  resultMask :: "32 word"

definition MASK_OBJECT :: "32 word" where "MASK_OBJECT = 0x01"
definition MASK_VARIABLE :: "32 word" where "MASK_VARIABLE = 0x02"
definition MASK_OBJECT_TYPE :: "32 word" where "MASK_OBJECT_TYPE = 0x08"
definition MASK_VARIABLE_TYPE :: "32 word" where "MASK_VARIABLE_TYPE = 0x10"

definition BrowseContext_default :: BrowseContext_t where
  "BrowseContext_default =
     \<lparr>browseDirection = FORWARD, referenceTypeId = NodeId '''' '''', includeSubtypes = True,
      nodeClassMask = 0x00, resultMask = 0x3F\<rparr>"

definition ctx_HasComponent :: BrowseContext_t where
  "ctx_HasComponent = BrowseContext_default\<lparr>referenceTypeId := NodeId_HasComponent\<rparr>"

definition ctx_HasTypeDefinition :: BrowseContext_t where
  "ctx_HasTypeDefinition = BrowseContext_default\<lparr>referenceTypeId := NodeId_HasTypeDefinition\<rparr>"

definition ctx_HasInterface :: BrowseContext_t where
  "ctx_HasInterface = BrowseContext_default\<lparr>referenceTypeId := NodeId_HasInterface\<rparr>"

definition ctx_Hierarchical :: BrowseContext_t where
  "ctx_Hierarchical = BrowseContext_default\<lparr>referenceTypeId := NodeId_HierarchicalReferences\<rparr>"

definition ctx_OrganizedBy :: BrowseContext_t where
  "ctx_OrganizedBy = BrowseContext_default
     \<lparr>referenceTypeId := NodeId_Organizes, browseDirection := BACKWARD\<rparr>"

definition ctx_ComponentOf :: BrowseContext_t where
  "ctx_ComponentOf = BrowseContext_default
     \<lparr>referenceTypeId := NodeId_HasComponent, browseDirection := BACKWARD\<rparr>"

definition ctx_WithReference :: "NodeId_t \<Rightarrow> BrowseContext_t" where
  "ctx_WithReference ref = BrowseContext_default\<lparr>referenceTypeId := ref\<rparr>"

definition ctx_ObjectAndVariableWithTypes :: BrowseContext_t where
  "ctx_ObjectAndVariableWithTypes = BrowseContext_default
     \<lparr>nodeClassMask := or (or (or MASK_OBJECT MASK_OBJECT_TYPE) MASK_VARIABLE) MASK_VARIABLE_TYPE,
      referenceTypeId := NodeId_HierarchicalReferences\<rparr>"

definition ctx_Variable :: BrowseContext_t where
  "ctx_Variable = BrowseContext_default
     \<lparr>nodeClassMask := or MASK_VARIABLE MASK_VARIABLE_TYPE,
      referenceTypeId := NodeId_HierarchicalReferences\<rparr>"

section \<open>Subscription handles\<close>

record ValueSubscriptionHandle =
  m_unsubscribed :: bool
  m_clientHandle :: "32 word"
  m_monitoredItemId :: "32 word"
  m_nodeId :: NodeId_t

text \<open>The constructor, with its parameters in the order of the source.\<close>

definition ValueSubscriptionHandle_new :: "32 word \<Rightarrow> 32 word \<Rightarrow> NodeId_t \<Rightarrow> ValueSubscriptionHandle" where
  "ValueSubscriptionHandle_new clientHandle monItemId nodeId =
     \<lparr>m_unsubscribed = False, m_clientHandle = clientHandle, m_monitoredItemId = monItemId,
      m_nodeId = nodeId\<rparr>"

definition handle_unsubscribe :: "ValueSubscriptionHandle \<Rightarrow> ValueSubscriptionHandle" where
  "handle_unsubscribe h = h\<lparr>m_unsubscribed := True\<rparr>"

definition handle_isUnsubscribed :: "ValueSubscriptionHandle \<Rightarrow> bool" where
  "handle_isUnsubscribed h = m_unsubscribed h"

section \<open>The interface\<close>

record ('w, 'cb) data_client =
  dc_Browse :: "NodeId_t \<Rightarrow> BrowseContext_t \<Rightarrow> ('w, exn, BrowseResult_t list) act"
  dc_isSameOrSubtype :: "NodeId_t \<Rightarrow> NodeId_t \<Rightarrow> nat \<Rightarrow> ('w, exn, bool) act"
  dc_BrowseWithResultTypeFilter ::
    "NodeId_t \<Rightarrow> BrowseContext_t \<Rightarrow> NodeId_t \<Rightarrow> ('w, exn, BrowseResult_t list) act"
  dc_TranslateBrowsePathToNodeId :: "NodeId_t \<Rightarrow> QualifiedName_t \<Rightarrow> ('w, exn, NodeId_t) act"
  dc_readNodeBrowseName :: "NodeId_t \<Rightarrow> ('w, exn, string) act"
  dc_getTypeName :: "NodeId_t \<Rightarrow> ('w, exn, string) act"
  dc_Subscribe :: "NodeId_t \<Rightarrow> 'cb \<Rightarrow> ('w, exn, ValueSubscriptionHandle option) act"
  dc_Unsubscribe :: "32 word list \<Rightarrow> 32 word list \<Rightarrow> ('w, exn, unit) act"
  dc_ReadeNodeValues :: "NodeId_t list \<Rightarrow> ('w, exn, json list) act"
  dc_Namespaces :: "('w, exn, string list) act"
  dc_VerifyConnection :: "('w, exn, bool) act"

text \<open>The two deprecated overloads.\<close>

definition dc_Browse_typed ::
    "('w, 'cb) data_client \<Rightarrow> NodeId_t \<Rightarrow> NodeId_t \<Rightarrow> NodeId_t \<Rightarrow> ('w, exn, BrowseResult_t list) act" where
  "dc_Browse_typed D startNode ref typeDefinition =
     dc_BrowseWithResultTypeFilter D startNode (ctx_WithReference ref) typeDefinition"

definition dc_BrowseHasComponent ::
    "('w, 'cb) data_client \<Rightarrow> NodeId_t \<Rightarrow> NodeId_t \<Rightarrow> ('w, exn, BrowseResult_t list) act" where
  "dc_BrowseHasComponent D startNode typeDefinition =
     dc_BrowseWithResultTypeFilter D startNode ctx_HasComponent typeDefinition"

text \<open>
  \<^verbatim>\<open>BrowseModellingRule\<close>: the first target whose name is one of the four rules decides;
  a node without such a target counts as optional. The context leaves the reference type null.
\<close>

fun modelling_rule_of_names :: "string list \<Rightarrow> ModellingRule_t" where
  "modelling_rule_of_names [] = Optional"
| "modelling_rule_of_names (name # names) =
     (if name = ''Mandatory'' then Mandatory
      else if name = ''Optional'' then Optional
      else if name = ''MandatoryPlaceholder'' then MandatoryPlaceholder
      else if name = ''OptionalPlaceholder'' then OptionalPlaceholder
      else modelling_rule_of_names names)"

definition BrowseModellingRule :: "('w, 'cb) data_client \<Rightarrow> NodeId_t \<Rightarrow> ('w, exn, ModellingRule_t) act" where
  "BrowseModellingRule D nodeId =
     seq (dc_Browse D nodeId (BrowseContext_default\<lparr>nodeClassMask := MASK_OBJECT\<rparr>))
       (\<lambda>browseResults.
     ret (modelling_rule_of_names (map (\<lambda>b. qName (brBrowseName b)) browseResults)))"

lemma modelling_rule_never_None: "modelling_rule_of_names names \<noteq> RuleNone"
  by (induction names rule: modelling_rule_of_names.induct) auto

lemma modelling_rule_of_names_Optional:
  "modelling_rule_of_names names = Mandatory \<Longrightarrow> ''Mandatory'' \<in> set names"
  by (induction names rule: modelling_rule_of_names.induct) (auto split: if_splits)

section \<open>The contract of a data source\<close>

text \<open>
  What the dashboard relies on, and what \<open>Opcua_Data_Source\<close> proves of the OPC UA client: with
  an invariant \<open>I\<close> of the world, every method ends and keeps the invariant; the node ids that
  the methods find come from a given set \<open>U\<close>; subscribing and unsubscribing end with a value or
  an exception. The other methods may meet undefined behaviour.
\<close>

definition from_nodes :: "NodeId_t set \<Rightarrow> BrowseResult_t list \<Rightarrow> bool" where
  "from_nodes U rs \<longleftrightarrow> (\<forall>r \<in> set rs. brNodeId r \<in> U)"

definition throws_only :: "'e abrupt \<Rightarrow> bool" where
  "throws_only e \<longleftrightarrow> (\<exists>x. e = Throw x)"

definition any_end :: "'e abrupt \<Rightarrow> bool" where
  "any_end e \<longleftrightarrow> e \<noteq> OutOfFuel"

definition client_ok :: "('w \<Rightarrow> bool) \<Rightarrow> NodeId_t set \<Rightarrow> ('w, 'cb) data_client \<Rightarrow> bool" where
  "client_ok I U D \<longleftrightarrow>
     (\<forall>n c. runs I any_end (from_nodes U) (dc_Browse D n c)) \<and>
     (\<forall>n c t. runs I any_end (from_nodes U) (dc_BrowseWithResultTypeFilter D n c t)) \<and>
     (\<forall>n q. runs I any_end (\<lambda>r. NodeId_isNull r \<or> r \<in> U) (dc_TranslateBrowsePathToNodeId D n q)) \<and>
     (\<forall>n cb. runs I throws_only (\<lambda>_. True) (dc_Subscribe D n cb)) \<and>
     (\<forall>a b. runs I throws_only (\<lambda>_. True) (dc_Unsubscribe D a b)) \<and>
     (\<forall>a b k. runs I any_end (\<lambda>_. True) (dc_isSameOrSubtype D a b k)) \<and>
     (\<forall>n. runs I any_end (\<lambda>_. True) (dc_readNodeBrowseName D n)) \<and>
     (\<forall>ns. runs I any_end (\<lambda>_. True) (dc_ReadeNodeValues D ns)) \<and>
     runs I any_end (\<lambda>_. True) (dc_VerifyConnection D)"

lemma throws_only_simps [simp]:
  "throws_only (Throw x)" "\<not> throws_only Undefined" "\<not> throws_only OutOfFuel"
  by (simp_all add: throws_only_def)

lemma any_end_simps [simp]: "any_end (Throw x)" "any_end Undefined" "\<not> any_end OutOfFuel"
  by (simp_all add: any_end_def)

lemma throws_any_end: "throws_only e \<Longrightarrow> any_end e"
  by (auto simp: throws_only_def)

text \<open>More nodes than those that are found do no harm.\<close>

lemma client_ok_mono: "client_ok I U D \<Longrightarrow> U \<subseteq> U' \<Longrightarrow> client_ok I U' D"
  unfolding client_ok_def from_nodes_def
  by (elim conjE, intro conjI allI) (erule allE | (erule runs_weaken; blast) | assumption)+

end
