(* ===== verification/Type_Heap.thy ===== *)
theory Type_Heap
  imports Ua_Model
begin

text \<open>
  \<^verbatim>\<open>ModelOpcUa/ModelDefinition\<close>: the type nodes. A \<^verbatim>\<open>StructureNode\<close> holds a shared
  pointer to the list of its children, and several nodes share one list, so nodes and lists
  live in a heap: the address of an object is its position. Objects are never moved.
\<close>

record StructureNode = NodeDefinition +
  SpecifiedChildNodes :: nat
  ofBaseDataVariableType :: bool

record StructureBiNode =
  structureNode :: nat
  parent :: "nat option"
  namespaceUri :: string
  isType :: bool
  biOfBaseDataVariableType :: bool
  SpecifiedBiChildNodes :: "nat list"

record type_heap =
  th_nodes :: "StructureNode list"
  th_lists :: "nat list list"
  th_bis :: "StructureBiNode list"

definition empty_heap :: type_heap where
  "empty_heap = \<lparr>th_nodes = [], th_lists = [], th_bis = []\<rparr>"

abbreviation sn_at :: "type_heap \<Rightarrow> nat \<Rightarrow> StructureNode" where
  "sn_at h a \<equiv> th_nodes h ! a"

abbreviation bi_at :: "type_heap \<Rightarrow> nat \<Rightarrow> StructureBiNode" where
  "bi_at h a \<equiv> th_bis h ! a"

abbreviation children_at :: "type_heap \<Rightarrow> nat \<Rightarrow> nat list" where
  "children_at h a \<equiv> th_lists h ! SpecifiedChildNodes (sn_at h a)"

text \<open>\<^verbatim>\<open>make_shared\<close> for the three kinds of objects: the address and the new heap.\<close>

definition new_list :: "nat list \<Rightarrow> type_heap \<Rightarrow> nat \<times> type_heap" where
  "new_list xs h = (length (th_lists h), h\<lparr>th_lists := th_lists h @ [xs]\<rparr>)"

definition new_node :: "StructureNode \<Rightarrow> type_heap \<Rightarrow> nat \<times> type_heap" where
  "new_node n h = (length (th_nodes h), h\<lparr>th_nodes := th_nodes h @ [n]\<rparr>)"

definition new_bi :: "StructureBiNode \<Rightarrow> type_heap \<Rightarrow> nat \<times> type_heap" where
  "new_bi b h = (length (th_bis h), h\<lparr>th_bis := th_bis h @ [b]\<rparr>)"

definition set_children :: "nat \<Rightarrow> nat list \<Rightarrow> type_heap \<Rightarrow> type_heap" where
  "set_children l xs h = h\<lparr>th_lists := (th_lists h)[l := xs]\<rparr>"

definition set_node :: "nat \<Rightarrow> StructureNode \<Rightarrow> type_heap \<Rightarrow> type_heap" where
  "set_node a n h = h\<lparr>th_nodes := (th_nodes h)[a := n]\<rparr>"

section \<open>Constructors\<close>

text \<open>The constructor with all fields given.\<close>

definition StructureNode_full ::
    "NodeClass_t \<Rightarrow> ModellingRule_t \<Rightarrow> NodeId_t \<Rightarrow> NodeId_t \<Rightarrow> QualifiedName_t \<Rightarrow> bool \<Rightarrow> nat \<Rightarrow> StructureNode" where
  "StructureNode_full nodeClass modellingRule referenceType specifiedTypeNodeId specifiedBrowseName base childNodes =
     \<lparr>ModellingRule = modellingRule, NodeClass = nodeClass, ReferenceType = referenceType,
      SpecifiedTypeNodeId = specifiedTypeNodeId, SpecifiedBrowseName = specifiedBrowseName,
      SpecifiedChildNodes = childNodes, ofBaseDataVariableType = base\<rparr>"

text \<open>The copy constructors: one renames and shares the child list, one replaces the list.\<close>

definition StructureNode_renamed :: "StructureNode \<Rightarrow> QualifiedName_t \<Rightarrow> StructureNode" where
  "StructureNode_renamed n browseName = n\<lparr>SpecifiedBrowseName := browseName\<rparr>"

definition StructureNode_relisted :: "StructureNode \<Rightarrow> bool \<Rightarrow> nat \<Rightarrow> StructureNode" where
  "StructureNode_relisted n base childNodes =
     n\<lparr>SpecifiedChildNodes := childNodes, ofBaseDataVariableType := base\<rparr>"

text \<open>The constructors from a browse result; the shorter one makes the node optional.\<close>

definition StructureNode_browse_rule ::
    "BrowseResult_t \<Rightarrow> nat \<Rightarrow> ModellingRule_t \<Rightarrow> bool \<Rightarrow> StructureNode" where
  "StructureNode_browse_rule browseResult childNodes modellingRule base =
     StructureNode_full (brNodeClass browseResult) modellingRule (brReferenceTypeId browseResult)
       (brTypeDefinition browseResult) (brBrowseName browseResult) base childNodes"

definition StructureNode_browse :: "BrowseResult_t \<Rightarrow> bool \<Rightarrow> nat \<Rightarrow> StructureNode" where
  "StructureNode_browse browseResult base childNodes =
     StructureNode_full (brNodeClass browseResult) Optional (brReferenceTypeId browseResult)
       (brTypeDefinition browseResult) (brBrowseName browseResult) base childNodes"

text \<open>
  \<^verbatim>\<open>StructurePlaceholderNode\<close> of a node copies every field and shares the child list; its
  list of possible types stays empty.
\<close>

definition StructurePlaceholderNode_of :: "StructureNode \<Rightarrow> StructureNode" where
  "StructurePlaceholderNode_of n =
     StructureNode_full (NodeClass n) (ModellingRule n) (ReferenceType n) (SpecifiedTypeNodeId n)
       (SpecifiedBrowseName n) (ofBaseDataVariableType n) (SpecifiedChildNodes n)"

text \<open>
  \<^verbatim>\<open>StructureBiNode\<close>: the constructor allocates the structure node over the given child
  list. It ignores \<^verbatim>\<open>ofBaseDataVariableType\<close> for its own field, which keeps the default.
\<close>

definition StructureBiNode_new ::
    "BrowseResult_t \<Rightarrow> bool \<Rightarrow> nat \<Rightarrow> nat option \<Rightarrow> string \<Rightarrow> ModellingRule_t \<Rightarrow> type_heap \<Rightarrow> nat \<times> type_heap" where
  "StructureBiNode_new browseResult base childNodes par nsUri modellingRule h =
     (let (sn, h1) = new_node (StructureNode_browse_rule browseResult childNodes modellingRule base) h
      in new_bi \<lparr>structureNode = sn, parent = par, namespaceUri = nsUri, isType = False,
                biOfBaseDataVariableType = False, SpecifiedBiChildNodes = []\<rparr> h1)"

text \<open>
  The two constructors that the program does not use. The shorter one makes an optional node and
  ignores its flag altogether.
\<close>

definition StructureBiNode_browse ::
    "BrowseResult_t \<Rightarrow> bool \<Rightarrow> nat \<Rightarrow> nat option \<Rightarrow> string \<Rightarrow> type_heap \<Rightarrow> nat \<times> type_heap" where
  "StructureBiNode_browse browseResult base childNodes par nsUri h =
     (let (sn, h1) = new_node (StructureNode_browse browseResult False childNodes) h
      in new_bi \<lparr>structureNode = sn, parent = par, namespaceUri = nsUri, isType = False,
                biOfBaseDataVariableType = False, SpecifiedBiChildNodes = []\<rparr> h1)"

definition StructureBiNode_full ::
    "NodeClass_t \<Rightarrow> ModellingRule_t \<Rightarrow> NodeId_t \<Rightarrow> NodeId_t \<Rightarrow> QualifiedName_t \<Rightarrow> bool \<Rightarrow> nat \<Rightarrow>
      nat option \<Rightarrow> string \<Rightarrow> type_heap \<Rightarrow> nat \<times> type_heap" where
  "StructureBiNode_full nodeClass modellingRule referenceType specifiedTypeNodeId specifiedBrowseName base
       childNodes par nsUri h =
     (let (sn, h1) = new_node (StructureNode_full nodeClass modellingRule referenceType specifiedTypeNodeId
            specifiedBrowseName base childNodes) h
      in new_bi \<lparr>structureNode = sn, parent = par, namespaceUri = nsUri, isType = False,
                biOfBaseDataVariableType = False, SpecifiedBiChildNodes = []\<rparr> h1)"

text \<open>
  A placeholder from its fields: the node and its possible types. \<open>None\<close> is the failure of the
  assertion that the rule is one of the two placeholder rules.
\<close>

definition StructurePlaceholderNode_new ::
    "NodeClass_t \<Rightarrow> ModellingRule_t \<Rightarrow> NodeId_t \<Rightarrow> NodeId_t \<Rightarrow> QualifiedName_t \<Rightarrow> bool \<Rightarrow> nat \<Rightarrow> nat list \<Rightarrow>
      (StructureNode \<times> nat list) option" where
  "StructurePlaceholderNode_new nodeClass modellingRule referenceType specifiedTypeNodeId specifiedBrowseName base
       childNodes possibleTypes =
     (if modellingRule = MandatoryPlaceholder \<or> modellingRule = OptionalPlaceholder
      then Some (StructureNode_full nodeClass modellingRule referenceType specifiedTypeNodeId specifiedBrowseName
        base childNodes, possibleTypes)
      else None)"

text \<open>The copy of a node into a placeholder skips the assertion, but agrees where it holds.\<close>

lemma StructurePlaceholderNode_of_new:
  "StructurePlaceholderNode_new (NodeClass n) (ModellingRule n) (ReferenceType n) (SpecifiedTypeNodeId n)
     (SpecifiedBrowseName n) (ofBaseDataVariableType n) (SpecifiedChildNodes n) ts = Some (p, ts') \<Longrightarrow>
   p = StructurePlaceholderNode_of n"
  by (simp add: StructurePlaceholderNode_new_def StructurePlaceholderNode_of_def split: if_splits)

section \<open>Well-formed heaps\<close>

text \<open>
  Every pointer is valid. The children of a bidirectional node were made after it, so its
  subtree is finite, and its parent was made before it.
\<close>

definition node_ok :: "type_heap \<Rightarrow> StructureNode \<Rightarrow> bool" where
  "node_ok h n \<longleftrightarrow> SpecifiedChildNodes n < length (th_lists h)"

definition bi_ok :: "type_heap \<Rightarrow> nat \<Rightarrow> StructureBiNode \<Rightarrow> bool" where
  "bi_ok h a b \<longleftrightarrow> structureNode b < length (th_nodes h) \<and>
     (\<forall>p. parent b = Some p \<longrightarrow> p < a) \<and>
     (\<forall>c \<in> set (SpecifiedBiChildNodes b). a < c \<and> c < length (th_bis h))"

definition heap_ok :: "type_heap \<Rightarrow> bool" where
  "heap_ok h \<longleftrightarrow>
     (\<forall>a < length (th_nodes h). node_ok h (sn_at h a)) \<and>
     (\<forall>l < length (th_lists h). \<forall>c \<in> set (th_lists h ! l). c < length (th_nodes h)) \<and>
     (\<forall>a < length (th_bis h). bi_ok h a (bi_at h a))"

lemma heap_ok_empty: "heap_ok empty_heap"
  by (simp add: heap_ok_def empty_heap_def)

lemma heap_ok_node: "heap_ok h \<Longrightarrow> a < length (th_nodes h) \<Longrightarrow> SpecifiedChildNodes (sn_at h a) < length (th_lists h)"
  by (simp add: heap_ok_def node_ok_def)

lemma heap_ok_child: "heap_ok h \<Longrightarrow> a < length (th_nodes h) \<Longrightarrow> c \<in> set (children_at h a) \<Longrightarrow> c < length (th_nodes h)"
  by (meson heap_ok_def heap_ok_node)

lemma heap_ok_list: "heap_ok h \<Longrightarrow> l < length (th_lists h) \<Longrightarrow> c \<in> set (th_lists h ! l) \<Longrightarrow> c < length (th_nodes h)"
  by (simp add: heap_ok_def)

lemma heap_ok_bi: "heap_ok h \<Longrightarrow> a < length (th_bis h) \<Longrightarrow> bi_ok h a (bi_at h a)"
  by (simp add: heap_ok_def)

lemma heap_okI:
  assumes "\<And>a. a < length (th_nodes h) \<Longrightarrow> node_ok h (sn_at h a)"
    and "\<And>l c. l < length (th_lists h) \<Longrightarrow> c \<in> set (th_lists h ! l) \<Longrightarrow> c < length (th_nodes h)"
    and "\<And>a. a < length (th_bis h) \<Longrightarrow> bi_ok h a (bi_at h a)"
  shows "heap_ok h"
  using assms unfolding heap_ok_def by blast

lemma bi_ok_mono:
  assumes "bi_ok h a b" and "length (th_nodes h) \<le> length (th_nodes h')"
    and "length (th_bis h) \<le> length (th_bis h')"
  shows "bi_ok h' a b"
  using assms unfolding bi_ok_def by (meson order_less_le_trans)

lemma heap_ok_new_list:
  assumes "heap_ok h" and "\<forall>c \<in> set xs. c < length (th_nodes h)"
  shows "heap_ok (snd (new_list xs h))"
proof (rule heap_okI)
  fix a assume "a < length (th_nodes (snd (new_list xs h)))"
  with heap_ok_node [OF assms(1), of a] show "node_ok (snd (new_list xs h)) (sn_at (snd (new_list xs h)) a)"
    by (simp add: new_list_def node_ok_def)
next
  fix l c assume "l < length (th_lists (snd (new_list xs h)))" "c \<in> set (th_lists (snd (new_list xs h)) ! l)"
  then show "c < length (th_nodes (snd (new_list xs h)))"
    using assms(2) heap_ok_list [OF assms(1), of l c]
    by (cases "l < length (th_lists h)") (simp_all add: new_list_def nth_append)
next
  fix a assume "a < length (th_bis (snd (new_list xs h)))"
  with heap_ok_bi [OF assms(1), of a] show "bi_ok (snd (new_list xs h)) a (bi_at (snd (new_list xs h)) a)"
    by (simp add: new_list_def bi_ok_mono [of h])
qed

lemma heap_ok_new_node:
  assumes "heap_ok h" and "node_ok h n"
  shows "heap_ok (snd (new_node n h))"
proof (rule heap_okI)
  fix a assume "a < length (th_nodes (snd (new_node n h)))"
  with heap_ok_node [OF assms(1), of a] assms(2)
  show "node_ok (snd (new_node n h)) (sn_at (snd (new_node n h)) a)"
    by (cases "a < length (th_nodes h)") (simp_all add: new_node_def node_ok_def nth_append)
next
  fix l c assume "l < length (th_lists (snd (new_node n h)))" "c \<in> set (th_lists (snd (new_node n h)) ! l)"
  then show "c < length (th_nodes (snd (new_node n h)))"
    using heap_ok_list [OF assms(1), of l c] by (simp add: new_node_def)
next
  fix a assume "a < length (th_bis (snd (new_node n h)))"
  with heap_ok_bi [OF assms(1), of a] show "bi_ok (snd (new_node n h)) a (bi_at (snd (new_node n h)) a)"
    by (simp add: new_node_def bi_ok_mono [of h])
qed

lemma heap_ok_new_bi:
  assumes "heap_ok h" and "structureNode b < length (th_nodes h)"
    and "\<forall>p. parent b = Some p \<longrightarrow> p < length (th_bis h)" and "SpecifiedBiChildNodes b = []"
  shows "heap_ok (snd (new_bi b h))"
proof (rule heap_okI)
  fix a assume "a < length (th_nodes (snd (new_bi b h)))"
  with heap_ok_node [OF assms(1), of a]
  show "node_ok (snd (new_bi b h)) (sn_at (snd (new_bi b h)) a)"
    by (simp add: new_bi_def node_ok_def)
next
  fix l c assume "l < length (th_lists (snd (new_bi b h)))" "c \<in> set (th_lists (snd (new_bi b h)) ! l)"
  then show "c < length (th_nodes (snd (new_bi b h)))"
    using heap_ok_list [OF assms(1), of l c] by (simp add: new_bi_def)
next
  fix a assume "a < length (th_bis (snd (new_bi b h)))"
  then show "bi_ok (snd (new_bi b h)) a (bi_at (snd (new_bi b h)) a)"
  proof (cases "a < length (th_bis h)")
    case True
    with heap_ok_bi [OF assms(1) True] show ?thesis
      by (simp add: new_bi_def nth_append bi_ok_mono [of h])
  next
    case False
    with \<open>a < length (th_bis (snd (new_bi b h)))\<close> have "a = length (th_bis h)"
      by (simp add: new_bi_def)
    with assms(2-4) show ?thesis by (simp add: new_bi_def bi_ok_def)
  qed
qed

lemma heap_ok_set_children:
  assumes "heap_ok h" and "\<forall>c \<in> set xs. c < length (th_nodes h)"
  shows "heap_ok (set_children l xs h)"
proof (rule heap_okI)
  fix a assume "a < length (th_nodes (set_children l xs h))"
  with heap_ok_node [OF assms(1), of a] show "node_ok (set_children l xs h) (sn_at (set_children l xs h) a)"
    by (simp add: set_children_def node_ok_def)
next
  fix k c assume k: "k < length (th_lists (set_children l xs h))" "c \<in> set (th_lists (set_children l xs h) ! k)"
  then show "c < length (th_nodes (set_children l xs h))"
    using assms(2) heap_ok_list [OF assms(1), of k c]
    by (cases "k = l") (simp_all add: set_children_def)
next
  fix a assume "a < length (th_bis (set_children l xs h))"
  with heap_ok_bi [OF assms(1), of a] show "bi_ok (set_children l xs h) a (bi_at (set_children l xs h) a)"
    by (simp add: set_children_def bi_ok_mono [of h])
qed

lemma heap_ok_set_node:
  assumes "heap_ok h" and "node_ok h n"
  shows "heap_ok (set_node a n h)"
proof (rule heap_okI)
  fix b assume "b < length (th_nodes (set_node a n h))"
  with heap_ok_node [OF assms(1), of b] assms(2)
  show "node_ok (set_node a n h) (sn_at (set_node a n h) b)"
    by (cases "a = b") (simp_all add: set_node_def node_ok_def)
next
  fix k c assume "k < length (th_lists (set_node a n h))" "c \<in> set (th_lists (set_node a n h) ! k)"
  then show "c < length (th_nodes (set_node a n h))"
    using heap_ok_list [OF assms(1), of k c] by (simp add: set_node_def)
next
  fix b assume "b < length (th_bis (set_node a n h))"
  with heap_ok_bi [OF assms(1), of b] show "bi_ok (set_node a n h) b (bi_at (set_node a n h) b)"
    by (simp add: set_node_def bi_ok_mono [of h])
qed

end
