(* ===== verification/Model_To_Json.thy ===== *)
theory Model_To_Json
  imports Json Ua_Model
begin

text \<open>
  \<^verbatim>\<open>DashboardClient/Converter/ModelToJson.cpp\<close>: the payload of a machine. The
  callback \<open>getValue\<close> reads the last value of a node by its pointer; \<open>dump\<close> is the
  serialization of the JSON library. The three functions are the constructor and its two
  loops, over the child nodes with the names already visited, and over the instances of a
  placeholder.
\<close>

definition isBaseDataVariableType :: "Node \<Rightarrow> bool" where
  "isBaseDataVariableType n \<longleftrightarrow>
     (Class_of n = Variable \<or> Class_of n = VariableType) \<and>
     \<not> NodeId_eq (simpleNodeId n) NodeId_PropertyType"

fun nodeClassToString :: "NodeClass_t \<Rightarrow> string" where
  "nodeClassToString Object = ''Object''"
| "nodeClassToString Variable = ''Variable''"
| "nodeClassToString _ = ''Unknown''"

fun ModelToJson ::
    "(nat \<Rightarrow> json \<Rightarrow> exn + string) \<Rightarrow> (nat \<Rightarrow> json) \<Rightarrow> bool \<Rightarrow> bool \<Rightarrow> bool \<Rightarrow> Node \<Rightarrow> exn + json"
  and ModelToJson_children ::
    "(nat \<Rightarrow> json \<Rightarrow> exn + string) \<Rightarrow> (nat \<Rightarrow> json) \<Rightarrow> bool \<Rightarrow> bool \<Rightarrow> bool \<Rightarrow> Node list \<Rightarrow>
     QualifiedName_t list \<Rightarrow> json \<Rightarrow> exn + json"
  and ModelToJson_instances ::
    "(nat \<Rightarrow> json \<Rightarrow> exn + string) \<Rightarrow> (nat \<Rightarrow> json) \<Rightarrow> bool \<Rightarrow> bool \<Rightarrow> bool \<Rightarrow> PlaceholderElement list \<Rightarrow>
     json \<Rightarrow> exn + json"
where
  "ModelToJson dump getValue serializeNodeInformation nestAsChildren publishNullValues
      (SimpleNode ptr def cs nid tid b) =
     (if ModellingRule def = Mandatory \<or> ModellingRule def = Optional then
        ebind
          (if serializeNodeInformation
           then ebind (json_put ''nodeId'' (JStr (NodeId_to_string nid)) JNull)
                  (json_put ''specifiedTypeNodeId'' (JStr (NodeId_to_string (SpecifiedTypeNodeId def))))
           else Inr JNull) (\<lambda>j0.
        ebind
          (if NodeClass def = Variable \<or> NodeClass def = VariableType
           then (if nestAsChildren \<or>
                    isBaseDataVariableType (SimpleNode ptr def cs nid tid b) \<and> cs \<noteq> []
                 then json_put ''value'' (getValue ptr) j0
                 else Inr (getValue ptr))
           else Inr j0) (\<lambda>j1.
        ebind (ModelToJson_children dump getValue serializeNodeInformation nestAsChildren
                 publishNullValues cs [] JNull) (\<lambda>children.
        if json_empty children then Inr j1
        else if nestAsChildren then json_put ''children'' children j1
        else if isBaseDataVariableType (SimpleNode ptr def cs nid tid b)
        then json_put ''properties'' children j1
        else Inr children)))
      else Inr JNull)"
| "ModelToJson dump getValue serializeNodeInformation nestAsChildren publishNullValues
      (PlaceholderNode ptr def insts) =
     (if ModellingRule def = MandatoryPlaceholder \<or> ModellingRule def = OptionalPlaceholder then
        ebind (ModelToJson_instances dump getValue serializeNodeInformation nestAsChildren
                 publishNullValues insts JNull) (\<lambda>els.
        if serializeNodeInformation then json_put ''placeholderElements'' els JNull
        else Inr els)
      else Inr JNull)"
| "ModelToJson_children dump getValue serializeNodeInformation nestAsChildren publishNullValues
      [] visited children = Inr children"
| "ModelToJson_children dump getValue serializeNodeInformation nestAsChildren publishNullValues
      (c # cs) visited children =
     (if BrowseName_of c \<in> set visited
      then ModelToJson_children dump getValue serializeNodeInformation nestAsChildren
             publishNullValues cs visited children
      else ebind (ModelToJson dump getValue serializeNodeInformation nestAsChildren
                    publishNullValues c) (\<lambda>j.
        ebind (if publishNullValues then Inr True
               else ebind (dump 0 j) (\<lambda>s. Inr (s \<noteq> ''null''))) (\<lambda>keep.
        ebind (if keep then json_put (qName (BrowseName_of c)) j children else Inr children)
          (\<lambda>children'.
        ModelToJson_children dump getValue serializeNodeInformation nestAsChildren
          publishNullValues cs (visited @ [BrowseName_of c]) children'))))"
| "ModelToJson_instances dump getValue serializeNodeInformation nestAsChildren publishNullValues
      [] els = Inr els"
| "ModelToJson_instances dump getValue serializeNodeInformation nestAsChildren publishNullValues
      (PlaceholderElement n bn td # es) els =
     ebind (ModelToJson dump getValue serializeNodeInformation nestAsChildren
              publishNullValues n) (\<lambda>el.
     ebind (json_put ''$TypeDefinition'' (JStr (NodeId_to_string td)) el) (\<lambda>el'.
     ebind (json_put (qName bn) el' els) (\<lambda>els'.
     ModelToJson_instances dump getValue serializeNodeInformation nestAsChildren
       publishNullValues es els')))"

text \<open>The defaults that \<^verbatim>\<open>getJson\<close> uses.\<close>

abbreviation payload :: "(nat \<Rightarrow> json \<Rightarrow> exn + string) \<Rightarrow> (nat \<Rightarrow> json) \<Rightarrow> Node \<Rightarrow> exn + json" where
  "payload dump getValue \<equiv> ModelToJson dump getValue False False False"

section \<open>The members of an object\<close>

text \<open>The children that are written: the first one of each browse name.\<close>

fun first_named :: "Node list \<Rightarrow> QualifiedName_t list \<Rightarrow> Node list" where
  "first_named [] visited = []"
| "first_named (c # cs) visited =
     (if BrowseName_of c \<in> set visited then first_named cs visited
      else c # first_named cs (visited @ [BrowseName_of c]))"

definition object_of :: "(string \<times> json) list \<Rightarrow> json" where
  "object_of ms = (if ms = [] then JNull else JObj (fold (\<lambda>(k, v). sm_assign k v) ms []))"

definition members_of :: "(Node \<Rightarrow> json) \<Rightarrow> Node list \<Rightarrow> (string \<times> json) list" where
  "members_of f cs = [(qName (BrowseName_of c), f c). c \<leftarrow> cs, \<not> dumps_null (f c)]"

lemma members_of_simps [simp]:
  "members_of f [] = []"
  "members_of f (c # cs) = (if dumps_null (f c) then [] else [(qName (BrowseName_of c), f c)]) @ members_of f cs"
  by (simp_all add: members_of_def)

lemma sm_assign_not_Nil [simp]: "sm_assign k v m \<noteq> []"
  by (cases "(k, v, m)" rule: sm_assign.cases) auto

lemma json_put_object_of: "json_put k v (object_of ms) = Inr (object_of (ms @ [(k, v)]))"
  by (cases "ms = []") (simp_all add: object_of_def)

lemma json_empty_object_of [simp]: "json_empty (object_of ms) \<longleftrightarrow> ms = []"
proof (cases ms rule: rev_cases)
  case (snoc ns p)
  then show ?thesis by (cases p) (auto simp: object_of_def)
qed (simp add: object_of_def)

lemma first_named_distinct:
  "distinct (map BrowseName_of (first_named cs visited)) \<and>
   set (map BrowseName_of (first_named cs visited)) = set (map BrowseName_of cs) - set visited"
  by (induction cs visited rule: first_named.induct) (auto simp: image_iff)

lemma ModelToJson_children_members:
  assumes "dump_ok dump"
    and "\<And>c. c \<in> set (first_named cs visited) \<Longrightarrow>
      payload dump getValue c = Inr (f c) \<and> (\<exists>s. dump 0 (f c) = Inr s)"
  shows "ModelToJson_children dump getValue False False False cs visited (object_of ms) =
    Inr (object_of (ms @ members_of f (first_named cs visited)))"
  using assms(2)
proof (induction cs arbitrary: visited ms)
  case (Cons c cs)
  show ?case
  proof (cases "BrowseName_of c \<in> set visited")
    case False
    with Cons.prems [of c] obtain s where c: "payload dump getValue c = Inr (f c)"
      and s: "dump 0 (f c) = Inr s" by auto
    have "s = ''null'' \<longleftrightarrow> dumps_null (f c)" using dump_okD [OF assms(1) s] .
    with False Cons.IH [of "visited @ [BrowseName_of c]"] Cons.prems c s show ?thesis
      by (auto simp: json_put_object_of)
  qed (use Cons in auto)
qed simp

text \<open>
  C21: the payload of an object node is exactly the object of its present children. Each
  child is converted once; of several children with the same qualified browse name only the
  first counts; a child whose value is written as the text null is left out, which is null itself and
  every floating-point number that is infinite or no number; and an object without any value is
  written as null, which the publisher later skips. Because the member key is the bare name,
  of two children with the same name in different namespaces the later one replaces the other.
\<close>

theorem ModelToJson_object_payload:
  assumes "dump_ok dump"
    and "ModellingRule def = Mandatory \<or> ModellingRule def = Optional"
    and "NodeClass def \<noteq> Variable" and "NodeClass def \<noteq> VariableType"
    and "\<And>c. c \<in> set (first_named cs []) \<Longrightarrow>
      payload dump getValue c = Inr (f c) \<and> (\<exists>s. dump 0 (f c) = Inr s)"
  shows "payload dump getValue (SimpleNode ptr def cs nid tid b) =
    Inr (object_of (members_of f (first_named cs [])))"
proof -
  have "ModelToJson_children dump getValue False False False cs [] JNull =
      Inr (object_of (members_of f (first_named cs [])))"
    using ModelToJson_children_members [OF assms(1), of cs "[]" getValue f "[]"] assms(5)
    by (simp add: object_of_def)
  moreover have "object_of [] = JNull" by (simp add: object_of_def)
  ultimately show ?thesis using assms(2-4)
    by (cases "members_of f (first_named cs []) = []") (auto simp: isBaseDataVariableType_def)
qed

definition example_dump :: "nat \<Rightarrow> json \<Rightarrow> exn + string" where
  "example_dump indent j = Inr (if dumps_null j then ''null'' else ''{}'')"

lemma dump_ok_example: "dump_ok example_dump"
  by (auto simp: dump_ok_def example_dump_def)

definition example_def :: "ModellingRule_t \<Rightarrow> NodeClass_t \<Rightarrow> string \<Rightarrow> NodeDefinition" where
  "example_def rule cls name =
     \<lparr>ModellingRule = rule, NodeClass = cls, ReferenceType = NodeId_HasComponent,
      SpecifiedTypeNodeId = NodeId '''' ''i=63'', SpecifiedBrowseName = QualifiedName '''' name\<rparr>"

definition example_variable :: "nat \<Rightarrow> string \<Rightarrow> Node" where
  "example_variable ptr name =
     SimpleNode ptr (example_def Mandatory Variable name) [] (NodeId ''urn:x'' name) (NodeId '''' ''i=63'') True"

theorem ModelToJson_object_payload_witness:
  "payload example_dump (\<lambda>p. if p = 1 then JInt 7 else JReal (OfDouble 0x7FF8000000000000))
     (SimpleNode 3 (example_def Mandatory Object ''Machine'')
        [example_variable 1 ''A'', example_variable 2 ''B'', example_variable 5 ''A'']
        (NodeId ''urn:x'' ''m'') (NodeId '''' ''i=58'') False) =
   Inr (JObj [(''A'', JInt 7)])"
proof -
  define cs where "cs = [example_variable 1 ''A'', example_variable 2 ''B'', example_variable 5 ''A'']"
  define f where "f = (\<lambda>c. if node_ptr c = 1 then JInt 7 else JReal (OfDouble 0x7FF8000000000000))"
  note ex = example_def_def example_variable_def example_dump_def
  have sel: "first_named cs [] = [example_variable 1 ''A'', example_variable 2 ''B'']"
    by (simp add: cs_def ex)
  have "payload example_dump (\<lambda>p. if p = 1 then JInt 7 else JReal (OfDouble 0x7FF8000000000000))
      (SimpleNode 3 (example_def Mandatory Object ''Machine'') cs
        (NodeId ''urn:x'' ''m'') (NodeId '''' ''i=58'') False) =
      Inr (object_of (members_of f (first_named cs [])))"
    by (rule ModelToJson_object_payload [OF dump_ok_example])
      (auto simp: sel f_def ex)
  then show ?thesis unfolding sel unfolding cs_def
    by (simp add: f_def ex object_of_def)
qed

section \<open>Errors\<close>

lemma ModelToJson_instances_total:
  "json_open els \<Longrightarrow>
   (\<exists>j. ModelToJson_instances dump getValue False False False es els = Inr j) \<longleftrightarrow>
   list_all (\<lambda>e. \<exists>j. payload dump getValue (elNode e) = Inr j \<and> json_open j) es"
proof (induction es arbitrary: els)
  case (Cons e es)
  obtain n bn td where e: "e = PlaceholderElement n bn td" by (cases e)
  show ?case
  proof (cases "payload dump getValue n")
    case (Inr el)
    show ?thesis
    proof (cases "json_open el")
      case True
      then obtain el' where el': "json_put ''$TypeDefinition'' (JStr (NodeId_to_string td)) el = Inr el'"
        using json_put_open by blast
      obtain els' where els': "json_put (qName bn) el' els = Inr els'"
        using Cons.prems json_put_open by blast
      show ?thesis using e Inr True el' els' Cons.IH [OF json_open_put [OF els']] by simp
    next
      case False
      then have "json_put ''$TypeDefinition'' (JStr (NodeId_to_string td)) el = Inl type_error"
        by (simp add: json_put_Inl)
      with e Inr False show ?thesis by simp
    qed
  qed (use e in simp)
qed simp

text \<open>
  C22: a placeholder is converted without an exception if and only if every instance converts
  to an object or to null. An instance that is a variable without children converts to its
  bare value, so one numeric value among the instances makes the conversion of the whole
  machine throw: the constructor writes the member that names the type into a number.
\<close>

theorem ModelToJson_placeholder_total:
  assumes "ModellingRule def = MandatoryPlaceholder \<or> ModellingRule def = OptionalPlaceholder"
  shows "(\<exists>j. payload dump getValue (PlaceholderNode ptr def es) = Inr j) \<longleftrightarrow>
    list_all (\<lambda>e. \<exists>j. payload dump getValue (elNode e) = Inr j \<and> json_open j) es"
proof -
  have "json_open JNull" by (simp add: json_open_def)
  from ModelToJson_instances_total [OF this, of dump getValue es] show ?thesis
    using assms by (auto simp: ebind_Inr_iff)
qed

theorem ModelToJson_placeholder_total_witness:
  "\<not> (\<exists>j. payload example_dump (\<lambda>p. JInt 7)
       (PlaceholderNode 3 (example_def OptionalPlaceholder Object ''Channel'')
          [PlaceholderElement (example_variable 1 ''A'') (QualifiedName '''' ''A'') (NodeId '''' ''i=63'')]) = Inr j)"
  by (subst ModelToJson_placeholder_total)
    (auto simp: example_def_def example_variable_def json_open_def json_is_object_def isBaseDataVariableType_def)

section \<open>Well-formed payloads\<close>

lemma ModelToJson_children_ok:
  assumes "\<And>c. c \<in> set cs \<Longrightarrow> gives json_ok (ModelToJson dump getValue ser nest pub c)" and "json_ok acc"
  shows "gives json_ok (ModelToJson_children dump getValue ser nest pub cs visited acc)"
  using assms
proof (induction cs arbitrary: visited acc)
  case (Cons c cs)
  have keep: "gives (\<lambda>_. True) (if pub then Inr True else ebind (dump 0 j) (\<lambda>s. Inr (s \<noteq> w)))" for j w
    by simp
  show ?case
    unfolding ModelToJson_children.simps
    by (intro gives_if gives_ebind [where R = json_ok, OF _ gives_ebind [OF keep gives_ebind]]
        gives_put Cons.IH) (simp_all add: Cons.prems gives_put)
qed simp

lemma ModelToJson_instances_ok:
  assumes "\<And>e. e \<in> set es \<Longrightarrow> gives json_ok (ModelToJson dump getValue ser nest pub (elNode e))"
    and "json_ok acc"
  shows "gives json_ok (ModelToJson_instances dump getValue ser nest pub es acc)"
  using assms
proof (induction es arbitrary: acc)
  case (Cons e es)
  obtain n bn td where e: "e = PlaceholderElement n bn td" by (cases e)
  with Cons.prems(1) [of e] have "gives json_ok (ModelToJson dump getValue ser nest pub n)" by simp
  then show ?case
    unfolding e ModelToJson_instances.simps
    by (intro gives_ebind [where R = json_ok] gives_put Cons.IH) (simp_all add: Cons.prems)
qed simp

lemma ModelToJson_ok:
  assumes vals: "\<And>p. json_ok (getValue p)"
  shows "gives json_ok (ModelToJson dump getValue ser nest pub n)"
proof (induction n rule: Node.induct
    [where ?P2.0 = "\<lambda>e. gives json_ok (ModelToJson dump getValue ser nest pub (elNode e))"])
  case (SimpleNode ptr def cs nid tid b)
  show ?case
    unfolding ModelToJson.simps
    by (intro gives_if gives_ebind [where R = json_ok] gives_put ModelToJson_children_ok SimpleNode)
      (simp_all add: vals)
next
  case (PlaceholderNode ptr def insts)
  show ?case
    unfolding ModelToJson.simps
    by (intro gives_if gives_ebind [where R = json_ok] gives_put ModelToJson_instances_ok PlaceholderNode) simp_all
qed simp

text \<open>
  Every payload is well formed: when the values received from the server are JSON values
  whose objects are maps, so is the result, for every setting of the three flags.
\<close>

theorem ModelToJson_well_formed:
  assumes "\<And>p. json_ok (getValue p)" and "ModelToJson dump getValue ser nest pub n = Inr j"
  shows "json_ok j"
  using ModelToJson_ok [of getValue dump ser nest pub n] assms by simp

theorem ModelToJson_well_formed_witness:
  "json_ok (JObj [(''A'', JInt 7)])"
  by (rule ModelToJson_well_formed [of "\<lambda>p. JInt 7" example_dump False False False
        "SimpleNode 3 (example_def Mandatory Object ''Machine'') [example_variable 1 ''A'']
           (NodeId ''urn:x'' ''m'') (NodeId '''' ''i=58'') False"])
    (simp_all add: example_def_def example_variable_def example_dump_def isBaseDataVariableType_def)

end
