(* ===== verification/Dashboard_Client.thy ===== *)
theory Dashboard_Client
  imports Data_Client Type_Heap Model_To_Json
begin

text \<open>
  \<^verbatim>\<open>DashboardClient/DashboardClient.cpp\<close>: one object per machine. It turns the type of the
  machine into a tree of nodes with their ids, subscribes to the variables, and publishes the
  values as JSON. Its state is the record \<open>dashboard_client\<close>; the environment \<open>env\<close> holds
  the world of the data source, the messages handed to the publisher, the clock and the
  counter that stands for \<^verbatim>\<open>make_shared\<close>. The functions that call each other through
  \<^verbatim>\<open>TransformToNodeIds\<close> take the recursive call as an argument, and the recursion itself
  is on fuel. Locks do not appear: an operation is one step. The two blocks under
  \<^verbatim>\<open>FIX_FOR_OLD_IJT_2\<close> and \<^verbatim>\<open>REDUNDANT_FOR_IJT\<close> are not compiled, as no build file
  defines these macros.
\<close>

section \<open>State\<close>

record DataSetStorage_t =
  storage_ptr :: nat
  startNodeId :: NodeId_t
  channel :: string
  onlineChannel :: string
  dsNode :: Node
  dsValues :: "(nat, json) smap"

record LastMessage_t =
  lmPayload :: string
  lastSent :: int

record dashboard_client =
  m_subscribedValues :: "ValueSubscriptionHandle option list"
  browsedNodes :: "NodeId_t sset"
  browsedNodesChildNodes :: "(NodeId_t, Node list) smap"
  m_dataSets :: "DataSetStorage_t list"
  m_latestMessages :: "(string, LastMessage_t) smap"

record 'w env =
  world :: 'w
  published :: "(string \<times> string) list"
  clock :: int
  next_ptr :: nat

record 'w dstate =
  env :: "'w env"
  client :: dashboard_client

record type_store =
  ts_heap :: type_heap
  ts_typeMap :: "(NodeId_t, nat) smap"

type_synonym callback = "nat \<times> nat"

type_synonym ('w, 'a) dact = "('w dstate, exn, 'a) act"

text \<open>The constructor.\<close>

definition DashboardClient_new :: dashboard_client where
  "DashboardClient_new =
     \<lparr>m_subscribedValues = [], browsedNodes = [], browsedNodesChildNodes = [], m_dataSets = [],
      m_latestMessages = []\<rparr>"

definition on_world :: "('w, exn, 'a) act \<Rightarrow> ('w, 'a) dact" where
  "on_world = zoom (\<lambda>s. world (env s)) (\<lambda>w s. s\<lparr>env := (env s)\<lparr>world := w\<rparr>\<rparr>)"

definition fresh_ptr :: "('w, nat) dact" where
  "fresh_ptr = seq (reads (\<lambda>s. next_ptr (env s))) (\<lambda>p.
     seq (update (\<lambda>s. s\<lparr>env := (env s)\<lparr>next_ptr := Suc p\<rparr>\<rparr>)) (\<lambda>_. ret p))"

definition send :: "string \<Rightarrow> string \<Rightarrow> ('w, unit) dact" where
  "send ch message = update (\<lambda>s. s\<lparr>env := (env s)\<lparr>published := published (env s) @ [(ch, message)]\<rparr>\<rparr>)"

definition on_client :: "(dashboard_client \<Rightarrow> dashboard_client) \<Rightarrow> ('w, unit) dact" where
  "on_client f = update (\<lambda>s. s\<lparr>client := f (client s)\<rparr>)"

section \<open>From types to node ids\<close>

definition GetOptionalAndMandatoryTransformToNodeIdError ::
    "NodeId_t \<Rightarrow> QualifiedName_t \<Rightarrow> string \<Rightarrow> string" where
  "GetOptionalAndMandatoryTransformToNodeIdError nodeId childBrowseName err =
     ''In '' @ [CHR 0x27] @ NodeId_to_string nodeId @ [CHR 0x27] @ ''->'' @ [CHR 0x27] @
     QualifiedName_to_string childBrowseName @ [CHR 0x27] @ '':'' @ [CHR 0x0A] @ err"

definition OptionalAndMandatoryTransformToNodeId ::
    "('w, callback) data_client \<Rightarrow> type_store \<Rightarrow> (NodeId_t \<Rightarrow> nat \<Rightarrow> ('w, Node) dact) \<Rightarrow>
     NodeId_t \<Rightarrow> Node list \<Rightarrow> nat \<Rightarrow> ('w, bool \<times> Node list) dact" where
  "OptionalAndMandatoryTransformToNodeId D ts transform startNode foundChildNodes pChild =
     (let child = sn_at (ts_heap ts) pChild;
          err = GetOptionalAndMandatoryTransformToNodeIdError startNode (SpecifiedBrowseName child)
      in try_catch
        (seq (on_world (dc_TranslateBrowsePathToNodeId D startNode (SpecifiedBrowseName child)))
           (\<lambda>childNodeId.
         if NodeId_isNull childNodeId then ret (False, foundChildNodes)
         else seq (transform childNodeId pChild) (\<lambda>nodeIds.
              ret (True, foundChildNodes @ [nodeIds]))))
        (\<lambda>ex. Some (case ex of
            MachineInvalidChildException w hasInvalidMandatoryChild \<Rightarrow>
              if hasInvalidMandatoryChild
              then raise (MachineInvalidChildException (err w) hasInvalidMandatoryChild)
              else ret (False, foundChildNodes)
          | _ \<Rightarrow>
              if ModellingRule child \<noteq> Optional
              then raise (MachineInvalidChildException (err (what ex)) True)
              else ret (False, foundChildNodes))))"

fun preparePlaceholderNodesTypeId ::
    "('w, callback) data_client \<Rightarrow> type_store \<Rightarrow> (NodeId_t \<Rightarrow> nat \<Rightarrow> ('w, Node) dact) \<Rightarrow>
     BrowseResult_t list \<Rightarrow> PlaceholderElement list \<Rightarrow> ('w, PlaceholderElement list) dact" where
  "preparePlaceholderNodesTypeId D ts transform [] insts = ret insts"
| "preparePlaceholderNodesTypeId D ts transform (browseResult # browseResults) insts =
     seq (if nId (brTypeDefinition browseResult) = nId NodeId_BaseObjectType
          then seq (on_world (dc_Browse D (brNodeId browseResult) ctx_HasInterface)) (\<lambda>ifs.
                 case ifs of [] \<Rightarrow> undefined_behaviour | i # _ \<Rightarrow> ret (brNodeId i))
          else ret (brTypeDefinition browseResult)) (\<lambda>typeDefinition.
     seq (case sm_find (ts_typeMap ts) typeDefinition of
            Some sharedPossibleType \<Rightarrow>
              seq (transform (brNodeId browseResult) sharedPossibleType) (\<lambda>pNode.
              ret (PlaceholderNode_addInstance
                     (PlaceholderElement pNode (brBrowseName browseResult) typeDefinition) insts))
          | None \<Rightarrow> ret insts) (\<lambda>insts'.
     preparePlaceholderNodesTypeId D ts transform browseResults insts'))"

definition BrowsePlaceholder ::
    "('w, callback) data_client \<Rightarrow> type_store \<Rightarrow> (NodeId_t \<Rightarrow> nat \<Rightarrow> ('w, Node) dact) \<Rightarrow>
     NodeId_t \<Rightarrow> StructureNode \<Rightarrow> ('w, Node) dact" where
  "BrowsePlaceholder D ts transform startNode pStructurePlaceholder =
     seq fresh_ptr (\<lambda>ptr.
     seq (on_world (dc_Browse_typed D startNode (ReferenceType pStructurePlaceholder)
            (SpecifiedTypeNodeId pStructurePlaceholder))) (\<lambda>browseResults.
     seq (preparePlaceholderNodesTypeId D ts transform browseResults []) (\<lambda>insts.
     ret (PlaceholderNode ptr (NodeDefinition.truncate pStructurePlaceholder) insts))))"

definition OptionalAndMandatoryPlaceholderTransformToNodeId ::
    "('w, callback) data_client \<Rightarrow> type_store \<Rightarrow> (NodeId_t \<Rightarrow> nat \<Rightarrow> ('w, Node) dact) \<Rightarrow>
     NodeId_t \<Rightarrow> Node list \<Rightarrow> nat \<Rightarrow> ('w, bool \<times> Node list) dact" where
  "OptionalAndMandatoryPlaceholderTransformToNodeId D ts transform startNode foundChildNodes pChild =
     (let child = sn_at (ts_heap ts) pChild
      in try_catch
        (seq (BrowsePlaceholder D ts transform startNode (StructurePlaceholderNode_of child))
           (\<lambda>placeholderNode. ret (True, foundChildNodes @ [placeholderNode])))
        (\<lambda>ex. Some
          (if ModellingRule child \<noteq> OptionalPlaceholder then raise (rethrow_sliced ex)
           else ret (False, foundChildNodes))))"

text \<open>The loop over the specified children; both branches on the result go on with the next child.\<close>

fun transform_children ::
    "('w, callback) data_client \<Rightarrow> type_store \<Rightarrow> (NodeId_t \<Rightarrow> nat \<Rightarrow> ('w, Node) dact) \<Rightarrow>
     NodeId_t \<Rightarrow> nat list \<Rightarrow> Node list \<Rightarrow> ('w, Node list) dact" where
  "transform_children D ts transform startNode [] foundChildNodes = ret foundChildNodes"
| "transform_children D ts transform startNode (pChild # pChildren) foundChildNodes =
     seq (case ModellingRule (sn_at (ts_heap ts) pChild) of
            Optional \<Rightarrow> OptionalAndMandatoryTransformToNodeId D ts transform startNode foundChildNodes pChild
          | Mandatory \<Rightarrow> OptionalAndMandatoryTransformToNodeId D ts transform startNode foundChildNodes pChild
          | OptionalPlaceholder \<Rightarrow>
              OptionalAndMandatoryPlaceholderTransformToNodeId D ts transform startNode foundChildNodes pChild
          | MandatoryPlaceholder \<Rightarrow>
              OptionalAndMandatoryPlaceholderTransformToNodeId D ts transform startNode foundChildNodes pChild
          | RuleNone \<Rightarrow> ret (False, foundChildNodes)) (\<lambda>(should_continue, foundChildNodes').
     transform_children D ts transform startNode pChildren foundChildNodes')"

definition TransformToNodeIds_body ::
    "('w, callback) data_client \<Rightarrow> type_store \<Rightarrow> (NodeId_t \<Rightarrow> nat \<Rightarrow> ('w, Node) dact) \<Rightarrow>
     NodeId_t \<Rightarrow> nat \<Rightarrow> ('w, Node) dact" where
  "TransformToNodeIds_body D ts transform startNode pTypeDefinition =
     seq (reads (\<lambda>s. startNode \<notin> set (browsedNodes (client s)))) (\<lambda>inserted.
     seq (on_client (\<lambda>c. c\<lparr>browsedNodes := ss_insert startNode (browsedNodes c)\<rparr>)) (\<lambda>_.
     seq (if inserted
          then seq (transform_children D ts transform startNode
                      (children_at (ts_heap ts) pTypeDefinition) []) (\<lambda>foundChildNodes.
               seq (on_client (\<lambda>c. c\<lparr>browsedNodesChildNodes :=
                      sm_assign startNode foundChildNodes (browsedNodesChildNodes c)\<rparr>)) (\<lambda>_.
               ret foundChildNodes))
          else ret []) (\<lambda>foundChildNodes.
     seq fresh_ptr (\<lambda>ptr.
     let typ = sn_at (ts_heap ts) pTypeDefinition
     in ret (SimpleNode ptr (NodeDefinition.truncate typ) foundChildNodes startNode
               (SpecifiedTypeNodeId typ) (ofBaseDataVariableType typ))))))"

primrec TransformToNodeIds ::
    "('w, callback) data_client \<Rightarrow> type_store \<Rightarrow> nat \<Rightarrow> NodeId_t \<Rightarrow> nat \<Rightarrow> ('w, Node) dact" where
  "TransformToNodeIds D ts 0 = (\<lambda>startNode pTypeDefinition. no_fuel)"
| "TransformToNodeIds D ts (Suc fuel) = TransformToNodeIds_body D ts (TransformToNodeIds D ts fuel)"

section \<open>Subscribing\<close>

definition isMandatoryOrOptionalVariable :: "Node \<Rightarrow> bool" where
  "isMandatoryOrOptionalVariable n \<longleftrightarrow>
     (Class_of n = Variable \<or> Class_of n = VariableType) \<and>
     (Rule_of n = Mandatory \<or> Rule_of n = Optional)"

definition subscribeValue ::
    "('w, callback) data_client \<Rightarrow> nat \<Rightarrow> Node \<Rightarrow> ('w, unit) dact" where
  "subscribeValue D valueMap pNode =
     try_catch
       (seq (reads (\<lambda>s. \<exists>v \<in> set (m_subscribedValues (client s)).
               case v of None \<Rightarrow> False | Some h \<Rightarrow> NodeId_eq (m_nodeId h) (simpleNodeId pNode))) (\<lambda>known.
        if known then ret ()
        else seq (on_world (dc_Subscribe D (simpleNodeId pNode) (valueMap, node_ptr pNode)))
               (\<lambda>subscribedValue.
             on_client (\<lambda>c. c\<lparr>m_subscribedValues := m_subscribedValues c @ [subscribedValue]\<rparr>))))
       (\<lambda>ex. Some (ret ()))"

fun subscribeValues :: "('w, callback) data_client \<Rightarrow> nat \<Rightarrow> Node \<Rightarrow> ('w, unit) dact"
  and handleSubscribeChildNodes :: "('w, callback) data_client \<Rightarrow> nat \<Rightarrow> Node list \<Rightarrow> ('w, unit) dact"
  and handleSubscribePlaceholderElements ::
    "('w, callback) data_client \<Rightarrow> nat \<Rightarrow> PlaceholderElement list \<Rightarrow> ('w, unit) dact"
where
  "subscribeValues D valueMap (SimpleNode ptr def cs nid tid b) =
     seq (if isMandatoryOrOptionalVariable (SimpleNode ptr def cs nid tid b)
          then subscribeValue D valueMap (SimpleNode ptr def cs nid tid b) else ret ()) (\<lambda>_.
     handleSubscribeChildNodes D valueMap cs)"
| "subscribeValues D valueMap (PlaceholderNode ptr def insts) = ret ()"
| "handleSubscribeChildNodes D valueMap [] = ret ()"
| "handleSubscribeChildNodes D valueMap (SimpleNode ptr def cs nid tid b # rest) =
     seq (if ModellingRule def = Mandatory \<or> ModellingRule def = Optional
          then subscribeValues D valueMap (SimpleNode ptr def cs nid tid b) else ret ()) (\<lambda>_.
     handleSubscribeChildNodes D valueMap rest)"
| "handleSubscribeChildNodes D valueMap (PlaceholderNode ptr def insts # rest) =
     seq (if ModellingRule def = MandatoryPlaceholder \<or> ModellingRule def = OptionalPlaceholder
          then handleSubscribePlaceholderElements D valueMap insts else ret ()) (\<lambda>_.
     handleSubscribeChildNodes D valueMap rest)"
| "handleSubscribePlaceholderElements D valueMap [] = ret ()"
| "handleSubscribePlaceholderElements D valueMap (PlaceholderElement n bn td # es) =
     seq (subscribeValues D valueMap n) (\<lambda>_. handleSubscribePlaceholderElements D valueMap es)"

text \<open>
  The lambda that \<^verbatim>\<open>subscribeValue\<close> registers: it writes into the value map of its data
  set by reference. When the data set is gone the reference dangles.
\<close>

definition on_value :: "callback \<Rightarrow> json \<Rightarrow> ('w, unit) dact" where
  "on_value cb v =
     seq (reads (\<lambda>s. \<exists>d \<in> set (m_dataSets (client s)). storage_ptr d = fst cb)) (\<lambda>alive.
     if alive
     then on_client (\<lambda>c. c\<lparr>m_dataSets := map (\<lambda>d.
            if storage_ptr d = fst cb then d\<lparr>dsValues := sm_assign (snd cb) v (dsValues d)\<rparr> else d)
            (m_dataSets c)\<rparr>)
     else undefined_behaviour)"

section \<open>Data sets\<close>

definition prepareDataSetStorage ::
    "('w, callback) data_client \<Rightarrow> type_store \<Rightarrow> nat \<Rightarrow> NodeId_t \<Rightarrow> nat \<Rightarrow> string \<Rightarrow> string \<Rightarrow>
     ('w, DataSetStorage_t) dact" where
  "prepareDataSetStorage D ts fuel start pTypeDefinition chan onlineChan =
     seq fresh_ptr (\<lambda>ptr.
     seq (TransformToNodeIds D ts fuel start pTypeDefinition) (\<lambda>n.
     ret \<lparr>storage_ptr = ptr, startNodeId = start, channel = chan, onlineChannel = onlineChan,
          dsNode = n, dsValues = []\<rparr>))"

definition addDataSet ::
    "('w, callback) data_client \<Rightarrow> type_store \<Rightarrow> nat \<Rightarrow> NodeId_t \<Rightarrow> nat \<Rightarrow> string \<Rightarrow> string \<Rightarrow>
     ('w, unit) dact" where
  "addDataSet D ts fuel start pTypeDefinition chan onlineChan =
     try_catch
       (seq (prepareDataSetStorage D ts fuel start pTypeDefinition chan onlineChan) (\<lambda>pDataSetStorage.
        seq (subscribeValues D (storage_ptr pDataSetStorage) (dsNode pDataSetStorage)) (\<lambda>_.
        on_client (\<lambda>c. c\<lparr>m_dataSets := m_dataSets c @ [pDataSetStorage]\<rparr>))))
       (\<lambda>ex. Some
         (if is_OpcUaException ex then ret ()
          else raise (OpcUaException (what ex))))"

section \<open>Publishing\<close>

definition getValueCallback :: "DataSetStorage_t \<Rightarrow> nat \<Rightarrow> json" where
  "getValueCallback d p = (case sm_find (dsValues d) p of None \<Rightarrow> JNull | Some v \<Rightarrow> v)"

definition getJson :: "(nat \<Rightarrow> json \<Rightarrow> exn + string) \<Rightarrow> DataSetStorage_t \<Rightarrow> exn + string" where
  "getJson dump d = ebind (payload dump (getValueCallback d) (dsNode d)) (dump 2)"

definition LastMessage_default :: LastMessage_t where
  "LastMessage_default = \<lparr>lmPayload = '''', lastSent = 0\<rparr>"

definition Publish_dataSet :: "(nat \<Rightarrow> json \<Rightarrow> exn + string) \<Rightarrow> DataSetStorage_t \<Rightarrow> ('w, unit) dact" where
  "Publish_dataSet dump d =
     seq (lift_sum (getJson dump d)) (\<lambda>jsonPayload.
     if jsonPayload \<noteq> '''' \<and> jsonPayload \<noteq> ''null'' then
       seq (on_client (\<lambda>c. c\<lparr>m_latestMessages :=
              sm_insert (channel d) LastMessage_default (m_latestMessages c)\<rparr>)) (\<lambda>_.
       seq (reads (\<lambda>s. (the (sm_find (m_latestMessages (client s)) (channel d)), clock (env s))))
         (\<lambda>(lastMessage, now).
       seq (if jsonPayload \<noteq> lmPayload lastMessage \<or> now - lastSent lastMessage > 10 then
              seq (send (channel d) jsonPayload) (\<lambda>_.
              on_client (\<lambda>c. c\<lparr>m_latestMessages :=
                sm_assign (channel d) \<lparr>lmPayload = jsonPayload, lastSent = now\<rparr> (m_latestMessages c)\<rparr>))
            else ret ()) (\<lambda>_.
       send (onlineChannel d) ''1'')))
     else ret ())"

definition Publish :: "(nat \<Rightarrow> json \<Rightarrow> exn + string) \<Rightarrow> ('w, unit) dact" where
  "Publish dump =
     seq (reads (\<lambda>s. m_dataSets (client s))) (\<lambda>dataSets. for_each dataSets (Publish_dataSet dump))"

definition Unsubscribe :: "('w, callback) data_client \<Rightarrow> ('w, unit) dact" where
  "Unsubscribe D =
     seq (reads (\<lambda>s. m_subscribedValues (client s))) (\<lambda>subscribed.
     let handles = concat (map (\<lambda>v. case v of None \<Rightarrow> [] | Some h \<Rightarrow> [h]) subscribed);
         monItemIds = map m_monitoredItemId handles;
         clientHandles = map m_clientHandle handles
     in seq (on_client (\<lambda>c. c\<lparr>m_subscribedValues := []\<rparr>)) (\<lambda>_.
        seq (on_world (dc_Unsubscribe D monItemIds clientHandles)) (\<lambda>_.
        on_client (\<lambda>c. c\<lparr>m_dataSets := []\<rparr>))))"

end
