(* ===== verification/Configuration.thy ===== *)
theory Configuration
  imports Json Ua_Model
begin

text \<open>
  \<^verbatim>\<open>Util/Configuration\<close> and \<^verbatim>\<open>Util/ConfigurationJsonFile\<close>: the settings of the
  program, how they are read from a JSON document, and when they are accepted. The conversions
  are those of the macros of the JSON library: a plain member must be present
  (\<^verbatim>\<open>at\<close>), a member with default may be absent (\<^verbatim>\<open>value\<close>), and a value of another type
  throws. Parsing the text of the file belongs to the library and is a parameter.
\<close>

section \<open>The settings\<close>

record MqttConfig =
  mqttHostname :: string
  mqttPort :: "16 word"
  mqttUsername :: string
  mqttPassword :: string
  mqttPrefix :: string
  mqttClientId :: string
  mqttProtocol :: string
  CaCertPath :: string
  CaTrustStorePath :: string
  HttpProxy :: string
  HttpsProxy :: string

definition MqttConfig_default :: MqttConfig where
  "MqttConfig_default =
     \<lparr>mqttHostname = '''', mqttPort = 0, mqttUsername = '''', mqttPassword = '''',
      mqttPrefix = ''umati/v2'', mqttClientId = '''', mqttProtocol = ''tcp'',
      CaCertPath = ''/etc/ssl/certs/'', CaTrustStorePath = '''', HttpProxy = '''', HttpsProxy = ''''\<rparr>"

record OpcUaConfig =
  Endpoint :: string
  uaUsername :: string
  uaPassword :: string
  Security :: "8 word"
  ByPassCertVerification :: bool

definition OpcUaConfig_default :: OpcUaConfig where
  "OpcUaConfig_default =
     \<lparr>Endpoint = '''', uaUsername = '''', uaPassword = '''', Security = 1,
      ByPassCertVerification = False\<rparr>"

record NamespaceInformation =
  Namespace :: string
  Types :: "NodeId_t list"
  IdentificationType :: NodeId_t

record configuration =
  OpcUa :: OpcUaConfig
  ObjectTypeNamespaces :: "string list"
  MachinesFilter :: "NodeId_t list"
  NamespaceInformations :: "NamespaceInformation list"
  Mqtt :: MqttConfig

definition hasMachinesFilter :: "configuration \<Rightarrow> bool" where
  "hasMachinesFilter c \<longleftrightarrow> length (MachinesFilter c) \<noteq> 0"

text \<open>\<^verbatim>\<open>Configuration::Verify\<close>\<close>

definition Verify :: "configuration \<Rightarrow> exn + unit" where
  "Verify c =
     (let mqtt = Mqtt c in
      if mqttClientId mqtt = '''' then Inl (ConfigurationException ''MQTT ClientId is not specified.'')
      else if mqttHostname mqtt = '''' then Inl (ConfigurationException ''MQTT Hostname is not specified.'')
      else if mqttPort mqtt = 0 then Inl (ConfigurationException ''MQTT Port is not specified.'')
      else if Endpoint (OpcUa c) = '''' then Inl (ConfigurationException ''OPC UA endpoint is not specified.'')
      else Inr ())"

section \<open>Reading JSON\<close>

definition type_error_302 :: exn where
  "type_error_302 = LibraryException ''[json.exception.type_error.302]''"

fun json_to_string :: "json \<Rightarrow> exn + string" where
  "json_to_string (JStr s) = Inr s"
| "json_to_string _ = Inl type_error_302"

fun json_to_bool :: "json \<Rightarrow> exn + bool" where
  "json_to_bool (JBool b) = Inr b"
| "json_to_bool _ = Inl type_error_302"

text \<open>An integer is cut to the width of the member; the cast of a floating-point number is a parameter.\<close>

fun json_to_word :: "(real_bits \<Rightarrow> int) \<Rightarrow> json \<Rightarrow> exn + 'n::len word" where
  "json_to_word trunc (JInt i) = Inr (word_of_int i)"
| "json_to_word trunc (JReal r) = Inr (word_of_int (trunc r))"
| "json_to_word trunc (JBool b) = Inr (if b then 1 else 0)"
| "json_to_word trunc _ = Inl type_error_302"

fun map_ebind :: "('a \<Rightarrow> 'e + 'b) \<Rightarrow> 'a list \<Rightarrow> 'e + 'b list" where
  "map_ebind f [] = Inr []"
| "map_ebind f (x # xs) = ebind (f x) (\<lambda>y. ebind (map_ebind f xs) (\<lambda>ys. Inr (y # ys)))"

fun json_to_list :: "(json \<Rightarrow> exn + 'a) \<Rightarrow> json \<Rightarrow> exn + 'a list" where
  "json_to_list f (JArr vs) = map_ebind f vs"
| "json_to_list f _ = Inl type_error_302"

fun json_at :: "string \<Rightarrow> json \<Rightarrow> exn + json" where
  "json_at k (JObj m) =
     (case sm_find m k of Some v \<Rightarrow> Inr v | None \<Rightarrow> Inl (LibraryException (''[json.exception.out_of_range.403] '' @ k)))"
| "json_at k _ = Inl (LibraryException ''[json.exception.type_error.304]'')"

fun json_value :: "string \<Rightarrow> 'a \<Rightarrow> (json \<Rightarrow> exn + 'a) \<Rightarrow> json \<Rightarrow> exn + 'a" where
  "json_value k d f (JObj m) = (case sm_find m k of Some v \<Rightarrow> f v | None \<Rightarrow> Inr d)"
| "json_value k d f _ = Inl (LibraryException ''[json.exception.type_error.306]'')"

definition NodeId_from_json :: "json \<Rightarrow> exn + NodeId_t" where
  "NodeId_from_json j =
     ebind (ebind (json_at ''Uri'' j) json_to_string) (\<lambda>uri.
     ebind (ebind (json_at ''Id'' j) json_to_string) (\<lambda>ident. Inr (NodeId uri ident)))"

definition MqttConfig_from_json :: "(real_bits \<Rightarrow> int) \<Rightarrow> json \<Rightarrow> exn + MqttConfig" where
  "MqttConfig_from_json trunc j =
     (let d = MqttConfig_default in
      ebind (json_value ''Hostname'' (mqttHostname d) json_to_string j) (\<lambda>host.
      ebind (json_value ''Port'' (mqttPort d) (json_to_word trunc) j) (\<lambda>prt.
      ebind (json_value ''Username'' (mqttUsername d) json_to_string j) (\<lambda>user.
      ebind (json_value ''Password'' (mqttPassword d) json_to_string j) (\<lambda>pass.
      ebind (json_value ''Prefix'' (mqttPrefix d) json_to_string j) (\<lambda>pre.
      ebind (json_value ''ClientId'' (mqttClientId d) json_to_string j) (\<lambda>cid.
      ebind (json_value ''Protocol'' (mqttProtocol d) json_to_string j) (\<lambda>proto.
      ebind (json_value ''CaCertPath'' (CaCertPath d) json_to_string j) (\<lambda>ca.
      ebind (json_value ''CaTrustStorePath'' (CaTrustStorePath d) json_to_string j) (\<lambda>trust.
      Inr (d\<lparr>mqttHostname := host, mqttPort := prt, mqttUsername := user, mqttPassword := pass,
             mqttPrefix := pre, mqttClientId := cid, mqttProtocol := proto, CaCertPath := ca,
             CaTrustStorePath := trust\<rparr>)))))))))))"

definition OpcUaConfig_from_json :: "(real_bits \<Rightarrow> int) \<Rightarrow> json \<Rightarrow> exn + OpcUaConfig" where
  "OpcUaConfig_from_json trunc j =
     (let d = OpcUaConfig_default in
      ebind (json_value ''Endpoint'' (Endpoint d) json_to_string j) (\<lambda>ep.
      ebind (json_value ''Username'' (uaUsername d) json_to_string j) (\<lambda>user.
      ebind (json_value ''Password'' (uaPassword d) json_to_string j) (\<lambda>pass.
      ebind (json_value ''Security'' (Security d) (json_to_word trunc) j) (\<lambda>sec.
      ebind (json_value ''ByPassCertVerification'' (ByPassCertVerification d) json_to_bool j) (\<lambda>bypass.
      Inr \<lparr>Endpoint = ep, uaUsername = user, uaPassword = pass, Security = sec,
           ByPassCertVerification = bypass\<rparr>))))))"

definition NamespaceInformation_from_json :: "json \<Rightarrow> exn + NamespaceInformation" where
  "NamespaceInformation_from_json j =
     ebind (ebind (json_at ''Namespace'' j) json_to_string) (\<lambda>ns.
     ebind (ebind (json_at ''Types'' j) (json_to_list NodeId_from_json)) (\<lambda>tys.
     ebind (ebind (json_at ''IdentificationType'' j) NodeId_from_json) (\<lambda>idt.
     Inr \<lparr>Namespace = ns, Types = tys, IdentificationType = idt\<rparr>)))"

definition configuration_from_json :: "(real_bits \<Rightarrow> int) \<Rightarrow> json \<Rightarrow> exn + configuration" where
  "configuration_from_json trunc j =
     ebind (ebind (json_at ''OpcUa'' j) (OpcUaConfig_from_json trunc)) (\<lambda>ua.
     ebind (ebind (json_at ''ObjectTypeNamespaces'' j) (json_to_list json_to_string)) (\<lambda>nss.
     ebind (ebind (json_at ''NamespaceInformations'' j) (json_to_list NamespaceInformation_from_json)) (\<lambda>infos.
     ebind (ebind (json_at ''Mqtt'' j) (MqttConfig_from_json trunc)) (\<lambda>mq.
     ebind (ebind (json_at ''MachinesFilter'' j) (json_to_list NodeId_from_json)) (\<lambda>flt.
     Inr \<lparr>OpcUa = ua, ObjectTypeNamespaces = nss, MachinesFilter = flt,
          NamespaceInformations = infos, Mqtt = mq\<rparr>)))))"

text \<open>
  The constructor: \<open>content\<close> is the text of the file, or \<open>None\<close> when it cannot be opened;
  \<open>parse\<close> gives the document or one of the two exceptions the library documents for it: a parse
  error, or that a number is out of the range of a double. Only a parse error is turned into a
  configuration error.
\<close>

datatype parse_failure = ParseError string | OutOfRange string

definition ConfigurationJsonFile ::
    "(real_bits \<Rightarrow> int) \<Rightarrow> (string \<Rightarrow> parse_failure + json) \<Rightarrow> string \<Rightarrow> string option \<Rightarrow> exn + configuration" where
  "ConfigurationJsonFile trunc parse filename content =
     (case content of
        None \<Rightarrow> Inl (ConfigurationException (''File '' @ [CHR 0x27] @ filename @ [CHR 0x27] @ '' not found.''))
      | Some s \<Rightarrow>
          (case parse s of
             Inl (ParseError w) \<Rightarrow> Inl (ConfigurationException (''Json is not valid: '' @ [CHR 0x27] @ w))
           | Inl (OutOfRange w) \<Rightarrow> Inl (LibraryException w)
           | Inr j \<Rightarrow> ebind (configuration_from_json trunc j) (\<lambda>c. ebind (Verify c) (\<lambda>_. Inr c))))"

section \<open>Properties\<close>

lemma Verify_iff:
  "Verify c = Inr () \<longleftrightarrow> mqttClientId (Mqtt c) \<noteq> '''' \<and> mqttHostname (Mqtt c) \<noteq> '''' \<and>
     mqttPort (Mqtt c) \<noteq> 0 \<and> Endpoint (OpcUa c) \<noteq> ''''"
  by (auto simp: Verify_def Let_def)

lemma MqttConfig_from_json_proxy:
  "gives (\<lambda>m. HttpProxy m = '''' \<and> HttpsProxy m = '''') (MqttConfig_from_json trunc j)"
  unfolding MqttConfig_from_json_def Let_def
  by (intro gives_ebind [where R = "\<lambda>_. True"]) (simp_all add: MqttConfig_default_def)

lemma configuration_from_json_sections:
  assumes "configuration_from_json trunc j = Inr c"
  shows "\<exists>m. j = JObj m \<and> (\<forall>k \<in> {''OpcUa'', ''ObjectTypeNamespaces'', ''NamespaceInformations'',
      ''Mqtt'', ''MachinesFilter''}. sm_find m k \<noteq> None)"
    and "\<exists>j'. MqttConfig_from_json trunc j' = Inr (Mqtt c)"
proof -
  have at: "\<exists>m. j = JObj m \<and> sm_find m k \<noteq> None" if "json_at k j = Inr v" for k v
    using that by (cases "(k, j)" rule: json_at.cases) (auto split: option.splits)
  show "\<exists>m. j = JObj m \<and> (\<forall>k \<in> {''OpcUa'', ''ObjectTypeNamespaces'', ''NamespaceInformations'',
      ''Mqtt'', ''MachinesFilter''}. sm_find m k \<noteq> None)"
    using assms unfolding configuration_from_json_def ebind_Inr_iff
    by (auto dest!: at split: option.splits)
  show "\<exists>j'. MqttConfig_from_json trunc j' = Inr (Mqtt c)"
    using assms unfolding configuration_from_json_def ebind_Inr_iff by auto
qed

text \<open>
  A configuration that loads is usable, and what the loader does not read stays empty.
  Loading succeeds only for a document with all five sections (the filter of machines, too,
  has to be written down) whose client id, host, port and endpoint are set; and the proxy
  settings of the loaded configuration are always empty, whatever the document says, because
  they are missing in the list of members that are read.
\<close>

theorem ConfigurationJsonFile_accepts:
  assumes "ConfigurationJsonFile trunc parse filename content = Inr c"
  shows "(\<exists>s m. content = Some s \<and> parse s = Inr (JObj m) \<and>
      (\<forall>k \<in> {''OpcUa'', ''ObjectTypeNamespaces'', ''NamespaceInformations'', ''Mqtt'', ''MachinesFilter''}.
         sm_find m k \<noteq> None)) \<and>
    mqttClientId (Mqtt c) \<noteq> '''' \<and> mqttHostname (Mqtt c) \<noteq> '''' \<and> mqttPort (Mqtt c) \<noteq> 0 \<and>
    Endpoint (OpcUa c) \<noteq> '''' \<and> HttpProxy (Mqtt c) = '''' \<and> HttpsProxy (Mqtt c) = ''''"
proof -
  from assms obtain s j where s: "content = Some s" "parse s = Inr j"
    and j: "configuration_from_json trunc j = Inr c" and v: "Verify c = Inr ()"
    by (auto simp: ConfigurationJsonFile_def ebind_Inr_iff split: option.splits sum.splits parse_failure.splits)
  from configuration_from_json_sections(2) [OF j] obtain j' where
    "MqttConfig_from_json trunc j' = Inr (Mqtt c)" by blast
  with MqttConfig_from_json_proxy [of trunc j'] have "HttpProxy (Mqtt c) = '''' \<and> HttpsProxy (Mqtt c) = ''''"
    by simp
  with s configuration_from_json_sections(1) [OF j] v show ?thesis
    unfolding Verify_iff by blast
qed

definition example_document :: json where
  "example_document = JObj
     [(''MachinesFilter'', JArr []),
      (''Mqtt'', JObj [(''ClientId'', JStr ''c''), (''Hostname'', JStr ''h''), (''HttpProxy'', JStr ''p''), (''Port'', JInt 1883)]),
      (''NamespaceInformations'', JArr []),
      (''ObjectTypeNamespaces'', JArr [JStr ''urn:x'']),
      (''OpcUa'', JObj [(''Endpoint'', JStr ''opc.tcp://h'')])]"

theorem ConfigurationJsonFile_accepts_witness:
  "\<exists>c. ConfigurationJsonFile (\<lambda>_. 0) (\<lambda>_. Inr example_document) ''f'' (Some '''') = Inr c \<and> HttpProxy (Mqtt c) = ''''"
proof -
  have "\<not> (\<exists>e. ConfigurationJsonFile (\<lambda>_. 0) (\<lambda>_. Inr example_document) ''f'' (Some '''') = Inl e)"
    by (simp add: ConfigurationJsonFile_def example_document_def configuration_from_json_def
        OpcUaConfig_from_json_def MqttConfig_from_json_def OpcUaConfig_default_def MqttConfig_default_def
        Verify_def)
  then obtain c where "ConfigurationJsonFile (\<lambda>_. 0) (\<lambda>_. Inr example_document) ''f'' (Some '''') = Inr c"
    by (metis sum.exhaust)
  with ConfigurationJsonFile_accepts [OF this] show ?thesis by blast
qed

end
