(* ===== verification/Type_Reader.thy ===== *)
theory Type_Reader
  imports Data_Client Type_Heap Configuration
begin

text \<open>
  \<^verbatim>\<open>DashboardClient/OpcUaTypeReader.cpp\<close> with \<^verbatim>\<open>StructureBiNode::toStructureNode\<close>:
  the type trees of the server are browsed into bidirectional nodes, every type inherits the
  children of its ancestors, and the result is the map of types that the dashboard clients
  use. The state of an operation holds the world of the data source, the members of the
  reader, the heap, and the map of bidirectional nodes that \<^verbatim>\<open>readTypes\<close> creates. The
  browsing recursion has fuel.
\<close>

section \<open>State\<close>

record type_reader =
  m_identificationTypeOfTypeDefinition :: "(NodeId_t, NodeId_t) smap"
  m_availableObjectTypeNamespaces :: "(string, NamespaceInformation) smap"
  m_expectedObjectTypeNamespaces :: "string list"
  m_expectedObjectTypeNames :: "string list"
  m_knownMachineTypeDefinitions :: "NodeId_t list"
  m_subTypeDefinitionToKnownMachineTypeDefinition :: "(NodeId_t, NodeId_t) smap"
  m_typeMap :: "(NodeId_t, nat) smap"
  m_nameToId :: "(string, NodeId_t) smap"
  heap :: type_heap

record 'w reader_state =
  rs_world :: 'w
  rs_reader :: type_reader
  rs_bidi :: "(NodeId_t, nat) smap"

type_synonym ('w, 'a) ract = "('w reader_state, exn, 'a) act"

text \<open>The constructor.\<close>

definition add_type :: "NamespaceInformation \<Rightarrow> NodeId_t \<Rightarrow> type_reader \<Rightarrow> type_reader" where
  "add_type el e r =
     r\<lparr>m_identificationTypeOfTypeDefinition :=
         sm_insert e (IdentificationType el) (m_identificationTypeOfTypeDefinition r),
       m_knownMachineTypeDefinitions := m_knownMachineTypeDefinitions r @ [e],
       m_subTypeDefinitionToKnownMachineTypeDefinition :=
         sm_insert e e (m_subTypeDefinitionToKnownMachineTypeDefinition r)\<rparr>"

definition add_namespace :: "NamespaceInformation \<Rightarrow> type_reader \<Rightarrow> type_reader" where
  "add_namespace el r =
     fold (add_type el) (Types el)
       (r\<lparr>m_availableObjectTypeNamespaces :=
            sm_assign (Namespace el) el (m_availableObjectTypeNamespaces r)\<rparr>)"

definition OpcUaTypeReader_new :: "string list \<Rightarrow> NamespaceInformation list \<Rightarrow> type_reader" where
  "OpcUaTypeReader_new expectedObjectTypeNamespaces namespaceInformations =
     fold add_namespace namespaceInformations
       \<lparr>m_identificationTypeOfTypeDefinition = [], m_availableObjectTypeNamespaces = [],
        m_expectedObjectTypeNamespaces = expectedObjectTypeNamespaces,
        m_expectedObjectTypeNames = [], m_knownMachineTypeDefinitions = [],
        m_subTypeDefinitionToKnownMachineTypeDefinition = [], m_typeMap = [], m_nameToId = [],
        heap = empty_heap\<rparr>"

text \<open>The destructor clears the child lists of all types.\<close>

definition OpcUaTypeReader_delete :: "type_reader \<Rightarrow> type_reader" where
  "OpcUaTypeReader_delete r =
     r\<lparr>heap := fold (\<lambda>(i, a) h. set_children (SpecifiedChildNodes (sn_at h a)) [] h) (m_typeMap r) (heap r)\<rparr>"

definition rd_world :: "('w, exn, 'a) act \<Rightarrow> ('w, 'a) ract" where
  "rd_world = zoom rs_world (\<lambda>w s. s\<lparr>rs_world := w\<rparr>)"

definition rd_heap :: "(type_heap, exn, 'a) act \<Rightarrow> ('w, 'a) ract" where
  "rd_heap = zoom (\<lambda>s. heap (rs_reader s)) (\<lambda>h s. s\<lparr>rs_reader := (rs_reader s)\<lparr>heap := h\<rparr>\<rparr>)"

definition rd_update :: "(type_reader \<Rightarrow> type_reader) \<Rightarrow> ('w, unit) ract" where
  "rd_update f = update (\<lambda>s. s\<lparr>rs_reader := f (rs_reader s)\<rparr>)"

definition alloc :: "(type_heap \<Rightarrow> nat \<times> type_heap) \<Rightarrow> (type_heap, exn, nat) act" where
  "alloc f h = (case f h of (a, h') \<Rightarrow> (Inr a, h'))"

section \<open>Lookups\<close>

definition typeDefinitionToStructureNode :: "type_reader \<Rightarrow> NodeId_t \<Rightarrow> exn + nat" where
  "typeDefinitionToStructureNode r typeDefinition =
     (case sm_find (m_typeMap r) typeDefinition of
        None \<Rightarrow> Inl (MachineInvalidException ''Type not found'')
      | Some a \<Rightarrow> Inr a)"

definition getIdentificationTypeNodeId :: "type_reader \<Rightarrow> NodeId_t \<Rightarrow> exn + NodeId_t" where
  "getIdentificationTypeNodeId r typeDefinition =
     (case sm_find (m_identificationTypeOfTypeDefinition r) typeDefinition of
        None \<Rightarrow> Inl (MachineInvalidException
          (''IdentificationType not found, probably because namespace '' @ NodeId_to_string typeDefinition @
           '' is not in the config, or this type does not have an identification type.''))
      | Some i \<Rightarrow> Inr i)"

definition getIdentificationTypeStructureNode :: "type_reader \<Rightarrow> NodeId_t \<Rightarrow> exn + nat" where
  "getIdentificationTypeStructureNode r typeDefinition =
     ebind (getIdentificationTypeNodeId r typeDefinition) (typeDefinitionToStructureNode r)"

text \<open>
  \<^verbatim>\<open>CSNameFromUri\<close>, which nothing calls: the last level of a URI, if it consists of letters,
  digits, underscores and hyphens, with at most one slash after it; otherwise the whole URI. The
  regular expression can match in one way only, as the level holds no slash.
\<close>

definition word_or_hyphen :: "char \<Rightarrow> bool" where
  "word_or_hyphen c \<longleftrightarrow>
     (CHR ''a'' \<le> c \<and> c \<le> CHR ''z'') \<or> (CHR ''A'' \<le> c \<and> c \<le> CHR ''Z'') \<or>
     (CHR ''0'' \<le> c \<and> c \<le> CHR ''9'') \<or> c = CHR ''_'' \<or> c = CHR ''-''"

definition CSNameFromUri :: "string \<Rightarrow> string" where
  "CSNameFromUri nsUri =
     (let r = (case rev nsUri of c # cs \<Rightarrow> if c = CHR ''/'' then cs else c # cs | [] \<Rightarrow> []);
          level = takeWhile word_or_hyphen r
      in case dropWhile word_or_hyphen r of
           c # _ \<Rightarrow> if c = CHR ''/'' \<and> level \<noteq> [] then rev level else nsUri
         | [] \<Rightarrow> nsUri)"

lemma CSNameFromUri_level:
  assumes "level \<noteq> []" and "list_all word_or_hyphen level"
  shows "CSNameFromUri (p @ ''/'' @ level) = level" and "CSNameFromUri (p @ ''/'' @ level @ ''/'') = level"
proof -
  have all: "\<forall>c \<in> set (rev level). word_or_hyphen c" using assms(2) by (simp add: list_all_iff)
  have slash: "\<not> word_or_hyphen (CHR ''/'')" by (simp add: word_or_hyphen_def less_eq_char_def)
  have while_level: "takeWhile word_or_hyphen (xs @ CHR ''/'' # q) = xs \<and>
      dropWhile word_or_hyphen (xs @ CHR ''/'' # q) = CHR ''/'' # q" if "\<forall>c \<in> set xs. word_or_hyphen c" for xs q
    using that slash by (induction xs) auto
  note parts = while_level [OF all, THEN conjunct1] while_level [OF all, THEN conjunct2]
  obtain c cs where c: "rev level = c # cs" using assms(1) by (cases "rev level") auto
  then have "c \<noteq> CHR ''/''" using all slash by auto
  with c have r: "(case rev (p @ ''/'' @ level) of c # cs \<Rightarrow> if c = CHR ''/'' then cs else c # cs | [] \<Rightarrow> []) =
      rev level @ CHR ''/'' # rev p" by simp
  show "CSNameFromUri (p @ ''/'' @ level) = level"
    unfolding CSNameFromUri_def r Let_def parts using assms(1) by simp
  show "CSNameFromUri (p @ ''/'' @ level @ ''/'') = level"
    using parts [of "rev p"] assms(1) by (simp add: CSNameFromUri_def Let_def)
qed

section \<open>Browsing\<close>

text \<open>
  The result is the new node and whether anything but the caller keeps it alive: the map when
  the type is new, or the list of the parent. The callers hold it by a weak pointer.
\<close>

definition type_name :: "StructureNode \<Rightarrow> string" where
  "type_name n = qUri (SpecifiedBrowseName n) @ '';'' @ qName (SpecifiedBrowseName n)"

definition handleBrowseTypeResult ::
    "BrowseResult_t \<Rightarrow> nat option \<Rightarrow> ModellingRule_t \<Rightarrow> bool \<Rightarrow> ('w, nat \<times> bool) ract" where
  "handleBrowseTypeResult entry par modellingRule base =
     (let isObjectType = (ObjectType = brNodeClass entry);
          isVariableType = (VariableType = brNodeClass entry)
      in seq (rd_heap (alloc (new_list []))) (\<lambda>childNodes.
         seq (rd_heap (alloc (StructureBiNode_new entry base childNodes par (nUri (brNodeId entry)) modellingRule)))
           (\<lambda>current.
         seq (reads (\<lambda>s. sm_find (rs_bidi s) (brNodeId entry) = None)) (\<lambda>unknown.
         seq (if (isObjectType \<or> isVariableType) \<and> unknown then
                seq (rd_heap (update (\<lambda>h. h\<lparr>th_bis := (th_bis h)[current :=
                       (bi_at h current)\<lparr>isType := True, biOfBaseDataVariableType := base\<rparr>]\<rparr>))) (\<lambda>_.
                seq (update (\<lambda>s. s\<lparr>rs_bidi := sm_insert (brNodeId entry) current (rs_bidi s)\<rparr>)) (\<lambda>_.
                rd_update (\<lambda>r. r\<lparr>m_nameToId := sm_insert
                  (type_name (sn_at (heap r) (structureNode (bi_at (heap r) current)))) (brNodeId entry)
                  (m_nameToId r)\<rparr>)))
              else ret ()) (\<lambda>_.
         seq (case par of
                None \<Rightarrow> ret ()
              | Some p \<Rightarrow> rd_heap (update (\<lambda>h. h\<lparr>th_bis := (th_bis h)[p :=
                    (bi_at h p)\<lparr>SpecifiedBiChildNodes := SpecifiedBiChildNodes (bi_at h p) @ [current]\<rparr>]\<rparr>)))
           (\<lambda>_.
         ret (current, (isObjectType \<or> isVariableType) \<and> unknown \<or> par \<noteq> None)))))))"

definition weak_lock :: "nat \<times> bool \<Rightarrow> nat option" where
  "weak_lock p = (if snd p then Some (fst p) else None)"

definition browse_rule :: "('w, 'cb) data_client \<Rightarrow> NodeId_t \<Rightarrow> ('w, ModellingRule_t) ract" where
  "browse_rule D n =
     try_catch (rd_world (BrowseModellingRule D n))
       (\<lambda>e. if is_UmatiException e then Some (ret RuleNone) else None)"

primrec browseTypes ::
    "('w, 'cb) data_client \<Rightarrow> bool \<Rightarrow> nat \<Rightarrow> NodeId_t \<Rightarrow> nat option \<Rightarrow> ('w, unit) ract" where
  "browseTypes D base 0 = (\<lambda>start par. no_fuel)"
| "browseTypes D base (Suc fuel) = (\<lambda>start par.
     seq (rd_world (dc_Browse D start ctx_ObjectAndVariableWithTypes)) (\<lambda>browseResults.
     for_each browseResults (\<lambda>browseResult.
       seq (browse_rule D (brNodeId browseResult)) (\<lambda>modellingRule.
       seq (handleBrowseTypeResult browseResult par modellingRule base) (\<lambda>current.
       browseTypes D base fuel (brNodeId browseResult) (weak_lock current))))))"

definition browseObjectOrVariableTypeAndFillBidirectionalTypeMap ::
    "('w, 'cb) data_client \<Rightarrow> nat \<Rightarrow> NodeId_t \<Rightarrow> bool \<Rightarrow> ('w, unit) ract" where
  "browseObjectOrVariableTypeAndFillBidirectionalTypeMap D fuel start base =
     (let startBrowseTypeResult =
        \<lparr>brNodeClass = VariableType, brNodeId = start, brTypeDefinition = NodeId '''' '''',
         brReferenceTypeId = NodeId '''' '''', brBrowseName = QualifiedName (nUri start) ''''\<rparr>
      in seq (handleBrowseTypeResult startBrowseTypeResult None Mandatory base) (\<lambda>startType.
         browseTypes D base fuel start (weak_lock startType)))"

section \<open>Inheritance\<close>

text \<open>
  \<^verbatim>\<open>toStructureNode\<close> appends the structure nodes of the children to the child list, on
  every call.
\<close>

primrec toStructureNode :: "nat \<Rightarrow> nat \<Rightarrow> (type_heap, exn, nat) act" where
  "toStructureNode 0 = (\<lambda>b. no_fuel)"
| "toStructureNode (Suc fuel) = (\<lambda>b.
     seq (reads (\<lambda>h. SpecifiedBiChildNodes (bi_at h b))) (\<lambda>children.
     seq (for_each children (\<lambda>innerChild.
            seq (toStructureNode fuel innerChild) (\<lambda>innerChildStructureNode.
            update (\<lambda>h. let l = SpecifiedChildNodes (sn_at h (structureNode (bi_at h b)))
                        in set_children l (th_lists h ! l @ [innerChildStructureNode]) h)))) (\<lambda>_.
     seq (update (\<lambda>h. let a = structureNode (bi_at h b)
            in set_node a ((sn_at h a)\<lparr>ofBaseDataVariableType := biOfBaseDataVariableType (bi_at h b)\<rparr>) h)) (\<lambda>_.
     reads (\<lambda>h. structureNode (bi_at h b))))))"

text \<open>The ancestors of a type, itself first.\<close>

fun bloodline :: "nat \<Rightarrow> type_heap \<Rightarrow> nat \<Rightarrow> nat list" where
  "bloodline 0 h b = []"
| "bloodline (Suc fuel) h b =
     b # (case parent (bi_at h b) of None \<Rightarrow> [] | Some p \<Rightarrow> bloodline fuel h p)"

text \<open>\<^verbatim>\<open>std::find_if\<close> for a node that is \<open>a\<close> or has the browse name of \<open>a\<close>.\<close>

definition same_child :: "type_heap \<Rightarrow> nat \<Rightarrow> nat \<Rightarrow> bool" where
  "same_child h a el \<longleftrightarrow> el = a \<or> SpecifiedBrowseName (sn_at h el) = SpecifiedBrowseName (sn_at h a)"

definition find_child :: "type_heap \<Rightarrow> nat \<Rightarrow> nat list \<Rightarrow> nat option" where
  "find_child h a els = find (same_child h a) els"

text \<open>Appends a child unless a child of this name is there.\<close>

definition add_missing :: "nat \<Rightarrow> nat \<Rightarrow> type_heap \<Rightarrow> type_heap" where
  "add_missing l childOfChild h =
     (case find_child h childOfChild (th_lists h ! l) of
        Some _ \<Rightarrow> h
      | None \<Rightarrow> set_children l (th_lists h ! l @ [childOfChild]) h)"

text \<open>\<^verbatim>\<open>erase(findIterator)\<close>: the first occurrence.\<close>

definition inherit_child :: "nat \<Rightarrow> nat \<Rightarrow> type_heap \<Rightarrow> type_heap" where
  "inherit_child l sn h =
     (case find_child h sn (th_lists h ! l) of
        None \<Rightarrow> set_children l (th_lists h ! l @ [sn]) h
      | Some found \<Rightarrow>
          (let h1 = fold (\<lambda>childOfChild h'. add_missing (SpecifiedChildNodes (sn_at h' found)) childOfChild h')
                      (children_at h sn) h
           in if ModellingRule (sn_at h1 found) = Optional \<or> ModellingRule (sn_at h1 found) = OptionalPlaceholder
              then set_children l (remove1 found (th_lists h1 ! l) @ [sn]) h1
              else h1))"

definition inherit_ancestor :: "nat \<Rightarrow> nat \<Rightarrow> nat \<Rightarrow> (type_heap, exn, unit) act" where
  "inherit_ancestor fuel l ancestor =
     seq (reads (\<lambda>h. SpecifiedBiChildNodes (bi_at h ancestor))) (\<lambda>children.
     for_each children (\<lambda>currentChild.
       seq (reads (\<lambda>h. isType (bi_at h currentChild))) (\<lambda>is_type.
       if is_type then ret ()
       else seq (toStructureNode fuel currentChild) (\<lambda>sn. update (inherit_child l sn)))))"

definition inherit_type :: "nat \<Rightarrow> nat \<Rightarrow> (type_heap, exn, nat) act" where
  "inherit_type fuel b =
     seq (reads (\<lambda>h. bloodline fuel h b)) (\<lambda>blood.
     seq (reads (\<lambda>h. (sn_at h (structureNode (bi_at h b)))
            \<lparr>ofBaseDataVariableType := biOfBaseDataVariableType (bi_at h b)\<rparr>)) (\<lambda>node.
     seq (for_each (rev blood) (inherit_ancestor fuel (SpecifiedChildNodes node))) (\<lambda>_.
     alloc (new_node node))))"

definition setupTypeMap :: "string \<Rightarrow> ('w, unit) ract" where
  "setupTypeMap nsUri =
     seq (reads rs_bidi) (\<lambda>bidi.
     for_each bidi (\<lambda>(typeId, b).
       seq (reads (\<lambda>s. (namespaceUri (bi_at (heap (rs_reader s)) b), length (th_bis (heap (rs_reader s))))))
         (\<lambda>(uri, fuel).
       if uri \<noteq> nsUri then ret ()
       else seq (rd_heap (inherit_type (Suc fuel) b)) (\<lambda>shared.
            rd_update (\<lambda>r. r\<lparr>m_typeMap := sm_insert typeId shared (m_typeMap r)\<rparr>)))))"

text \<open>A child takes over the child list of its own type.\<close>

definition adopt_type :: "(NodeId_t, nat) smap \<Rightarrow> nat \<Rightarrow> type_heap \<Rightarrow> type_heap" where
  "adopt_type tm c h =
     (case sm_find tm (SpecifiedTypeNodeId (sn_at h c)) of
        None \<Rightarrow> h
      | Some t \<Rightarrow> set_node c ((sn_at h c)\<lparr>SpecifiedChildNodes := SpecifiedChildNodes (sn_at h t),
          ofBaseDataVariableType := ofBaseDataVariableType (sn_at h t)\<rparr>) h)"

definition update_child :: "(NodeId_t, nat) smap \<Rightarrow> nat \<Rightarrow> type_heap \<Rightarrow> type_heap" where
  "update_child tm c h =
     (let childTypeNodeId = SpecifiedTypeNodeId (sn_at h c)
      in if NodeId_eq childTypeNodeId NodeId_Folder \<or> NodeId_eq childTypeNodeId NodeId_FunctionalGroup
         then fold (adopt_type tm) (children_at h c) h
         else adopt_type tm c h)"

definition updateTypeMap :: "type_reader \<Rightarrow> type_reader" where
  "updateTypeMap r =
     r\<lparr>heap := fold (\<lambda>(i, t) h. fold (update_child (m_typeMap r)) (children_at h t) h) (m_typeMap r) (heap r)\<rparr>"

definition updateObjectTypeNames :: "type_reader \<Rightarrow> type_reader" where
  "updateObjectTypeNames r =
     r\<lparr>m_expectedObjectTypeNames :=
         concat (map (\<lambda>(typeNodeId, i).
           case typeDefinitionToStructureNode r typeNodeId of
             Inl e \<Rightarrow> []
           | Inr a \<Rightarrow> [qName (SpecifiedBrowseName (sn_at (heap r) a))])
         (m_identificationTypeOfTypeDefinition r))\<rparr>"

section \<open>Reading all types\<close>

text \<open>The namespaces of the server that are configured; each configured entry is used once.\<close>

fun setup_namespaces :: "string list \<Rightarrow> string list \<Rightarrow> ('w, unit) ract" where
  "setup_namespaces notFound [] = ret ()"
| "setup_namespaces notFound (uri # uris) =
     (if uri \<in> set notFound
      then seq (setupTypeMap uri) (\<lambda>_. setup_namespaces (remove1 uri notFound) uris)
      else setup_namespaces notFound uris)"

text \<open>\<^verbatim>\<open>initialize\<close> appends the configured namespaces to a list.\<close>

definition initialize :: "string list \<Rightarrow> string list \<Rightarrow> string list" where
  "initialize expected notFound = fold (\<lambda>uri found. found @ [uri]) expected notFound"

lemma initialize_append [simp]: "initialize expected notFound = notFound @ expected"
  by (induction expected arbitrary: notFound) (simp_all add: initialize_def)

definition readTypes :: "('w, 'cb) data_client \<Rightarrow> nat \<Rightarrow> ('w, unit) ract" where
  "readTypes D fuel =
     seq (update (\<lambda>s. s\<lparr>rs_bidi := []\<rparr>)) (\<lambda>_.
     seq (reads (\<lambda>s. initialize (m_expectedObjectTypeNamespaces (rs_reader s)) [])) (\<lambda>notFound.
     seq (browseObjectOrVariableTypeAndFillBidirectionalTypeMap D fuel (NodeId '''' ''i=63'') True) (\<lambda>_.
     seq (browseObjectOrVariableTypeAndFillBidirectionalTypeMap D fuel NodeId_BaseObjectType False) (\<lambda>_.
     seq (rd_world (dc_Namespaces D)) (\<lambda>namespaces.
     seq (setup_namespaces notFound namespaces) (\<lambda>_.
     seq (rd_update updateTypeMap) (\<lambda>_.
     rd_update updateObjectTypeNames)))))))"

end
