(* ===== verification/Machine_Observer.thy ===== *)
theory Machine_Observer
  imports Dashboard_Client Type_Reader
begin

text \<open>
  \<^verbatim>\<open>MachineObserver/MachineObserver.cpp\<close>: the abstract base class that finds the
  machines of the server every ten seconds and decides which are new, staying or gone. Its
  members are a record that the derived class extends, and its pure virtual methods are a
  record of actions that every operation takes. The recursion through component folders has
  fuel. The set that \<^verbatim>\<open>logMachinesChanging\<close> prints is not changed, so logging is omitted.
\<close>

section \<open>State\<close>

record 'w machine_observer =
  ob_env :: "'w env"
  ob_reader :: type_reader
  m_knownMachines :: "(NodeId_t, BrowseResult_t) smap"
  m_knownMachineToolsSet :: "NodeId_t sset"
  m_parentOfMachine :: "(NodeId_t, NodeId_t) smap"
  m_machineIdentificationsCache :: "(NodeId_t, json) smap"
  m_machinesFilter :: "NodeId_t sset"
  m_invalidMachines :: "(NodeId_t, int \<times> string) smap"

definition MachineObserver_new :: "'w env \<Rightarrow> type_reader \<Rightarrow> NodeId_t list \<Rightarrow> 'w machine_observer" where [simp]:
  "MachineObserver_new e pTypeReader machinesFilter =
     \<lparr>ob_env = e, ob_reader = pTypeReader, m_knownMachines = [], m_knownMachineToolsSet = [],
      m_parentOfMachine = [], m_machineIdentificationsCache = [],
      m_machinesFilter = ss_of_list machinesFilter, m_invalidMachines = []\<rparr>"

declare machine_observer.extend_def [simp]

type_synonym ('w, 'm, 'a) oact = "(('w, 'm) machine_observer_scheme, exn, 'a) act"

record ('w, 'm) observer_methods =
  vm_addMachine :: "BrowseResult_t \<Rightarrow> ('w, 'm, unit) oact"
  vm_removeMachine :: "NodeId_t \<Rightarrow> ('w, 'm, unit) oact"
  vm_isOnline :: "NodeId_t \<Rightarrow> NodeId_t \<Rightarrow> ('w, 'm, bool \<times> json) oact"

definition NumSkipAfterInvalid :: int where "NumSkipAfterInvalid = 10"
definition NumSkipAfterOffline :: int where "NumSkipAfterOffline = 3"

definition ob_world :: "('w, exn, 'a) act \<Rightarrow> ('w, 'm, 'a) oact" where
  "ob_world = zoom (\<lambda>s. world (ob_env s)) (\<lambda>w s. s\<lparr>ob_env := (ob_env s)\<lparr>world := w\<rparr>\<rparr>)"

definition ob_subtypes :: "((NodeId_t, NodeId_t) smap \<Rightarrow> (NodeId_t, NodeId_t) smap) \<Rightarrow> ('w, 'm, unit) oact" where
  "ob_subtypes f = update (\<lambda>s. s\<lparr>ob_reader := (ob_reader s)
     \<lparr>m_subTypeDefinitionToKnownMachineTypeDefinition :=
        f (m_subTypeDefinitionToKnownMachineTypeDefinition (ob_reader s))\<rparr>\<rparr>)"

section \<open>Browsing for machines\<close>

text \<open>The type definition that some servers leave out is browsed in addition.\<close>

definition fix_missing_type :: "('w, 'cb) data_client \<Rightarrow> BrowseResult_t \<Rightarrow> ('w, 'm, BrowseResult_t) oact" where
  "fix_missing_type D machine =
     (if NodeId_eq (brTypeDefinition machine) NodeId_MissingType
      then try_catch
        (seq (ob_world (dc_Browse D (brNodeId machine) ctx_HasTypeDefinition)) (\<lambda>defs.
           case defs of [] \<Rightarrow> undefined_behaviour
           | d # _ \<Rightarrow> ret (machine\<lparr>brTypeDefinition := brNodeId d\<rparr>)))
        (\<lambda>ex. if is_UmatiException ex then Some (ret machine) else None)
      else ret machine)"

text \<open>The first configured machine type that the type of the machine is or inherits from.\<close>

fun find_supertype ::
    "('w, 'cb) data_client \<Rightarrow> NodeId_t \<Rightarrow> NodeId_t list \<Rightarrow> ('w, 'm, NodeId_t) oact" where
  "find_supertype D typeDefinition [] = ret typeDefinition"
| "find_supertype D typeDefinition (md # mds) =
     seq (ob_world (dc_isSameOrSubtype D md typeDefinition 3)) (\<lambda>same.
     if same
     then seq (ob_subtypes (sm_assign typeDefinition md)) (\<lambda>_. ret md)
     else find_supertype D typeDefinition mds)"

definition resolve_type :: "('w, 'cb) data_client \<Rightarrow> NodeId_t \<Rightarrow> ('w, 'm, NodeId_t) oact" where
  "resolve_type D typeDefinition =
     seq (reads (\<lambda>s. (sm_find (m_subTypeDefinitionToKnownMachineTypeDefinition (ob_reader s)) typeDefinition,
                      m_knownMachineTypeDefinitions (ob_reader s)))) (\<lambda>(subTypeToBaseType, known).
     case subTypeToBaseType of
       None \<Rightarrow> seq (ob_subtypes (sm_insert typeDefinition NodeId_UndefinedType)) (\<lambda>_.
                find_supertype D typeDefinition known)
     | Some base \<Rightarrow> ret (if \<not> NodeId_eq base NodeId_UndefinedType then base else typeDefinition))"

text \<open>Whether a node is a machine: it has an identification of the configured type.\<close>

definition identify :: "('w, 'cb) data_client \<Rightarrow> BrowseResult_t \<Rightarrow> ('w, 'm, BrowseResult_t option) oact" where
  "identify D machine =
     seq (resolve_type D (brTypeDefinition machine)) (\<lambda>t.
     seq (if NodeId_eq t NodeId_BaseObjectType
          then seq (ob_world (dc_Browse D (brNodeId machine) ctx_HasInterface)) (\<lambda>ifs.
                 ret (case ifs of [] \<Rightarrow> t | i # _ \<Rightarrow> brNodeId i))
          else ret t) (\<lambda>t'.
     seq (reads (\<lambda>s. getIdentificationTypeNodeId (ob_reader s) t')) (\<lambda>r.
     seq (lift_sum r) (\<lambda>typeDefinitionNodeId.
     seq (ob_world (dc_BrowseWithResultTypeFilter D (brNodeId machine) ctx_Hierarchical typeDefinitionNodeId))
       (\<lambda>ident.
     ret (if ident \<noteq> [] then Some (machine\<lparr>brTypeDefinition := t'\<rparr>) else None))))))"

definition skip_invalid :: "'a \<Rightarrow> exn \<Rightarrow> ('s, exn, 'a) act option" where
  "skip_invalid x ex =
     (if is_OpcUaException ex \<or> is_MachineInvalidException ex then Some (ret x) else None)"

definition browse_candidate ::
    "('w, 'cb) data_client \<Rightarrow> (NodeId_t \<Rightarrow> ('w, 'm, BrowseResult_t list) oact) \<Rightarrow> NodeId_t \<Rightarrow>
     (NodeId_t \<Rightarrow> bool) option \<Rightarrow> BrowseResult_t \<Rightarrow> BrowseResult_t list \<Rightarrow> ('w, 'm, BrowseResult_t list) oact" where
  "browse_candidate D components parentNodeId filt machine newMachines =
     (if (case filt of Some f \<Rightarrow> \<not> f (brNodeId machine) | None \<Rightarrow> False) then ret newMachines
      else seq (fix_missing_type D machine) (\<lambda>machine'.
           seq (try_catch (identify D machine') (skip_invalid None)) (\<lambda>found.
           case found of
             None \<Rightarrow> ret newMachines
           | Some m \<Rightarrow>
               try_catch
                 (seq (components (brNodeId m)) (\<lambda>inner.
                  seq (update (\<lambda>s. s\<lparr>m_parentOfMachine := sm_insert (brNodeId m) parentNodeId (m_parentOfMachine s)\<rparr>))
                    (\<lambda>_. ret (newMachines @ [m] @ inner))))
                 (skip_invalid (newMachines @ [m])))))"

fun browse_candidates ::
    "('w, 'cb) data_client \<Rightarrow> (NodeId_t \<Rightarrow> ('w, 'm, BrowseResult_t list) oact) \<Rightarrow> NodeId_t \<Rightarrow>
     (NodeId_t \<Rightarrow> bool) option \<Rightarrow> BrowseResult_t list \<Rightarrow> BrowseResult_t list \<Rightarrow> ('w, 'm, BrowseResult_t list) oact" where
  "browse_candidates D components parentNodeId filt [] newMachines = ret newMachines"
| "browse_candidates D components parentNodeId filt (machine # machines) newMachines =
     seq (browse_candidate D components parentNodeId filt machine newMachines) (\<lambda>newMachines'.
     browse_candidates D components parentNodeId filt machines newMachines')"

definition findComponentsFolder_body ::
    "('w, 'cb) data_client \<Rightarrow> (NodeId_t \<Rightarrow> NodeId_t \<Rightarrow> ('w, 'm, BrowseResult_t list) oact) \<Rightarrow>
     NodeId_t \<Rightarrow> ('w, 'm, BrowseResult_t list) oact" where
  "findComponentsFolder_body D browse nodeid =
     try_catch
       (seq (ob_world (dc_TranslateBrowsePathToNodeId D nodeid QualifiedName_ComponentsFolder)) (\<lambda>componentFolder.
        if NodeId_isNull componentFolder then ret [] else browse componentFolder nodeid))
       (\<lambda>ex. if is_OpcUaException ex then Some (ret []) else None)"

primrec browseForMachines ::
    "('w, 'cb) data_client \<Rightarrow> nat \<Rightarrow> (NodeId_t \<Rightarrow> bool) option \<Rightarrow> NodeId_t \<Rightarrow> NodeId_t \<Rightarrow>
     ('w, 'm, BrowseResult_t list) oact" where
  "browseForMachines D 0 = (\<lambda>filt nodeid parentNodeId. no_fuel)"
| "browseForMachines D (Suc fuel) = (\<lambda>filt nodeid parentNodeId.
     seq (ob_world (dc_Browse D nodeid ctx_Hierarchical)) (\<lambda>potentialMachines.
     browse_candidates D (findComponentsFolder_body D (browseForMachines D fuel None)) parentNodeId filt
       potentialMachines []))"

definition findComponentsFolder :: "('w, 'cb) data_client \<Rightarrow> nat \<Rightarrow> NodeId_t \<Rightarrow> ('w, 'm, BrowseResult_t list) oact" where
  "findComponentsFolder D fuel = findComponentsFolder_body D (browseForMachines D fuel None)"

definition canBrowseMachineList :: "('w, 'cb) data_client \<Rightarrow> nat \<Rightarrow> ('w, 'm, BrowseResult_t list option) oact" where
  "canBrowseMachineList D fuel =
     try_catch
       (seq (reads m_machinesFilter) (\<lambda>flt.
        seq (browseForMachines D fuel (if flt \<noteq> [] then Some (\<lambda>machine. machine \<in> set flt) else None)
               NodeId_MachinesFolder NodeId_MachinesFolder) (\<lambda>machineList.
        ret (Some machineList))))
       (\<lambda>ex. if is_OpcUaException ex \<or> is_ClientNotConnected ex then Some (ret None) else None)"

section \<open>New, staying and removed machines\<close>

text \<open>\<^verbatim>\<open>std::unique\<close>: an element equal to the last one kept is dropped.\<close>

fun unique_machines :: "BrowseResult_t list \<Rightarrow> BrowseResult_t list" where
  "unique_machines [] = []"
| "unique_machines [m] = [m]"
| "unique_machines (m # n # ms) =
     (if NodeId_eq (brNodeId m) (brNodeId n) then unique_machines (m # ms) else m # unique_machines (n # ms))"

definition removeOfflineMachines ::
    "('w, 'm) observer_methods \<Rightarrow> NodeId_t list \<Rightarrow> ('w, 'm, unit) oact" where
  "removeOfflineMachines M toBeRemovedMachines = for_each toBeRemovedMachines (vm_removeMachine M)"

definition recreateKnownMachineToolsMap ::
    "('w, 'm) observer_methods \<Rightarrow> BrowseResult_t list \<Rightarrow> ('w, 'm, unit) oact" where
  "recreateKnownMachineToolsMap M machineList =
     seq (reads m_knownMachineToolsSet) (\<lambda>tools.
     seq (removeOfflineMachines M tools) (\<lambda>_.
     update (\<lambda>s. s\<lparr>m_knownMachineToolsSet := ss_of_list (map brNodeId machineList)\<rparr>)))"

definition machineListsNotEqual ::
    "('w, 'm) observer_methods \<Rightarrow> BrowseResult_t list \<Rightarrow> ('w, 'm, bool) oact" where
  "machineListsNotEqual M machineList =
     seq (reads m_knownMachineToolsSet) (\<lambda>tools.
     if ss_of_list (map brNodeId machineList) \<noteq> tools
     then seq (recreateKnownMachineToolsMap M machineList) (\<lambda>_. ret True)
     else ret False)"

definition ignoreInvalidMachinesTemporarily :: "NodeId_t \<Rightarrow> ('w, 'm, bool) oact" where
  "ignoreInvalidMachinesTemporarily newMachineId =
     seq (reads (\<lambda>s. sm_find (m_invalidMachines s) newMachineId)) (\<lambda>it.
     case it of
       None \<Rightarrow> ret False
     | Some (count, reason) \<Rightarrow>
         if count - 1 \<le> 0
         then seq (update (\<lambda>s. s\<lparr>m_invalidMachines := sm_erase newMachineId (m_invalidMachines s)\<rparr>)) (\<lambda>_. ret False)
         else seq (update (\<lambda>s. s\<lparr>m_invalidMachines := sm_assign newMachineId (count - 1, reason) (m_invalidMachines s)\<rparr>))
                (\<lambda>_. ret True))"

fun findNewAndOfflineMachines ::
    "('w, 'm) observer_methods \<Rightarrow> BrowseResult_t list \<Rightarrow> NodeId_t sset \<Rightarrow> NodeId_t sset \<Rightarrow> (NodeId_t, json) smap \<Rightarrow>
     ('w, 'm, NodeId_t sset \<times> NodeId_t sset \<times> (NodeId_t, json) smap) oact" where
  "findNewAndOfflineMachines M [] toBeRemovedMachines newMachines idents =
     ret (toBeRemovedMachines, newMachines, idents)"
| "findNewAndOfflineMachines M (machineTool # machineList) toBeRemovedMachines newMachines idents =
     seq (try_catch
            (vm_isOnline M (brNodeId machineTool) (brTypeDefinition machineTool))
            (\<lambda>ex. if is_OpcUaException ex then Some (ret (False, JNull)) else None)) (\<lambda>(online, identificationAsJson).
     if online
     then findNewAndOfflineMachines M machineList
            (if brNodeId machineTool \<in> set toBeRemovedMachines
             then ss_erase (brNodeId machineTool) toBeRemovedMachines else toBeRemovedMachines)
            (if brNodeId machineTool \<in> set toBeRemovedMachines
             then newMachines else ss_insert (brNodeId machineTool) newMachines)
            (sm_insert (brNodeId machineTool) identificationAsJson idents)
     else findNewAndOfflineMachines M machineList toBeRemovedMachines newMachines idents)"

definition addNewMachine :: "('w, 'm) observer_methods \<Rightarrow> BrowseResult_t \<Rightarrow> ('w, 'm, unit) oact" where
  "addNewMachine M newMachine =
     try_catch
       (seq (vm_addMachine M newMachine) (\<lambda>_.
        update (\<lambda>s. s\<lparr>m_knownMachines := sm_insert (brNodeId newMachine) newMachine (m_knownMachines s)\<rparr>)))
       (\<lambda>ex. if is_MachineInvalidException ex \<or> is_MachineOfflineException ex
             then Some (update (\<lambda>s. s\<lparr>m_invalidMachines :=
               sm_insert (brNodeId newMachine) (NumSkipAfterInvalid, what ex) (m_invalidMachines s)\<rparr>))
             else None)"

definition default_machine :: BrowseResult_t where
  "default_machine = \<lparr>brNodeClass = Object, brNodeId = NodeId '''' '''', brTypeDefinition = NodeId '''' '''',
     brReferenceTypeId = NodeId '''' '''', brBrowseName = QualifiedName '''' ''''\<rparr>"

definition add_if_due ::
    "('w, 'm) observer_methods \<Rightarrow> (NodeId_t, BrowseResult_t) smap \<Rightarrow> NodeId_t \<Rightarrow> ('w, 'm, unit) oact" where
  "add_if_due M machineList_map newMachineNodeId =
     seq (ignoreInvalidMachinesTemporarily newMachineNodeId) (\<lambda>ignored.
     if ignored then ret ()
     else addNewMachine M (case sm_find machineList_map newMachineNodeId of
            Some m \<Rightarrow> m | None \<Rightarrow> default_machine))"

definition update_with_list ::
    "('w, 'm) observer_methods \<Rightarrow> NodeId_t sset \<Rightarrow> BrowseResult_t list \<Rightarrow> ('w, 'm, unit) oact" where
  "update_with_list M toBeRemovedMachines machineList =
     seq (machineListsNotEqual M machineList) (\<lambda>_.
     seq (findNewAndOfflineMachines M machineList toBeRemovedMachines [] []) (\<lambda>(toBeRemoved, newMachines, idents).
     seq (removeOfflineMachines M toBeRemoved) (\<lambda>_.
     seq (for_each newMachines
            (add_if_due M (fold (\<lambda>m. sm_insert (brNodeId m) m) machineList []))) (\<lambda>_.
     update (\<lambda>s. s\<lparr>m_machineIdentificationsCache := idents\<rparr>)))))"

definition UpdateMachines :: "('w, 'cb) data_client \<Rightarrow> ('w, 'm) observer_methods \<Rightarrow> nat \<Rightarrow> ('w, 'm, unit) oact" where
  "UpdateMachines D M fuel =
     seq (reads (\<lambda>s. ss_of_list (sm_keys (m_knownMachines s)))) (\<lambda>toBeRemovedMachines.
     seq (canBrowseMachineList D fuel) (\<lambda>browsed.
     case browsed of
       None \<Rightarrow> ret ()
     | Some machineList \<Rightarrow>
         update_with_list M toBeRemovedMachines (unique_machines (sort_key brNodeId machineList))))"

end
