(* ===== verification/Dashboard_Transform.thy ===== *)
theory Dashboard_Transform
  imports Dashboard_Client
begin

text \<open>
  Properties of \<^verbatim>\<open>TransformToNodeIds\<close>: it ends within fuel on every finite address
  space, it throws only two kinds of exceptions, and it expands each node id once.
\<close>

section \<open>Frame rules\<close>

lemma runs_on_world:
  assumes "runs I A Q m" and "\<And>s. P s \<Longrightarrow> I (world (env s))"
    and "\<And>s w. P s \<Longrightarrow> I w \<Longrightarrow> P (s\<lparr>env := (env s)\<lparr>world := w\<rparr>\<rparr>)"
  shows "runs P A Q (on_world m)"
  unfolding on_world_def by (rule runs_zoom [OF assms(1)]) (auto intro: assms(2,3))

lemma runs_fresh_ptr:
  "(\<And>s p. P s \<Longrightarrow> P (s\<lparr>env := (env s)\<lparr>next_ptr := p\<rparr>\<rparr>)) \<Longrightarrow> runs P A (\<lambda>_. True) fresh_ptr"
  by (simp add: runs_def fresh_ptr_def act_defs)

text \<open>
  An invariant of the world and a predicate on the client: kept by everything that touches
  neither.
\<close>

definition client_pred :: "('w \<Rightarrow> bool) \<Rightarrow> (dashboard_client \<Rightarrow> bool) \<Rightarrow> 'w dstate \<Rightarrow> bool" where
  "client_pred I p s \<longleftrightarrow> I (world (env s)) \<and> p (client s)"

lemma client_pred_env [simp]: "client_pred I p (s\<lparr>env := e\<rparr>) \<longleftrightarrow> I (world e) \<and> p (client s)"
  by (simp add: client_pred_def)

lemma client_predD: "client_pred I p s \<Longrightarrow> I (world (env s))" "client_pred I p s \<Longrightarrow> p (client s)"
  by (simp_all add: client_pred_def)

lemma runs_on_client: "(\<And>c. p c \<Longrightarrow> p (f c)) \<Longrightarrow> Q () \<Longrightarrow> runs (client_pred I p) A Q (on_client f)"
  by (auto simp: runs_def on_client_def act_defs client_pred_def)

lemma runs_client_fresh_ptr: "runs (client_pred I p) A (\<lambda>_. True) fresh_ptr"
  by (rule runs_fresh_ptr) (simp add: client_pred_def)

section \<open>One body, for any recursive call\<close>

text \<open>The ends that the transformation allows.\<close>

definition transform_abrupt :: "exn abrupt \<Rightarrow> bool" where
  "transform_abrupt e \<longleftrightarrow> e = Undefined \<or>
     (\<exists>w. e = Throw (MachineInvalidChildException w True)) \<or> e = Throw (StdException ''std::exception'')"

lemma end_simps [simp]:
  "transform_abrupt Undefined" "\<not> transform_abrupt OutOfFuel"
  "transform_abrupt (Throw (MachineInvalidChildException w True))"
  "transform_abrupt (Throw (rethrow_sliced x))"
  by (simp_all add: transform_abrupt_def rethrow_sliced_def)

lemma transform_abrupt_any_end: "transform_abrupt e \<Longrightarrow> any_end e"
  by (auto simp: transform_abrupt_def)

lemma client_okD:
  assumes "client_ok I U D"
  shows "runs (client_pred I p) any_end (from_nodes U) (on_world (dc_Browse D n c) :: ('w, _) dact)"
    and "runs (client_pred I p) any_end (from_nodes U) (on_world (dc_BrowseWithResultTypeFilter D n c t))"
    and "runs (client_pred I p) any_end (\<lambda>r. NodeId_isNull r \<or> r \<in> U) (on_world (dc_TranslateBrowsePathToNodeId D n q))"
    and "runs (client_pred I p) throws_only (\<lambda>_. True) (on_world (dc_Subscribe D n cb))"
    and "runs (client_pred I p) throws_only (\<lambda>_. True) (on_world (dc_Unsubscribe D ms hs))"
  using assms unfolding client_ok_def by (auto intro!: runs_on_world [of I] simp: client_pred_def)

lemma runs_OptionalAndMandatory:
  assumes D: "client_ok I U D"
    and rec: "\<And>n t. n \<in> U \<Longrightarrow> runs (client_pred I p) transform_abrupt (\<lambda>_. True) (transform n t)"
  shows "runs (client_pred I p) transform_abrupt (\<lambda>_. True)
     (OptionalAndMandatoryTransformToNodeId D ts transform startNode found c)"
  unfolding OptionalAndMandatoryTransformToNodeId_def Let_def
proof (rule runs_try_catch [where A' = any_end])
  show "runs (client_pred I p) any_end (\<lambda>_. True)
      (seq (on_world (dc_TranslateBrowsePathToNodeId D startNode (SpecifiedBrowseName (sn_at (ts_heap ts) c))))
        (\<lambda>childNodeId.
       if NodeId_isNull childNodeId then ret (False, found)
       else seq (transform childNodeId c) (\<lambda>nodeIds. ret (True, found @ [nodeIds]))))"
    by (intro runs_seq [OF client_okD(3) [OF D]] runs_if runs_ret
        runs_seq_any [OF runs_weaken [OF rec transform_abrupt_any_end]]) auto
qed (auto split: exn.splits intro!: runs_if runs_raise runs_ret)

lemma runs_preparePlaceholder:
  assumes D: "client_ok I U D"
    and rec: "\<And>n t. n \<in> U \<Longrightarrow> runs (client_pred I p) transform_abrupt (\<lambda>_. True) (transform n t)"
  shows "from_nodes U rs \<Longrightarrow>
   runs (client_pred I p) any_end (\<lambda>_. True) (preparePlaceholderNodesTypeId D ts transform rs insts)"
proof (induction rs arbitrary: insts)
  case (Cons r rs)
  from Cons.prems have U: "brNodeId r \<in> U" "from_nodes U rs" by (simp_all add: from_nodes_def)
  have inst: "runs (client_pred I p) any_end (\<lambda>_. True)
      (case sm_find (ts_typeMap ts) td of
         None \<Rightarrow> ret insts
       | Some t \<Rightarrow> seq (transform (brNodeId r) t) (\<lambda>n. ret (f n)))" for td f
    using runs_weaken [OF rec [OF U(1)] transform_abrupt_any_end]
    by (auto split: option.splits intro!: runs_ret intro: runs_seq_any)
  have tdef: "runs (client_pred I p) any_end (\<lambda>_. True)
      (if b then seq (on_world (dc_Browse D (brNodeId r) c)) (\<lambda>ifs.
         case ifs of [] \<Rightarrow> undefined_behaviour | i # _ \<Rightarrow> ret (g i)) else ret x)" for b c g x
    by (intro runs_if runs_ret runs_seq [OF client_okD(1) [OF D]])
      (auto split: list.splits intro: runs_ret runs_undefined)
  show ?case
    unfolding preparePlaceholderNodesTypeId.simps
    by (intro runs_seq_any [OF tdef] runs_seq_any [OF inst] Cons.IH U(2))
qed (simp add: runs_ret)

lemma runs_BrowsePlaceholder:
  assumes D: "client_ok I U D"
    and rec: "\<And>n t. n \<in> U \<Longrightarrow> runs (client_pred I p) transform_abrupt (\<lambda>_. True) (transform n t)"
  shows "runs (client_pred I p) any_end (\<lambda>_. True) (BrowsePlaceholder D ts transform startNode ph)"
  unfolding BrowsePlaceholder_def dc_Browse_typed_def
  by (intro runs_seq_any [OF runs_client_fresh_ptr] runs_seq [OF client_okD(2) [OF D]]
      runs_seq_any [OF runs_preparePlaceholder [OF D rec]] runs_ret) simp_all

lemma runs_Placeholder:
  assumes D: "client_ok I U D"
    and rec: "\<And>n t. n \<in> U \<Longrightarrow> runs (client_pred I p) transform_abrupt (\<lambda>_. True) (transform n t)"
  shows "runs (client_pred I p) transform_abrupt (\<lambda>_. True)
     (OptionalAndMandatoryPlaceholderTransformToNodeId D ts transform startNode found c)"
  unfolding OptionalAndMandatoryPlaceholderTransformToNodeId_def Let_def
  by (rule runs_try_catch [where A' = any_end])
    (auto intro!: runs_seq_any [OF runs_BrowsePlaceholder [OF D rec]] runs_ret runs_raise)

lemma runs_transform_children:
  assumes D: "client_ok I U D"
    and rec: "\<And>n t. n \<in> U \<Longrightarrow> runs (client_pred I p) transform_abrupt (\<lambda>_. True) (transform n t)"
  shows "runs (client_pred I p) transform_abrupt (\<lambda>_. True)
     (transform_children D ts transform startNode cs found)"
proof (induction cs arbitrary: found)
  case (Cons c cs)
  have "runs (client_pred I p) transform_abrupt (\<lambda>_. True)
      (case ModellingRule (sn_at (ts_heap ts) c) of
         Optional \<Rightarrow> OptionalAndMandatoryTransformToNodeId D ts transform startNode found c
       | Mandatory \<Rightarrow> OptionalAndMandatoryTransformToNodeId D ts transform startNode found c
       | OptionalPlaceholder \<Rightarrow> OptionalAndMandatoryPlaceholderTransformToNodeId D ts transform startNode found c
       | MandatoryPlaceholder \<Rightarrow> OptionalAndMandatoryPlaceholderTransformToNodeId D ts transform startNode found c
       | RuleNone \<Rightarrow> ret (False, found))"
    using runs_OptionalAndMandatory [OF D rec] runs_Placeholder [OF D rec]
    by (auto split: ModellingRule_t.splits intro: runs_ret)
  then show ?case
    unfolding transform_children.simps by (rule runs_seq_any) (auto simp: Cons.IH)
qed (simp add: runs_ret)

section \<open>The recursion\<close>

text \<open>The nodes of \<open>U\<close> that are still to be expanded.\<close>

definition unbrowsed :: "NodeId_t set \<Rightarrow> nat \<Rightarrow> dashboard_client \<Rightarrow> bool" where
  "unbrowsed U k c \<longleftrightarrow> card (U - set (browsedNodes c)) < k"

lemma unbrowsed_insert:
  assumes "finite U" and "n \<in> U" and "n \<notin> set (browsedNodes c)" and "unbrowsed U (Suc k) c"
  shows "unbrowsed U k (c\<lparr>browsedNodes := ss_insert n (browsedNodes c)\<rparr>)"
proof -
  have "U - insert n (set (browsedNodes c)) = (U - set (browsedNodes c)) - {n}" by auto
  moreover have "card ((U - set (browsedNodes c)) - {n}) < card (U - set (browsedNodes c))"
    using assms(1-3) by (intro psubset_card_mono) auto
  ultimately show ?thesis using assms(4) by (simp add: unbrowsed_def)
qed

lemma unbrowsed_mono: "unbrowsed U k c \<Longrightarrow> unbrowsed U (Suc k) c"
  by (simp add: unbrowsed_def)

text \<open>A call is the creation of the node, after an expansion when the id is new.\<close>

definition finish_node :: "type_store \<Rightarrow> NodeId_t \<Rightarrow> nat \<Rightarrow> Node list \<Rightarrow> ('w, Node) dact" where
  "finish_node ts n t found = seq fresh_ptr (\<lambda>ptr.
     let typ = sn_at (ts_heap ts) t
     in ret (SimpleNode ptr (NodeDefinition.truncate typ) found n
               (SpecifiedTypeNodeId typ) (ofBaseDataVariableType typ)))"

definition expand_node ::
    "('w, callback) data_client \<Rightarrow> type_store \<Rightarrow> nat \<Rightarrow> NodeId_t \<Rightarrow> nat \<Rightarrow> ('w, Node) dact" where
  "expand_node D ts k n t =
     seq (seq (transform_children D ts (TransformToNodeIds D ts k) n (children_at (ts_heap ts) t) [])
            (\<lambda>found. seq (on_client (\<lambda>c. c\<lparr>browsedNodesChildNodes :=
               sm_assign n found (browsedNodesChildNodes c)\<rparr>)) (\<lambda>_. ret found)))
         (finish_node ts n t)"

definition mark_browsed :: "NodeId_t \<Rightarrow> 'w dstate \<Rightarrow> 'w dstate" where
  "mark_browsed n s = s\<lparr>client := (client s)\<lparr>browsedNodes := ss_insert n (browsedNodes (client s))\<rparr>\<rparr>"

lemma TransformToNodeIds_Suc:
  "TransformToNodeIds D ts (Suc k) n t s =
     (if n \<in> set (browsedNodes (client s)) then finish_node ts n t [] (mark_browsed n s)
      else expand_node D ts k n t (mark_browsed n s))"
  by (simp add: TransformToNodeIds_body_def finish_node_def [abs_def] expand_node_def on_client_def mark_browsed_def)

lemma runs_finish_node: "runs (client_pred I p) transform_abrupt (\<lambda>_. True) (finish_node ts n t found)"
  unfolding finish_node_def by (intro runs_seq_any [OF runs_client_fresh_ptr]) (auto simp: Let_def intro: runs_ret)

lemma TransformToNodeIds_runs:
  assumes D: "client_ok I U D" and fin: "finite U"
    and q1: "\<And>c b. q (c\<lparr>browsedNodes := b\<rparr>) = q c"
    and q2: "\<And>c b. q (c\<lparr>browsedNodesChildNodes := b\<rparr>) = q c"
  shows "n \<in> U \<Longrightarrow> runs (client_pred I (\<lambda>c. unbrowsed U k c \<and> q c)) transform_abrupt (\<lambda>_. True) (TransformToNodeIds D ts k n t)"
proof (induction k arbitrary: n t)
  case 0
  show ?case by (simp add: runs_def client_pred_def unbrowsed_def)
next
  case (Suc k)
  note rec = Suc.IH
  have first: "runs (client_pred I (\<lambda>c. unbrowsed U k c \<and> q c)) transform_abrupt (\<lambda>_. True) (expand_node D ts k n t)"
    unfolding expand_node_def
    by (intro runs_seq_any runs_transform_children [OF D rec] runs_on_client runs_ret runs_finish_node)
      (auto simp: unbrowsed_def q2)
  show ?case
  proof (rule runsI)
    fix s r u
    assume P: "client_pred I (\<lambda>c. unbrowsed U (Suc k) c \<and> q c) s" and run: "TransformToNodeIds D ts (Suc k) n t s = (r, u)"
    let ?s = "mark_browsed n s"
    show "client_pred I (\<lambda>c. unbrowsed U (Suc k) c \<and> q c) u \<and>
        (case r of Inl e \<Rightarrow> transform_abrupt e | Inr x \<Rightarrow> True)"
    proof (cases "n \<in> set (browsedNodes (client s))")
      case True
      then have "client_pred I (\<lambda>c. unbrowsed U (Suc k) c \<and> q c) ?s"
        using P by (simp add: client_pred_def ss_insert_def mark_browsed_def q1)
      moreover have "finish_node ts n t [] ?s = (r, u)" using run True unfolding TransformToNodeIds_Suc by simp
      ultimately show ?thesis using runsD [OF runs_finish_node] by blast
    next
      case False
      then have "client_pred I (\<lambda>c. unbrowsed U k c \<and> q c) ?s"
        using P unbrowsed_insert [OF fin Suc.prems] by (simp add: client_pred_def mark_browsed_def q1)
      moreover have "expand_node D ts k n t ?s = (r, u)" using run False unfolding TransformToNodeIds_Suc by simp
      ultimately have "client_pred I (\<lambda>c. unbrowsed U k c \<and> q c) u \<and> (case r of Inl e \<Rightarrow> transform_abrupt e | Inr x \<Rightarrow> True)"
        using runsD [OF first] by blast
      then show ?thesis by (simp add: client_pred_def unbrowsed_mono)
    qed
  qed
qed

text \<open>
  C1: turning a type into node ids always ends, also when the address space of the server or
  the type definitions are cyclic. If the data source keeps its contract, with node ids from a
  finite set, recursion depth one more than the size of that set is enough, from any state of
  the client, and the data source is left in a state in which the contract holds. The result is a node, or one of two exceptions, or the undefined behaviour
  of taking the first interface of an instance that implements none.
\<close>

theorem TransformToNodeIds_terminates:
  assumes "client_ok I U D" and "I (world (env s))" and "finite U" and "n \<in> U" and "card U < fuel"
  shows "fst (TransformToNodeIds D ts fuel n t s) \<noteq> Inl OutOfFuel \<and>
    (\<forall>e. fst (TransformToNodeIds D ts fuel n t s) = Inl e \<longrightarrow> transform_abrupt e) \<and>
    I (world (env (snd (TransformToNodeIds D ts fuel n t s))))"
proof -
  obtain r u where run: "TransformToNodeIds D ts fuel n t s = (r, u)" by fastforce
  have "card (U - set (browsedNodes (client s))) \<le> card U"
    using assms(3) by (simp add: card_mono)
  then have "client_pred I (\<lambda>c. unbrowsed U fuel c \<and> True) s"
    using assms(2,5) by (simp add: client_pred_def unbrowsed_def)
  from runsD [OF TransformToNodeIds_runs [OF assms(1,3) _ _ assms(4)] this run]
  show ?thesis using run by (auto simp: client_pred_def split: sum.splits)
qed

text \<open>
  A cyclic example: two nodes that are each other's child, and a type whose only child has the
  type itself.
\<close>

definition node_A :: NodeId_t where "node_A = NodeId ''urn:x'' ''s=A''"
definition node_B :: NodeId_t where "node_B = NodeId ''urn:x'' ''s=B''"

definition example_client :: "(unit, callback) data_client" where
  "example_client =
     \<lparr>dc_Browse = (\<lambda>n c. ret []), dc_isSameOrSubtype = (\<lambda>a b m. ret True),
      dc_BrowseWithResultTypeFilter = (\<lambda>n c t. ret []),
      dc_TranslateBrowsePathToNodeId = (\<lambda>n q. ret (if n = node_A then node_B else node_A)),
      dc_readNodeBrowseName = (\<lambda>n. ret ''name''), dc_getTypeName = (\<lambda>n. ret ''type''),
      dc_Subscribe = (\<lambda>n cb. ret (Some (ValueSubscriptionHandle_new 1 2 n))),
      dc_Unsubscribe = (\<lambda>a b. ret ()), dc_ReadeNodeValues = (\<lambda>ns. ret []),
      dc_Namespaces = ret [], dc_VerifyConnection = ret True\<rparr>"

definition example_type :: "NodeClass_t \<Rightarrow> StructureNode" where
  "example_type cls = StructureNode_full cls Mandatory NodeId_HasComponent (NodeId '''' ''i=58'')
     (QualifiedName ''urn:x'' ''c'') False 0"

definition example_types :: "NodeClass_t \<Rightarrow> type_store" where
  "example_types cls = \<lparr>ts_heap = \<lparr>th_nodes = [example_type cls], th_lists = [[0]], th_bis = []\<rparr>, ts_typeMap = []\<rparr>"

definition example_env :: "unit env" where
  "example_env = \<lparr>world = (), published = [], clock = 0, next_ptr = 0\<rparr>"

definition example_state :: "unit dstate" where
  "example_state = \<lparr>env = example_env, client = DashboardClient_new\<rparr>"

lemma example_client_ok: "client_ok (\<lambda>_. True) {node_A, node_B} example_client"
  by (auto simp: client_ok_def example_client_def from_nodes_def intro!: runs_ret)

theorem TransformToNodeIds_terminates_witness:
  "fst (TransformToNodeIds example_client (example_types Object) 3 node_A 0 example_state) \<noteq> Inl OutOfFuel"
  using TransformToNodeIds_terminates [OF example_client_ok, of node_A 3 "example_types Object" 0 example_state]
  by (simp add: card_insert_if)

section \<open>Every node is expanded once\<close>

text \<open>The ids of the nodes of a tree that have children, in the order of a walk.\<close>

fun expanded :: "Node \<Rightarrow> NodeId_t list" and expanded_el :: "PlaceholderElement \<Rightarrow> NodeId_t list" where
  "expanded (SimpleNode ptr def cs nid tid b) = (if cs = [] then [] else [nid]) @ concat (map expanded cs)"
| "expanded (PlaceholderNode ptr def es) = concat (map expanded_el es)"
| "expanded_el (PlaceholderElement n bn td) = expanded n"

abbreviation exps :: "Node list \<Rightarrow> NodeId_t list" where
  "exps ns \<equiv> concat (map expanded ns)"

text \<open>The ids in \<open>xs\<close> are different and were all browsed after the ids in \<open>B\<close>.\<close>

definition grown :: "NodeId_t set \<Rightarrow> NodeId_t list \<Rightarrow> 'w dstate \<Rightarrow> bool" where
  "grown B xs s \<longleftrightarrow> B \<subseteq> set (browsedNodes (client s)) \<and> distinct xs \<and>
     set xs \<subseteq> set (browsedNodes (client s)) - B"

lemma grown_env [simp]: "grown B xs (s\<lparr>env := e\<rparr>) = grown B xs s"
  by (simp add: grown_def)

lemma grown_childNodes [simp]:
  "grown B xs (s\<lparr>client := (client s)\<lparr>browsedNodesChildNodes := b\<rparr>\<rparr>) = grown B xs s"
  by (simp add: grown_def)

lemma grown_prefix: "grown B (xs @ zs) s \<Longrightarrow> grown B xs s"
  by (auto simp: grown_def)

lemma hoare_prefix: "hoare P m Q (\<lambda>e. grown B (xs @ zs)) \<Longrightarrow> hoare P m Q (\<lambda>e. grown B xs)"
  by (erule hoare_weaken) (auto dest: grown_prefix)

lemma hoare_on_world: "(\<And>s w. P s \<Longrightarrow> P (s\<lparr>env := (env s)\<lparr>world := w\<rparr>\<rparr>)) \<Longrightarrow> hoare P (on_world m) (\<lambda>_. P) (\<lambda>_. P)"
  by (auto simp: hoare_def on_world_def zoom_def split: prod.splits sum.splits)

lemma hoare_fresh_ptr: "(\<And>s p. P s \<Longrightarrow> P (s\<lparr>env := (env s)\<lparr>next_ptr := p\<rparr>\<rparr>)) \<Longrightarrow> hoare P fresh_ptr (\<lambda>_. P) (\<lambda>_. P)"
  by (auto simp: hoare_def fresh_ptr_def act_defs)

definition grows :: "NodeId_t set \<Rightarrow> (NodeId_t \<Rightarrow> nat \<Rightarrow> ('w, Node) dact) \<Rightarrow> bool" where
  "grows B transform \<longleftrightarrow> (\<forall>xs n t. hoare (grown B xs) (transform n t)
     (\<lambda>x. grown B (xs @ expanded x)) (\<lambda>e. grown B xs))"

lemma growsD: "grows B transform \<Longrightarrow>
    hoare (grown B xs) (transform n t) (\<lambda>x. grown B (xs @ expanded x)) (\<lambda>e. grown B xs)"
  by (simp add: grows_def)

lemma hoare_grown_world: "hoare (grown B xs) (on_world m) (\<lambda>_. grown B xs) (\<lambda>_. grown B xs)"
  by (rule hoare_on_world) simp

lemma hoare_grown_OptionalAndMandatory:
  assumes "grows B transform"
  shows "hoare (grown B (ys @ exps found)) (OptionalAndMandatoryTransformToNodeId D ts transform startNode found c)
    (\<lambda>(b, found'). grown B (ys @ exps found')) (\<lambda>e. grown B (ys @ exps found))"
  unfolding OptionalAndMandatoryTransformToNodeId_def Let_def
proof (rule hoare_try_catch [where E' = "\<lambda>e. grown B (ys @ exps found)"], goal_cases)
  case 1
  show ?case
  proof (rule hoare_seq [OF hoare_grown_world])
    fix childNodeId
    show "hoare (grown B (ys @ exps found))
      (if NodeId_isNull childNodeId then ret (False, found)
       else seq (transform childNodeId c) (\<lambda>nodeIds. ret (True, found @ [nodeIds])))
      (\<lambda>(b, found'). grown B (ys @ exps found')) (\<lambda>e. grown B (ys @ exps found))"
      by (auto intro!: hoare_ret hoare_seq [OF growsD [OF assms]])
  qed
qed (auto split: exn.splits intro!: hoare_raise hoare_ret)

lemma hoare_grown_preparePlaceholder:
  assumes "grows B transform"
  shows "hoare (grown B (ys @ concat (map expanded_el insts)))
    (preparePlaceholderNodesTypeId D ts transform rs insts)
    (\<lambda>insts'. grown B (ys @ concat (map expanded_el insts'))) (\<lambda>e. grown B ys)"
proof (induction rs arbitrary: insts)
  case (Cons r rs)
  let ?G = "\<lambda>insts. grown B (ys @ concat (map expanded_el insts))"
  have world: "hoare (?G insts) (on_world m) (\<lambda>_. ?G insts) (\<lambda>e. grown B ys)" for m insts
    by (rule hoare_prefix [OF hoare_grown_world])
  have tdef: "hoare (?G insts)
      (if b then seq (on_world m) (\<lambda>ifs. case ifs of [] \<Rightarrow> undefined_behaviour | i # _ \<Rightarrow> ret (g i)) else ret x)
      (\<lambda>_. ?G insts) (\<lambda>e. grown B ys)" for b x insts and g and m
    by (auto intro!: hoare_seq [OF world] hoare_ret hoare_undefined split: list.splits dest: grown_prefix)
  have inst: "hoare (?G insts)
      (case sm_find (ts_typeMap ts) td of
         None \<Rightarrow> ret insts
       | Some t \<Rightarrow> seq (transform (brNodeId r) t) (\<lambda>n. ret (PlaceholderNode_addInstance (PlaceholderElement n q td) insts)))
      ?G (\<lambda>e. grown B ys)" for td q insts
    by (auto split: option.splits simp: PlaceholderNode_addInstance_def intro!: hoare_ret
        hoare_seq [OF hoare_prefix [OF growsD [OF assms]]])
  show ?case
    unfolding preparePlaceholderNodesTypeId.simps
    by (intro hoare_seq [OF tdef] hoare_seq [OF inst] Cons.IH)
qed (auto intro: hoare_ret)

lemma hoare_grown_Placeholder:
  assumes "grows B transform"
  shows "hoare (grown B (ys @ exps found)) (OptionalAndMandatoryPlaceholderTransformToNodeId D ts transform startNode found c)
    (\<lambda>(b, found'). grown B (ys @ exps found')) (\<lambda>e. grown B (ys @ exps found))"
proof -
  let ?G = "grown B (ys @ exps found)"
  have ptr: "hoare ?G fresh_ptr (\<lambda>_. ?G) (\<lambda>e. ?G)" by (rule hoare_fresh_ptr) simp
  have prep: "hoare ?G (preparePlaceholderNodesTypeId D ts transform rs [])
      (\<lambda>insts. grown B ((ys @ exps found) @ concat (map expanded_el insts))) (\<lambda>e. ?G)" for rs
    using hoare_grown_preparePlaceholder [OF assms, of "ys @ exps found" "[]"] by simp
  have browse: "hoare ?G (BrowsePlaceholder D ts transform startNode ph)
      (\<lambda>x. grown B ((ys @ exps found) @ expanded x)) (\<lambda>e. ?G)" for ph
    unfolding BrowsePlaceholder_def
    by (rule hoare_seq [OF ptr], rule hoare_seq [OF hoare_grown_world], rule hoare_seq [OF prep])
      (rule hoare_ret, simp)
  show ?thesis
    unfolding OptionalAndMandatoryPlaceholderTransformToNodeId_def Let_def
    by (rule hoare_try_catch [where E' = "\<lambda>e. ?G"])
      (auto intro!: hoare_seq [OF browse] hoare_ret hoare_raise)
qed

lemma hoare_grown_children:
  assumes "grows B transform"
  shows "hoare (grown B (ys @ exps found)) (transform_children D ts transform startNode cs found)
    (\<lambda>found'. grown B (ys @ exps found')) (\<lambda>e. grown B ys)"
proof (induction cs arbitrary: found)
  case (Cons c cs)
  have one: "hoare (grown B (ys @ exps found))
      (case ModellingRule (sn_at (ts_heap ts) c) of
         Optional \<Rightarrow> OptionalAndMandatoryTransformToNodeId D ts transform startNode found c
       | Mandatory \<Rightarrow> OptionalAndMandatoryTransformToNodeId D ts transform startNode found c
       | OptionalPlaceholder \<Rightarrow> OptionalAndMandatoryPlaceholderTransformToNodeId D ts transform startNode found c
       | MandatoryPlaceholder \<Rightarrow> OptionalAndMandatoryPlaceholderTransformToNodeId D ts transform startNode found c
       | RuleNone \<Rightarrow> ret (False, found))
      (\<lambda>(b, found'). grown B (ys @ exps found')) (\<lambda>e. grown B ys)"
    by (cases "ModellingRule (sn_at (ts_heap ts) c)")
      (auto intro: hoare_ret hoare_prefix [OF hoare_grown_OptionalAndMandatory [OF assms]]
        hoare_prefix [OF hoare_grown_Placeholder [OF assms]])
  show ?case
    unfolding transform_children.simps
    by (rule hoare_seq [OF one]) (auto split: prod.splits intro: Cons.IH)
qed (auto intro: hoare_ret)

lemma hoare_finish_node:
  "hoare (grown B (xs @ (if found = [] then [] else [n]) @ exps found)) (finish_node ts n t found)
    (\<lambda>x. grown B (xs @ expanded x)) (\<lambda>e. grown B xs)"
  unfolding finish_node_def Let_def
  by (rule hoare_seq [OF hoare_prefix [OF hoare_fresh_ptr]]) (auto intro: hoare_ret)

lemma grown_drop: "grown B (xs @ n # zs) s \<Longrightarrow> grown B (xs @ (if b then [] else [n]) @ zs) s"
  by (auto simp: grown_def)

lemma hoare_expand_node:
  assumes "grows B (TransformToNodeIds D ts k)"
  shows "hoare (grown B (xs @ [n])) (expand_node D ts k n t) (\<lambda>x. grown B (xs @ expanded x)) (\<lambda>e. grown B xs)"
proof -
  let ?load = "\<lambda>found. seq (on_client (\<lambda>c. c\<lparr>browsedNodesChildNodes :=
      sm_assign n found (browsedNodesChildNodes c)\<rparr>)) (\<lambda>_. ret found)"
  let ?G = "\<lambda>found. grown B (xs @ (if found = [] then [] else [n]) @ exps found)"
  have children: "hoare (grown B (xs @ [n])) (transform_children D ts (TransformToNodeIds D ts k) n cs [])
      (\<lambda>found. grown B (xs @ n # exps found)) (\<lambda>e. grown B xs)" for cs
    using hoare_prefix [OF hoare_grown_children [OF assms, of "xs @ [n]" "[]"]] by simp
  have store: "hoare (grown B (xs @ n # exps found)) (?load found) ?G (\<lambda>e. grown B xs)" for found
  proof (rule hoare_seq [where R = "\<lambda>_. grown B (xs @ n # exps found)"])
    show "hoare (grown B (xs @ n # exps found)) (on_client (\<lambda>c. c\<lparr>browsedNodesChildNodes :=
        sm_assign n found (browsedNodesChildNodes c)\<rparr>)) (\<lambda>_. grown B (xs @ n # exps found)) (\<lambda>e. grown B xs)"
      unfolding on_client_def by (rule hoare_update) simp
  qed (auto intro!: hoare_ret dest: grown_drop [of B xs n "exps found" _ "found = []"])
  show ?thesis
    unfolding expand_node_def
    by (rule hoare_seq [OF hoare_seq [OF children store] hoare_finish_node])
qed

lemma grown_mark:
  assumes "grown B xs s"
  shows "n \<notin> set (browsedNodes (client s)) \<Longrightarrow> grown B (xs @ [n]) (mark_browsed n s)"
    and "n \<in> set (browsedNodes (client s)) \<Longrightarrow> grown B xs (mark_browsed n s)"
  using assms by (auto simp: grown_def mark_browsed_def)

lemma grows_TransformToNodeIds: "grows B (TransformToNodeIds D ts fuel)"
proof (induction fuel)
  case 0
  show ?case by (auto simp: grows_def intro: hoare_no_fuel)
next
  case (Suc fuel)
  have run: "hoare (\<lambda>s. grown B xs s) (TransformToNodeIds D ts (Suc fuel) n t)
      (\<lambda>x. grown B (xs @ expanded x)) (\<lambda>e. grown B xs)" for xs n t
  proof -
    have finish: "hoare (grown B xs) (finish_node ts n t []) (\<lambda>x. grown B (xs @ expanded x)) (\<lambda>e. grown B xs)"
      using hoare_finish_node [of B xs "[]" n ts t] by simp
    show ?thesis
      by (rule hoare_branch [OF TransformToNodeIds_Suc finish hoare_expand_node [OF Suc.IH]])
        (auto intro: grown_mark)
  qed
  then show ?case by (simp add: grows_def)
qed

text \<open>
  C3: the tree of a machine expands every node at most once. The ids of the nodes that have
  children are pairwise different for \<^verbatim>\<open>operator<\<close>, and none of them had been browsed
  before the call, so a node that is reachable along two paths, or from itself, gets its
  children only where the walk meets it first, and later occurrences are leaves.
\<close>

theorem TransformToNodeIds_expands_once:
  assumes "TransformToNodeIds D ts fuel n t s = (Inr x, u)"
  shows "distinct (expanded x) \<and> set (expanded x) \<inter> set (browsedNodes (client s)) = {} \<and>
    set (browsedNodes (client s)) \<union> set (expanded x) \<subseteq> set (browsedNodes (client u))"
proof -
  have "grown (set (browsedNodes (client s))) [] s" by (simp add: grown_def)
  from hoare_value [OF growsD [OF grows_TransformToNodeIds] this assms]
  show ?thesis by (auto simp: grown_def)
qed

lemma example_expanded:
  "(case fst (TransformToNodeIds example_client (example_types Object) 3 node_A 0 example_state) of
     Inl e \<Rightarrow> False | Inr x \<Rightarrow> expanded x = [node_A, node_B])"
  by code_simp

theorem TransformToNodeIds_expands_once_witness:
  "\<exists>x u. TransformToNodeIds example_client (example_types Object) 3 node_A 0 example_state = (Inr x, u) \<and>
     distinct (expanded x) \<and> {node_A, node_B} \<subseteq> set (browsedNodes (client u))"
proof -
  obtain x u where run: "TransformToNodeIds example_client (example_types Object) 3 node_A 0 example_state = (Inr x, u)"
    and x: "expanded x = [node_A, node_B]"
    using example_expanded
    by (cases "TransformToNodeIds example_client (example_types Object) 3 node_A 0 example_state")
      (auto split: sum.splits)
  show ?thesis using TransformToNodeIds_expands_once [OF run] run x by auto
qed

end
