(* ===== verification/Id_Encode.thy ===== *)
theory Id_Encode
  imports Ua_Model
begin

text \<open>
  \<^verbatim>\<open>Util/IdEncode.cpp\<close>: the encoding that turns a node id into one level of an MQTT
  topic. A \<^verbatim>\<open>char\<close> is signed, as on the platforms the program is built for, so a
  byte above 127 is printed as the 32-bit pattern of a negative \<^verbatim>\<open>int\<close>;
  \<^verbatim>\<open>isalnum\<close> is the one of the "C" locale.
\<close>

definition isalnum :: "char \<Rightarrow> bool" where
  "isalnum c \<longleftrightarrow>
     (let n = of_char c :: nat
      in (48 \<le> n \<and> n \<le> 57) \<or> (65 \<le> n \<and> n \<le> 90) \<or> (97 \<le> n \<and> n \<le> 122))"

definition Whitelist :: "char set" where
  "Whitelist = {CHR ''-'', CHR ''.'', CHR ''~'', CHR '':'', CHR '';'', CHR ''=''}"

definition requireEncoding :: "char \<Rightarrow> bool" where
  "requireEncoding c \<longleftrightarrow> \<not> isalnum c \<and> c \<notin> Whitelist"

text \<open>\<^verbatim>\<open>static_cast<int>(c)\<close>, read as the unsigned 32-bit pattern that \<^verbatim>\<open>std::hex\<close> prints.\<close>

definition char_int_bits :: "char \<Rightarrow> nat" where
  "char_int_bits c = (let n = of_char c in if n < 128 then n else 2 ^ 32 - 256 + n)"

definition encode_char :: "char \<Rightarrow> string" where
  "encode_char c =
     (if requireEncoding c
      then CHR ''_'' # pad_left 2 (CHR ''0'') (show_base 16 True (char_int_bits c))
      else [c])"

text \<open>The loop appends the code of each character to the stream.\<close>

fun IdEncode_loop :: "string \<Rightarrow> string \<Rightarrow> string" where
  "IdEncode_loop ss [] = ss"
| "IdEncode_loop ss (c # cs) = IdEncode_loop (ss @ encode_char c) cs"

definition IdEncode :: "string \<Rightarrow> string" where
  "IdEncode ident = IdEncode_loop '''' ident"

lemma IdEncode_loop_eq: "IdEncode_loop ss cs = ss @ concat (map encode_char cs)"
  by (induction cs arbitrary: ss) auto

lemma IdEncode_eq: "IdEncode cs = concat (map encode_char cs)"
  by (simp add: IdEncode_def IdEncode_loop_eq)

section \<open>The code of one character\<close>

definition hexU :: "nat \<Rightarrow> char" where
  "hexU d = digit True d"

lemma char_ofI: "of_char c = (n::nat) \<Longrightarrow> char_of n = c"
  by auto

lemma hex_digit_F: "digit True 15 = CHR ''F''" and hex_digit_0: "digit True 0 = CHR ''0''"
  by (auto simp: digit_def intro!: char_ofI)

lemma byte_div_16: "(of_char c :: nat) div 16 < 16"
proof -
  have "(of_char c :: nat) < 256" by simp
  then show ?thesis by linarith
qed

lemma show_base_two: 
  assumes "n < 256" and "16 \<le> n"
  shows "show_base 16 u n = [digit u (n div 16), digit u (n mod 16)]"
proof -
  have "n div 16 < 16" using assms by linarith
  with assms show ?thesis
    by (simp add: show_base.simps [of 16 u n] show_base.simps [of 16 u "n div 16"])
qed

lemma show_base_high:
  assumes "n < 256" and "128 \<le> n"
  shows "show_base 16 True (2 ^ 32 - 256 + n) = ''FFFFFF'' @ [hexU (n div 16), hexU (n mod 16)]"
proof -
  have step: "show_base 16 True m = show_base 16 True (m div 16) @ [digit True (m mod 16)]"
    if "16 \<le> m" for m
    using that by (subst show_base.simps) simp
  have top: "show_base 16 True 16777215 = ''FFFFFF''"
  proof -
    have "show_base 16 True 15 = ''F''" by (simp add: show_base.simps [of 16 True 15] hex_digit_F)
    then have "show_base 16 True 255 = ''FF''" using step [of 255] by (simp add: hex_digit_F)
    then have "show_base 16 True 4095 = ''FFF''" using step [of 4095] by (simp add: hex_digit_F)
    then have "show_base 16 True 65535 = ''FFFF''" using step [of 65535] by (simp add: hex_digit_F)
    then have "show_base 16 True 1048575 = ''FFFFF''" using step [of 1048575] by (simp add: hex_digit_F)
    then show ?thesis using step [of 16777215] by (simp add: hex_digit_F)
  qed
  define a b where "a = n div 16" and "b = n mod 16"
  have ab: "a < 16" "b < 16" "n = 16 * a + b" using assms by (auto simp: a_def b_def)
  have m: "2 ^ 32 - 256 + n = 16 * (16 * 16777215 + a) + b" using ab(3) by simp
  have d0: "(16 * (16 * 16777215 + a) + b) mod 16 = b"
    and d1: "(16 * (16 * 16777215 + a) + b) div 16 = 16 * 16777215 + a"
    and d2: "(16 * 16777215 + a) mod 16 = a" "(16 * 16777215 + a) div 16 = 16777215"
    using ab(1,2) by (simp_all only: mult.commute [of 16] mod_mult_self3 div_mult_self3 mod_less div_less add_0_right)
  have "show_base 16 True (16 * (16 * 16777215 + a) + b) =
      (show_base 16 True 16777215 @ [digit True a]) @ [digit True b]"
    using step [of "16 * (16 * 16777215 + a) + b"] step [of "16 * 16777215 + a"]
    unfolding d0 d1 d2 by simp
  then show ?thesis unfolding m top by (simp add: hexU_def a_def b_def)
qed

text \<open>A code is the character itself, or an underscore with two digits, or with six F and two digits.\<close>

lemma encode_char_cases:
  "encode_char c =
     (let n = of_char c :: nat in
      if \<not> requireEncoding c then [c]
      else if n < 128 then [CHR ''_'', hexU (n div 16), hexU (n mod 16)]
      else ''_FFFFFF'' @ [hexU (n div 16), hexU (n mod 16)])"
proof -
  let ?n = "of_char c :: nat"
  have lt: "?n < 256" by simp
  have small: "pad_left 2 (CHR ''0'') (show_base 16 True ?n) = [hexU (?n div 16), hexU (?n mod 16)]"
  proof (cases "?n < 16")
    case True
    then show ?thesis
      by (simp add: pad_left_def show_base.simps [of 16 True ?n] hexU_def hex_digit_0)
  next
    case False
    with lt show ?thesis by (simp add: pad_left_def show_base_two hexU_def)
  qed
  show ?thesis
  proof (cases "?n < 128")
    case True
    with small show ?thesis by (simp add: encode_char_def char_int_bits_def Let_def)
  next
    case False
    with lt have "show_base 16 True (char_int_bits c) = ''FFFFFF'' @ [hexU (?n div 16), hexU (?n mod 16)]"
      using show_base_high [of ?n] by (simp add: char_int_bits_def Let_def)
    with False show ?thesis by (simp add: encode_char_def pad_left_def Let_def)
  qed
qed

lemma underscore_encoded: "requireEncoding (CHR ''_'')"
  by (simp add: requireEncoding_def isalnum_def Whitelist_def)

section \<open>Decoding\<close>

fun hex_val :: "char \<Rightarrow> nat" where
  "hex_val c = (let n = of_char c in if n < 58 then n - 48 else n - 55)"

lemma hex_val_hexU [simp]: "d < 16 \<Longrightarrow> hex_val (hexU d) = d"
  by (simp add: hexU_def of_char_digit)

text \<open>A decoder: after an underscore, a first digit of 8 or more announces eight digits.\<close>

fun id_decode :: "string \<Rightarrow> string" where
  "id_decode [] = []"
| "id_decode (c # cs) =
     (if c \<noteq> CHR ''_'' then c # id_decode cs
      else if hex_val (hd cs) < 8
      then char_of (16 * hex_val (hd cs) + hex_val (cs ! 1)) # id_decode (drop 2 cs)
      else char_of (16 * hex_val (cs ! 6) + hex_val (cs ! 7)) # id_decode (drop 8 cs))"

lemma id_decode_encode_char: "id_decode (encode_char c @ s) = c # id_decode s"
proof -
  let ?n = "of_char c :: nat"
  have lt: "?n < 256" by simp
  have h: "hex_val (hexU (?n div 16)) = ?n div 16" "hex_val (hexU (?n mod 16)) = ?n mod 16"
    using byte_div_16 [of c] by (simp_all del: hex_val.simps)
  have join_digits: "char_of (16 * (?n div 16) + ?n mod 16) = c" by simp
  have F: "hex_val (CHR ''F'') = 15" by simp
  show ?thesis
  proof (cases "requireEncoding c")
    case False
    then have "c \<noteq> CHR ''_''" using underscore_encoded by auto
    with False show ?thesis by (simp add: encode_char_cases)
  next
    case True
    then show ?thesis
    proof (cases "?n < 128")
      case True
      then have "?n div 16 < 8" by simp
      with True \<open>requireEncoding c\<close> h join_digits show ?thesis
        by (simp add: encode_char_cases Let_def del: hex_val.simps)
    next
      case False
      with \<open>requireEncoding c\<close> h join_digits F show ?thesis
        by (simp add: encode_char_cases Let_def del: hex_val.simps)
    qed
  qed
qed

lemma id_decode_IdEncode: "id_decode (IdEncode s) = s"
  unfolding IdEncode_eq by (induction s) (simp_all add: id_decode_encode_char del: id_decode.simps(2))

text \<open>
  \<^verbatim>\<open>IdEncode\<close> is injective: two node ids that are written differently never
  share an encoded id, for any bytes they hold, including bytes above 127 and the underscore
  that the encoding itself uses.
\<close>

theorem IdEncode_injective: "IdEncode a = IdEncode b \<longleftrightarrow> a = b"
  by (metis id_decode_IdEncode)

section \<open>Safe characters\<close>

lemma hexU_alnum: "d < 16 \<Longrightarrow> isalnum (hexU d)"
  by (simp add: isalnum_def hexU_def of_char_digit Let_def)

lemma encode_char_safe: "x \<in> set (encode_char c) \<Longrightarrow> isalnum x \<or> x \<in> Whitelist \<or> x = CHR ''_''"
proof -
  have "isalnum (hexU ((of_char c :: nat) div 16))" "isalnum (hexU ((of_char c :: nat) mod 16))"
    by (simp_all add: hexU_alnum byte_div_16)
  moreover have "isalnum (CHR ''F'')" by (simp add: isalnum_def)
  ultimately show "x \<in> set (encode_char c) \<Longrightarrow> ?thesis"
    by (auto simp: encode_char_cases Let_def requireEncoding_def split: if_splits)
qed

lemma IdEncode_chars: "x \<in> set (IdEncode s) \<Longrightarrow> isalnum x \<or> x \<in> Whitelist \<or> x = CHR ''_''"
  using encode_char_safe by (auto simp: IdEncode_eq)

lemma unsafe_chars:
  "\<not> (isalnum x \<or> x \<in> Whitelist \<or> x = CHR ''_'')" if "x \<in> {CHR ''/'', CHR ''+'', CHR ''#''}"
  using that by (auto simp: isalnum_def Whitelist_def)

lemma IdEncode_no_separator: "CHR ''/'' \<notin> set (IdEncode s)"
  using IdEncode_chars [of "CHR ''/''" s] unsafe_chars by blast

text \<open>
  The encoded id is one level of an MQTT topic and holds no wildcard: every character of
  the output is alphanumeric, white-listed or an underscore; so it has no topic separator, no
  plus and no number sign. The output is empty only for the empty id.
\<close>

theorem IdEncode_topic_safe:
  "list_all (\<lambda>x. isalnum x \<or> x \<in> Whitelist \<or> x = CHR ''_'') (IdEncode s) \<and>
   CHR ''/'' \<notin> set (IdEncode s) \<and> CHR ''+'' \<notin> set (IdEncode s) \<and> CHR ''#'' \<notin> set (IdEncode s) \<and>
   (IdEncode s = [] \<longleftrightarrow> s = [])"
proof -
  have "CHR ''/'' \<notin> set (IdEncode s)" "CHR ''+'' \<notin> set (IdEncode s)" "CHR ''#'' \<notin> set (IdEncode s)"
    using IdEncode_chars [of _ s] unsafe_chars by blast+
  moreover have "IdEncode s = [] \<longleftrightarrow> s = []"
    by (metis id_decode_IdEncode id_decode.simps(1) IdEncode_def IdEncode_loop.simps(1))
  ultimately show ?thesis using IdEncode_chars by (auto simp: list_all_iff)
qed

text \<open>
  The length of an encoded id is between the length of the id and nine times it; a code
  point above 127 takes nine characters per byte, which bounds the topics the program builds.
\<close>

theorem IdEncode_length: "length s \<le> length (IdEncode s) \<and> length (IdEncode s) \<le> 9 * length s"
proof -
  have one: "1 \<le> length (encode_char c) \<and> length (encode_char c) \<le> 9" for c
    by (simp add: encode_char_cases Let_def)
  show ?thesis unfolding IdEncode_eq
  proof (induction s)
    case (Cons c s)
    with one [of c] show ?case by simp
  qed simp
qed

end
