(* ===== verification/Topics.thy ===== *)
theory Topics
  imports Id_Encode
begin

text \<open>
  \<^verbatim>\<open>MachineObserver/Topics.cpp\<close>: the MQTT topics of the program.
  \<^verbatim>\<open>Topics::Prefix\<close> and \<^verbatim>\<open>Topics::ClientId\<close> are static members that the program sets
  once, a record here. The locale \<open>topic_code\<close> is the contract between the topics and the
  encoding of machine ids.
\<close>

record topic_config =
  Prefix :: string
  ClientId :: string

definition Topics_Machine :: "topic_config \<Rightarrow> string \<Rightarrow> string \<Rightarrow> string" where
  "Topics_Machine tc specification machineId =
     Prefix tc @ ''/'' @ ClientId tc @ ''/'' @ specification @ ''/'' @ IdEncode machineId"

definition Topics_List :: "topic_config \<Rightarrow> string \<Rightarrow> string" where
  "Topics_List tc specType = Prefix tc @ ''/'' @ ClientId tc @ ''/list/'' @ specType"

definition Topics_ErrorList :: "topic_config \<Rightarrow> string \<Rightarrow> string" where
  "Topics_ErrorList tc specType = Prefix tc @ ''/'' @ ClientId tc @ ''/bad_list/'' @ specType"

definition Topics_OnlineStatus :: "topic_config \<Rightarrow> string \<Rightarrow> string" where
  "Topics_OnlineStatus tc machineId = Prefix tc @ ''/'' @ ClientId tc @ ''/online/'' @ IdEncode machineId"

definition Topics_ClientOnline :: "topic_config \<Rightarrow> string" where
  "Topics_ClientOnline tc = Prefix tc @ ''/'' @ ClientId tc @ ''/clientOnline''"

definition Topics_GwVersion :: "topic_config \<Rightarrow> string" where
  "Topics_GwVersion tc = Prefix tc @ ''/'' @ ClientId tc @ ''/gw-version''"

text \<open>The constructor of a configuration at program start.\<close>

definition Topics_default_prefix :: string where
  "Topics_default_prefix = ''umati/v2''"

section \<open>The contract of the encoding\<close>

locale topic_code =
  fixes enc :: "string \<Rightarrow> string"
  assumes enc_inj: "enc a = enc b \<Longrightarrow> a = b"
    and enc_level: "CHR ''/'' \<notin> set (enc a)"
begin

lemma last_level_unique:
  assumes "p @ ''/'' @ enc a = q @ ''/'' @ enc b"
  shows "p = q \<and> a = b"
proof -
  have "rev (enc a) @ CHR ''/'' # rev p = rev (enc b) @ CHR ''/'' # rev q"
    using arg_cong [OF assms, of rev] by simp
  moreover have "u = u' \<and> v = v'"
    if "u @ CHR ''/'' # v = u' @ CHR ''/'' # v'" "CHR ''/'' \<notin> set u" "CHR ''/'' \<notin> set u'"
    for u u' v v' :: string
    using that
    by (induction u arbitrary: u') (auto simp: Cons_eq_append_conv split: if_splits)
  ultimately have "rev (enc a) = rev (enc b) \<and> rev p = rev q"
    using enc_level by (metis set_rev)
  then show ?thesis using enc_inj by simp
qed

end

interpretation id_code: topic_code IdEncode
proof
  show "IdEncode a = IdEncode b \<Longrightarrow> a = b" for a b
    by (metis id_decode_IdEncode)
  show "CHR ''/'' \<notin> set (IdEncode a)" for a
    using IdEncode_no_separator by blast
qed

lemma IdEncode_last_level:
  "p @ CHR ''/'' # IdEncode a = q @ CHR ''/'' # IdEncode b \<Longrightarrow> p = q \<and> a = b"
  using id_code.last_level_unique [of p a q b] by simp

text \<open>
  C26: different machines get different topics. For any specification names, even ones that
  contain a slash, two data topics coincide only when the specification name and the node id
  are the same, and two online topics only when the node id is the same. A machine id here is
  the printed node id, which is one to one for the node ids whose URI has no semicolon.
\<close>

theorem Topics_distinct_machines:
  assumes "NodeId_plain m" and "NodeId_plain n"
  shows "(Topics_Machine tc spec1 (NodeId_to_string m) = Topics_Machine tc spec2 (NodeId_to_string n)
            \<longleftrightarrow> spec1 = spec2 \<and> m = n) \<and>
         (Topics_OnlineStatus tc (NodeId_to_string m) = Topics_OnlineStatus tc (NodeId_to_string n)
            \<longleftrightarrow> m = n)"
proof -
  have same: "NodeId_to_string m = NodeId_to_string n \<longleftrightarrow> m = n"
    using NodeId_to_string_inj assms by blast
  have level: "p @ CHR ''/'' # IdEncode a = q @ CHR ''/'' # IdEncode b \<longleftrightarrow> p = q \<and> a = b"
    for p q a b using IdEncode_last_level by blast
  have "Topics_Machine tc spec (NodeId_to_string k) =
      (Prefix tc @ ''/'' @ ClientId tc @ ''/'' @ spec) @ CHR ''/'' # IdEncode (NodeId_to_string k)"
    for spec k by (simp add: Topics_Machine_def)
  moreover have "Topics_OnlineStatus tc (NodeId_to_string k) =
      (Prefix tc @ ''/'' @ ClientId tc @ ''/online'') @ CHR ''/'' # IdEncode (NodeId_to_string k)" for k
    by (simp add: Topics_OnlineStatus_def)
  ultimately show ?thesis by (simp only: level same) simp
qed

theorem Topics_distinct_machines_witness:
  "Topics_Machine \<lparr>Prefix = ''umati/v2'', ClientId = ''c''\<rparr> ''MachineToolType''
       (NodeId_to_string (NodeId ''urn:a'' ''i=1'')) \<noteq>
   Topics_Machine \<lparr>Prefix = ''umati/v2'', ClientId = ''c''\<rparr> ''MachineToolType''
       (NodeId_to_string (NodeId ''urn:a'' ''i=2''))"
  using Topics_distinct_machines [of "NodeId ''urn:a'' ''i=1''" "NodeId ''urn:a'' ''i=2''"]
  by (simp add: NodeId_plain_def)

end
