(* ===== verification/Publish_Machines_List.thy ===== *)
theory Publish_Machines_List
  imports Dashboard_Transform Topics
begin

text \<open>
  \<^verbatim>\<open>MachineObserver/PublishMachinesList.cpp\<close>: collects the identification data of the
  machines by specification and publishes one list for each; a specification without machines
  gets an empty list. \<open>getTopic\<close> is the function that makes the topic.
\<close>

record publish_list =
  m_Specifications :: "string list"
  m_Machines :: "(string, json list) smap"

definition PublishMachinesList_new :: "string list \<Rightarrow> publish_list" where
  "PublishMachinesList_new specifications = \<lparr>m_Specifications = specifications, m_Machines = []\<rparr>"

definition AddMachine :: "string \<Rightarrow> json \<Rightarrow> publish_list \<Rightarrow> publish_list" where
  "AddMachine specification data p =
     p\<lparr>m_Machines := sm_assign specification
        ((case sm_find (m_Machines p) specification of None \<Rightarrow> [] | Some ds \<Rightarrow> ds) @ [data]) (m_Machines p)\<rparr>"

text \<open>The messages, or the exception of the serialization; what was sent before stays sent.\<close>

type_synonym 'w eact = "('w env, exn, unit) act"

definition env_send :: "string \<Rightarrow> string \<Rightarrow> 'w eact" where
  "env_send ch message = update (\<lambda>e. e\<lparr>published := published e @ [(ch, message)]\<rparr>)"

definition PublishMachinesList_Publish ::
    "(nat \<Rightarrow> json \<Rightarrow> exn + string) \<Rightarrow> (string \<Rightarrow> string) \<Rightarrow> publish_list \<Rightarrow> 'w eact" where
  "PublishMachinesList_Publish dump getTopic p =
     seq (for_each (m_Machines p) (\<lambda>(spec, data).
            seq (lift_sum (dump 0 (JArr data))) (\<lambda>message. env_send (getTopic spec) message))) (\<lambda>_.
     for_each (m_Specifications p) (\<lambda>spec.
       if spec \<notin> set (sm_keys (m_Machines p))
       then seq (lift_sum (dump 0 (JArr []))) (\<lambda>message. env_send (getTopic spec) message)
       else ret ()))"

section \<open>Properties\<close>

lemma AddMachine_ok: "sm_ok (m_Machines p) \<Longrightarrow> sm_ok (m_Machines (AddMachine spec data p))"
  by (simp add: AddMachine_def smap_simps)

lemma AddMachine_find:
  "sm_ok (m_Machines p) \<Longrightarrow> sm_find (m_Machines (AddMachine spec data p)) k =
     (if k = spec then Some ((case sm_find (m_Machines p) k of None \<Rightarrow> [] | Some ds \<Rightarrow> ds) @ [data])
      else sm_find (m_Machines p) k)"
  by (simp add: AddMachine_def smap_simps)

text \<open>A list publication sends a fixed message for each entry.\<close>

lemma send_all:
  assumes "\<And>x. x \<in> set xs \<Longrightarrow> P x \<Longrightarrow> dump 0 (f x) = Inr (msg x)"
  shows "for_each xs (\<lambda>x. if P x then seq (lift_sum (dump 0 (f x))) (\<lambda>m. env_send (topic x) m) else ret ()) e =
    (Inr (), e\<lparr>published := published e @ map (\<lambda>x. (topic x, msg x)) (filter P xs)\<rparr>)"
  using assms
proof (induction xs arbitrary: e)
  case (Cons x xs)
  from Cons.IH [OF Cons.prems] Cons.prems [of x] show ?case
    by (auto simp: seq_def env_send_def act_core(1,7))
qed (simp add: act_defs)

text \<open>
  Every specification is published exactly once. If the lists can be serialized, the
  messages are, in order, one for each specification that has machines, with the list of all
  its machines in the order they were added, and one empty list for each configured
  specification without machines. So the topics that receive a message are those of the
  configured specifications and of the machines, no topic twice when the configured names are
  distinct and the topics of different names differ.
\<close>

theorem PublishMachinesList_once:
  assumes "\<And>ds. dump 0 (JArr ds) = Inr (text_of ds)" and "inj getTopic"
    and "distinct (m_Specifications p)" and "sm_ok (m_Machines p)"
  shows "\<exists>sent. PublishMachinesList_Publish dump getTopic p e = (Inr (), e\<lparr>published := published e @ sent\<rparr>) \<and>
    distinct (map fst sent) \<and>
    set (map fst sent) = getTopic ` (set (sm_keys (m_Machines p)) \<union> set (m_Specifications p)) \<and>
    (\<forall>spec ds. sm_find (m_Machines p) spec = Some ds \<longrightarrow> (getTopic spec, text_of ds) \<in> set sent) \<and>
    (\<forall>spec \<in> set (m_Specifications p). sm_find (m_Machines p) spec = None \<longrightarrow>
       (getTopic spec, text_of []) \<in> set sent)"
proof -
  let ?P = "\<lambda>spec. spec \<notin> set (sm_keys (m_Machines p))"
  let ?a = "map (\<lambda>x. (getTopic (fst x), text_of (snd x))) (m_Machines p)"
  let ?b = "map (\<lambda>x. (getTopic x, text_of [])) (filter ?P (m_Specifications p))"
  have one: "for_each (m_Machines p) (\<lambda>(spec, data).
        seq (lift_sum (dump 0 (JArr data))) (\<lambda>m. env_send (getTopic spec) m)) e =
      (Inr (), e\<lparr>published := published e @ ?a\<rparr>)" for e :: "'a env"
    using send_all [of "m_Machines p" "\<lambda>_. True" dump "\<lambda>x. JArr (snd x)" "\<lambda>x. text_of (snd x)"
        "\<lambda>x. getTopic (fst x)" e] assms(1) by (simp add: case_prod_unfold)
  have two: "for_each (m_Specifications p) (\<lambda>spec. if ?P spec
        then seq (lift_sum (dump 0 (JArr []))) (\<lambda>m. env_send (getTopic spec) m) else ret ()) e =
      (Inr (), e\<lparr>published := published e @ ?b\<rparr>)" for e :: "'a env"
    using send_all [of "m_Specifications p" ?P dump "\<lambda>_. JArr []" "\<lambda>_. text_of []" getTopic e] assms(1) by simp
  have run: "PublishMachinesList_Publish dump getTopic p e = (Inr (), e\<lparr>published := published e @ (?a @ ?b)\<rparr>)"
    unfolding PublishMachinesList_Publish_def seq_def [of "for_each _ _"] one by (simp add: two)
  have topics: "map fst (?a @ ?b) = map getTopic (sm_keys (m_Machines p) @ filter ?P (m_Specifications p))"
    by (simp add: sm_keys_def comp_def)
  have "distinct (sm_keys (m_Machines p) @ filter ?P (m_Specifications p))"
    using assms(3,4) sm_ok_distinct by auto
  then have "distinct (map fst (?a @ ?b))"
    unfolding topics distinct_map using assms(2) by (auto intro: inj_on_subset)
  moreover have "set (map fst (?a @ ?b)) = getTopic ` (set (sm_keys (m_Machines p)) \<union> set (m_Specifications p))"
    unfolding topics by auto
  moreover have "(getTopic spec, text_of ds) \<in> set (?a @ ?b)" if "sm_find (m_Machines p) spec = Some ds" for spec ds
    using sm_find_mem [OF that] by force
  moreover have "(getTopic spec, text_of []) \<in> set (?a @ ?b)"
    if "spec \<in> set (m_Specifications p)" "sm_find (m_Machines p) spec = None" for spec
    using that by (auto simp: sm_find_None_iff)
  ultimately show ?thesis using run by blast
qed

theorem PublishMachinesList_once_witness:
  "\<exists>sent. PublishMachinesList_Publish (\<lambda>_ _. Inr ''x'') (Topics_List \<lparr>Prefix = ''p'', ClientId = ''c''\<rparr>)
     (AddMachine ''A'' (JInt 1) (PublishMachinesList_new [''A'', ''B''])) example_env =
       (Inr (), example_env\<lparr>published := published example_env @ sent\<rparr>) \<and>
     set (map fst sent) = {''p/c/list/A'', ''p/c/list/B''}"
proof -
  have inj: "inj (Topics_List \<lparr>Prefix = ''p'', ClientId = ''c''\<rparr>)"
    by (rule injI) (simp add: Topics_List_def)
  have machines: "m_Machines (AddMachine ''A'' (JInt 1) (PublishMachinesList_new [''A'', ''B''])) = [(''A'', [JInt 1])]"
    and specs: "m_Specifications (AddMachine ''A'' (JInt 1) (PublishMachinesList_new [''A'', ''B''])) = [''A'', ''B'']"
    by (simp_all add: AddMachine_def PublishMachinesList_new_def)
  from PublishMachinesList_once [of "\<lambda>_ _. Inr ''x''" "\<lambda>_. ''x''", OF _ inj, of
      "AddMachine ''A'' (JInt 1) (PublishMachinesList_new [''A'', ''B''])" example_env]
  show ?thesis by (auto simp: machines specs Topics_List_def)
qed

end
