(* ===== verification/Dashboard_Machine_Observer.thy ===== *)
theory Dashboard_Machine_Observer
  imports Machine_Observer Publish_Machines_List
begin

text \<open>
  \<^verbatim>\<open>MachineObserver/DashboardMachineObserver.cpp\<close>: the class derived from the observer. It
  keeps one dashboard client per machine, decides whether a machine is online by reading its
  identification, and publishes payloads and machine lists. The record extends the one of the
  base class. Threads appear as the steps they take: \<open>update_tick\<close> is one round of the update
  thread.
\<close>

section \<open>State\<close>

record MachineInformation_t =
  miStartNodeId :: NodeId_t
  miNamespaceURI :: string
  miSpecification :: string
  miMachineName :: string
  miTypeDefinition :: NodeId_t
  miParent :: NodeId_t

record 'w dashboard_observer = "'w machine_observer" +
  m_publishMachinesOnline :: int
  m_running :: bool
  m_dashboardClients :: "(NodeId_t, dashboard_client) smap"
  m_onlineMachines :: "(NodeId_t, MachineInformation_t) smap"
  m_machineNames :: "(NodeId_t, string) smap"
  topics :: topic_config

type_synonym ('w, 'a) mact = "('w dashboard_observer, exn, 'a) act"

definition DashboardMachineObserver_new ::
    "'w env \<Rightarrow> type_reader \<Rightarrow> NodeId_t list \<Rightarrow> topic_config \<Rightarrow> 'w dashboard_observer" where
  "DashboardMachineObserver_new e reader machinesFilter tc =
     machine_observer.extend (MachineObserver_new e reader machinesFilter)
       \<lparr>m_publishMachinesOnline = 0, m_running = True, m_dashboardClients = [],
        m_onlineMachines = [], m_machineNames = [], topics = tc\<rparr>"

definition reader_types :: "type_reader \<Rightarrow> type_store" where
  "reader_types r = \<lparr>ts_heap = heap r, ts_typeMap = m_typeMap r\<rparr>"

text \<open>An operation on the client of a machine, which shares the environment.\<close>

definition at_client :: "NodeId_t \<Rightarrow> ('w, 'a) dact \<Rightarrow> ('w, 'a) mact" where
  "at_client n = zoom
     (\<lambda>s. \<lparr>env = ob_env s, client = the (sm_find (m_dashboardClients s) n)\<rparr>)
     (\<lambda>t s. s\<lparr>ob_env := env t, m_dashboardClients := sm_assign n (client t) (m_dashboardClients s)\<rparr>)"

text \<open>An operation on a client that no map holds yet; the client is dropped if it ends abruptly.\<close>

definition with_new_client :: "dashboard_client \<Rightarrow> ('w, unit) dact \<Rightarrow> ('w, dashboard_client) mact" where
  "with_new_client c m s =
     (case m \<lparr>env = ob_env s, client = c\<rparr> of
        (Inl e, t) \<Rightarrow> (Inl e, s\<lparr>ob_env := env t\<rparr>)
      | (Inr _, t) \<Rightarrow> (Inr (client t), s\<lparr>ob_env := env t\<rparr>))"

definition on_env :: "('w env, exn, 'a) act \<Rightarrow> ('w, 'a) mact" where
  "on_env = zoom ob_env (\<lambda>e s. s\<lparr>ob_env := e\<rparr>)"

section \<open>Adding and removing machines\<close>

definition ignored_machines :: "NodeId_t list" where
  "ignored_machines =
     [NodeId ''10.80.0.113_4840_http://samplemanufacturer.com/umati_OPC40077_sample_instance/'' ''i=5002'',
      NodeId ''10.80.0.113_4840_http://samplemanufacturer.com/umati_OPC40077_sample_instance'' ''i=6013'']"

definition dmo_addMachine :: "('w, callback) data_client \<Rightarrow> nat \<Rightarrow> BrowseResult_t \<Rightarrow> ('w, unit) mact" where
  "dmo_addMachine D fuel machine =
     try_catch
       (if list_ex (NodeId_eq (brNodeId machine)) ignored_machines then ret ()
        else seq (reads (\<lambda>s. sm_find (m_parentOfMachine s) (brNodeId machine))) (\<lambda>par.
             seq (reads ob_reader) (\<lambda>reader.
             seq (lift_sum (typeDefinitionToStructureNode reader (brTypeDefinition machine))) (\<lambda>p_type.
             let specification = qName (SpecifiedBrowseName (sn_at (heap reader) p_type));
                 machineInformation =
                   \<lparr>miStartNodeId = brNodeId machine, miNamespaceURI = nUri (brNodeId machine),
                    miSpecification = specification, miMachineName = qName (brBrowseName machine),
                    miTypeDefinition = brTypeDefinition machine,
                    miParent = (case par of Some p \<Rightarrow> p | None \<Rightarrow> NodeId '''' '''')\<rparr>
             in seq (reads (\<lambda>s. sm_find (m_dashboardClients s) (brNodeId machine) \<noteq> None)) (\<lambda>present.
                seq (if present
                     then seq (at_client (brNodeId machine) (Unsubscribe D)) (\<lambda>_.
                          update (\<lambda>s. s\<lparr>m_dashboardClients := sm_erase (brNodeId machine) (m_dashboardClients s)\<rparr>))
                     else ret ()) (\<lambda>_.
                seq (reads topics) (\<lambda>tc.
                seq (with_new_client DashboardClient_new
                       (addDataSet D (reader_types reader) fuel
                          (NodeId (miNamespaceURI machineInformation) (nId (brNodeId machine))) p_type
                          (Topics_Machine tc specification (NodeId_to_string (brNodeId machine)))
                          (Topics_OnlineStatus tc (NodeId_to_string (brNodeId machine))))) (\<lambda>pDashClient.
                update (\<lambda>s. s\<lparr>
                  m_dashboardClients := sm_insert (brNodeId machine) pDashClient (m_dashboardClients s),
                  m_onlineMachines := sm_insert (brNodeId machine) machineInformation (m_onlineMachines s),
                  m_machineNames := sm_insert (brNodeId machine) (qName (brBrowseName machine))
                    (m_machineNames s)\<rparr>)))))))))
       (\<lambda>ex. if is_OpcUaException ex then Some (raise (MachineInvalidException (what ex))) else None)"

definition dmo_removeMachine :: "('w, callback) data_client \<Rightarrow> NodeId_t \<Rightarrow> ('w, unit) mact" where
  "dmo_removeMachine D machineNodeId =
     seq (update (\<lambda>s. s\<lparr>m_knownMachines := sm_erase machineNodeId (m_knownMachines s)\<rparr>)) (\<lambda>_.
     seq (reads (\<lambda>s. sm_find (m_dashboardClients s) machineNodeId \<noteq> None)) (\<lambda>present.
     seq (if present
          then seq (at_client machineNodeId (Unsubscribe D)) (\<lambda>_.
               update (\<lambda>s. s\<lparr>m_dashboardClients := sm_erase machineNodeId (m_dashboardClients s)\<rparr>))
          else ret ()) (\<lambda>_.
     update (\<lambda>s. s\<lparr>m_onlineMachines := sm_erase machineNodeId (m_onlineMachines s)\<rparr>))))"

section \<open>Identification\<close>

definition FillIdentificationValuesFromBrowseResult ::
    "('w, callback) data_client \<Rightarrow> NodeId_t \<Rightarrow> ('w, NodeId_t list \<times> string list) mact" where
  "FillIdentificationValuesFromBrowseResult D identificationInstance =
     seq (ob_world (dc_Browse D identificationInstance ctx_Variable)) (\<lambda>browseResults.
     ret (map brNodeId browseResults, map (\<lambda>b. qName (brBrowseName b)) browseResults))"

text \<open>The loop over the values; \<^verbatim>\<open>at(i)\<close> throws when there are more values than keys.\<close>

fun identification_data :: "json list \<Rightarrow> string list \<Rightarrow> json \<Rightarrow> exn + json" where
  "identification_data [] ks data = Inr data"
| "identification_data (v # vs) ks data =
     (if v \<noteq> JNull
      then (case ks of
              [] \<Rightarrow> Inl (StdException ''vector::_M_range_check'')
            | k # ks' \<Rightarrow> ebind (json_put k v data) (\<lambda>data'. identification_data vs ks' data'))
      else identification_data vs (tl ks) data)"

definition browseIdentificationValues ::
    "('w, callback) data_client \<Rightarrow> NodeId_t \<Rightarrow> NodeId_t \<Rightarrow> BrowseResult_t \<Rightarrow> json \<Rightarrow> ('w, json) mact" where
  "browseIdentificationValues D machineNodeId typeDefinition identification identificationAsJson =
     seq (reads ob_reader) (\<lambda>reader.
     seq (lift_sum (typeDefinitionToStructureNode reader typeDefinition)) (\<lambda>p_type.
     seq (FillIdentificationValuesFromBrowseResult D (brNodeId identification)) (\<lambda>(nodes, keys).
     seq (ob_world (dc_ReadeNodeValues D nodes)) (\<lambda>identificationListValues.
     seq (lift_sum (identification_data identificationListValues keys JNull)) (\<lambda>identificationData.
     seq (lift_sum (json_put ''Data'' identificationData identificationAsJson)) (\<lambda>j.
     seq (reads (\<lambda>s. (sm_find (m_machineNames s) machineNodeId \<noteq> None, topics s))) (\<lambda>(named, tc).
     if named
     then let spec = qName (SpecifiedBrowseName (sn_at (heap reader) p_type));
              machineId = NodeId_to_string machineNodeId
          in lift_sum
            (ebind (json_put ''Topic'' (JStr (Topics_Machine tc spec machineId)) j) (\<lambda>j1.
             ebind (json_put ''MachineId'' (JStr (IdEncode machineId)) j1) (\<lambda>j2.
             json_put ''TypeDefinition'' (JStr spec) j2)))
     else ret j)))))))"

definition dmo_isOnline ::
    "('w, callback) data_client \<Rightarrow> NodeId_t \<Rightarrow> NodeId_t \<Rightarrow> ('w, bool \<times> json) mact" where
  "dmo_isOnline D machineNodeId typeDefinition =
     try_catch
       (seq (reads ob_reader) (\<lambda>reader.
        seq (lift_sum (getIdentificationTypeStructureNode reader typeDefinition)) (\<lambda>p_type.
        case sm_find (m_nameToId reader) (type_name (sn_at (heap reader) p_type)) of
          None \<Rightarrow> ret (False, JNull)
        | Some typ \<Rightarrow>
            seq (ob_world (dc_BrowseHasComponent D machineNodeId typ)) (\<lambda>identification.
            case identification of
              [] \<Rightarrow> ret (False, JNull)
            | front # _ \<Rightarrow>
                seq (browseIdentificationValues D machineNodeId typeDefinition front JNull) (\<lambda>j.
                ret (\<not> json_empty j, j))))))
       (\<lambda>ex. Some (ret (False, JNull)))"

definition dmo_methods :: "('w, callback) data_client \<Rightarrow> nat \<Rightarrow>
    ('w, \<lparr>m_publishMachinesOnline :: int, m_running :: bool,
      m_dashboardClients :: (NodeId_t, dashboard_client) smap,
      m_onlineMachines :: (NodeId_t, MachineInformation_t) smap,
      m_machineNames :: (NodeId_t, string) smap, topics :: topic_config\<rparr>) observer_methods" where
  "dmo_methods D fuel =
     \<lparr>vm_addMachine = dmo_addMachine D fuel, vm_removeMachine = dmo_removeMachine D,
      vm_isOnline = dmo_isOnline D\<rparr>"

definition dmo_getTypeName :: "('w, callback) data_client \<Rightarrow> NodeId_t \<Rightarrow> ('w, string) mact" where
  "dmo_getTypeName D nodeId = ob_world (dc_readNodeBrowseName D nodeId)"

section \<open>Publishing\<close>

text \<open>The lists of the online machines and of the invalid machines, from the cached identifications.\<close>

definition cached_identification :: "(NodeId_t, json) smap \<Rightarrow> NodeId_t \<Rightarrow> json option" where
  "cached_identification cache n =
     (case sm_find cache n of None \<Rightarrow> None | Some j \<Rightarrow> if json_empty j then None else Some j)"

fun fill_online_list ::
    "(NodeId_t, json) smap \<Rightarrow> (NodeId_t \<times> MachineInformation_t) list \<Rightarrow> publish_list \<Rightarrow> exn + publish_list" where
  "fill_online_list cache [] p = Inr p"
| "fill_online_list cache ((n, info) # ms) p =
     (case cached_identification cache n of
        None \<Rightarrow> fill_online_list cache ms p
      | Some j \<Rightarrow>
          ebind (json_put ''ParentId'' (JStr (IdEncode (NodeId_to_string (miParent info)))) j) (\<lambda>j'.
          fill_online_list cache ms (AddMachine (miSpecification info) j' p)))"

fun fill_invalid_list ::
    "(NodeId_t, json) smap \<Rightarrow> (NodeId_t \<times> int \<times> string) list \<Rightarrow> publish_list \<Rightarrow> exn + publish_list" where
  "fill_invalid_list cache [] p = Inr p"
| "fill_invalid_list cache ((n, count, reason) # ms) p =
     (case cached_identification cache n of
        None \<Rightarrow> fill_invalid_list cache ms p
      | Some j \<Rightarrow>
          ebind (json_put ''Error'' (JStr reason) j) (\<lambda>j'.
          fill_invalid_list cache ms (AddMachine ''errors'' j' p)))"

definition publishMachinesList :: "(nat \<Rightarrow> json \<Rightarrow> exn + string) \<Rightarrow> ('w, unit) mact" where
  "publishMachinesList dump =
     seq (reads (\<lambda>s. fill_online_list (m_machineIdentificationsCache s) (m_onlineMachines s)
            (PublishMachinesList_new (m_expectedObjectTypeNames (ob_reader s))))) (\<lambda>r.
     seq (lift_sum r) (\<lambda>pubList.
     seq (reads topics) (\<lambda>tc.
     seq (on_env (PublishMachinesList_Publish dump (Topics_List tc) pubList)) (\<lambda>_.
     seq (reads (\<lambda>s. fill_invalid_list (m_machineIdentificationsCache s) (m_invalidMachines s)
            (PublishMachinesList_new [''errors'']))) (\<lambda>r'.
     seq (lift_sum r') (\<lambda>pubInvalidList.
     on_env (PublishMachinesList_Publish dump (Topics_ErrorList tc) pubInvalidList)))))))"

definition PublishAll :: "(nat \<Rightarrow> json \<Rightarrow> exn + string) \<Rightarrow> ('w, unit) mact" where
  "PublishAll dump =
     seq (reads (\<lambda>s. sm_keys (m_dashboardClients s))) (\<lambda>machines.
     seq (for_each machines (\<lambda>n. at_client n (Publish dump))) (\<lambda>_.
     seq (update (\<lambda>s. s\<lparr>m_publishMachinesOnline := m_publishMachinesOnline s + 1\<rparr>)) (\<lambda>_.
     seq (reads (\<lambda>s. m_publishMachinesOnline s \<ge> 30)) (\<lambda>due.
     if due
     then seq (publishMachinesList dump) (\<lambda>_. update (\<lambda>s. s\<lparr>m_publishMachinesOnline := 0\<rparr>))
     else ret ()))))"

section \<open>The update thread\<close>

text \<open>One round: every tenth one updates the machines. The counter is a local variable of the thread.\<close>

definition update_tick :: "('w, callback) data_client \<Rightarrow> nat \<Rightarrow> int \<Rightarrow> ('w, int) mact" where
  "update_tick D fuel cnt =
     seq (if cnt mod 10 = 0 then UpdateMachines D (dmo_methods D fuel) fuel else ret ()) (\<lambda>_.
     ret (cnt + 1))"

text \<open>Whether a thread is started; stopping clears the flag and waits for the round to end.\<close>

definition startUpdateMachineThread :: "('w, bool) mact" where
  "startUpdateMachineThread =
     seq (reads m_running) (\<lambda>running.
     if running then ret False
     else seq (update (\<lambda>s. s\<lparr>m_running := True\<rparr>)) (\<lambda>_. ret True))"

definition stopMachineUpdateThread :: "('w, unit) mact" where
  "stopMachineUpdateThread = update (\<lambda>s. s\<lparr>m_running := False\<rparr>)"

end
