(* ===== verification/Dashboard_Publish.thy ===== *)
theory Dashboard_Publish
  imports Dashboard_Transform
begin

text \<open>
  Properties of the public operations of \<^verbatim>\<open>DashboardClient\<close>: what \<^verbatim>\<open>addDataSet\<close>
  does on every outcome, the invariant of the subscriptions, the publication rule, and
  \<^verbatim>\<open>Unsubscribe\<close>.
\<close>

section \<open>Subscriptions\<close>

text \<open>The node ids of the subscribed values, and what the data source returns for a subscription.\<close>

definition subscribed_ids :: "dashboard_client \<Rightarrow> NodeId_t list" where
  "subscribed_ids c = concat (map (\<lambda>v. case v of None \<Rightarrow> [] | Some h \<Rightarrow> [m_nodeId h]) (m_subscribedValues c))"

definition subscribes_asked :: "('w, callback) data_client \<Rightarrow> bool" where
  "subscribes_asked D \<longleftrightarrow>
     (\<forall>n cb w h u. dc_Subscribe D n cb w = (Inr (Some h), u) \<longrightarrow> m_nodeId h = n)"

text \<open>No two subscribed ids are equal for \<^verbatim>\<open>operator==\<close>.\<close>

definition no_double_subscription :: "dashboard_client \<Rightarrow> bool" where
  "no_double_subscription c \<longleftrightarrow> sorted_wrt (\<lambda>a b. \<not> NodeId_eq a b) (subscribed_ids c)"

text \<open>The subscriptions do not touch the data sets, and end with a value.\<close>

lemma runs_subscribeValue:
  assumes D: "client_ok I U D" and q: "\<And>c v. q (c\<lparr>m_subscribedValues := v\<rparr>) = q c"
  shows "runs (client_pred I q) (\<lambda>e. False) (\<lambda>_. True) (subscribeValue D sid n)"
  unfolding subscribeValue_def
proof (rule runs_try_catch [where A' = "\<lambda>e. throws_only e"])
  show "runs (client_pred I q) throws_only (\<lambda>_. True)
     (seq (reads (\<lambda>s. \<exists>v \<in> set (m_subscribedValues (client s)).
        case v of None \<Rightarrow> False | Some h \<Rightarrow> NodeId_eq (m_nodeId h) (simpleNodeId n))) (\<lambda>known.
      if known then ret ()
      else seq (on_world (dc_Subscribe D (simpleNodeId n) (sid, node_ptr n))) (\<lambda>v.
           on_client (\<lambda>c. c\<lparr>m_subscribedValues := m_subscribedValues c @ [v]\<rparr>))))"
    by (intro runs_seq_any runs_reads runs_if runs_ret client_okD(4) [OF D] runs_on_client) (auto simp: q)
qed (auto intro: runs_ret)

lemma runs_subscribeValues:
  assumes "\<And>n. runs P A (\<lambda>_. True) (subscribeValue D sid n)"
  shows "runs P A (\<lambda>_. True) (subscribeValues D sid n)"
    and "runs P A (\<lambda>_. True) (handleSubscribeChildNodes D sid cs)"
    and "runs P A (\<lambda>_. True) (handleSubscribePlaceholderElements D sid es)"
  using assms
proof (induction D sid n and D sid cs and D sid es rule:
    subscribeValues_handleSubscribeChildNodes_handleSubscribePlaceholderElements.induct)
qed (simp_all add: runs_ret runs_seq_any)

lemma runs_subscribeValue_distinct:
  assumes D: "client_ok I U D" and asked: "subscribes_asked D"
  shows "runs (client_pred I no_double_subscription) (\<lambda>e. False) (\<lambda>_. True) (subscribeValue D sid n)"
proof (rule runsI)
  fix s :: "'a dstate" and r t
  assume P: "client_pred I no_double_subscription s" and run: "subscribeValue D sid n s = (r, t)"
  let ?known = "\<exists>v \<in> set (m_subscribedValues (client s)).
      case v of None \<Rightarrow> False | Some h \<Rightarrow> NodeId_eq (m_nodeId h) (simpleNodeId n)"
  have I: "I (world (env s))" using P by (rule client_predD)
  have ends: "runs I throws_only (\<lambda>_. True) (dc_Subscribe D (simpleNodeId n) (sid, node_ptr n))"
    using D unfolding client_ok_def by blast
  obtain x w where sub: "dc_Subscribe D (simpleNodeId n) (sid, node_ptr n) (world (env s)) = (x, w)"
    by fastforce
  with runs_state [OF ends I] have w: "I w" by simp
  have no_sub: "?known = (\<exists>m \<in> set (subscribed_ids (client s)). NodeId_eq m (simpleNodeId n))"
    by (force simp: subscribed_ids_def split: option.splits)
  show "client_pred I no_double_subscription t \<and> (case r of Inl e \<Rightarrow> False | Inr _ \<Rightarrow> True)"
  proof (cases ?known)
    case True
    with run P show ?thesis by (auto simp: subscribeValue_def act_defs split: prod.splits)
  next
    case False
    show ?thesis
    proof (cases x)
      case (Inl e)
      with runs_abrupt [OF ends I sub [unfolded Inl]] obtain y where "e = Throw y"
        by (auto simp: throws_only_def)
      with run P w False sub Inl show ?thesis
        by (simp add: subscribeValue_def on_world_def on_client_def act_defs)
          (auto simp: client_pred_def)
    next
      case (Inr v)
      have t: "client t = (client s)\<lparr>m_subscribedValues := m_subscribedValues (client s) @ [v]\<rparr>"
        and r: "r = Inr ()" and wt: "world (env t) = w"
        using run False sub Inr by (auto simp: subscribeValue_def on_world_def on_client_def act_defs)
      have "v = Some h \<Longrightarrow> m_nodeId h = simpleNodeId n" for h
        using asked sub Inr unfolding subscribes_asked_def by blast
      then have "no_double_subscription (client t)"
        using P False no_sub
        by (auto simp: client_pred_def no_double_subscription_def subscribed_ids_def t sorted_wrt_append
            split: option.splits)
      with r show ?thesis using w wt by (simp add: client_pred_def)
    qed
  qed
qed

text \<open>What holds of the subscriptions is not changed by the transformation.\<close>

lemma TransformToNodeIds_keeps:
  assumes "client_ok I U D" and "finite U" and "n \<in> U" and "card U < fuel" and "client_pred I q s"
    and "\<And>c b. q (c\<lparr>browsedNodes := b\<rparr>) = q c" and "\<And>c b. q (c\<lparr>browsedNodesChildNodes := b\<rparr>) = q c"
    and "TransformToNodeIds D ts fuel n t s = (r, u)"
  shows "client_pred I q u \<and> (case r of Inl e \<Rightarrow> transform_abrupt e | Inr x \<Rightarrow> True)"
proof -
  have "card (U - set (browsedNodes (client s))) \<le> card U"
    using assms(2) by (simp add: card_mono)
  then have "client_pred I (\<lambda>c. unbrowsed U fuel c \<and> q c) s"
    using assms(4,5) by (simp add: client_pred_def unbrowsed_def)
  from runsD [OF TransformToNodeIds_runs [OF assms(1,2,6,7,3)] this assms(8)]
  show ?thesis by (simp add: client_pred_def)
qed

section \<open>Adding a data set\<close>

text \<open>The environment may change anyhow; the two fields that the transformation writes, too.\<close>

lemma addDataSet_cases:
  assumes D: "client_ok I U D" and fin: "finite U" and start: "start \<in> U" and fuel: "card U < fuel"
    and I: "I (world (env s))" and q: "q (client s)"
    and q1: "\<And>c b. q (c\<lparr>browsedNodes := b\<rparr>) = q c" and q2: "\<And>c b. q (c\<lparr>browsedNodesChildNodes := b\<rparr>) = q c"
    and sub: "\<And>sid n. runs (client_pred I q) (\<lambda>e. False) (\<lambda>_. True) (subscribeValue D sid n)"
    and run: "addDataSet D ts fuel start t chan onl s = (r, u)"
  shows "I (world (env u)) \<and>
         ((\<exists>d c. r = Inr () \<and> q c \<and> client u = c\<lparr>m_dataSets := m_dataSets c @ [d]\<rparr> \<and>
            startNodeId d = start \<and> channel d = chan \<and> onlineChannel d = onl \<and> dsValues d = []) \<or>
         (\<exists>e. r = Inl e \<and> (e = Undefined \<or> (\<exists>w. e = Throw (OpcUaException w))) \<and> q (client u)))"
proof -
  define p where "p = next_ptr (env s)"
  define s1 where "s1 = s\<lparr>env := (env s)\<lparr>next_ptr := Suc p\<rparr>\<rparr>"
  obtain rn s2 where tr: "TransformToNodeIds D ts fuel start t s1 = (rn, s2)" by fastforce
  have "client_pred I q s1" using I q by (simp add: s1_def)
  note tr_end = TransformToNodeIds_keeps [OF D fin start fuel this q1 q2 tr]
  show ?thesis
  proof (cases rn)
    case (Inl e)
    with tr_end have e: "transform_abrupt e" and q2: "q (client s2)" "I (world (env s2))"
      by (auto simp: client_pred_def)
    from e show ?thesis
      using run tr Inl q2
      by (auto simp: addDataSet_def prepareDataSetStorage_def fresh_ptr_def s1_def p_def act_defs
          transform_abrupt_def)
  next
    case (Inr n)
    obtain rs s3 where sv: "subscribeValues D p n s2 = (rs, s3)" by fastforce
    have "client_pred I q s2" using tr_end by simp
    from runsD [OF runs_subscribeValues(1) [OF sub] this sv]
    have s3: "rs = Inr ()" "q (client s3)" "I (world (env s3))"
      by (auto simp: client_pred_def split: sum.splits)
    moreover define d where "d = \<lparr>storage_ptr = p, startNodeId = start, channel = chan,
      onlineChannel = onl, dsNode = n, dsValues = []\<rparr>"
    ultimately have "r = Inr () \<and> client u = (client s3)\<lparr>m_dataSets := m_dataSets (client s3) @ [d]\<rparr> \<and> env u = env s3"
      using run tr Inr sv
      by (auto simp: addDataSet_def prepareDataSetStorage_def fresh_ptr_def on_client_def s1_def p_def act_defs)
    moreover have "startNodeId d = start \<and> channel d = chan \<and> onlineChannel d = onl \<and> dsValues d = []"
      by (simp add: d_def)
    ultimately show ?thesis using s3(2,3) by auto
  qed
qed

text \<open>
  C4: \<^verbatim>\<open>addDataSet\<close> has three outcomes. It adds exactly one data set, for the given start
  node and topics; or it throws an \<^verbatim>\<open>OpcUaException\<close>; or its behaviour is undefined, because
  the transformation calls \<^verbatim>\<open>front()\<close> on an empty list of interfaces. In the last two the
  list of data sets is as it was. It never returns normally without having added the data set: its first handler, which swallows an \<^verbatim>\<open>OpcUaException\<close>
  with a warning, is never reached, because the transformation turns every such exception into
  another class first.
\<close>

theorem addDataSet_all_or_exception:
  assumes "client_ok I U D" and "finite U" and "start \<in> U" and "card U < fuel" and "I (world (env s))"
    and "addDataSet D ts fuel start t chan onl s = (r, u)"
  shows "(r = Inr () \<and> (\<exists>d. m_dataSets (client u) = m_dataSets (client s) @ [d] \<and>
            startNodeId d = start \<and> channel d = chan \<and> onlineChannel d = onl \<and> dsValues d = [])) \<or>
         ((r = Inl Undefined \<or> (\<exists>w. r = Inl (Throw (OpcUaException w)))) \<and>
          m_dataSets (client u) = m_dataSets (client s))"
proof -
  let ?q = "\<lambda>c. m_dataSets c = m_dataSets (client s)"
  have "runs (client_pred I ?q) (\<lambda>e. False) (\<lambda>_. True) (subscribeValue D sid n)" for sid n
    by (rule runs_subscribeValue [OF assms(1)]) simp
  from addDataSet_cases [where q = ?q, OF assms(1-5) _ _ _ this assms(6)] show ?thesis by auto
qed

theorem addDataSet_all_or_exception_witness:
  "\<exists>d. m_dataSets (client (snd (addDataSet example_client (example_types Object) 3 node_A 0 ''c'' ''o'' example_state))) = [d] \<and>
     startNodeId d = node_A"
proof -
  have ok: "fst (addDataSet example_client (example_types Object) 3 node_A 0 ''c'' ''o'' example_state) = Inr ()"
    by code_simp
  obtain u where u: "addDataSet example_client (example_types Object) 3 node_A 0 ''c'' ''o'' example_state = (Inr (), u)"
    using ok by (metis prod.collapse)
  have "card {node_A, node_B} < 3" by (simp add: card_insert_if)
  from addDataSet_all_or_exception [OF example_client_ok _ _ this _ u]
  obtain d where "m_dataSets (client u) = m_dataSets (client example_state) @ [d]" "startNodeId d = node_A"
    by auto
  then show ?thesis by (simp add: u) (simp add: example_state_def DashboardClient_new_def)
qed

text \<open>
  No node is subscribed twice by one machine. If the data source returns a handle for the
  node it was asked for, every operation of the client keeps the subscribed node ids pairwise
  different for \<^verbatim>\<open>operator==\<close>, even where the tree of the machine holds the same node
  several times.
\<close>

theorem subscriptions_distinct:
  assumes "client_ok I U D" and "finite U" and "start \<in> U" and "card U < fuel" and "I (world (env s))"
    and "subscribes_asked D" and "no_double_subscription (client s)"
  shows "no_double_subscription (client (snd (addDataSet D ts fuel start t chan onl s)))"
proof -
  obtain r u where run: "addDataSet D ts fuel start t chan onl s = (r, u)" by fastforce
  from addDataSet_cases [where q = no_double_subscription, OF assms(1-5,7) _ _
      runs_subscribeValue_distinct [OF assms(1,6)] run]
  show ?thesis unfolding run by (auto simp: no_double_subscription_def subscribed_ids_def)
qed

theorem subscriptions_distinct_witness:
  "no_double_subscription (client (snd
     (addDataSet example_client (example_types Variable) 3 node_A 0 ''c'' ''o'' example_state)))"
proof (rule subscriptions_distinct [OF example_client_ok])
  show "subscribes_asked example_client"
    by (auto simp: subscribes_asked_def example_client_def ret_def ValueSubscriptionHandle_new_def)
  show "no_double_subscription (client example_state)"
    by (simp add: no_double_subscription_def subscribed_ids_def example_state_def DashboardClient_new_def)
qed (auto simp: card_insert_if)

section \<open>Publishing\<close>

text \<open>The text of a data set, when it is to be published.\<close>

definition to_publish :: "(nat \<Rightarrow> json \<Rightarrow> exn + string) \<Rightarrow> DataSetStorage_t \<Rightarrow> string option" where
  "to_publish dump d =
     (case getJson dump d of
        Inl e \<Rightarrow> None
      | Inr pl \<Rightarrow> if pl \<noteq> '''' \<and> pl \<noteq> ''null'' then Some pl else None)"

text \<open>The last message of the channel is the current text and at most ten seconds old.\<close>

definition up_to_date :: "(nat \<Rightarrow> json \<Rightarrow> exn + string) \<Rightarrow> int \<Rightarrow> (string, LastMessage_t) smap \<Rightarrow> DataSetStorage_t \<Rightarrow> bool" where
  "up_to_date dump now m d \<longleftrightarrow>
     (case to_publish dump d of None \<Rightarrow> True
      | Some pl \<Rightarrow> (\<exists>lm. sm_find m (channel d) = Some lm \<and> lmPayload lm = pl \<and> now - lastSent lm \<le> 10))"

definition serializable :: "(nat \<Rightarrow> json \<Rightarrow> exn + string) \<Rightarrow> DataSetStorage_t \<Rightarrow> bool" where
  "serializable dump d \<longleftrightarrow> (\<exists>pl. getJson dump d = Inr pl)"

text \<open>What one data set adds to the messages, given the last messages.\<close>

definition messages_of ::
    "(nat \<Rightarrow> json \<Rightarrow> exn + string) \<Rightarrow> int \<Rightarrow> (string, LastMessage_t) smap \<Rightarrow> DataSetStorage_t \<Rightarrow> (string \<times> string) list" where
  "messages_of dump now m d =
     (case to_publish dump d of None \<Rightarrow> []
      | Some pl \<Rightarrow>
          (if up_to_date dump now m d then [] else [(channel d, pl)]) @ [(onlineChannel d, ''1'')])"

lemma Publish_dataSet_run:
  assumes "serializable dump d" and "sm_ok (m_latestMessages (client s))"
  obtains m' where "Publish_dataSet dump d s = (Inr (),
      s\<lparr>env := (env s)\<lparr>published := published (env s) @
          messages_of dump (clock (env s)) (m_latestMessages (client s)) d\<rparr>,
        client := (client s)\<lparr>m_latestMessages := m'\<rparr>\<rparr>)"
    and "sm_ok m'" and "up_to_date dump (clock (env s)) m' d"
    and "\<And>ch. ch \<noteq> channel d \<Longrightarrow> sm_find m' ch = sm_find (m_latestMessages (client s)) ch"
    and "to_publish dump d = None \<Longrightarrow> m' = m_latestMessages (client s)"
proof -
  obtain pl where pl: "getJson dump d = Inr pl" using assms(1) by (auto simp: serializable_def)
  let ?m = "m_latestMessages (client s)" and ?now = "clock (env s)"
  show ?thesis
  proof (cases "pl \<noteq> '''' \<and> pl \<noteq> ''null''")
    case False
    then have none: "to_publish dump d = None" using pl by (auto simp: to_publish_def)
    show ?thesis
      by (rule that [of ?m])
        (use pl none False assms(2) in \<open>auto simp: Publish_dataSet_def messages_of_def up_to_date_def act_defs\<close>)
  next
    case True
    then have some: "to_publish dump d = Some pl" using pl by (simp add: to_publish_def)
    define m1 where "m1 = sm_insert (channel d) LastMessage_default ?m"
    define lm where "lm = the (sm_find m1 (channel d))"
    have m1: "sm_ok m1" using assms(2) by (simp add: m1_def smap_simps)
    have lm: "lm = (case sm_find ?m (channel d) of None \<Rightarrow> LastMessage_default | Some l \<Rightarrow> l)"
      using assms(2) by (auto simp: lm_def m1_def smap_simps split: option.splits)
    have found: "sm_find m1 (channel d) = Some lm"
      using assms(2) by (auto simp: lm_def m1_def smap_simps split: option.splits)
    have same: "sm_find m1 ch = sm_find ?m ch" if "ch \<noteq> channel d" for ch
      using assms(2) that by (simp add: m1_def smap_simps)
    let ?due = "pl \<noteq> lmPayload lm \<or> ?now - lastSent lm > 10"
    have quiet: "up_to_date dump ?now ?m d \<longleftrightarrow> \<not> ?due"
      using True some lm by (auto simp: up_to_date_def LastMessage_default_def split: option.splits)
    let ?m' = "if ?due then sm_assign (channel d) \<lparr>lmPayload = pl, lastSent = ?now\<rparr> m1 else m1"
    show ?thesis
    proof (rule that [of ?m'])
      show "Publish_dataSet dump d s = (Inr (),
        s\<lparr>env := (env s)\<lparr>published := published (env s) @ messages_of dump ?now ?m d\<rparr>,
          client := (client s)\<lparr>m_latestMessages := ?m'\<rparr>\<rparr>)"
        using pl True some quiet found
        by (cases ?due) (auto simp: Publish_dataSet_def messages_of_def on_client_def send_def m1_def [symmetric] act_defs)
    qed (use m1 some same found in \<open>auto simp: smap_simps up_to_date_def\<close>)
  qed
qed

lemma messages_of_cong:
  "sm_find m (channel d) = sm_find m' (channel d) \<Longrightarrow> messages_of dump now m d = messages_of dump now m' d"
  "sm_find m (channel d) = sm_find m' (channel d) \<Longrightarrow> up_to_date dump now m d = up_to_date dump now m' d"
  by (simp_all add: messages_of_def up_to_date_def split: option.splits)

lemma Publish_loop:
  assumes "distinct (map channel ds)" and "\<And>d. d \<in> set ds \<Longrightarrow> serializable dump d"
    and "sm_ok (m_latestMessages (client s))"
  shows "\<exists>m'. for_each ds (Publish_dataSet dump) s = (Inr (),
      s\<lparr>env := (env s)\<lparr>published := published (env s) @
          concat (map (messages_of dump (clock (env s)) (m_latestMessages (client s))) ds)\<rparr>,
        client := (client s)\<lparr>m_latestMessages := m'\<rparr>\<rparr>) \<and> sm_ok m' \<and>
      (\<forall>d \<in> set ds. up_to_date dump (clock (env s)) m' d) \<and>
      (\<forall>ch. ch \<notin> channel ` set ds \<longrightarrow> sm_find m' ch = sm_find (m_latestMessages (client s)) ch)"
  using assms
proof (induction ds arbitrary: s)
  case Nil
  then show ?case by (auto simp: act_defs intro!: exI [of _ "m_latestMessages (client s)"])
next
  case (Cons d ds)
  let ?m = "m_latestMessages (client s)" and ?now = "clock (env s)"
  obtain m1 where one: "Publish_dataSet dump d s = (Inr (),
        s\<lparr>env := (env s)\<lparr>published := published (env s) @ messages_of dump ?now ?m d\<rparr>,
          client := (client s)\<lparr>m_latestMessages := m1\<rparr>\<rparr>)"
    and m1: "sm_ok m1" "up_to_date dump ?now m1 d"
    and other: "\<And>ch. ch \<noteq> channel d \<Longrightarrow> sm_find m1 ch = sm_find ?m ch"
    using Publish_dataSet_run [OF Cons.prems(2) [OF list.set_intros(1)] Cons.prems(3)] by blast
  let ?s1 = "s\<lparr>env := (env s)\<lparr>published := published (env s) @ messages_of dump ?now ?m d\<rparr>,
          client := (client s)\<lparr>m_latestMessages := m1\<rparr>\<rparr>"
  have same: "map (messages_of dump ?now m1) ds = map (messages_of dump ?now ?m) ds"
    using Cons.prems(1) by (auto intro!: messages_of_cong other) (metis image_eqI)
  from Cons.IH [of ?s1] Cons.prems m1(1) obtain m2 where
    rest: "for_each ds (Publish_dataSet dump) ?s1 = (Inr (),
        ?s1\<lparr>env := (env ?s1)\<lparr>published := published (env ?s1) @ concat (map (messages_of dump ?now m1) ds)\<rparr>,
          client := (client ?s1)\<lparr>m_latestMessages := m2\<rparr>\<rparr>)"
    and m2: "sm_ok m2" "\<forall>d \<in> set ds. up_to_date dump ?now m2 d"
      "\<forall>ch. ch \<notin> channel ` set ds \<longrightarrow> sm_find m2 ch = sm_find m1 ch"
    by auto
  have "channel d \<notin> channel ` set ds" using Cons.prems(1) by simp
  then have "up_to_date dump ?now m2 d"
    using m1(2) m2(3) messages_of_cong(2) [of m2 d m1] by metis
  with m2 other show ?case
    unfolding for_each.simps seq_def one prod.case sum.case rest
    by (intro exI [of _ m2]) (simp add: same)
qed

text \<open>
  C5: the publication rule. When the data sets have different channels and can be serialized,
  \<^verbatim>\<open>Publish\<close> sends for each of them, in order, nothing if the machine has no value, and
  otherwise the current text exactly when it differs from the last message of the channel or
  that message is more than ten seconds old, followed by the online message. Afterwards the
  last message of every channel is the current text and at most ten seconds old, so a second
  call at the same time sends only online messages.
\<close>

theorem Publish_rate:
  assumes "distinct (map channel (m_dataSets (client s)))"
    and "\<forall>d \<in> set (m_dataSets (client s)). serializable dump d"
    and "sm_ok (m_latestMessages (client s))"
  shows "\<exists>u. Publish dump s = (Inr (), u) \<and>
    published (env u) = published (env s) @
      concat (map (messages_of dump (clock (env s)) (m_latestMessages (client s))) (m_dataSets (client s))) \<and>
    (\<exists>v. Publish dump u = (Inr (), v) \<and>
      published (env v) = published (env u) @
        concat (map (\<lambda>d. if to_publish dump d = None then [] else [(onlineChannel d, ''1'')])
          (m_dataSets (client s))))"
proof -
  let ?ds = "m_dataSets (client s)" and ?now = "clock (env s)"
  have pub: "Publish dump t = for_each (m_dataSets (client t)) (Publish_dataSet dump) t" for t :: "'a dstate"
    by (simp add: Publish_def)
  from Publish_loop [of ?ds dump s] assms obtain m1 where
    one: "Publish dump s = (Inr (),
        s\<lparr>env := (env s)\<lparr>published := published (env s) @
            concat (map (messages_of dump ?now (m_latestMessages (client s))) ?ds)\<rparr>,
          client := (client s)\<lparr>m_latestMessages := m1\<rparr>\<rparr>)"
    and m1: "sm_ok m1" "\<forall>d \<in> set ?ds. up_to_date dump ?now m1 d"
    unfolding pub by auto
  define u where "u = s\<lparr>env := (env s)\<lparr>published := published (env s) @
      concat (map (messages_of dump ?now (m_latestMessages (client s))) ?ds)\<rparr>,
      client := (client s)\<lparr>m_latestMessages := m1\<rparr>\<rparr>"
  have u: "m_dataSets (client u) = ?ds" "clock (env u) = ?now" "m_latestMessages (client u) = m1"
    by (simp_all add: u_def)
  from Publish_loop [of ?ds dump u] assms(1,2) m1(1) u obtain v where
    two: "Publish dump u = (Inr (), v)"
    and v: "published (env v) = published (env u) @ concat (map (messages_of dump ?now m1) ?ds)"
    unfolding pub by auto
  have "map (messages_of dump ?now m1) ?ds =
      map (\<lambda>d. if to_publish dump d = None then [] else [(onlineChannel d, ''1'')]) ?ds"
    using m1(2) by (auto simp: messages_of_def split: option.splits)
  with one two v show ?thesis by (auto simp: u_def)
qed

definition example_dataSet :: "DataSetStorage_t" where
  "example_dataSet = \<lparr>storage_ptr = 9, startNodeId = node_A, channel = ''c'', onlineChannel = ''o'',
     dsNode = SimpleNode 3 (example_def Mandatory Object ''Machine'') [example_variable 1 ''A'']
       node_A (NodeId '''' ''i=58'') False, dsValues = [(1, JInt 7)]\<rparr>"

definition example_publish_state :: "unit dstate" where
  "example_publish_state =
     \<lparr>env = example_env\<lparr>clock := 100\<rparr>, client = DashboardClient_new\<lparr>m_dataSets := [example_dataSet]\<rparr>\<rparr>"

theorem Publish_rate_witness:
  "\<exists>u. Publish example_dump example_publish_state = (Inr (), u) \<and>
     published (env u) = [(''c'', ''{}''), (''o'', ''1'')] \<and>
     (\<exists>v. Publish example_dump u = (Inr (), v) \<and>
       published (env v) = [(''c'', ''{}''), (''o'', ''1''), (''o'', ''1'')])"
proof -
  have json: "getJson example_dump example_dataSet = Inr ''{}''" by code_simp
  have "\<exists>u. Publish example_dump example_publish_state = (Inr (), u) \<and>
    published (env u) = published (env example_publish_state) @
      concat (map (messages_of example_dump (clock (env example_publish_state))
        (m_latestMessages (client example_publish_state))) (m_dataSets (client example_publish_state))) \<and>
    (\<exists>v. Publish example_dump u = (Inr (), v) \<and>
      published (env v) = published (env u) @
        concat (map (\<lambda>d. if to_publish example_dump d = None then [] else [(onlineChannel d, ''1'')])
          (m_dataSets (client example_publish_state))))"
    by (rule Publish_rate)
      (auto simp: example_publish_state_def DashboardClient_new_def serializable_def json)
  moreover have "to_publish example_dump example_dataSet = Some ''{}''"
    by (simp add: to_publish_def json)
  ultimately show ?thesis
    by (simp add: example_publish_state_def DashboardClient_new_def example_env_def messages_of_def
        up_to_date_def) (auto simp: example_dataSet_def)
qed

section \<open>Unsubscribing\<close>

lemma Unsubscribe_clears: "Unsubscribe D s = (Inr w, x) \<Longrightarrow> m_dataSets (client x) = []"
  by (auto simp: Unsubscribe_def on_client_def on_world_def Let_def act_defs split: prod.splits sum.splits)

text \<open>
  \<^verbatim>\<open>Unsubscribe\<close> hands all handles of the client to the data source in one call and
  forgets them in any case. Only when that call returns are the data sets dropped: if it
  throws, the exception leaves the client without subscriptions but with its data sets, which
  it goes on publishing with their last values.
\<close>

theorem Unsubscribe_outcomes:
  "let handles = concat (map (\<lambda>v. case v of None \<Rightarrow> [] | Some h \<Rightarrow> [h]) (m_subscribedValues (client s)));
       outcome = dc_Unsubscribe D (map m_monitoredItemId handles) (map m_clientHandle handles) (world (env s));
       after = Unsubscribe D s
   in m_subscribedValues (client (snd after)) = [] \<and> fst after = fst outcome \<and>
      world (env (snd after)) = snd outcome \<and> published (env (snd after)) = published (env s) \<and>
      m_dataSets (client (snd after)) =
        (case fst outcome of Inl e \<Rightarrow> m_dataSets (client s) | Inr _ \<Rightarrow> [])"
  by (auto simp: Unsubscribe_def on_client_def on_world_def Let_def act_defs split: prod.splits sum.splits)

lemma on_value_writes_value:
  assumes "d \<in> set (m_dataSets (client s))" and "distinct (map storage_ptr (m_dataSets (client s)))"
    and "\<forall>d \<in> set (m_dataSets (client s)). sm_ok (dsValues d)"
  shows "\<exists>u. on_value (storage_ptr d, p) v s = (Inr (), u) \<and>
    map storage_ptr (m_dataSets (client u)) = map storage_ptr (m_dataSets (client s)) \<and>
    (\<forall>i < length (m_dataSets (client s)). \<forall>p'.
      getValueCallback (m_dataSets (client u) ! i) p' =
        (if m_dataSets (client s) ! i = d \<and> p' = p then v
         else getValueCallback (m_dataSets (client s) ! i) p'))"
proof -
  let ?ds = "m_dataSets (client s)"
  let ?f = "\<lambda>d'. if storage_ptr d' = storage_ptr d then d'\<lparr>dsValues := sm_assign p v (dsValues d')\<rparr> else d'"
  have run: "on_value (storage_ptr d, p) v s = (Inr (), s\<lparr>client := (client s)\<lparr>m_dataSets := map ?f ?ds\<rparr>\<rparr>)"
    using assms(1) by (auto simp: on_value_def on_client_def act_defs)
  have same: "storage_ptr (?ds ! i) = storage_ptr d \<longleftrightarrow> ?ds ! i = d" if "i < length ?ds" for i
    using assms(1,2) that by (auto simp: distinct_map dest: inj_onD)
  have "getValueCallback (map ?f ?ds ! i) p' =
      (if ?ds ! i = d \<and> p' = p then v else getValueCallback (?ds ! i) p')" if "i < length ?ds" for i p'
    using that assms(1,3) same [OF that] by (auto simp: getValueCallback_def smap_simps)
  moreover have "map storage_ptr (map ?f ?ds) = map storage_ptr ?ds" by simp
  ultimately show ?thesis
    by (intro exI [of _ "s\<lparr>client := (client s)\<lparr>m_dataSets := map ?f ?ds\<rparr>\<rparr>"] conjI allI impI run)
      simp_all
qed

text \<open>
  Values arrive only where they belong. The callback registered for a node changes the
  value of that node in its own data set and nothing else; once \<^verbatim>\<open>Unsubscribe\<close> has
  dropped the data sets, a callback that still fires writes through a dangling reference.
\<close>

theorem on_value_writes_one_value:
  assumes "d \<in> set (m_dataSets (client s))" and "distinct (map storage_ptr (m_dataSets (client s)))"
    and "\<forall>d \<in> set (m_dataSets (client s)). sm_ok (dsValues d)"
  shows "\<exists>u. on_value (storage_ptr d, p) v s = (Inr (), u) \<and>
    map storage_ptr (m_dataSets (client u)) = map storage_ptr (m_dataSets (client s)) \<and>
    (\<forall>i < length (m_dataSets (client s)). \<forall>p'.
      getValueCallback (m_dataSets (client u) ! i) p' =
        (if m_dataSets (client s) ! i = d \<and> p' = p then v
         else getValueCallback (m_dataSets (client s) ! i) p')) \<and>
    (\<forall>w x y. Unsubscribe D s = (Inr w, x) \<longrightarrow> fst (on_value (storage_ptr d, p) y x) = Inl Undefined)"
proof -
  have "fst (on_value (storage_ptr d, p) y x) = Inl Undefined" if "Unsubscribe D s = (Inr w, x)" for w x y
    using Unsubscribe_clears [OF that] by (simp add: on_value_def act_defs)
  with on_value_writes_value [OF assms, of p v] show ?thesis by blast
qed

theorem on_value_writes_one_value_witness:
  "\<exists>u. on_value (9, 1) (JInt 8) example_publish_state = (Inr (), u) \<and>
     getValueCallback (m_dataSets (client u) ! 0) 1 = JInt 8"
proof -
  have ds: "m_dataSets (client example_publish_state) = [example_dataSet]"
    by (simp add: example_publish_state_def)
  have "storage_ptr example_dataSet = 9" "sm_ok (dsValues example_dataSet)"
    by (simp_all add: example_dataSet_def)
  with on_value_writes_one_value [of example_dataSet example_publish_state 1 "JInt 8" example_client]
  show ?thesis by (auto simp: ds)
qed

end
