(* ===== verification/Observer_Properties.thy ===== *)
theory Observer_Properties
  imports Dashboard_Machine_Observer Dashboard_Publish
begin

text \<open>
  Properties of the observers. The base class calls its pure virtual methods; the locale
  \<open>machine_methods\<close> says what it may assume of them, and one round of \<^verbatim>\<open>UpdateMachines\<close>
  is analysed under these assumptions. The derived class meets them.
\<close>

section \<open>The contract of the virtual methods\<close>

definition keeps :: "('s \<Rightarrow> 'v) \<Rightarrow> ('s, 'e, 'a) act \<Rightarrow> bool" where
  "keeps f m \<longleftrightarrow> (\<forall>c. runs (\<lambda>s. f s = c) (\<lambda>_. True) (\<lambda>_. True) m)"

lemma keepsD: "keeps f m \<Longrightarrow> m s = (r, t) \<Longrightarrow> f t = f s"
  unfolding keeps_def using runsD by fastforce

lemma keepsI: "(\<And>s r t. m s = (r, t) \<Longrightarrow> f t = f s) \<Longrightarrow> keeps f m"
  unfolding keeps_def by (intro allI runsI) (auto split: sum.splits)

lemma seq_Inr_iff: "seq m f s = (Inr y, t) \<longleftrightarrow> (\<exists>x u. m s = (Inr x, u) \<and> f x u = (Inr y, t))"
  by (auto simp: seq_def split: prod.splits sum.splits)

named_theorems keeps_rules \<open>actions that leave a part of the state unchanged\<close>

lemma keeps_basic [keeps_rules]:
  "keeps f (ret x)" "keeps f (raise e)" "keeps f undefined_behaviour" "keeps f no_fuel" "keeps f (reads g)"
  "keeps f (lift_sum r)"
  by (auto simp: keeps_def intro!: runs_ret runs_raise runs_undefined runs_no_fuel runs_reads runs_lift_sum)

lemma keeps_update [keeps_rules]: "(\<And>s. f (g s) = f s) \<Longrightarrow> keeps f (update g)"
  by (auto simp: keeps_def intro: runs_update)

lemma keeps_seq [keeps_rules]: "keeps f m \<Longrightarrow> (\<And>x. keeps f (k x)) \<Longrightarrow> keeps f (seq m k)"
  unfolding keeps_def by (blast intro: runs_seq_any)

lemma keeps_try_catch [keeps_rules]:
  "keeps f m \<Longrightarrow> (\<And>e k. h e = Some k \<Longrightarrow> keeps f k) \<Longrightarrow> keeps f (try_catch m h)"
  unfolding keeps_def
  by (intro allI runs_try_catch [where A' = "\<lambda>_. True"]) (auto split: option.splits)

lemma keeps_if [keeps_rules]: "keeps f m \<Longrightarrow> keeps f n \<Longrightarrow> keeps f (if c then m else n)"
  by simp

lemma keeps_option [keeps_rules]:
  "keeps f m \<Longrightarrow> (\<And>x. keeps f (k x)) \<Longrightarrow> keeps f (case v of None \<Rightarrow> m | Some x \<Rightarrow> k x)"
  by (cases v) auto

lemma keeps_list [keeps_rules]:
  "keeps f m \<Longrightarrow> (\<And>x xs. keeps f (k x xs)) \<Longrightarrow> keeps f (case l of [] \<Rightarrow> m | x # xs \<Rightarrow> k x xs)"
  by (cases l) auto

lemma keeps_prod [keeps_rules]: "(\<And>a b. keeps f (k a b)) \<Longrightarrow> keeps f (case p of (a, b) \<Rightarrow> k a b)"
  by (cases p) auto

lemma keeps_for_each [keeps_rules]: "(\<And>x. x \<in> set xs \<Longrightarrow> keeps f (g x)) \<Longrightarrow> keeps f (for_each xs g)"
  unfolding keeps_def by (blast intro: runs_for_each)

lemma keeps_zoom [keeps_rules]: "(\<And>t s. f (put t s) = f s) \<Longrightarrow> keeps f (zoom get put m)"
  by (rule keepsI) (auto simp: zoom_def split: prod.splits)

text \<open>The members of the base class that the virtual methods leave alone, apart from the known machines.\<close>

definition base_view ::
  "('w, 'm) machine_observer_scheme \<Rightarrow> type_reader \<times> NodeId_t sset \<times> (NodeId_t, NodeId_t) smap \<times>
     (NodeId_t, json) smap \<times> NodeId_t sset \<times> (NodeId_t, int \<times> string) smap" where
  "base_view s = (ob_reader s, m_knownMachineToolsSet s, m_parentOfMachine s, m_machineIdentificationsCache s,
     m_machinesFilter s, m_invalidMachines s)"

locale machine_methods =
  fixes M :: "('w, 'm) observer_methods"
  assumes removes: "\<And>n s r t. vm_removeMachine M n s = (r, t) \<Longrightarrow>
      m_knownMachines t = sm_erase n (m_knownMachines s) \<and> base_view t = base_view s"
    and adds: "\<And>m s r t. vm_addMachine M m s = (r, t) \<Longrightarrow>
      m_knownMachines t = m_knownMachines s \<and> base_view t = base_view s"
    and asks: "\<And>n d s r t. vm_isOnline M n d s = (r, t) \<Longrightarrow>
      m_knownMachines t = m_knownMachines s \<and> base_view t = base_view s"
begin

lemma removeOffline:
  assumes "removeOfflineMachines M ns s = (r, t)"
  shows "base_view t = base_view s \<and> (r = Inr () \<longrightarrow> m_knownMachines t = fold sm_erase ns (m_knownMachines s))"
  using assms unfolding removeOfflineMachines_def
proof (induction ns arbitrary: s)
  case (Cons n ns)
  from Cons.prems have "seq (vm_removeMachine M n) (\<lambda>_. for_each ns (vm_removeMachine M)) s = (r, t)" by simp
  then show ?case
  proof (cases rule: seq_elim)
    case (abrupt e)
    then show ?thesis using removes by auto
  next
    case (result x u)
    then show ?thesis using removes [OF result(1)] Cons.IH [OF result(2)] by auto
  qed
qed (simp add: act_defs)

text \<open>The reset: every machine of the old set is forgotten.\<close>

lemma listsNotEqual:
  assumes "machineListsNotEqual M L s = (Inr b, t)"
  shows "b = (ss_of_list (map brNodeId L) \<noteq> m_knownMachineToolsSet s) \<and>
    m_knownMachines t = (if b then fold sm_erase (m_knownMachineToolsSet s) (m_knownMachines s) else m_knownMachines s) \<and>
    m_knownMachineToolsSet t = ss_of_list (map brNodeId L) \<and> m_invalidMachines t = m_invalidMachines s"
proof (cases "ss_of_list (map brNodeId L) = m_knownMachineToolsSet s")
  case True
  with assms show ?thesis by (simp add: machineListsNotEqual_def) (simp add: act_defs)
next
  case False
  obtain r u where rm: "removeOfflineMachines M (m_knownMachineToolsSet s) s = (r, u)" by fastforce
  from assms False rm have "r = Inr ()" "b" "t = u\<lparr>m_knownMachineToolsSet := ss_of_list (map brNodeId L)\<rparr>"
    by (auto simp: machineListsNotEqual_def recreateKnownMachineToolsMap_def act_defs split: sum.splits)
  with removeOffline [OF rm] False show ?thesis by (auto simp: base_view_def)
qed

text \<open>
  The check of the machines. The machines that answered are the keys of the identifications;
  those that were known stay, the others are new.
\<close>

lemma findNew:
  assumes "findNewAndOfflineMachines M L R N I s = (Inr (R', N', I'), t)"
    and "distinct (map brNodeId L)" and "sm_ok I"
  shows "\<exists>on. on \<subseteq> brNodeId ` set L \<and> set R' = set R - on \<and> set N' = set N \<union> (on - set R) \<and>
    set (sm_keys I') = set (sm_keys I) \<union> on \<and> m_knownMachines t = m_knownMachines s \<and> base_view t = base_view s"
  using assms
proof (induction L arbitrary: R N I s)
  case Nil
  then show ?case by (intro exI [of _ "{}"]) (auto simp: act_defs)
next
  case (Cons m L)
  let ?ask = "try_catch (vm_isOnline M (brNodeId m) (brTypeDefinition m))
      (\<lambda>ex. if is_OpcUaException ex then Some (ret (False, JNull)) else None)"
  from Cons.prems(1) obtain online j u where ask: "?ask s = (Inr (online, j), u)"
    and rest: "(if online
      then findNewAndOfflineMachines M L (if brNodeId m \<in> set R then ss_erase (brNodeId m) R else R)
             (if brNodeId m \<in> set R then N else ss_insert (brNodeId m) N) (sm_insert (brNodeId m) j I)
      else findNewAndOfflineMachines M L R N I) u = (Inr (R', N', I'), t)"
    by (auto elim!: seq_elim)
  have "keeps (\<lambda>s. (m_knownMachines s, base_view s)) ?ask"
    by (intro keeps_try_catch keepsI) (auto simp: act_defs dest: asks split: if_splits)
  from keepsD [OF this ask] have u: "m_knownMachines u = m_knownMachines s" "base_view u = base_view s" by auto
  show ?case
  proof (cases online)
    case True
    let ?x = "brNodeId m"
    have ok: "sm_ok (sm_insert ?x j I)" using Cons.prems(3) by (simp add: smap_simps)
    from rest True have run: "findNewAndOfflineMachines M L (if ?x \<in> set R then ss_erase ?x R else R)
        (if ?x \<in> set R then N else ss_insert ?x N) (sm_insert ?x j I) u = (Inr (R', N', I'), t)" by simp
    from Cons.IH [OF run _ ok] Cons.prems(2) obtain on where "on \<subseteq> brNodeId ` set L"
      "set R' = set (if ?x \<in> set R then ss_erase ?x R else R) - on"
      "set N' = set (if ?x \<in> set R then N else ss_insert ?x N) \<union>
        (on - set (if ?x \<in> set R then ss_erase ?x R else R))"
      "set (sm_keys I') = insert ?x (set (sm_keys I)) \<union> on"
      "m_knownMachines t = m_knownMachines u" "base_view t = base_view u"
      by auto
    moreover have "brNodeId m \<notin> on" using calculation(1) Cons.prems(2) by auto
    ultimately show ?thesis
      using u by (intro exI [of _ "insert ?x on"]) (simp, cases "?x \<in> set R", auto)
  next
    case False
    with rest have "findNewAndOfflineMachines M L R N I u = (Inr (R', N', I'), t)" by simp
    from Cons.IH [OF this] Cons.prems(2,3) obtain on where "on \<subseteq> brNodeId ` set L" "set R' = set R - on"
      "set N' = set N \<union> (on - set R)" "set (sm_keys I') = set (sm_keys I) \<union> on"
      "m_knownMachines t = m_knownMachines u" "base_view t = base_view u" by auto
    then show ?thesis using u by (intro exI [of _ on]) auto
  qed
qed

end

section \<open>The list of machines without duplicates\<close>

lemma unique_machines_Cons: "\<exists>ms'. unique_machines (m # ms) = m # ms'"
  by (induction "m # ms" arbitrary: ms rule: unique_machines.induct) auto

lemma set_unique_machines: "set (unique_machines ms) \<subseteq> set ms"
  by (induction ms rule: unique_machines.induct) auto

lemma unique_machines_distinct:
  "sorted (map brNodeId ms) \<Longrightarrow> distinct (map brNodeId (unique_machines ms))"
proof (induction ms rule: unique_machines.induct)
  case (3 m n ms)
  show ?case
  proof (cases "NodeId_eq (brNodeId m) (brNodeId n)")
    case True
    with 3 show ?thesis by simp
  next
    case False
    have "brNodeId m \<noteq> brNodeId n" using False by auto
    with 3(3) have less: "brNodeId m < brNodeId n" and rest: "\<forall>x \<in> set ms. brNodeId n \<le> brNodeId x"
      and sorted: "sorted (map brNodeId (n # ms))" by auto
    have "brNodeId m \<notin> brNodeId ` set (unique_machines (n # ms))"
      using less rest set_unique_machines [of "n # ms"] by fastforce
    with 3(2) [OF False sorted] False show ?thesis by simp
  qed
qed auto

definition found_machines :: "BrowseResult_t list \<Rightarrow> BrowseResult_t list" where
  "found_machines L = unique_machines (sort_key brNodeId L)"

lemma found_machines_distinct: "distinct (map brNodeId (found_machines L))"
  by (simp add: found_machines_def unique_machines_distinct)

text \<open>The map from node ids to machines holds each machine under its own id.\<close>

lemma machine_map_find:
  assumes "n \<in> brNodeId ` set L"
  shows "\<exists>m. sm_find (fold (\<lambda>m. sm_insert (brNodeId m) m) L []) n = Some m \<and> brNodeId m = n"
proof -
  have "\<And>acc. sm_ok acc \<Longrightarrow> (\<forall>k m. sm_find acc k = Some m \<longrightarrow> brNodeId m = k) \<Longrightarrow>
      n \<in> brNodeId ` set L \<or> n \<in> set (sm_keys acc) \<Longrightarrow>
      \<exists>m. sm_find (fold (\<lambda>m. sm_insert (brNodeId m) m) L acc) n = Some m \<and> brNodeId m = n"
  proof (induction L)
    case Nil
    then show ?case by (auto simp: sm_find_None_iff dest: sm_find_None_iff [THEN iffD1, rotated])
        (metis not_None_eq sm_find_None_iff)
  next
    case (Cons m L)
    show ?case
      using Cons.prems by (simp, intro Cons.IH) (auto simp: smap_simps split: option.splits)
  qed
  from this [of "[]"] assms show ?thesis by simp
qed

section \<open>One round\<close>

definition blacklist_ok :: "(NodeId_t, int \<times> string) smap \<Rightarrow> bool" where
  "blacklist_ok I \<longleftrightarrow> sm_ok I \<and> (\<forall>k c reason. sm_find I k = Some (c, reason) \<longrightarrow> 0 < c \<and> c \<le> NumSkipAfterInvalid)"

lemma blacklist_ok_updates:
  assumes "blacklist_ok I"
  shows "blacklist_ok (sm_erase n I)"
    and "0 < c \<Longrightarrow> c \<le> NumSkipAfterInvalid \<Longrightarrow> blacklist_ok (sm_assign n (c, reason) I)"
    and "0 < c \<Longrightarrow> c \<le> NumSkipAfterInvalid \<Longrightarrow> blacklist_ok (sm_insert n (c, reason) I)"
    and "sm_ok I"
  using assms unfolding blacklist_ok_def by (auto simp: smap_simps split: if_splits)

context machine_methods
begin

text \<open>Adding a machine: it becomes known, or it is put on the list of invalid machines.\<close>

lemma addNew:
  assumes "addNewMachine M m s = (Inr (), t)"
  shows "m_knownMachineToolsSet t = m_knownMachineToolsSet s \<and>
    ((m_knownMachines t = sm_insert (brNodeId m) m (m_knownMachines s) \<and> m_invalidMachines t = m_invalidMachines s) \<or>
     (\<exists>reason. m_knownMachines t = m_knownMachines s \<and>
        m_invalidMachines t = sm_insert (brNodeId m) (NumSkipAfterInvalid, reason) (m_invalidMachines s)))"
proof -
  obtain r u where add: "vm_addMachine M m s = (r, u)" by fastforce
  note u = adds [OF add, unfolded base_view_def]
  show ?thesis
    using assms add u
    by (cases r) (auto simp: addNewMachine_def act_defs split: abrupt.splits option.splits if_splits, blast+)
qed

lemma skips:
  assumes "ignoreInvalidMachinesTemporarily n s = (r, t)" and "blacklist_ok (m_invalidMachines s)"
  shows "\<exists>b. r = Inr b \<and> (b \<longleftrightarrow> n \<in> set (sm_keys (m_invalidMachines t))) \<and>
    blacklist_ok (m_invalidMachines t) \<and> m_knownMachines t = m_knownMachines s \<and>
    m_knownMachineToolsSet t = m_knownMachineToolsSet s \<and>
    (\<forall>k. k \<noteq> n \<longrightarrow> sm_find (m_invalidMachines t) k = sm_find (m_invalidMachines s) k)"
proof (cases "sm_find (m_invalidMachines s) n")
  case None
  with assms show ?thesis
    by (auto simp: ignoreInvalidMachinesTemporarily_def sm_find_None_iff) (auto simp: act_defs)
next
  case (Some p)
  obtain count reason where p: "p = (count, reason)" by fastforce
  with Some assms(2) have c: "0 < count" "count \<le> NumSkipAfterInvalid" and ok: "sm_ok (m_invalidMachines s)"
    unfolding blacklist_ok_def by blast+
  note blacklist = blacklist_ok_updates [OF assms(2)]
  from assms Some p c ok show ?thesis
    by (auto simp: ignoreInvalidMachinesTemporarily_def) (auto simp: act_defs blacklist smap_simps split: if_splits)
qed

lemma addDue:
  assumes run: "add_if_due M (fold (\<lambda>m. sm_insert (brNodeId m) m) L []) n s = (Inr (), t)"
    and n: "n \<in> brNodeId ` set L" and ok: "blacklist_ok (m_invalidMachines s)" "sm_ok (m_knownMachines s)"
  shows "m_knownMachineToolsSet t = m_knownMachineToolsSet s \<and>
    blacklist_ok (m_invalidMachines t) \<and> sm_ok (m_knownMachines t) \<and>
    set (sm_keys (m_knownMachines t)) \<subseteq> insert n (set (sm_keys (m_knownMachines s))) \<and>
    set (sm_keys (m_knownMachines s)) \<subseteq> set (sm_keys (m_knownMachines t)) \<and>
    (\<forall>k. k \<noteq> n \<longrightarrow> sm_find (m_invalidMachines t) k = sm_find (m_invalidMachines s) k) \<and>
    (n \<in> set (sm_keys (m_knownMachines t)) \<or> n \<in> set (sm_keys (m_invalidMachines t))) \<and>
    (n \<notin> set (sm_keys (m_knownMachines s)) \<longrightarrow>
       n \<notin> set (sm_keys (m_knownMachines t)) \<or> n \<notin> set (sm_keys (m_invalidMachines t)))"
proof -
  obtain r u where skip: "ignoreInvalidMachinesTemporarily n s = (r, u)" by fastforce
  from skips [OF this ok(1)] obtain b where r: "r = Inr b" and b: "b \<longleftrightarrow> n \<in> set (sm_keys (m_invalidMachines u))"
    and u: "blacklist_ok (m_invalidMachines u)" "m_knownMachines u = m_knownMachines s"
      "m_knownMachineToolsSet u = m_knownMachineToolsSet s"
      "\<And>k. k \<noteq> n \<Longrightarrow> sm_find (m_invalidMachines u) k = sm_find (m_invalidMachines s) k" by blast
  show ?thesis
  proof (cases b)
    case True
    with run skip r have "t = u" by (simp add: add_if_due_def seq_def ret_def)
    with True b u ok show ?thesis by auto
  next
    case False
    from machine_map_find [OF n] obtain m where m: "brNodeId m = n"
      and "sm_find (fold (\<lambda>m. sm_insert (brNodeId m) m) L []) n = Some m" by blast
    with run skip r False have "addNewMachine M m u = (Inr (), t)" by (simp add: add_if_due_def seq_def)
    from addNew [OF this] m b u False ok blacklist_ok_updates [OF u(1)] show ?thesis
      by (auto simp: smap_simps NumSkipAfterInvalid_def split: if_splits)
  qed
qed

lemma addAll:
  assumes "for_each ns (add_if_due M (fold (\<lambda>m. sm_insert (brNodeId m) m) L [])) s = (Inr (), t)"
    and "set ns \<subseteq> brNodeId ` set L" and "distinct ns"
    and "blacklist_ok (m_invalidMachines s)" and "sm_ok (m_knownMachines s)"
    and "set ns \<inter> set (sm_keys (m_knownMachines s)) = {}"
    and "set (sm_keys (m_knownMachines s)) \<inter> set (sm_keys (m_invalidMachines s)) = {}"
  shows "m_knownMachineToolsSet t = m_knownMachineToolsSet s \<and>
    blacklist_ok (m_invalidMachines t) \<and> sm_ok (m_knownMachines t) \<and>
    set (sm_keys (m_knownMachines t)) \<subseteq> set ns \<union> set (sm_keys (m_knownMachines s)) \<and>
    set (sm_keys (m_knownMachines s)) \<subseteq> set (sm_keys (m_knownMachines t)) \<and>
    (\<forall>k. k \<notin> set ns \<longrightarrow> sm_find (m_invalidMachines t) k = sm_find (m_invalidMachines s) k) \<and>
    set ns \<subseteq> set (sm_keys (m_knownMachines t)) \<union> set (sm_keys (m_invalidMachines t)) \<and>
    set (sm_keys (m_knownMachines t)) \<inter> set (sm_keys (m_invalidMachines t)) = {}"
  using assms
proof (induction ns arbitrary: s)
  case (Cons n ns)
  from Cons.prems(1) obtain u where
    one: "add_if_due M (fold (\<lambda>m. sm_insert (brNodeId m) m) L []) n s = (Inr (), u)"
    and more: "for_each ns (add_if_due M (fold (\<lambda>m. sm_insert (brNodeId m) m) L [])) u = (Inr (), t)"
    by (auto elim: seq_elim)
  note u = addDue [OF one _ Cons.prems(4,5)]
  have n: "n \<in> brNodeId ` set L" using Cons.prems(2) by simp
  have other: "k \<in> set (sm_keys (m_invalidMachines u)) \<longleftrightarrow> k \<in> set (sm_keys (m_invalidMachines s))" if "k \<noteq> n" for k
    using u [OF n] that sm_find_None_iff by metis
  have apart: "set (sm_keys (m_knownMachines u)) \<inter> set (sm_keys (m_invalidMachines u)) = {}"
  proof -
    have False if "k \<in> set (sm_keys (m_knownMachines u))" "k \<in> set (sm_keys (m_invalidMachines u))" for k
      by (cases "k = n") (use u [OF n] other [of k] Cons.prems(6,7) that in auto)
    then show ?thesis by blast
  qed
  have new: "set ns \<inter> set (sm_keys (m_knownMachines u)) = {}"
    using u [OF n] Cons.prems(3,6) by auto
  have "set ns \<subseteq> brNodeId ` set L" "distinct ns" using Cons.prems(2,3) by auto
  note t = Cons.IH [OF more this _ _ new apart]
  have t_n: "n \<in> set (sm_keys (m_invalidMachines t)) \<longleftrightarrow> n \<in> set (sm_keys (m_invalidMachines u))"
    using t u [OF n] Cons.prems(3) sm_find_None_iff by (metis distinct.simps(2))
  show ?case using t u [OF n] t_n Cons.prems(3) by auto
qed (simp add: act_defs)

lemma findNew_ss_ok:
  "findNewAndOfflineMachines M L R N I s = (Inr (R', N', I'), t) \<Longrightarrow> ss_ok N \<Longrightarrow> ss_ok N'"
proof (induction L arbitrary: R N I s)
  case (Cons m L)
  from Cons.prems(1) obtain online j u where
    rest: "(if online
      then findNewAndOfflineMachines M L (if brNodeId m \<in> set R then ss_erase (brNodeId m) R else R)
             (if brNodeId m \<in> set R then N else ss_insert (brNodeId m) N) (sm_insert (brNodeId m) j I)
      else findNewAndOfflineMachines M L R N I) u = (Inr (R', N', I'), t)"
    by (auto elim!: seq_elim)
  have "ss_ok (if brNodeId m \<in> set R then N else ss_insert (brNodeId m) N)"
    using Cons.prems(2) by (simp add: ss_ok_insert)
  moreover have "online \<or> \<not> online" by simp
  ultimately show ?case
    using rest Cons.IH [OF _ Cons.prems(2), of R I u] Cons.IH [of "if brNodeId m \<in> set R then ss_erase (brNodeId m) R else R"
      "if brNodeId m \<in> set R then N else ss_insert (brNodeId m) N" "sm_insert (brNodeId m) j I" u]
    by (auto simp only: if_True if_False)
qed (simp add: act_defs)

lemma fold_erase_ok:
  fixes ks :: "NodeId_t list"
  shows "sm_ok m \<Longrightarrow> sm_ok (fold sm_erase ks m) \<and> set (sm_keys (fold sm_erase ks m)) = set (sm_keys m) - set ks"
  by (induction ks arbitrary: m) (auto simp: smap_simps)

lemma round:
  fixes L R s
  defines "ids \<equiv> brNodeId ` set L" and "K \<equiv> set (sm_keys (m_knownMachines s))"
  assumes run: "update_with_list M R L s = (Inr (), t)" and L: "distinct (map brNodeId L)"
    and R: "set R = K" and sub: "K \<subseteq> set (m_knownMachineToolsSet s)"
    and ok: "blacklist_ok (m_invalidMachines s)" "sm_ok (m_knownMachines s)"
    and apart: "K \<inter> set (sm_keys (m_invalidMachines s)) = {}"
  shows "m_knownMachineToolsSet t = ss_of_list (map brNodeId L) \<and>
    blacklist_ok (m_invalidMachines t) \<and> sm_ok (m_knownMachines t) \<and>
    set (sm_keys (m_knownMachines t)) \<inter> set (sm_keys (m_invalidMachines t)) = {} \<and>
    set (sm_keys (m_knownMachines t)) \<subseteq> set (sm_keys (m_machineIdentificationsCache t)) \<and>
    set (sm_keys (m_machineIdentificationsCache t)) \<subseteq> ids \<and>
    set (sm_keys (m_machineIdentificationsCache t)) - K
      \<subseteq> set (sm_keys (m_knownMachines t)) \<union> set (sm_keys (m_invalidMachines t)) \<and>
    (if m_knownMachineToolsSet t = m_knownMachineToolsSet s
     then K \<inter> set (sm_keys (m_machineIdentificationsCache t)) \<subseteq> set (sm_keys (m_knownMachines t))
     else K \<inter> set (sm_keys (m_knownMachines t)) = {})"
proof -
  from run obtain b s1 R' N' I' s2 s3 s4 where reset: "machineListsNotEqual M L s = (Inr b, s1)"
    and find: "findNewAndOfflineMachines M L R [] [] s1 = (Inr (R', N', I'), s2)"
    and rem: "removeOfflineMachines M R' s2 = (Inr (), s3)"
    and add: "for_each N' (add_if_due M (fold (\<lambda>m. sm_insert (brNodeId m) m) L [])) s3 = (Inr (), s4)"
    and t: "t = s4\<lparr>m_machineIdentificationsCache := I'\<rparr>"
    unfolding update_with_list_def seq_Inr_iff by (auto simp: seq_Inr_iff update_def)
  note s1 = listsNotEqual [OF reset]
  from findNew [OF find L] obtain on where on: "on \<subseteq> ids" "set R' = K - on" "set N' = on - K"
      "set (sm_keys I') = on" and s2: "m_knownMachines s2 = m_knownMachines s1" "base_view s2 = base_view s1"
    unfolding ids_def by (auto simp: R)
  have "distinct N'" using findNew_ss_ok [OF find] by (simp add: ss_ok_def strict_sorted_iff)
  note s3 = removeOffline [OF rem]
  have K1: "set (sm_keys (m_knownMachines s1)) = (if b then {} else K)" and ok1: "sm_ok (m_knownMachines s1)"
    using s1 fold_erase_ok [OF ok(2)] ok(2) sub unfolding K_def by auto
  have K3: "set (sm_keys (m_knownMachines s3)) = (if b then {} else K \<inter> on)" and ok3: "sm_ok (m_knownMachines s3)"
    using s3 s2 fold_erase_ok [OF ok1] K1 on(2) by auto
  have I3: "m_invalidMachines s3 = m_invalidMachines s" and T3: "m_knownMachineToolsSet s3 = ss_of_list (map brNodeId L)"
    using s3 s2 s1 by (auto simp: base_view_def)
  have new: "set N' \<inter> set (sm_keys (m_knownMachines s3)) = {}" using on(3) K3 by auto
  have old: "set (sm_keys (m_knownMachines s3)) \<inter> set (sm_keys (m_invalidMachines s3)) = {}"
    using K3 I3 apart by auto
  have "set N' \<subseteq> brNodeId ` set L" using on(1,3) unfolding ids_def by auto
  note s4 = addAll [OF add this \<open>distinct N'\<close> _ ok3 new old, unfolded I3, OF ok(1)]
  show ?thesis
    using s4 t K3 T3 s1 on by (auto split: if_splits)
qed

end

section \<open>The derived class meets the contract\<close>

text \<open>What the virtual methods leave alone; \<open>removeMachine\<close> also forgets the machine first.\<close>

definition whole_base where
  "whole_base s = (m_knownMachines s, base_view s)"

lemma whole_base_parts:
  "whole_base (s\<lparr>ob_env := e\<rparr>) = whole_base s"
  "whole_base (s\<lparr>m_dashboardClients := c\<rparr>) = whole_base s"
  "whole_base (s\<lparr>m_onlineMachines := i\<rparr>) = whole_base s"
  "whole_base (s\<lparr>m_machineNames := n\<rparr>) = whole_base s"
  by (simp_all add: whole_base_def base_view_def)

lemma keeps_at_client [keeps_rules]: "keeps whole_base (at_client n m)"
  unfolding at_client_def by (intro keeps_rules) (simp add: whole_base_parts)

lemma keeps_base_world [keeps_rules]: "keeps whole_base (ob_world m)"
  unfolding ob_world_def by (intro keeps_rules) (simp add: whole_base_def base_view_def)

lemma keeps_with_new_client [keeps_rules]: "keeps whole_base (with_new_client c m)"
  by (rule keepsI) (auto simp: with_new_client_def whole_base_parts split: prod.splits sum.splits)

lemma keeps_let [keeps_rules]: "keeps f (g x) \<Longrightarrow> keeps f (let y = x in g y)"
  by simp

lemma keeps_dmo_addMachine: "keeps whole_base (dmo_addMachine D fuel m)"
  unfolding dmo_addMachine_def
  by (intro keeps_rules) (auto simp: whole_base_def base_view_def split: if_splits intro: keeps_rules)

lemma keeps_browseIdentificationValues [keeps_rules]:
  "keeps whole_base (browseIdentificationValues D n t i j)"
  unfolding browseIdentificationValues_def FillIdentificationValuesFromBrowseResult_def
  by (intro keeps_rules)

lemma keeps_dmo_isOnline: "keeps whole_base (dmo_isOnline D n t)"
  unfolding dmo_isOnline_def by (intro keeps_rules) (auto intro: keeps_rules)

lemma dmo_removeMachine_base:
  assumes "dmo_removeMachine D n s = (r, t)"
  shows "whole_base t = (sm_erase n (m_knownMachines s), base_view s)"
proof -
  define m :: "('a, unit) mact" where "m = seq (reads (\<lambda>s. sm_find (m_dashboardClients s) n \<noteq> None)) (\<lambda>present.
     seq (if present
          then seq (at_client n (Unsubscribe D)) (\<lambda>_.
               update (\<lambda>s. s\<lparr>m_dashboardClients := sm_erase n (m_dashboardClients s)\<rparr>))
          else ret ()) (\<lambda>_.
     update (\<lambda>s. s\<lparr>m_onlineMachines := sm_erase n (m_onlineMachines s)\<rparr>)))"
  have "keeps whole_base m"
    unfolding m_def by (intro keeps_rules) (simp_all add: whole_base_parts)
  moreover have "m (s\<lparr>m_knownMachines := sm_erase n (m_knownMachines s)\<rparr>) = (r, t)"
    using assms by (simp add: dmo_removeMachine_def m_def)
  ultimately have "whole_base t = whole_base (s\<lparr>m_knownMachines := sm_erase n (m_knownMachines s)\<rparr>)"
    by (rule keepsD)
  then show ?thesis by (simp add: whole_base_def base_view_def)
qed

interpretation dmo: machine_methods "dmo_methods D fuel" for D fuel
proof
  fix n s r t
  assume "vm_removeMachine (dmo_methods D fuel) n s = (r, t)"
  then show "m_knownMachines t = sm_erase n (m_knownMachines s) \<and> base_view t = base_view s"
    using dmo_removeMachine_base [of D n s r t] by (simp add: dmo_methods_def whole_base_def)
next
  fix m s r t
  assume "vm_addMachine (dmo_methods D fuel) m s = (r, t)"
  then show "m_knownMachines t = m_knownMachines s \<and> base_view t = base_view s"
    using keepsD [OF keeps_dmo_addMachine, of D fuel m s r t] by (simp add: dmo_methods_def whole_base_def)
next
  fix n d s r t
  assume "vm_isOnline (dmo_methods D fuel) n d s = (r, t)"
  then show "m_knownMachines t = m_knownMachines s \<and> base_view t = base_view s"
    using keepsD [OF keeps_dmo_isOnline, of D n d s r t] by (simp add: dmo_methods_def whole_base_def)
qed

text \<open>The search for machines changes only the environment, the type cache and the parents.\<close>

definition round_view where
  "round_view s = (m_knownMachines s, m_knownMachineToolsSet s, m_machineIdentificationsCache s,
     m_machinesFilter s, m_invalidMachines s)"

lemma keeps_skip_invalid: "skip_invalid x ex = Some k \<Longrightarrow> keeps f k"
  by (auto simp: skip_invalid_def split: if_splits intro: keeps_rules)

locale search_view =
  fixes g :: "('w, 'm) machine_observer_scheme \<Rightarrow> 'v"
  assumes world_free: "\<And>s w. g (s\<lparr>ob_env := (ob_env s)\<lparr>world := w\<rparr>\<rparr>) = g s"
    and subtypes_free: "\<And>s f. g (s\<lparr>ob_reader := (ob_reader s)
      \<lparr>m_subTypeDefinitionToKnownMachineTypeDefinition := f\<rparr>\<rparr>) = g s"
    and parents_free: "\<And>s p. g (s\<lparr>m_parentOfMachine := p\<rparr>) = g s"
begin

lemma keeps_ob_world [keeps_rules]: "keeps g (ob_world m)"
  unfolding ob_world_def by (intro keeps_rules world_free)

lemma keeps_ob_subtypes [keeps_rules]: "keeps g (ob_subtypes f)"
  unfolding ob_subtypes_def by (intro keeps_rules subtypes_free)

lemma keeps_parents [keeps_rules]: "keeps g (update (\<lambda>s. s\<lparr>m_parentOfMachine := p s\<rparr>))"
  by (intro keeps_rules parents_free)

lemma keeps_find_supertype [keeps_rules]: "keeps g (find_supertype D t mds)"
  by (induction D t mds rule: find_supertype.induct) (auto intro!: keeps_rules)

lemma keeps_identify [keeps_rules]: "keeps g (identify D m)"
  unfolding identify_def resolve_type_def by (intro keeps_rules)

lemma keeps_fix_missing_type [keeps_rules]: "keeps g (fix_missing_type D m)"
  unfolding fix_missing_type_def by (intro keeps_rules) (auto intro: keeps_rules split: if_splits)

lemma keeps_browse_candidates [keeps_rules]:
  "(\<And>n. keeps g (go n)) \<Longrightarrow> keeps g (browse_candidates D go p flt ms ns)"
proof (induction D go p flt ms ns rule: browse_candidates.induct)
  case (2 D go p flt m ms ns)
  have "keeps g (browse_candidate D go p flt m ns)"
    unfolding browse_candidate_def by (intro keeps_rules 2(2) | erule keeps_skip_invalid)+
  with 2 show ?case by (auto intro!: keeps_rules)
qed (auto intro: keeps_rules)

lemma keeps_findComponents_body:
  "(\<And>a b. keeps g (go a b)) \<Longrightarrow> keeps g (findComponentsFolder_body D go n)"
  unfolding findComponentsFolder_body_def by (intro keeps_rules) (auto intro: keeps_rules split: if_splits)

lemma keeps_browseForMachines [keeps_rules]: "keeps g (browseForMachines D fuel flt n p)"
proof (induction fuel arbitrary: flt n p)
  case (Suc fuel)
  show ?case
    by (simp, intro keeps_rules keeps_findComponents_body Suc)
qed (auto intro: keeps_rules)

lemma keeps_canBrowse: "keeps g (canBrowseMachineList D fuel)"
  unfolding canBrowseMachineList_def by (intro keeps_rules) (auto intro: keeps_rules split: if_splits)

end

interpretation round: search_view round_view
  by unfold_locales (simp_all add: round_view_def)

lemma keeps_isOnline:
  assumes "search_view g"
  shows "keeps g (dmo_isOnline D n t)"
  unfolding dmo_isOnline_def browseIdentificationValues_def FillIdentificationValuesFromBrowseResult_def
  by (intro keeps_rules search_view.keeps_ob_world [OF assms])
    (auto intro!: keeps_rules search_view.keeps_ob_world [OF assms])

text \<open>
  An invariant that the search and the members of the base class do not touch, and that the
  virtual methods keep, is kept by the whole update, on every outcome.
\<close>

locale observer_invariant = search_view P for P :: "('w, 'm) machine_observer_scheme \<Rightarrow> bool" +
  fixes M :: "('w, 'm) observer_methods"
  assumes members_free: "\<And>s k. P (s\<lparr>m_knownMachines := k\<rparr>) = P s"
      "\<And>s k. P (s\<lparr>m_knownMachineToolsSet := k\<rparr>) = P s"
      "\<And>s i. P (s\<lparr>m_invalidMachines := i\<rparr>) = P s"
      "\<And>s c. P (s\<lparr>m_machineIdentificationsCache := c\<rparr>) = P s"
    and removes: "\<And>n. runs P (\<lambda>_. True) (\<lambda>_. True) (vm_removeMachine M n)"
    and adds: "\<And>m. runs P (\<lambda>_. True) (\<lambda>_. True) (vm_addMachine M m)"
    and asks: "\<And>n t. runs P (\<lambda>_. True) (\<lambda>_. True) (vm_isOnline M n t)"
begin

abbreviation always :: "(('w, 'm) machine_observer_scheme, exn, 'a) act \<Rightarrow> bool" where
  "always \<equiv> runs P (\<lambda>_. True) (\<lambda>_. True)"

lemma kept: "keeps P m \<Longrightarrow> always m"
  by (rule runsI) (auto dest!: keepsD split: sum.splits)

lemma removeOffline: "always (removeOfflineMachines M ns)"
  unfolding removeOfflineMachines_def by (intro runs_for_each removes)

lemma listsNotEqual: "always (machineListsNotEqual M L)"
  unfolding machineListsNotEqual_def recreateKnownMachineToolsMap_def
  by (intro runs_seq_any runs_reads runs_if runs_ret runs_update removeOffline) (simp_all add: members_free)

lemma findNew: "always (findNewAndOfflineMachines M L R N I)"
proof (induction L arbitrary: R N I)
  case (Cons m L)
  have "always (try_catch (vm_isOnline M (brNodeId m) (brTypeDefinition m))
      (\<lambda>ex. if is_OpcUaException ex then Some (ret (False, JNull)) else None))"
    by (rule runs_try_catch [OF asks]) (auto intro: runs_ret)
  with Cons show ?case by (auto intro!: runs_seq_any)
qed (simp add: runs_ret)

lemma addNew: "always (addNewMachine M m)"
  unfolding addNewMachine_def
  by (rule runs_try_catch [where A' = "\<lambda>_. True"])
    (auto intro!: runs_seq_any adds runs_update simp: members_free)

lemma due: "always (add_if_due M ms n)"
  unfolding add_if_due_def ignoreInvalidMachinesTemporarily_def
  by (intro runs_seq_any runs_if runs_ret addNew TrueI kept keeps_rules) (simp_all add: members_free)

lemma updates: "always (UpdateMachines D M fuel)"
proof -
  have "always (update_with_list M R L)" for R L
    unfolding update_with_list_def
    by (auto intro!: runs_seq_any listsNotEqual findNew removeOffline runs_for_each due runs_update
        simp: members_free split: prod.splits)
  then show ?thesis
    unfolding UpdateMachines_def
    by (auto intro!: runs_seq_any runs_reads kept [OF keeps_canBrowse] runs_ret split: option.splits)
qed

end

section \<open>Properties of a round\<close>

text \<open>
  The invariant of the observer: a known machine was in the last list of machines, no machine
  is known and on the list of invalid machines at once, and every entry of that list has
  between one and ten rounds to go.
\<close>

definition observer_ok :: "('w, 'm) machine_observer_scheme \<Rightarrow> bool" where
  "observer_ok s \<longleftrightarrow>
     sm_ok (m_knownMachines s) \<and> blacklist_ok (m_invalidMachines s) \<and>
     set (sm_keys (m_knownMachines s)) \<subseteq> set (m_knownMachineToolsSet s) \<and>
     set (sm_keys (m_knownMachines s)) \<inter> set (sm_keys (m_invalidMachines s)) = {}"

text \<open>
  C29: what one completed round of \<^verbatim>\<open>UpdateMachines\<close> does. It keeps the invariant of the
  observer. The machines that answered are the keys of the new identification cache, and all
  of them were found by the search. Afterwards every known machine has answered, and every
  machine that answered without having been known is known or is waiting as an invalid
  machine. A machine that was known and answered stays known if the search found the same set
  of machines as the last time. If the set differs in any machine, the round forgets all
  machines that were known before, those that still answer included, and it does not add them
  again: they come back with the next round.
\<close>

theorem UpdateMachines_round:
  fixes s :: "'w dashboard_observer"
  assumes "canBrowseMachineList D fuel s = (Inr (Some L), s1)"
    and "UpdateMachines D (dmo_methods D fuel) fuel s = (Inr (), t)" and "observer_ok s"
  shows "observer_ok t \<and>
    m_knownMachineToolsSet t = ss_of_list (map brNodeId (found_machines L)) \<and>
    set (sm_keys (m_machineIdentificationsCache t)) \<subseteq> set (m_knownMachineToolsSet t) \<and>
    set (sm_keys (m_knownMachines t)) \<subseteq> set (sm_keys (m_machineIdentificationsCache t)) \<and>
    set (sm_keys (m_machineIdentificationsCache t)) - set (sm_keys (m_knownMachines s))
      \<subseteq> set (sm_keys (m_knownMachines t)) \<union> set (sm_keys (m_invalidMachines t)) \<and>
    (if m_knownMachineToolsSet t = m_knownMachineToolsSet s
     then set (sm_keys (m_knownMachines s)) \<inter> set (sm_keys (m_machineIdentificationsCache t))
            \<subseteq> set (sm_keys (m_knownMachines t))
     else set (sm_keys (m_knownMachines s)) \<inter> set (sm_keys (m_knownMachines t)) = {})"
proof -
  have s1: "round_view s1 = round_view s" by (rule keepsD [OF round.keeps_canBrowse assms(1)])
  have "update_with_list (dmo_methods D fuel) (ss_of_list (sm_keys (m_knownMachines s))) (found_machines L) s1 = (Inr (), t)"
    using assms(2) unfolding UpdateMachines_def found_machines_def seq_reads by (simp add: seq_def assms(1))
  from dmo.round [OF this found_machines_distinct] assms(3) s1
  show ?thesis by (auto simp: observer_ok_def round_view_def)
qed

text \<open>
  An example: the data source lists the given machines, all of one type, each with an
  identification that has no variables, and no machine has components. The observer knows
  machine A.
\<close>

definition plant_type :: NodeId_t where "plant_type = NodeId ''urn:x'' ''i=100''"
definition plant_ident :: NodeId_t where "plant_ident = NodeId ''urn:x'' ''i=101''"

definition plant_machine :: "NodeId_t \<Rightarrow> BrowseResult_t" where
  "plant_machine n = \<lparr>brNodeClass = Object, brNodeId = n, brTypeDefinition = plant_type,
     brReferenceTypeId = NodeId_Organizes, brBrowseName = QualifiedName ''urn:x'' (nId n)\<rparr>"

definition plant_client :: "NodeId_t list \<Rightarrow> (unit, callback) data_client" where
  "plant_client ms =
     \<lparr>dc_Browse = (\<lambda>n c. ret (if n = NodeId_MachinesFolder then map plant_machine ms else [])),
      dc_isSameOrSubtype = (\<lambda>a b m. ret True),
      dc_BrowseWithResultTypeFilter = (\<lambda>n c t. ret [plant_machine plant_ident]),
      dc_TranslateBrowsePathToNodeId = (\<lambda>n q. ret (NodeId '''' '''')),
      dc_readNodeBrowseName = (\<lambda>n. ret ''name''), dc_getTypeName = (\<lambda>n. ret ''type''),
      dc_Subscribe = (\<lambda>n cb. ret None), dc_Unsubscribe = (\<lambda>a b. ret ()), dc_ReadeNodeValues = (\<lambda>ns. ret []),
      dc_Namespaces = ret [], dc_VerifyConnection = ret True\<rparr>"

definition plant_reader :: type_reader where
  "plant_reader = (OpcUaTypeReader_new []
       [\<lparr>Namespace = ''urn:x'', Types = [plant_type], IdentificationType = plant_ident\<rparr>])
     \<lparr>m_typeMap := [(plant_type, 0), (plant_ident, 0)], m_nameToId := [(''urn:x;c'', plant_ident)],
      heap := \<lparr>th_nodes = [example_type Object], th_lists = [[]], th_bis = []\<rparr>\<rparr>"

definition plant_state :: "unit dashboard_observer" where
  "plant_state = (DashboardMachineObserver_new example_env plant_reader [] \<lparr>Prefix = ''p'', ClientId = ''c''\<rparr>)
     \<lparr>m_knownMachines := [(node_A, plant_machine node_A)], m_knownMachineToolsSet := [node_A],
      m_dashboardClients := [(node_A, DashboardClient_new)]\<rparr>"

lemma plant_round:
  "fst (canBrowseMachineList (plant_client [node_B, node_A]) 1 plant_state) =
     Inr (Some [plant_machine node_B, plant_machine node_A])"
  "fst (UpdateMachines (plant_client [node_B, node_A]) (dmo_methods (plant_client [node_B, node_A]) 1) 1 plant_state) = Inr ()"
  "sm_keys (m_knownMachines (snd (UpdateMachines (plant_client [node_B, node_A])
     (dmo_methods (plant_client [node_B, node_A]) 1) 1 plant_state))) = [node_B]"
  "sm_keys (m_machineIdentificationsCache (snd (UpdateMachines (plant_client [node_B, node_A])
     (dmo_methods (plant_client [node_B, node_A]) 1) 1 plant_state))) = [node_A, node_B]"
  by code_simp+

theorem UpdateMachines_round_witness:
  "\<exists>t. UpdateMachines (plant_client [node_B, node_A]) (dmo_methods (plant_client [node_B, node_A]) 1) 1 plant_state =
       (Inr (), t) \<and> observer_ok t \<and>
     node_A \<in> set (sm_keys (m_machineIdentificationsCache t)) \<and> node_A \<notin> set (sm_keys (m_knownMachines t))"
proof -
  let ?D = "plant_client [node_B, node_A]"
  obtain s1 where browse: "canBrowseMachineList ?D 1 plant_state =
      (Inr (Some [plant_machine node_B, plant_machine node_A]), s1)"
    using plant_round(1) by (metis prod.collapse)
  obtain t where run: "UpdateMachines ?D (dmo_methods ?D 1) 1 plant_state = (Inr (), t)"
    using plant_round(2) by (metis prod.collapse)
  have ok: "observer_ok plant_state"
    by (simp add: observer_ok_def plant_state_def blacklist_ok_def DashboardMachineObserver_new_def)
  from UpdateMachines_round [OF browse run ok] plant_round(3,4) run
  show ?thesis by (auto simp: node_A_def node_B_def)
qed

section \<open>Invalid machines\<close>

definition skip_round :: "NodeId_t \<Rightarrow> ('w, 'm) machine_observer_scheme \<Rightarrow> ('w, 'm) machine_observer_scheme" where
  "skip_round n s = snd (ignoreInvalidMachinesTemporarily n s)"

lemma ignore_counts:
  assumes "sm_find (m_invalidMachines s) n = Some (c, reason)" and "sm_ok (m_invalidMachines s)"
  shows "fst (ignoreInvalidMachinesTemporarily n s) = Inr (1 < c) \<and>
    sm_find (m_invalidMachines (skip_round n s)) n = (if 1 < c then Some (c - 1, reason) else None) \<and>
    sm_ok (m_invalidMachines (skip_round n s))"
  using assms unfolding skip_round_def
  by (simp add: ignoreInvalidMachinesTemporarily_def) (auto simp: act_defs smap_simps)

lemma skip_rounds_count:
  assumes "sm_find (m_invalidMachines s) n = Some (c, reason)" and "sm_ok (m_invalidMachines s)"
    and "int k < c"
  shows "sm_find (m_invalidMachines ((skip_round n ^^ k) s)) n = Some (c - int k, reason) \<and>
    sm_ok (m_invalidMachines ((skip_round n ^^ k) s))"
  using assms(3)
proof (induction k)
  case (Suc k)
  then have "int k < c" by simp
  from ignore_counts [OF Suc.IH [OF this, THEN conjunct1] Suc.IH [OF this, THEN conjunct2]] Suc.prems
  show ?case by auto
qed (use assms in simp)

text \<open>
  C30: a machine that \<^verbatim>\<open>addMachine\<close> rejects as invalid is not lost and not retried at
  once. \<^verbatim>\<open>addNewMachine\<close> handles the exception and remembers the machine with its message;
  the next nine rounds that find the machine skip it, the tenth one takes it off the list of
  invalid machines and tries it again.
\<close>

theorem invalid_machine_waits:
  fixes s :: "'w dashboard_observer"
  assumes "dmo_addMachine D fuel m s = (Inl (Throw (MachineInvalidException w)), s')"
    and "sm_find (m_invalidMachines s) (brNodeId m) = None" and "sm_ok (m_invalidMachines s)"
  shows "\<exists>t. addNewMachine (dmo_methods D fuel) m s = (Inr (), t) \<and> m_knownMachines t = m_knownMachines s \<and>
    sm_find (m_invalidMachines t) (brNodeId m) = Some (10, w) \<and>
    (\<forall>k < 9. fst (ignoreInvalidMachinesTemporarily (brNodeId m) ((skip_round (brNodeId m) ^^ k) t)) = Inr True) \<and>
    fst (ignoreInvalidMachinesTemporarily (brNodeId m) ((skip_round (brNodeId m) ^^ 9) t)) = Inr False \<and>
    sm_find (m_invalidMachines ((skip_round (brNodeId m) ^^ 10) t)) (brNodeId m) = None"
proof -
  let ?n = "brNodeId m"
  define t where "t = s'\<lparr>m_invalidMachines := sm_insert ?n (10, w) (m_invalidMachines s')\<rparr>"
  have s': "m_invalidMachines s' = m_invalidMachines s" "m_knownMachines s' = m_knownMachines s"
    using keepsD [OF keeps_dmo_addMachine assms(1)] by (auto simp: whole_base_def base_view_def)
  have run: "addNewMachine (dmo_methods D fuel) m s = (Inr (), t)"
    using assms(1) by (simp add: addNewMachine_def dmo_methods_def act_defs t_def NumSkipAfterInvalid_def)
  have find: "sm_find (m_invalidMachines t) ?n = Some (10, w)" and ok: "sm_ok (m_invalidMachines t)"
    using assms(2,3) s' by (simp_all add: t_def smap_simps)
  note count = skip_rounds_count [OF find ok]
  have skip: "fst (ignoreInvalidMachinesTemporarily ?n ((skip_round ?n ^^ k) t)) = Inr (k < 9)" if "k < 10" for k
    using ignore_counts [OF count [of k, THEN conjunct1] count [of k, THEN conjunct2]] that by auto
  have "sm_find (m_invalidMachines (skip_round ?n ((skip_round ?n ^^ 9) t))) ?n = None"
    using ignore_counts [OF count [of 9, THEN conjunct1] count [of 9, THEN conjunct2]] by simp
  then have "sm_find (m_invalidMachines ((skip_round ?n ^^ 10) t)) ?n = None"
    by (simp add: numeral_eq_Suc)
  with run find skip s' show ?thesis by (auto simp: t_def)
qed

lemma plant_rejects:
  "fst (dmo_addMachine (plant_client []) 1 ((plant_machine node_A)\<lparr>brTypeDefinition := node_B\<rparr>) plant_state) =
    Inl (Throw (MachineInvalidException ''Type not found''))"
  by code_simp

theorem invalid_machine_waits_witness:
  "\<exists>t. addNewMachine (dmo_methods (plant_client []) 1) ((plant_machine node_A)\<lparr>brTypeDefinition := node_B\<rparr>) plant_state =
       (Inr (), t) \<and> sm_find (m_invalidMachines t) node_A = Some (10, ''Type not found'')"
proof -
  obtain s' where "dmo_addMachine (plant_client []) 1 ((plant_machine node_A)\<lparr>brTypeDefinition := node_B\<rparr>) plant_state =
      (Inl (Throw (MachineInvalidException ''Type not found'')), s')"
    using plant_rejects by (metis prod.collapse)
  from invalid_machine_waits [OF this] show ?thesis
    by (auto simp: plant_state_def DashboardMachineObserver_new_def plant_machine_def)
qed

section \<open>The type cache\<close>

text \<open>
  An error while the super types of an unknown machine type are looked up is remembered
  for ever. If \<^verbatim>\<open>isSameOrSubtype\<close> throws, the type stays in the cache as undefined, and
  every later lookup returns the type itself without asking the data source again; the machine
  is not identified before the program builds a new reader.
\<close>

theorem resolve_type_remembers_failure:
  fixes s :: "('w, 'm) machine_observer_scheme"
  assumes "resolve_type D t s = (Inl e, s')"
    and "sm_ok (m_subTypeDefinitionToKnownMachineTypeDefinition (ob_reader s))"
  shows "sm_find (m_subTypeDefinitionToKnownMachineTypeDefinition (ob_reader s')) t = Some NodeId_UndefinedType \<and>
    (\<forall>later :: ('w, 'm) machine_observer_scheme. ob_reader later = ob_reader s' \<longrightarrow> resolve_type D t later = (Inr t, later))"
proof -
  let ?cache = "\<lambda>s :: ('w, 'm) machine_observer_scheme. m_subTypeDefinitionToKnownMachineTypeDefinition (ob_reader s)"
  have super: "?cache u' = ?cache u" if "find_supertype D t mds u = (Inl e, u')" for mds and u u' :: "('w, 'm) machine_observer_scheme"
    using that
  proof (induction mds arbitrary: u)
    case (Cons md mds)
    obtain r v where ask: "ob_world (dc_isSameOrSubtype D md t 3) u = (r, v)" by fastforce
    then have v: "?cache v = ?cache u" by (auto simp: ob_world_def zoom_def split: prod.splits)
    with Cons.IH [of v] Cons.prems ask show ?case
      by (cases r) (auto simp: seq_def ob_subtypes_def update_def ret_def split: if_splits)
  qed (simp add: ret_def)
  obtain u where "sm_find (?cache s) t = None" and "?cache u = sm_insert t NodeId_UndefinedType (?cache s)"
    and "find_supertype D t (m_knownMachineTypeDefinitions (ob_reader s)) u = (Inl e, s')"
  proof (cases "sm_find (?cache s) t")
    case None
    with assms(1) that [of "s\<lparr>ob_reader := (ob_reader s)\<lparr>m_subTypeDefinitionToKnownMachineTypeDefinition :=
        sm_insert t NodeId_UndefinedType (?cache s)\<rparr>\<rparr>"] show ?thesis
      by (simp add: resolve_type_def ob_subtypes_def)
  qed (use assms(1) in \<open>simp add: resolve_type_def ret_def\<close>)
  with super assms(2) have "sm_find (?cache s') t = Some NodeId_UndefinedType" by (simp add: smap_simps)
  then show ?thesis by (simp add: resolve_type_def ret_def)
qed

definition offline_client :: "(unit, callback) data_client" where
  "offline_client = (plant_client [])\<lparr>dc_isSameOrSubtype := \<lambda>a b m. raise (OpcUaException ''timeout'')\<rparr>"

theorem resolve_type_remembers_failure_witness:
  "resolve_type offline_client node_B
     (plant_state\<lparr>ob_reader := ob_reader (snd (resolve_type offline_client node_B plant_state))\<rparr>) =
   (Inr node_B, plant_state\<lparr>ob_reader := ob_reader (snd (resolve_type offline_client node_B plant_state))\<rparr>)"
proof -
  have "fst (resolve_type offline_client node_B plant_state) = Inl (Throw (OpcUaException ''timeout''))"
    by code_simp
  then obtain s' where run: "resolve_type offline_client node_B plant_state = (Inl (Throw (OpcUaException ''timeout'')), s')"
    by (metis prod.collapse)
  have ok: "sm_ok (m_subTypeDefinitionToKnownMachineTypeDefinition (ob_reader plant_state))"
    by code_simp
  from resolve_type_remembers_failure [OF run ok] show ?thesis by (simp add: run)
qed

end
