(* ===== verification/Observer_Machines.thy ===== *)
theory Observer_Machines
  imports Observer_Properties
begin

text \<open>
  The maps of the derived observer: every client belongs to an entry of the online machines,
  and every such entry has a name. What adding a machine does, and when the lists of machines
  are published.
\<close>

section \<open>Clients, online machines and names\<close>

definition listing where
  "listing s = (sm_keys (m_dashboardClients s), sm_keys (m_onlineMachines s), sm_keys (m_machineNames s))"

definition machines_listed :: "'w dashboard_observer \<Rightarrow> bool" where
  "machines_listed s \<longleftrightarrow>
     set (sm_keys (m_dashboardClients s)) \<subseteq> set (sm_keys (m_onlineMachines s)) \<and>
     set (sm_keys (m_onlineMachines s)) \<subseteq> set (sm_keys (m_machineNames s))"

abbreviation listed :: "('w, 'a) mact \<Rightarrow> bool" where
  "listed \<equiv> runs machines_listed (\<lambda>_. True) (\<lambda>_. True)"

lemma listed_keeps: "keeps listing m \<Longrightarrow> listed m"
  by (rule runsI) (auto dest!: keepsD simp: listing_def machines_listed_def split: sum.splits)

lemma keeps_listing [keeps_rules]:
  "keeps listing (with_new_client c n :: ('w, dashboard_client) mact)"
  "keeps listing (on_env k :: ('w, 'b) mact)"
  unfolding on_env_def
  by ((intro keeps_rules; simp add: listing_def) |
      (rule keepsI, auto simp: with_new_client_def listing_def split: prod.splits sum.splits))+

lemma at_client_keys:
  assumes "at_client n m s = (r, t)"
  shows "set (sm_keys (m_dashboardClients t)) = insert n (set (sm_keys (m_dashboardClients s))) \<and>
    m_onlineMachines t = m_onlineMachines s \<and> m_machineNames t = m_machineNames s \<and>
    m_publishMachinesOnline t = m_publishMachinesOnline s"
  using assms by (auto simp: at_client_def zoom_def split: prod.splits)

text \<open>The two places that unsubscribe a machine first look whether it has a client.\<close>

definition drop_client :: "('w, callback) data_client \<Rightarrow> NodeId_t \<Rightarrow> ('w, unit) mact" where
  "drop_client D n =
     seq (reads (\<lambda>s. sm_find (m_dashboardClients s) n \<noteq> None)) (\<lambda>present.
     if present
     then seq (at_client n (Unsubscribe D)) (\<lambda>_.
          update (\<lambda>s. s\<lparr>m_dashboardClients := sm_erase n (m_dashboardClients s)\<rparr>))
     else ret ())"

lemma listed_drop_client: "listed (drop_client D n)"
proof (rule runsI)
  fix s t :: "'a dashboard_observer" and r
  assume P: "machines_listed s" and run: "drop_client D n s = (r, t)"
  show "machines_listed t \<and> (case r of Inl e \<Rightarrow> True | Inr x \<Rightarrow> True)"
  proof (cases "sm_find (m_dashboardClients s) n = None")
    case True
    with run P show ?thesis by (auto simp: drop_client_def ret_def split: sum.splits)
  next
    case False
    then have n: "n \<in> set (sm_keys (m_dashboardClients s))" by (simp add: sm_find_None_iff)
    obtain x u where un: "at_client n (Unsubscribe D) s = (x, u)" by fastforce
    from at_client_keys [OF un] n P have "machines_listed u" by (auto simp: machines_listed_def)
    with run un False show ?thesis
      by (cases x) (auto simp: drop_client_def seq_def reads_def update_def machines_listed_def split: sum.splits)
  qed
qed

lemma drop_client_gone: "drop_client D n s = (Inr x, t) \<Longrightarrow> n \<notin> set (sm_keys (m_dashboardClients t))"
  unfolding drop_client_def
  by (auto simp: seq_Inr_iff ret_def update_def sm_find_None_iff split: if_splits)

lemma dmo_removeMachine_eq:
  "dmo_removeMachine D n =
     seq (update (\<lambda>s. s\<lparr>m_knownMachines := sm_erase n (m_knownMachines s)\<rparr>)) (\<lambda>_.
     seq (drop_client D n) (\<lambda>_. update (\<lambda>s. s\<lparr>m_onlineMachines := sm_erase n (m_onlineMachines s)\<rparr>)))"
  by (rule ext) (simp add: dmo_removeMachine_def drop_client_def seq_def split: prod.splits sum.splits)

lemma listed_dmo_removeMachine: "listed (dmo_removeMachine D n)"
proof -
  have "hoare machines_listed (seq (drop_client D n) (\<lambda>_. update (\<lambda>s. s\<lparr>m_onlineMachines := sm_erase n (m_onlineMachines s)\<rparr>)))
      (\<lambda>_. machines_listed) (\<lambda>_. machines_listed)"
  proof (rule hoare_seq [where R = "\<lambda>_ s. machines_listed s \<and> n \<notin> set (sm_keys (m_dashboardClients s))"])
    show "hoare machines_listed (drop_client D n)
        (\<lambda>_ s. machines_listed s \<and> n \<notin> set (sm_keys (m_dashboardClients s))) (\<lambda>_. machines_listed)"
      using drop_client_gone by (intro hoareI) (auto dest: runsD [OF listed_drop_client])
  qed (auto intro!: hoare_update simp: machines_listed_def)
  then have "listed (seq (drop_client D n) (\<lambda>_. update (\<lambda>s. s\<lparr>m_onlineMachines := sm_erase n (m_onlineMachines s)\<rparr>)))"
    by (simp add: runs_hoare)
  then show ?thesis
    unfolding dmo_removeMachine_eq by (intro runs_seq_any [OF listed_keeps [OF keeps_update]]) (simp_all add: listing_def)
qed

text \<open>The part of \<^verbatim>\<open>addMachine\<close> after the type is found, over the split client handling.\<close>

lemma dmo_addMachine_eq:
  "dmo_addMachine D fuel machine =
     try_catch
       (if list_ex (NodeId_eq (brNodeId machine)) ignored_machines then ret ()
        else seq (reads (\<lambda>s. sm_find (m_parentOfMachine s) (brNodeId machine))) (\<lambda>par.
             seq (reads ob_reader) (\<lambda>reader.
             seq (lift_sum (typeDefinitionToStructureNode reader (brTypeDefinition machine))) (\<lambda>p_type.
             seq (drop_client D (brNodeId machine)) (\<lambda>_.
             seq (reads topics) (\<lambda>tc.
             seq (with_new_client DashboardClient_new
                    (addDataSet D (reader_types reader) fuel (brNodeId machine) p_type
                       (Topics_Machine tc (qName (SpecifiedBrowseName (sn_at (heap reader) p_type)))
                          (NodeId_to_string (brNodeId machine)))
                       (Topics_OnlineStatus tc (NodeId_to_string (brNodeId machine))))) (\<lambda>c.
             update (\<lambda>s. s\<lparr>
               m_dashboardClients := sm_insert (brNodeId machine) c (m_dashboardClients s),
               m_onlineMachines := sm_insert (brNodeId machine)
                 \<lparr>miStartNodeId = brNodeId machine, miNamespaceURI = nUri (brNodeId machine),
                  miSpecification = qName (SpecifiedBrowseName (sn_at (heap reader) p_type)),
                  miMachineName = qName (brBrowseName machine),
                  miTypeDefinition = brTypeDefinition machine,
                  miParent = (case par of Some p \<Rightarrow> p | None \<Rightarrow> NodeId '''' '''')\<rparr> (m_onlineMachines s),
               m_machineNames := sm_insert (brNodeId machine) (qName (brBrowseName machine)) (m_machineNames s)\<rparr>))))))))
       (\<lambda>ex. if is_OpcUaException ex then Some (raise (MachineInvalidException (what ex))) else None)"
  by (simp add: dmo_addMachine_def drop_client_def Let_def seq_assoc)

lemma listed_dmo_addMachine: "listed (dmo_addMachine D fuel m)"
  unfolding dmo_addMachine_eq
  by (rule runs_try_catch [where A' = "\<lambda>_. True"], (intro runs_if runs_seq_any runs_ret runs_reads runs_lift_sum
      listed_drop_client listed_keeps [OF keeps_listing(1)] runs_update; (auto simp: machines_listed_def)?))
    (auto intro: runs_raise)

section \<open>The invariant over all operations\<close>

interpretation listing: search_view "listing :: 'w dashboard_observer \<Rightarrow> _"
  by unfold_locales (simp_all add: listing_def)

interpretation listed: observer_invariant machines_listed "dmo_methods D fuel" for D fuel
proof
  show "runs machines_listed (\<lambda>_. True) (\<lambda>_. True) (vm_isOnline (dmo_methods D fuel) n t)" for n t
    using listed_keeps [OF keeps_isOnline [OF listing.search_view_axioms]] by (simp add: dmo_methods_def)
qed (auto simp: machines_listed_def dmo_methods_def intro: listed_dmo_removeMachine listed_dmo_addMachine)

lemma keeps_listing_find:
  fixes D :: "('w, callback) data_client"
  shows "keeps listing (findNewAndOfflineMachines (dmo_methods D fuel) L R N I)"
proof (induction L arbitrary: R N I)
  case (Cons m L)
  have "keeps listing (try_catch (dmo_isOnline D n t)
      (\<lambda>ex. if is_OpcUaException ex then Some (ret (False, JNull)) else None))" for n t
    by (intro keeps_rules keeps_isOnline listing.search_view_axioms) (auto intro: keeps_rules split: if_splits)
  with Cons show ?case by (auto intro!: keeps_seq simp: dmo_methods_def split: prod.splits)
qed (simp add: keeps_rules)

lemma publish_clients:
  assumes "for_each ns (\<lambda>n. at_client n m) s = (r, t)" and "set ns \<subseteq> set (sm_keys (m_dashboardClients s))"
  shows "set (sm_keys (m_dashboardClients t)) = set (sm_keys (m_dashboardClients s)) \<and>
    m_onlineMachines t = m_onlineMachines s \<and> m_machineNames t = m_machineNames s \<and>
    m_publishMachinesOnline t = m_publishMachinesOnline s"
  using assms
proof (induction ns arbitrary: s)
  case (Cons n ns)
  from Cons.prems(1) have "seq (at_client n m) (\<lambda>_. for_each ns (\<lambda>n. at_client n m)) s = (r, t)" by simp
  then show ?case
  proof (cases rule: seq_elim)
    case (abrupt e)
    then show ?thesis using at_client_keys [OF abrupt(1)] Cons.prems(2) by auto
  next
    case (result x u)
    then have "set (sm_keys (m_dashboardClients u)) = set (sm_keys (m_dashboardClients s))"
      using at_client_keys [OF result(1)] Cons.prems(2) by auto
    then show ?thesis using at_client_keys [OF result(1)] Cons.IH [OF result(2)] Cons.prems(2) by simp
  qed
qed (simp add: ret_def)

lemma keeps_publishMachinesList:
  "keeps listing (publishMachinesList dump)" "keeps m_publishMachinesOnline (publishMachinesList dump)"
proof -
  show "keeps listing (publishMachinesList dump)"
    unfolding publishMachinesList_def by (intro keeps_rules)
  have "keeps m_publishMachinesOnline (on_env k :: ('w, unit) mact)" for k
    unfolding on_env_def by (intro keeps_rules) simp
  then show "keeps m_publishMachinesOnline (publishMachinesList dump)"
    unfolding publishMachinesList_def by (intro keeps_rules)
qed

lemma PublishAll_cases:
  assumes "PublishAll dump s = (r, t)"
  obtains (machine) e where "r = Inl e" and "for_each (sm_keys (m_dashboardClients s)) (\<lambda>n. at_client n (Publish dump)) s = (Inl e, t)"
    | (quiet) u where "r = Inr ()" and "m_publishMachinesOnline s + 1 < 30"
        and "for_each (sm_keys (m_dashboardClients s)) (\<lambda>n. at_client n (Publish dump)) s = (Inr (), u)"
        and "t = u\<lparr>m_publishMachinesOnline := m_publishMachinesOnline s + 1\<rparr>"
    | (lists) u x v where "30 \<le> m_publishMachinesOnline s + 1"
        and "for_each (sm_keys (m_dashboardClients s)) (\<lambda>n. at_client n (Publish dump)) s = (Inr (), u)"
        and "publishMachinesList dump (u\<lparr>m_publishMachinesOnline := m_publishMachinesOnline s + 1\<rparr>) = (x, v)"
        and "r = x" and "t = (case x of Inl e \<Rightarrow> v | Inr _ \<Rightarrow> v\<lparr>m_publishMachinesOnline := 0\<rparr>)"
proof -
  obtain y u where clients: "for_each (sm_keys (m_dashboardClients s)) (\<lambda>n. at_client n (Publish dump)) s = (y, u)"
    by fastforce
  show thesis
  proof (cases y)
    case (Inl e)
    with clients assms machine show thesis by (auto simp: PublishAll_def seq_def reads_def)
  next
    case (Inr z)
    from publish_clients [OF clients] have count: "m_publishMachinesOnline u = m_publishMachinesOnline s" by simp
    show thesis
    proof (cases "30 \<le> m_publishMachinesOnline s + 1")
      case True
      obtain x v where list: "publishMachinesList dump (u\<lparr>m_publishMachinesOnline := m_publishMachinesOnline s + 1\<rparr>) = (x, v)"
        by fastforce
      have "r = x \<and> t = (case x of Inl e \<Rightarrow> v | Inr _ \<Rightarrow> v\<lparr>m_publishMachinesOnline := 0\<rparr>)"
        using list clients assms Inr count True
        by (cases x) (auto simp: PublishAll_def seq_def reads_def update_def)
      with lists [OF True _ list] clients Inr show thesis by simp
    next
      case False
      with quiet clients assms Inr count show thesis
        by (simp add: PublishAll_def seq_def reads_def update_def ret_def)
    qed
  qed
qed

lemma listed_PublishAll: "listed (PublishAll dump)"
proof (rule runsI)
  fix s t :: "'a dashboard_observer" and r
  assume P: "machines_listed s" and run: "PublishAll dump s = (r, t)"
  have clients: "machines_listed u"
    if "for_each (sm_keys (m_dashboardClients s)) (\<lambda>n. at_client n (Publish dump)) s = (x, u)" for x u
    using publish_clients [OF that] P by (simp add: machines_listed_def)
  have count: "machines_listed (u\<lparr>m_publishMachinesOnline := c\<rparr>) = machines_listed u" for u :: "'a dashboard_observer" and c
    by (simp add: machines_listed_def)
  from run have "machines_listed t"
  proof (cases rule: PublishAll_cases)
    case (machine e)
    then show ?thesis using clients by blast
  next
    case (quiet u)
    then show ?thesis using clients count by blast
  next
    case (lists u x v)
    have "machines_listed v"
      using runsD [OF listed_keeps [OF keeps_publishMachinesList(1)] _ lists(3)] clients [OF lists(2)] count by blast
    with lists(5) count show ?thesis by (cases x) auto
  qed
  then show "machines_listed t \<and> (case r of Inl e \<Rightarrow> True | Inr x \<Rightarrow> True)" by (auto split: sum.splits)
qed

text \<open>
  C32: every operation of the observer keeps its three maps consistent, whether it returns or
  ends with an exception: a machine with a client, which is published, is in the list of online
  machines, and every machine of that list has a name. So the list of machines names every
  machine that is published. The converse does not hold: a machine whose data set could not be
  rebuilt loses its client and stays in the list.
\<close>

theorem published_machines_listed:
  assumes "machines_listed s"
  shows "machines_listed (snd (UpdateMachines D (dmo_methods D fuel) fuel s)) \<and>
    machines_listed (snd (dmo_addMachine D fuel m s)) \<and>
    machines_listed (snd (dmo_removeMachine D n s)) \<and> machines_listed (snd (PublishAll dump s))"
  using assms
  by (simp add: runs_state [OF listed.updates] runs_state [OF listed_dmo_addMachine]
      runs_state [OF listed_dmo_removeMachine] runs_state [OF listed_PublishAll])

definition fresh_plant :: "unit dashboard_observer" where
  "fresh_plant = DashboardMachineObserver_new example_env plant_reader [] \<lparr>Prefix = ''p'', ClientId = ''c''\<rparr>"

lemma fresh_plant_round:
  "sm_keys (m_dashboardClients (snd (UpdateMachines (plant_client [node_A])
     (dmo_methods (plant_client [node_A]) 1) 1 fresh_plant))) = [node_A]"
  by code_simp

theorem published_machines_listed_witness:
  "node_A \<in> set (sm_keys (m_onlineMachines (snd (UpdateMachines (plant_client [node_A])
     (dmo_methods (plant_client [node_A]) 1) 1 fresh_plant))))"
proof -
  have "machines_listed fresh_plant"
    by (simp add: machines_listed_def fresh_plant_def DashboardMachineObserver_new_def)
  from published_machines_listed [OF this, of "plant_client [node_A]" 1] fresh_plant_round
  show ?thesis by (auto simp: machines_listed_def)
qed

section \<open>Publishing the lists\<close>

text \<open>
  The lists of machines go out with every thirtieth call of \<^verbatim>\<open>PublishAll\<close>. Over a
  run of calls that all return, the counter is the number of calls modulo thirty; a call
  whose number is no multiple of thirty sends only what the clients of the machines send, and
  the other ones send the lists afterwards.
\<close>

theorem PublishAll_every_thirtieth:
  assumes "\<And>i. i < k \<Longrightarrow> PublishAll dump (S i) = (Inr (), S (Suc i))" and "m_publishMachinesOnline (S 0) = 0"
    and "i < k"
  shows "m_publishMachinesOnline (S (Suc i)) = int (Suc i mod 30) \<and>
    (\<exists>u. for_each (sm_keys (m_dashboardClients (S i))) (\<lambda>n. at_client n (Publish dump)) (S i) = (Inr (), u) \<and>
       (if 30 dvd Suc i
        then \<exists>v. publishMachinesList dump (u\<lparr>m_publishMachinesOnline := 30\<rparr>) = (Inr (), v) \<and> ob_env (S (Suc i)) = ob_env v
        else ob_env (S (Suc i)) = ob_env u))"
proof -
  have step: "m_publishMachinesOnline (S (Suc j)) = int (Suc j mod 30) \<and>
    (\<exists>u. for_each (sm_keys (m_dashboardClients (S j))) (\<lambda>n. at_client n (Publish dump)) (S j) = (Inr (), u) \<and>
       (if 30 dvd Suc j
        then \<exists>v. publishMachinesList dump (u\<lparr>m_publishMachinesOnline := 30\<rparr>) = (Inr (), v) \<and> ob_env (S (Suc j)) = ob_env v
        else ob_env (S (Suc j)) = ob_env u))"
    if "j < k" and count: "m_publishMachinesOnline (S j) = int (j mod 30)" for j
    using assms(1) [OF that(1)]
  proof (cases rule: PublishAll_cases)
    case (quiet u)
    then have "Suc (j mod 30) < 30" using count by simp
    then have "Suc j mod 30 = Suc (j mod 30)" by (simp add: mod_Suc)
    then show ?thesis using quiet count by (auto simp: dvd_eq_mod_eq_0)
  next
    case (lists u x v)
    have "int (j mod 30) \<ge> 29" using lists(1) unfolding count by simp
    then have "j mod 30 = 29" by presburger
    then have "Suc j mod 30 = 0" by presburger
    then show ?thesis using lists count \<open>j mod 30 = 29\<close> by (auto simp: dvd_eq_mod_eq_0)
  qed simp
  have "m_publishMachinesOnline (S j) = int (j mod 30)" if "j \<le> k" for j
    using that
  proof (induction j)
    case (Suc j)
    then show ?case using step [of j] by simp
  qed (simp add: assms(2))
  with step assms(3) show ?thesis by simp
qed

theorem PublishAll_every_thirtieth_witness:
  "m_publishMachinesOnline (snd (PublishAll (\<lambda>_ _. Inr ''x'') fresh_plant)) = 1"
proof -
  have "fst (PublishAll (\<lambda>_ _. Inr ''x'') fresh_plant) = Inr ()" by code_simp
  then have run: "PublishAll (\<lambda>_ _. Inr ''x'') fresh_plant =
      (Inr (), snd (PublishAll (\<lambda>_ _. Inr ''x'') fresh_plant))" by (metis prod.collapse)
  from PublishAll_every_thirtieth [of 1 "\<lambda>_ _. Inr ''x''"
      "\<lambda>i. if i = 0 then fresh_plant else snd (PublishAll (\<lambda>_ _. Inr ''x'') fresh_plant)" 0] run
  show ?thesis by (simp add: fresh_plant_def DashboardMachineObserver_new_def)
qed

section \<open>Adding a machine\<close>

lemma lift_sum_type:
  "lift_sum (typeDefinitionToStructureNode reader t) s =
     (case sm_find (m_typeMap reader) t of
        None \<Rightarrow> (Inl (Throw (MachineInvalidException ''Type not found'')), s) | Some a \<Rightarrow> (Inr a, s))"
  by (auto simp: typeDefinitionToStructureNode_def act_defs split: option.splits)

text \<open>
  C31: adding a machine that has no client yet (the hypothesis that the map of clients has no entry
  for it) has four outcomes. The machine is one of the two ignored ones: the call returns normally
  and changes nothing, so there is no client. Or the machine gets a client with exactly one data
  set, for its own node and its own topics, and an entry in the list of online machines. Or it is
  rejected with a \<^verbatim>\<open>MachineInvalidException\<close>, which the caller turns into a waiting time, and
  has no client. Or the behaviour is undefined, because \<^verbatim>\<open>front()\<close> is called on an empty list
  of interfaces, and there is no client either. No exception of the data source gets out, no other
  machine is touched, and the contract of the data source holds afterwards.
\<close>

theorem addMachine_outcomes:
  assumes "client_ok I U D" and "finite U" and "brNodeId m \<in> U" and "card U < fuel"
    and "I (world (ob_env s))" and "dmo_addMachine D fuel m s = (r, t)" 
    and "sm_find (m_dashboardClients s) (brNodeId m) = None" and "sm_ok (m_dashboardClients s)"
  shows "I (world (ob_env t)) \<and>
    (\<forall>n. n \<noteq> brNodeId m \<longrightarrow> sm_find (m_dashboardClients t) n = sm_find (m_dashboardClients s) n) \<and>
    ((r = Inr () \<and> list_ex (NodeId_eq (brNodeId m)) ignored_machines \<and> t = s) \<or>
     (r = Inr () \<and> brNodeId m \<in> set (sm_keys (m_onlineMachines t)) \<and>
        (\<exists>c d. sm_find (m_dashboardClients t) (brNodeId m) = Some c \<and> m_dataSets c = [d] \<and>
           startNodeId d = brNodeId m \<and> onlineChannel d = Topics_OnlineStatus (topics s) (NodeId_to_string (brNodeId m)))) \<or>
     ((r = Inl Undefined \<or> (\<exists>w. r = Inl (Throw (MachineInvalidException w)))) \<and>
        m_dashboardClients t = m_dashboardClients s))"
proof (cases "list_ex (NodeId_eq (brNodeId m)) ignored_machines")
  case True
  with assms(5,6) show ?thesis by (auto simp: dmo_addMachine_def ret_def try_catch_def)
next
  case False
  have none: "drop_client D (brNodeId m) s = (Inr (), s)"
    using assms(7) by (simp add: drop_client_def ret_def)
  show ?thesis
  proof (cases "sm_find (m_typeMap (ob_reader s)) (brTypeDefinition m)")
    case None
    with assms(5,6) False show ?thesis
      by (auto simp: dmo_addMachine_eq lift_sum_type seq_def reads_def try_catch_def)
  next
    case (Some p)
    define add where "add = addDataSet D (reader_types (ob_reader s)) fuel (brNodeId m) p
        (Topics_Machine (topics s) (qName (SpecifiedBrowseName (sn_at (heap (ob_reader s)) p))) (NodeId_to_string (brNodeId m)))
        (Topics_OnlineStatus (topics s) (NodeId_to_string (brNodeId m)))"
    obtain x u where run: "add \<lparr>env = ob_env s, client = DashboardClient_new\<rparr> = (x, u)" by fastforce
    have q: "runs (client_pred I (\<lambda>c. m_dataSets c = [])) (\<lambda>e. False) (\<lambda>_. True) (subscribeValue D sid n)" for sid n
      by (rule runs_subscribeValue [OF assms(1)]) simp
    from addDataSet_cases [where q = "\<lambda>c. m_dataSets c = []", OF assms(1-4) _ _ _ _ q run [unfolded add_def]]
    have x: "I (world (env u)) \<and> ((\<exists>d. x = Inr () \<and> m_dataSets (client u) = [d] \<and> startNodeId d = brNodeId m \<and>
          onlineChannel d = Topics_OnlineStatus (topics s) (NodeId_to_string (brNodeId m))) \<or>
        (\<exists>e. x = Inl e \<and> (e = Undefined \<or> (\<exists>w. e = Throw (OpcUaException w)))))"
      using assms(5) by (auto simp: DashboardClient_new_def)
    show ?thesis
      using assms(5-8) False Some none x run unfolding add_def dmo_addMachine_eq
      by (auto simp: lift_sum_type seq_def reads_def try_catch_def with_new_client_def update_def raise_def smap_simps)
  qed
qed

lemma plant_client_ok: "client_ok (\<lambda>_. True) {node_A, plant_ident} (plant_client [node_A])"
  by (auto simp: client_ok_def plant_client_def from_nodes_def plant_machine_def NodeId_isNull_def intro!: runs_ret)

lemma plant_adds:
  "fst (dmo_addMachine (plant_client [node_A]) 3 (plant_machine node_A) fresh_plant) = Inr ()"
  "\<not> list_ex (NodeId_eq node_A) ignored_machines"
  by code_simp+

theorem addMachine_outcomes_witness:
  "\<exists>c d. sm_find (m_dashboardClients (snd (dmo_addMachine (plant_client [node_A]) 3 (plant_machine node_A) fresh_plant))) node_A = Some c \<and>
     m_dataSets c = [d] \<and> startNodeId d = node_A"
proof -
  obtain t where run: "dmo_addMachine (plant_client [node_A]) 3 (plant_machine node_A) fresh_plant = (Inr (), t)"
    using plant_adds(1) by (metis prod.collapse)
  have id: "brNodeId (plant_machine node_A) = node_A" by (simp add: plant_machine_def)
  have start: "m_dashboardClients fresh_plant = []" by (simp add: fresh_plant_def DashboardMachineObserver_new_def)
  have "card {node_A, plant_ident} < 3" by (simp add: card_insert_if)
  from addMachine_outcomes [OF plant_client_ok _ _ this _ run] plant_adds(2) id
  show ?thesis by (auto simp: run start)
qed

end
