(* ===== verification/Machine_Clients.thy ===== *)
theory Machine_Clients
  imports Observer_Machines
begin

text \<open>
  The clients of the dashboard observer are clients of known machines. So the branch of
  \<^verbatim>\<open>addMachine\<close> that unsubscribes and erases an older client of the same machine, the only
  place that changes the map of clients without its mutex, is never taken in a round of the
  update thread.
\<close>

section \<open>The clients under the operations\<close>

abbreviation clients :: "'w dashboard_observer \<Rightarrow> NodeId_t set" where
  "clients s \<equiv> set (sm_keys (m_dashboardClients s))"

definition clients_known :: "'w dashboard_observer \<Rightarrow> bool" where
  "clients_known s \<longleftrightarrow> clients s \<subseteq> set (sm_keys (m_knownMachines s))"

lemma drop_client_clients:
  assumes "drop_client D n s = (r, t)"
  shows "clients t \<subseteq> clients s \<and> (r = Inr () \<longrightarrow> clients t = clients s - {n}) \<and>
    (n \<notin> clients s \<longrightarrow> r = Inr () \<and> t = s)"
proof (cases "n \<in> clients s")
  case False
  with assms show ?thesis by (auto simp: drop_client_def ret_def sm_find_None_iff)
next
  case True
  then have present: "sm_find (m_dashboardClients s) n \<noteq> None" by (simp add: sm_find_None_iff)
  obtain x u where un: "at_client n (Unsubscribe D) s = (x, u)" by fastforce
  from at_client_keys [OF un] True have "clients u = clients s" by auto
  moreover have "drop_client D n s = (case x of Inl e \<Rightarrow> (Inl e, u)
      | Inr y \<Rightarrow> (Inr (), u\<lparr>m_dashboardClients := sm_erase n (m_dashboardClients u)\<rparr>))"
    using present un by (cases x) (simp_all add: drop_client_def seq_def reads_def update_def)
  ultimately show ?thesis using assms True by (cases x) auto
qed

lemma removeMachine_clients:
  assumes "dmo_removeMachine D n s = (r, t)"
  shows "clients t \<subseteq> clients s \<and> (r = Inr () \<longrightarrow> clients t = clients s - {n})"
proof -
  let ?s = "s\<lparr>m_knownMachines := sm_erase n (m_knownMachines s)\<rparr>"
  obtain x u where drop: "drop_client D n ?s = (x, u)" by fastforce
  have "dmo_removeMachine D n s = (case x of Inl e \<Rightarrow> (Inl e, u)
      | Inr y \<Rightarrow> (Inr (), u\<lparr>m_onlineMachines := sm_erase n (m_onlineMachines u)\<rparr>))"
    using drop unfolding dmo_removeMachine_eq seq_update by (cases x) (simp_all add: seq_def update_def)
  with assms have t: "r = (case x of Inl e \<Rightarrow> Inl e | Inr y \<Rightarrow> Inr ()) \<and> clients t = clients u"
    by (cases x) auto
  have "clients ?s = clients s" by simp
  with drop_client_clients [OF drop] have "clients u \<subseteq> clients s"
    and "x = Inr () \<Longrightarrow> clients u = clients s - {n}" by auto
  with t show ?thesis by (cases x) auto
qed

lemma removeOffline_clients:
  "removeOfflineMachines (dmo_methods D fuel) ns s = (r, t) \<Longrightarrow>
   clients t \<subseteq> clients s \<and> (r = Inr () \<longrightarrow> clients t = clients s - set ns)"
  unfolding removeOfflineMachines_def
proof (induction ns arbitrary: s)
  case (Cons n ns)
  from Cons.prems have "seq (dmo_removeMachine D n)
      (\<lambda>_. for_each ns (vm_removeMachine (dmo_methods D fuel))) s = (r, t)"
    by (simp add: dmo_methods_def)
  then show ?case
  proof (cases rule: seq_elim)
    case (abrupt e)
    then show ?thesis using removeMachine_clients by blast
  next
    case (result x u)
    then show ?thesis using removeMachine_clients [OF result(1)] Cons.IH [OF result(2)] by auto
  qed
qed (simp add: ret_def)

lemma hoare_lift_any: "(\<And>s. P s \<Longrightarrow> (\<forall>x. Q x s) \<and> (\<forall>e. E e s)) \<Longrightarrow> hoare P (lift_sum r) Q E"
  by (cases r) (auto intro: hoare_ret hoare_raise)

text \<open>Adding a machine that has no client: an exception leaves the clients alone.\<close>

lemma addMachine_clients:
  assumes "brNodeId m \<notin> clients s" and "dmo_addMachine D fuel m s = (r, t)"
  shows "clients t \<subseteq> (case r of Inl e \<Rightarrow> clients s | Inr _ \<Rightarrow> insert (brNodeId m) (clients s))"
proof -
  let ?C = "clients s"
  have drop: "hoare (\<lambda>s. clients s = ?C) (drop_client D (brNodeId m)) (\<lambda>_ s. clients s = ?C) (\<lambda>_ s. clients s = ?C)"
    using assms(1) drop_client_clients by (intro hoareI) blast+
  have new: "hoare (\<lambda>s. clients s = ?C) (with_new_client c k) (\<lambda>_ s. clients s = ?C) (\<lambda>_ s. clients s = ?C)"
    for c and k :: "('a, unit) dact"
    by (rule hoareI; drule keepsD [OF keeps_listing(1)]; simp add: listing_def)
  have "hoare (\<lambda>s. clients s = ?C) (dmo_addMachine D fuel m)
      (\<lambda>_ s. clients s \<subseteq> insert (brNodeId m) ?C) (\<lambda>_ s. clients s = ?C)"
    unfolding dmo_addMachine_eq
    by (rule hoare_try_catch [where E' = "\<lambda>_ s. clients s = ?C"],
        cases "list_ex (NodeId_eq (brNodeId m)) ignored_machines")
      (auto intro!: hoare_ret hoare_raise hoare_reads hoare_update drop new hoare_lift_any
         hoare_seq [where R = "\<lambda>_ s. clients s = ?C"])
  note run = this
  show ?thesis
  proof (cases r)
    case (Inl e)
    with hoare_abrupt [OF run] assms(2) have "clients t = ?C" by blast
    with Inl show ?thesis by simp
  next
    case (Inr x)
    with hoare_value [OF run] assms(2) have "clients t \<subseteq> insert (brNodeId m) ?C" by blast
    with Inr show ?thesis by simp
  qed
qed

section \<open>One round of the update\<close>

text \<open>The methods with an assertion: adding a machine that has a client is an error.\<close>

definition asserting_addMachine :: "('w, callback) data_client \<Rightarrow> nat \<Rightarrow> BrowseResult_t \<Rightarrow> ('w, unit) mact" where
  "asserting_addMachine D fuel machine =
     seq (reads (\<lambda>s. sm_find (m_dashboardClients s) (brNodeId machine) \<noteq> None)) (\<lambda>present.
     if present then undefined_behaviour else dmo_addMachine D fuel machine)"

definition asserting_methods where
  "asserting_methods D fuel = (dmo_methods D fuel)\<lparr>vm_addMachine := asserting_addMachine D fuel\<rparr>"

lemma ignore_clients:
  "ignoreInvalidMachinesTemporarily n s = (r, t) \<Longrightarrow>
   m_dashboardClients t = m_dashboardClients s \<and> m_knownMachines t = m_knownMachines s"
  by (auto simp: ignoreInvalidMachinesTemporarily_def act_defs split: option.splits if_splits)

lemma addNewMachine_same:
  assumes "brNodeId m \<notin> clients s"
  shows "addNewMachine (asserting_methods D fuel) m s = addNewMachine (dmo_methods D fuel) m s"
proof -
  have "asserting_addMachine D fuel m s = dmo_addMachine D fuel m s"
    using assms by (simp add: asserting_addMachine_def sm_find_None_iff)
  then have "seq (asserting_addMachine D fuel m) k s = seq (dmo_addMachine D fuel m) k s"
    for k :: "unit \<Rightarrow> ('a, unit) mact"
    by (simp add: seq_def)
  then show ?thesis
    by (simp add: addNewMachine_def try_catch_def asserting_methods_def dmo_methods_def)
qed

lemma addNewMachine_clients:
  assumes "addNewMachine (dmo_methods D fuel) m s = (r, t)" and "brNodeId m \<notin> clients s"
  shows "clients t \<subseteq> insert (brNodeId m) (clients s) \<and> (r = Inr () \<and> clients_known s \<longrightarrow> clients_known t)"
proof -
  obtain x u where add: "dmo_addMachine D fuel m s = (x, u)" by fastforce
  from addMachine_clients [OF assms(2) add] have u: "clients u \<subseteq> (case x of Inl e \<Rightarrow> clients s
      | Inr _ \<Rightarrow> insert (brNodeId m) (clients s))" .
  have known: "m_knownMachines u = m_knownMachines s"
    using keepsD [OF keeps_dmo_addMachine add] by (simp add: whole_base_def)
  show ?thesis
  proof (cases x)
    case (Inl e)
    with assms(1) add have "m_dashboardClients t = m_dashboardClients u \<and> m_knownMachines t = m_knownMachines u"
      by (auto simp: addNewMachine_def dmo_methods_def try_catch_def seq_def update_def
          split: abrupt.splits if_splits)
    with u known Inl show ?thesis by (auto simp: clients_known_def)
  next
    case (Inr y)
    with assms(1) add have "t = u\<lparr>m_knownMachines := sm_insert (brNodeId m) m (m_knownMachines u)\<rparr>"
      by (simp add: addNewMachine_def dmo_methods_def try_catch_def seq_def update_def)
    with u known Inr show ?thesis by (auto simp: clients_known_def)
  qed
qed

lemma add_if_due_clients:
  assumes "n \<notin> clients s" and "n \<in> brNodeId ` set L"
    and "M = fold (\<lambda>m. sm_insert (brNodeId m) m) L []"
  shows "add_if_due (asserting_methods D fuel) M n s = add_if_due (dmo_methods D fuel) M n s \<and>
    (add_if_due (dmo_methods D fuel) M n s = (r, t) \<longrightarrow>
      clients t \<subseteq> insert n (clients s) \<and> (r = Inr () \<and> clients_known s \<longrightarrow> clients_known t))"
proof -
  obtain i u where ig: "ignoreInvalidMachinesTemporarily n s = (i, u)" by fastforce
  note u = ignore_clients [OF ig]
  from machine_map_find [OF assms(2)] assms(3) obtain m where m: "sm_find M n = Some m" "brNodeId m = n"
    by auto
  have "brNodeId m \<notin> clients u" using assms(1) u m by simp
  from addNewMachine_same [OF this, of D fuel] addNewMachine_clients [OF _ this, of D fuel]
  show ?thesis
    using ig u m by (cases i) (auto simp: add_if_due_def seq_def ret_def clients_known_def)
qed

lemma add_all_clients:
  assumes "set ns \<inter> clients s = {}" and "distinct ns" and "set ns \<subseteq> brNodeId ` set L"
    and "M = fold (\<lambda>m. sm_insert (brNodeId m) m) L []"
  shows "for_each ns (add_if_due (asserting_methods D fuel) M) s = for_each ns (add_if_due (dmo_methods D fuel) M) s \<and>
    (for_each ns (add_if_due (dmo_methods D fuel) M) s = (Inr (), t) \<and> clients_known s \<longrightarrow> clients_known t)"
  using assms
proof (induction ns arbitrary: s)
  case (Cons n ns)
  obtain r u where one: "add_if_due (dmo_methods D fuel) M n s = (r, u)" by fastforce
  from add_if_due_clients [of n s L M D fuel r u] Cons.prems one
  have same: "add_if_due (asserting_methods D fuel) M n s = (r, u)" and u: "clients u \<subseteq> insert n (clients s)"
    and known: "r = Inr () \<Longrightarrow> clients_known s \<Longrightarrow> clients_known u" by auto
  from u Cons.prems have "set ns \<inter> clients u = {}" "distinct ns" "set ns \<subseteq> brNodeId ` set L" by auto
  from Cons.IH [OF this Cons.prems(4)] same one known show ?case
    by (cases r) (auto simp: seq_def)
qed (auto simp: ret_def)

text \<open>The other phases of a round use the same methods, and clients only disappear in them.\<close>

lemma asserting_phases:
  "removeOfflineMachines (asserting_methods D fuel) = removeOfflineMachines (dmo_methods D fuel)"
  "machineListsNotEqual (asserting_methods D fuel) = machineListsNotEqual (dmo_methods D fuel)"
  "findNewAndOfflineMachines (asserting_methods D fuel) L R N I =
     findNewAndOfflineMachines (dmo_methods D fuel) L R N I"
proof -
  show remove: "removeOfflineMachines (asserting_methods D fuel) = removeOfflineMachines (dmo_methods D fuel)"
    by (rule ext) (simp add: removeOfflineMachines_def asserting_methods_def)
  show "machineListsNotEqual (asserting_methods D fuel) = machineListsNotEqual (dmo_methods D fuel)"
    by (rule ext) (simp add: machineListsNotEqual_def recreateKnownMachineToolsMap_def remove cong: if_cong)
  show "findNewAndOfflineMachines (asserting_methods D fuel) L R N I =
     findNewAndOfflineMachines (dmo_methods D fuel) L R N I"
    by (induction L arbitrary: R N I) (simp_all add: asserting_methods_def cong: if_cong)
qed

lemma set_keys_fold_erase: "set (sm_keys (fold sm_erase ks m)) = set (sm_keys m) - set ks"
  by (induction ks arbitrary: m) auto

lemma remove_phase_clients:
  assumes "removeOfflineMachines (dmo_methods D fuel) ns s = (Inr (), t)" and "clients_known s"
  shows "clients t \<subseteq> clients s \<and> clients_known t"
  using removeOffline_clients [OF assms(1)] dmo.removeOffline [OF assms(1)] assms(2)
  by (auto simp: clients_known_def set_keys_fold_erase)

lemma reset_phase_clients:
  assumes "machineListsNotEqual (dmo_methods D fuel) L s = (Inr b, t)" and "clients_known s"
  shows "clients t \<subseteq> clients s \<and> clients_known t"
proof (cases "ss_of_list (map brNodeId L) = m_knownMachineToolsSet s")
  case True
  with assms show ?thesis by (simp add: machineListsNotEqual_def) (simp add: act_defs)
next
  case False
  obtain r u where rm: "removeOfflineMachines (dmo_methods D fuel) (m_knownMachineToolsSet s) s = (r, u)"
    by fastforce
  from assms(1) False rm have "r = Inr ()" and "t = u\<lparr>m_knownMachineToolsSet := ss_of_list (map brNodeId L)\<rparr>"
    by (auto simp: machineListsNotEqual_def recreateKnownMachineToolsMap_def act_defs split: sum.splits)
  with remove_phase_clients [of D fuel _ s u] rm assms(2) show ?thesis
    by (auto simp: clients_known_def)
qed

lemma round_clients:
  fixes s :: "'w dashboard_observer"
  assumes L: "distinct (map brNodeId L)" and "clients_known s"
    and R: "set (sm_keys (m_knownMachines s)) \<subseteq> set R"
  shows "update_with_list (asserting_methods D fuel) R L s = update_with_list (dmo_methods D fuel) R L s \<and>
    (update_with_list (dmo_methods D fuel) R L s = (Inr (), t) \<longrightarrow> clients_known t)"
proof -
  obtain b s1 where reset: "machineListsNotEqual (dmo_methods D fuel) L s = (b, s1)" by fastforce
  show ?thesis
  proof (cases b)
    case (Inl e)
    with reset show ?thesis by (simp add: update_with_list_def asserting_phases seq_def)
  next
    case (Inr ne)
    note s1 = reset_phase_clients [OF reset [unfolded Inr] assms(2)]
    obtain f s2 where find: "findNewAndOfflineMachines (dmo_methods D fuel) L R [] [] s1 = (f, s2)" by fastforce
    show ?thesis
    proof (cases f)
      case (Inl e)
      with reset Inr find show ?thesis by (simp add: update_with_list_def asserting_phases seq_def)
    next
      case found: (Inr x)
      obtain R' N' I' where x: "x = (R', N', I')" by (cases x)
      note find' = find [unfolded found x]
      from dmo.findNew [OF find' L] obtain on where on: "on \<subseteq> brNodeId ` set L" "set N' = on - set R"
        and s2: "m_knownMachines s2 = m_knownMachines s1" by auto
      have c2: "clients s2 = clients s1"
        using keepsD [OF keeps_listing_find find] by (simp add: listing_def)
      have k2: "clients_known s2" using s1 s2 c2 by (simp add: clients_known_def)
      have N': "distinct N'" using dmo.findNew_ss_ok [OF find'] by (simp add: ss_ok_def strict_sorted_iff)
      obtain r s3 where rem: "removeOfflineMachines (dmo_methods D fuel) R' s2 = (r, s3)" by fastforce
      show ?thesis
      proof (cases r)
        case (Inl e)
        with reset Inr find found x rem show ?thesis
          by (simp add: update_with_list_def asserting_phases seq_def)
      next
        case removed: (Inr u)
        have s3: "clients s3 \<subseteq> clients s2" "clients_known s3"
          using remove_phase_clients [of D fuel R' s2 s3] rem removed k2 by simp_all
        have "clients s3 \<subseteq> set R" using s3(1) c2 s1 assms(2) R unfolding clients_known_def by blast
        then have new: "set N' \<inter> clients s3 = {}" using on(2) by auto
        have ids: "set N' \<subseteq> brNodeId ` set L" using on by auto
        obtain a s4 where add: "for_each N' (add_if_due (dmo_methods D fuel)
            (fold (\<lambda>m. sm_insert (brNodeId m) m) L [])) s3 = (a, s4)" by fastforce
        from add_all_clients [OF new N' ids refl, of D fuel s4] add s3(2)
        have same: "for_each N' (add_if_due (asserting_methods D fuel)
            (fold (\<lambda>m. sm_insert (brNodeId m) m) L [])) s3 = (a, s4)"
          and known: "a = Inr () \<Longrightarrow> clients_known s4" by auto
        show ?thesis
          using reset Inr find found x rem removed add same known
          by (cases a) (auto simp: update_with_list_def asserting_phases seq_def update_def clients_known_def)
      qed
    qed
  qed
qed

section \<open>Property\<close>

text \<open>
  C33: \<^verbatim>\<open>addMachine\<close> looks for an older client of the machine and would unsubscribe and
  erase it; that branch is dead. In a state in which every client belongs to a known machine, as
  at the start, a round of the update is the same round with an assertion in its place, whatever
  the data source does, and a round that returns leads to such a state again. So the map of
  clients is changed under its mutex only.
\<close>

theorem erase_of_client_is_dead:
  fixes s :: "'w dashboard_observer"
  assumes "clients_known s"
  shows "UpdateMachines D (asserting_methods D fuel) fuel s = UpdateMachines D (dmo_methods D fuel) fuel s \<and>
    (UpdateMachines D (dmo_methods D fuel) fuel s = (Inr (), t) \<longrightarrow> clients_known t)"
proof -
  obtain b s1 where browse: "canBrowseMachineList D fuel s = (b, s1)" by fastforce
  have s1: "clients s1 = clients s" "m_knownMachines s1 = m_knownMachines s"
    using keepsD [OF listing.keeps_canBrowse browse] keepsD [OF round.keeps_canBrowse browse]
    by (simp_all add: listing_def round_view_def)
  then have known: "clients_known s1" using assms by (simp add: clients_known_def)
  show ?thesis
  proof (cases b)
    case (Inl e)
    with browse show ?thesis by (simp add: UpdateMachines_def seq_reads) (simp add: seq_def)
  next
    case (Inr found)
    show ?thesis
    proof (cases found)
      case None
      with browse Inr known show ?thesis
        by (simp add: UpdateMachines_def seq_reads) (auto simp: seq_def ret_def)
    next
      case (Some L)
      let ?R = "ss_of_list (sm_keys (m_knownMachines s))"
      from s1 have "set (sm_keys (m_knownMachines s1)) \<subseteq> set ?R" by simp
      from round_clients [OF found_machines_distinct known this, where D = D and fuel = fuel and t = t] show ?thesis
        using browse Inr Some
        by (simp add: UpdateMachines_def seq_reads found_machines_def) (simp add: seq_def)
    qed
  qed
qed

theorem erase_of_client_is_dead_witness:
  "\<exists>t. UpdateMachines (plant_client [node_B, node_A]) (asserting_methods (plant_client [node_B, node_A]) 1) 1
       plant_state = (Inr (), t) \<and> clients_known t \<and> node_B \<in> clients t"
proof -
  let ?D = "plant_client [node_B, node_A]"
  obtain t where run: "UpdateMachines ?D (dmo_methods ?D 1) 1 plant_state = (Inr (), t)"
    using plant_round(2) by (metis prod.collapse)
  have "clients_known plant_state"
    by (simp add: clients_known_def plant_state_def DashboardMachineObserver_new_def)
  from erase_of_client_is_dead [OF this, of ?D 1 t] run
  have "UpdateMachines ?D (asserting_methods ?D 1) 1 plant_state = (Inr (), t) \<and> clients_known t" by simp
  moreover have "sm_keys (m_dashboardClients (snd (UpdateMachines ?D (dmo_methods ?D 1) 1 plant_state))) = [node_B]"
    by code_simp
  ultimately show ?thesis using run by auto
qed

end
