(* ===== verification/C_Layout.thy ===== *)
theory C_Layout
  imports Prelude
begin

text \<open>
  The layout of C structs and the descriptions that the OPC UA stack reads and writes them by.
  A struct is the list of its fields as declared. An \<open>abi\<close> gives the size and alignment of every
  type by name and the size of a pointer, which is also that of \<^verbatim>\<open>size_t\<close>; a struct is laid
  out by rounding the offset of each field up to its alignment. A description is a list of
  members (\<^verbatim>\<open>UA_DataTypeMember\<close>); \<open>stack_fields\<close> is what it says of the memory, as the stack
  documents it: each member comes after its padding, an array as a length directly followed by
  a pointer, an optional member as a pointer, any other as the value itself. The main lemma of
  the theory reduces the agreement of both, on every abi, to a comparison of the two lists.
\<close>

named_theorems struct_defs \<open>definitions of structs\<close>
named_theorems member_defs \<open>definitions of the members of descriptions\<close>
named_theorems entry_defs \<open>definitions of the entries of tables\<close>
named_theorems function_defs \<open>definitions of the functions of types\<close>
named_theorems type_indices \<open>indices of the types in their tables\<close>

section \<open>Structs\<close>

datatype ua_builtin =
    UA_Boolean | UA_Byte | UA_Int16 | UA_Int32 | UA_UInt32 | UA_Int64 | UA_UInt64 | UA_Double
  | UA_String | UA_DateTime | UA_LocalizedText | UA_ExtensionObject | UA_Variant | UA_EUInformation

datatype c_name = Basic ua_builtin | Named string

datatype c_type = Plain c_name | Ptr c_name | Size_t

type_synonym c_struct = "(string \<times> c_type) list"

record abi =
  abi_size :: "c_name \<Rightarrow> nat"
  abi_align :: "c_name \<Rightarrow> nat"
  word_size :: nat

definition abi_ok :: "abi \<Rightarrow> bool" where
  "abi_ok A \<longleftrightarrow> word_size A > 0 \<and> (\<forall>n. abi_align A n > 0)"

fun csize :: "abi \<Rightarrow> c_type \<Rightarrow> nat" where
  "csize A (Plain n) = abi_size A n"
| "csize A _ = word_size A"

fun calign :: "abi \<Rightarrow> c_type \<Rightarrow> nat" where
  "calign A (Plain n) = abi_align A n"
| "calign A _ = word_size A"

definition align_up :: "nat \<Rightarrow> nat \<Rightarrow> nat" where
  "align_up a n = (n + a - 1) div a * a"

text \<open>The fields with their offsets, from the first free byte on, and the offset after them.\<close>

fun place :: "abi \<Rightarrow> nat \<Rightarrow> c_struct \<Rightarrow> (string \<times> nat \<times> c_type) list" where
  "place A n [] = []"
| "place A n ((f, t) # fs) =
     (let p = align_up (calign A t) n in (f, p, t) # place A (p + csize A t) fs)"

fun place_end :: "abi \<Rightarrow> nat \<Rightarrow> c_struct \<Rightarrow> nat" where
  "place_end A n [] = n"
| "place_end A n ((f, t) # fs) = place_end A (align_up (calign A t) n + csize A t) fs"

definition offsetof :: "abi \<Rightarrow> c_struct \<Rightarrow> string \<Rightarrow> nat" where
  "offsetof A S f = (case map_of (place A 0 S) f of None \<Rightarrow> 0 | Some (p, t) \<Rightarrow> p)"

definition struct_fields :: "abi \<Rightarrow> c_struct \<Rightarrow> (string \<times> int \<times> c_type) list" where
  "struct_fields A S = map (\<lambda>(f, p, t). (f, int p, t)) (place A 0 S)"

lemma align_up_props:
  assumes "a > 0"
  shows "n \<le> align_up a n" and "align_up a n < n + a" and "a dvd align_up a n"
proof -
  have split: "align_up a n + (n + a - 1) mod a = n + a - 1" by (simp add: align_up_def)
  moreover have "(n + a - 1) mod a < a" using assms by simp
  ultimately show "n \<le> align_up a n" "align_up a n < n + a" using assms by linarith+
qed (simp add: align_up_def)

lemma align_up_same:
  assumes "a > 0" and "a dvd n"
  shows "align_up a n = n"
proof -
  note up = align_up_props [OF assms(1), of n]
  have "a dvd align_up a n - n" using up(3) assms(2) by (rule dvd_diff_nat)
  with up(1,2) show ?thesis by (cases "align_up a n = n") (auto dest: dvd_imp_le)
qed

lemma align_up_0 [simp]: "a > 0 \<Longrightarrow> align_up a 0 = 0"
  by (simp add: align_up_same)

lemma calign_pos: "abi_ok A \<Longrightarrow> calign A t > 0"
  by (cases t) (simp_all add: abi_ok_def)

text \<open>The fields of a struct are aligned, follow each other and end before its end.\<close>

lemma place_end_mono: "abi_ok A \<Longrightarrow> n \<le> place_end A n fs"
proof (induction fs arbitrary: n)
  case (Cons x fs)
  obtain g u where x: "x = (g, u)" by (cases x)
  have "n \<le> align_up (calign A u) n" using align_up_props(1) calign_pos [OF Cons.prems] by blast
  with Cons.IH [OF Cons.prems, of "align_up (calign A u) n + csize A u"] x show ?case by simp
qed simp

lemma place_bounds:
  "abi_ok A \<Longrightarrow> (f, p, t) \<in> set (place A n fs) \<Longrightarrow>
   n \<le> p \<and> calign A t dvd p \<and> p + csize A t \<le> place_end A n fs"
proof (induction fs arbitrary: n)
  case (Cons x fs)
  obtain g u where x: "x = (g, u)" by (cases x)
  let ?p = "align_up (calign A u) n"
  have up: "n \<le> ?p" "calign A u dvd ?p"
    using align_up_props calign_pos [OF Cons.prems(1)] by blast+
  from Cons.prems(2) x consider "p = ?p" "t = u" | "(f, p, t) \<in> set (place A (?p + csize A u) fs)"
    by (auto simp: Let_def)
  then show ?case
  proof cases
    case 1
    with up x place_end_mono [OF Cons.prems(1), of "?p + csize A u" fs] show ?thesis by simp
  next
    case 2
    from Cons.IH [OF Cons.prems(1) 2] up x show ?thesis by simp
  qed
qed simp

section \<open>Descriptions\<close>

text \<open>
  A description refers to other types by table and index, and to its own padding by an
  expression over the offsets of a struct:
  \<open>Gap S f g t\<close> is \<^verbatim>\<open>offsetof(S, f) - offsetof(S, g) - sizeof(t)\<close>.
\<close>

datatype type_table = GMS_Table | Tightening_Table | Machinery_Result_Table | IJT_Table

datatype type_ref = Builtin ua_builtin | Entry type_table nat

datatype sizeof_operand = Void_Ptr | Sizeof c_name

datatype gap = No_Gap | Gap string string string sizeof_operand

record data_member =
  memberName :: string
  memberType :: type_ref
  padding :: gap
  isArray :: bool
  isOptional :: bool

datatype data_type_kind = UA_DATATYPEKIND_STRUCTURE | UA_DATATYPEKIND_OPTSTRUCT | UA_DATATYPEKIND_ENUM

datatype overlay = Not_Overlayable | UA_BINARY_OVERLAYABLE_INTEGER

record data_type =
  typeName :: string
  typeId :: "nat \<times> nat"
  binaryEncodingId :: "nat \<times> nat"
  memSize :: string
  typeKind :: data_type_kind
  pointerFree :: bool
  overlayable :: overlay
  membersSize :: nat
  typeMembers :: "data_member list"

fun operand_size :: "abi \<Rightarrow> sizeof_operand \<Rightarrow> nat" where
  "operand_size A Void_Ptr = word_size A"
| "operand_size A (Sizeof n) = abi_size A n"

text \<open>
  The difference of unsigned offsets, as an integer; \<open>padding_bounds\<close> shows that it is not
  negative in the tables, so the subtraction of the code does not wrap.
\<close>

fun padding_value :: "abi \<Rightarrow> (string \<Rightarrow> c_struct) \<Rightarrow> gap \<Rightarrow> int" where
  "padding_value A decl No_Gap = 0"
| "padding_value A decl (Gap S f g t) =
     int (offsetof A (decl S) f) - int (offsetof A (decl S) g) - int (operand_size A t)"

text \<open>
  The name of a field is that of the member with a small first letter, which in ASCII sets the bit
  of value 32.
\<close>

fun field_name :: "string \<Rightarrow> string" where
  "field_name [] = []"
| "field_name (Char b0 b1 b2 b3 b4 b5 b6 b7 # cs) = Char b0 b1 b2 b3 b4 True b6 b7 # cs"

fun stack_fields ::
    "abi \<Rightarrow> (string \<Rightarrow> c_struct) \<Rightarrow> (type_ref \<Rightarrow> c_name) \<Rightarrow> int \<Rightarrow> data_member list \<Rightarrow> (string \<times> int \<times> c_type) list" where
  "stack_fields A decl named p [] = []"
| "stack_fields A decl named p (m # ms) =
     (let q = p + padding_value A decl (padding m);
          f = field_name (memberName m);
          n = named (memberType m);
          w = int (word_size A)
      in if isArray m
         then (f @ ''Size'', q, Size_t) # (f, q + w, Ptr n) # stack_fields A decl named (q + 2 * w) ms
         else if isOptional m
         then (f, q, Ptr n) # stack_fields A decl named (q + w) ms
         else (f, q, Plain n) # stack_fields A decl named (q + int (abi_size A n)) ms)"

section \<open>Agreement\<close>

text \<open>
  The comparison of a description with a struct, member by member. The padding of a member has
  to be the gap between its first field and the last field of the member before it.
\<close>

fun operand :: "c_type \<Rightarrow> sizeof_operand" where
  "operand (Plain n) = Sizeof n"
| "operand _ = Void_Ptr"

fun gap_before :: "string \<Rightarrow> (string \<times> c_type) option \<Rightarrow> string \<Rightarrow> gap" where
  "gap_before S None f = No_Gap"
| "gap_before S (Some (g, t)) f = Gap S f g (operand t)"

fun fields_of :: "(type_ref \<Rightarrow> c_name) \<Rightarrow> data_member \<Rightarrow> c_struct" where
  "fields_of named m =
     (let f = field_name (memberName m); n = named (memberType m)
      in if isArray m then [(f @ ''Size'', Size_t), (f, Ptr n)]
         else if isOptional m then [(f, Ptr n)]
         else [(f, Plain n)])"

fun paddings_agree :: "(type_ref \<Rightarrow> c_name) \<Rightarrow> string \<Rightarrow> (string \<times> c_type) option \<Rightarrow> data_member list \<Rightarrow> bool" where
  "paddings_agree named S prev [] = True"
| "paddings_agree named S prev (m # ms) =
     (padding m = gap_before S prev (fst (hd (fields_of named m))) \<and>
      paddings_agree named S (Some (last (fields_of named m))) ms)"

definition describes :: "(string \<Rightarrow> c_struct) \<Rightarrow> (type_ref \<Rightarrow> c_name) \<Rightarrow> string \<Rightarrow> data_member list \<Rightarrow> bool" where
  "describes decl named S ms \<longleftrightarrow>
     concat (map (fields_of named) ms) = decl S \<and> distinct (map fst (decl S)) \<and>
     paddings_agree named S None ms"

declare fields_of.simps [simp del]

lemma operand_size_operand [simp]: "operand_size A (operand t) = csize A t"
  by (cases t) simp_all

lemma offsetof_placed:
  assumes "distinct (map fst S)" and "(f, p, t) \<in> set (place A 0 S)"
  shows "offsetof A S f = p"
proof -
  have "map fst (place A n S) = map fst S" for n
    by (induction S arbitrary: n) (auto simp: Let_def)
  with assms show ?thesis by (simp add: offsetof_def)
qed

text \<open>Before a member, the padding leads from the end of the last field to the offset of the next.\<close>

lemma padding_gap:
  assumes A: "abi_ok A" and "paddings_agree named S prev (m # ms)"
    and "hd (fields_of named m) = (h, u)" and "offsetof A (decl S) h = align_up (calign A u) n"
    and "case prev of None \<Rightarrow> n = 0 | Some (g, t) \<Rightarrow> n = offsetof A (decl S) g + csize A t"
  shows "int n + padding_value A decl (padding m) = int (align_up (calign A u) n)"
    and "0 \<le> padding_value A decl (padding m) \<and>
      padding_value A decl (padding m) < int (calign A (snd (hd (fields_of named m))))"
proof -
  show gap: "int n + padding_value A decl (padding m) = int (align_up (calign A u) n)"
  proof (cases prev)
    case None
    with assms(2,3,5) calign_pos [OF A] show ?thesis by simp
  next
    case (Some x)
    with assms(2-5) show ?thesis by (cases x) simp
  qed
  then show "0 \<le> padding_value A decl (padding m) \<and>
      padding_value A decl (padding m) < int (calign A (snd (hd (fields_of named m))))"
    using align_up_props(1,2) [OF calign_pos [OF A, of u], of n] assms(3) by simp
qed

text \<open>
  The induction over the members: \<open>n\<close> is the first free byte, right behind the last field of the
  member before.
\<close>

lemma stack_fields_place:
  assumes A: "abi_ok A"
    and "paddings_agree named S prev ms"
    and "\<forall>(f, p, t) \<in> set (place A n (concat (map (fields_of named) ms))). offsetof A (decl S) f = p"
    and "case prev of None \<Rightarrow> n = 0 | Some (g, t) \<Rightarrow> n = offsetof A (decl S) g + csize A t"
  shows "stack_fields A decl named (int n) ms =
    map (\<lambda>(f, p, t). (f, int p, t)) (place A n (concat (map (fields_of named) ms))) \<and>
    (\<forall>m \<in> set ms. 0 \<le> padding_value A decl (padding m) \<and>
       padding_value A decl (padding m) < int (calign A (snd (hd (fields_of named m)))))"
  using assms(2-)
proof (induction ms arbitrary: n prev)
  case (Cons m ms)
  define f where "f = field_name (memberName m)"
  define k where "k = named (memberType m)"
  obtain h u where first: "hd (fields_of named m) = (h, u)" by fastforce
  have head: "fields_of named m \<noteq> []" by (simp add: fields_of.simps Let_def)
  then obtain fs where fields: "fields_of named m = (h, u) # fs"
    using first by (cases "fields_of named m") auto
  have offset: "offsetof A (decl S) h = align_up (calign A u) n"
    using Cons.prems(2) fields by (auto simp: Let_def)
  note gap = padding_gap(1) [where decl = decl, OF A Cons.prems(1) first offset Cons.prems(3)]
    and bound = padding_gap(2) [where decl = decl, OF A Cons.prems(1) first offset Cons.prems(3)]
  have word: "word_size A > 0" using A by (simp add: abi_ok_def)
  show ?case
  proof (cases "isArray m")
    case True
    then have hu: "h = f @ ''Size''" "u = Size_t" and fs: "fs = [(f, Ptr k)]"
      using fields by (auto simp: f_def k_def fields_of.simps Let_def)
    let ?p = "align_up (word_size A) n"
    have next_word: "align_up (word_size A) (?p + word_size A) = ?p + word_size A"
      using word align_up_props(3) by (intro align_up_same) auto
    have rest: "\<forall>(f, p, t) \<in> set (place A (?p + word_size A + word_size A) (concat (map (fields_of named) ms))).
        offsetof A (decl S) f = p"
      and last: "offsetof A (decl S) f = ?p + word_size A"
      using Cons.prems(2) fields hu fs next_word by (auto simp: Let_def)
    have "paddings_agree named S (Some (f, Ptr k)) ms"
      using Cons.prems(1) fields hu fs by simp
    from Cons.IH [OF this rest] last have
      "stack_fields A decl named (int (?p + word_size A + word_size A)) ms =
       map (\<lambda>(f, p, t). (f, int p, t)) (place A (?p + word_size A + word_size A) (concat (map (fields_of named) ms)))"
      and "\<forall>m \<in> set ms. 0 \<le> padding_value A decl (padding m) \<and>
       padding_value A decl (padding m) < int (calign A (snd (hd (fields_of named m))))"
      by simp_all
    with True gap bound hu fields fs next_word show ?thesis
      by (simp add: Let_def f_def [symmetric] k_def [symmetric] add.assoc)
  next
    case False
    then have fs: "fs = []" and h: "h = f" and u: "u = (if isOptional m then Ptr k else Plain k)"
      using fields by (auto simp: f_def k_def fields_of.simps Let_def split: if_splits)
    let ?p = "align_up (calign A u) n"
    have rest: "\<forall>(f, p, t) \<in> set (place A (?p + csize A u) (concat (map (fields_of named) ms))).
        offsetof A (decl S) f = p"
      using Cons.prems(2) fields fs by (auto simp: Let_def)
    have "paddings_agree named S (Some (f, u)) ms"
      using Cons.prems(1) fields fs h by simp
    from Cons.IH [OF this rest] offset h have
      "stack_fields A decl named (int (?p + csize A u)) ms =
       map (\<lambda>(f, p, t). (f, int p, t)) (place A (?p + csize A u) (concat (map (fields_of named) ms)))"
      and "\<forall>m \<in> set ms. 0 \<le> padding_value A decl (padding m) \<and>
       padding_value A decl (padding m) < int (calign A (snd (hd (fields_of named m))))"
      by simp_all
    with False gap bound fields fs h u show ?thesis
      by (simp add: Let_def f_def [symmetric] k_def [symmetric] split: if_splits)
  qed
qed simp

theorem stack_fields_struct:
  assumes "abi_ok A" and "describes decl named S ms"
  shows "stack_fields A decl named 0 ms = struct_fields A (decl S)"
    and "m \<in> set ms \<Longrightarrow> 0 \<le> padding_value A decl (padding m) \<and>
      padding_value A decl (padding m) < int (calign A (snd (hd (fields_of named m))))"
proof -
  have "\<forall>(f, p, t) \<in> set (place A 0 (decl S)). offsetof A (decl S) f = p"
    using assms(2) offsetof_placed by (auto simp: describes_def)
  with stack_fields_place [of A named S None ms 0 decl] assms
  show "stack_fields A decl named 0 ms = struct_fields A (decl S)"
    and "m \<in> set ms \<Longrightarrow> 0 \<le> padding_value A decl (padding m) \<and>
      padding_value A decl (padding m) < int (calign A (snd (hd (fields_of named m))))"
    by (simp_all add: describes_def struct_fields_def)
qed

end
