(* ===== verification/Generated_Types.thy ===== *)
theory Generated_Types
  imports C_Layout
begin

text \<open>
  The custom data types of \<^verbatim>\<open>OpcUaClient/Converter/CustomDataTypes\<close>, table by table: the
  indices of the types, the structs and enumerations of the headers, the members and the entries
  of the tables of descriptions, and the functions that handle values of a type, by the
  description they pass to the stack. The names are those of the files; the tables of
  \<^verbatim>\<open>types_tightening_generated.c\<close> have names of their own where the file reuses a static name of
  another. A type id is a namespace index with a numeric identifier.
\<close>

text \<open>
  The functions of a type: the struct that \<^verbatim>\<open>_init\<close> clears, and the descriptions that
  \<^verbatim>\<open>_new\<close>, \<^verbatim>\<open>_copy\<close>, \<^verbatim>\<open>_deleteMembers\<close>, \<^verbatim>\<open>_clear\<close>, \<^verbatim>\<open>_delete\<close> and
  \<^verbatim>\<open>_equal\<close> hand to the stack.
\<close>

record type_functions =
  fn_init :: string
  fn_new :: type_ref
  fn_copy :: type_ref
  fn_deleteMembers :: "type_ref option"
  fn_clear :: type_ref
  fn_delete :: type_ref
  fn_equal :: "type_ref option"

section \<open>\<^verbatim>\<open>types_gms_generated\<close>\<close>

definition UA_TYPES_GMS_COUNT :: nat where [type_indices]:
  "UA_TYPES_GMS_COUNT = 6"

definition UA_TYPES_GMS_CARTESIANWORKSPACETYPE :: nat where [type_indices]:
  "UA_TYPES_GMS_CARTESIANWORKSPACETYPE = 0"

definition UA_TYPES_GMS_CYLINDRICALWORKSPACETYPE :: nat where [type_indices]:
  "UA_TYPES_GMS_CYLINDRICALWORKSPACETYPE = 1"

definition UA_TYPES_GMS_MEASUREMENTREASONENUM :: nat where [type_indices]:
  "UA_TYPES_GMS_MEASUREMENTREASONENUM = 2"

definition UA_TYPES_GMS_TOLERANCELIMITENUM :: nat where [type_indices]:
  "UA_TYPES_GMS_TOLERANCELIMITENUM = 3"

definition UA_TYPES_GMS_TOOLALIGNMENTSTATE :: nat where [type_indices]:
  "UA_TYPES_GMS_TOOLALIGNMENTSTATE = 4"

definition UA_TYPES_GMS_TOOLISQUALIFIEDSTATUS :: nat where [type_indices]:
  "UA_TYPES_GMS_TOOLISQUALIFIEDSTATUS = 5"

definition UA_MeasurementReasonEnum :: "(string \<times> int) list" where
  "UA_MeasurementReasonEnum =
    [(''UA_MEASUREMENTREASONENUM_CONTINUOUSMEASUREMENTS'', 0),
     (''UA_MEASUREMENTREASONENUM_SPECIALMEASUREMENT'', 1),
     (''UA_MEASUREMENTREASONENUM_AUDITMEASUREMENT'', 2),
     (''UA_MEASUREMENTREASONENUM_MINMASTERING'', 3), (''UA_MEASUREMENTREASONENUM_MEDMASTERING'', 4),
     (''UA_MEASUREMENTREASONENUM_MAXMASTERING'', 5),
     (''__UA_MEASUREMENTREASONENUM_FORCE32BIT'', 2147483647)]"

definition UA_ToleranceLimitEnum :: "(string \<times> int) list" where
  "UA_ToleranceLimitEnum =
    [(''UA_TOLERANCELIMITENUM_NOLIMIT'', 0), (''UA_TOLERANCELIMITENUM_LIMITVALUE'', 1),
     (''UA_TOLERANCELIMITENUM_NATURALLIMIT'', 2),
     (''__UA_TOLERANCELIMITENUM_FORCE32BIT'', 2147483647)]"

definition UA_ToolAlignmentState :: "(string \<times> int) list" where
  "UA_ToolAlignmentState =
    [(''UA_TOOLALIGNMENTSTATE_FIXED'', 0), (''UA_TOOLALIGNMENTSTATE_INDEXED'', 1),
     (''UA_TOOLALIGNMENTSTATE_CONTINUOUS'', 2), (''__UA_TOOLALIGNMENTSTATE_FORCE32BIT'', 2147483647)]"

definition UA_ToolIsQualifiedStatus :: "(string \<times> int) list" where
  "UA_ToolIsQualifiedStatus =
    [(''UA_TOOLISQUALIFIEDSTATUS_QUALIFIED'', 0), (''UA_TOOLISQUALIFIEDSTATUS_IMPRECISE'', 1),
     (''UA_TOOLISQUALIFIEDSTATUS_NOTQUALIFIED'', 2),
     (''__UA_TOOLISQUALIFIEDSTATUS_FORCE32BIT'', 2147483647)]"

definition UA_CartesianWorkspaceType :: c_struct where [struct_defs]:
  "UA_CartesianWorkspaceType =
    [(''length'', Plain (Basic UA_Double)), (''width'', Plain (Basic UA_Double)),
     (''height'', Plain (Basic UA_Double))]"

definition UA_CylindricalWorkspaceType :: c_struct where [struct_defs]:
  "UA_CylindricalWorkspaceType =
    [(''length'', Plain (Basic UA_Double)), (''radius'', Plain (Basic UA_Double))]"

definition CartesianWorkspaceType_members :: "data_member list" where [member_defs]:
  "CartesianWorkspaceType_members =
    [\<lparr>memberName = ''Length'', memberType = Builtin UA_Double,
       padding = No_Gap, isArray = False, isOptional = False\<rparr>,
     \<lparr>memberName = ''Width'', memberType = Builtin UA_Double,
       padding = Gap ''UA_CartesianWorkspaceType'' ''width'' ''length'' (Sizeof (Basic UA_Double)), isArray = False, isOptional = False\<rparr>,
     \<lparr>memberName = ''Height'', memberType = Builtin UA_Double,
       padding = Gap ''UA_CartesianWorkspaceType'' ''height'' ''width'' (Sizeof (Basic UA_Double)), isArray = False, isOptional = False\<rparr>]"

definition CylindricalWorkspaceType_members :: "data_member list" where [member_defs]:
  "CylindricalWorkspaceType_members =
    [\<lparr>memberName = ''Length'', memberType = Builtin UA_Double,
       padding = No_Gap, isArray = False, isOptional = False\<rparr>,
     \<lparr>memberName = ''Radius'', memberType = Builtin UA_Double,
       padding = Gap ''UA_CylindricalWorkspaceType'' ''radius'' ''length'' (Sizeof (Basic UA_Double)), isArray = False, isOptional = False\<rparr>]"

definition MeasurementReasonEnum_members :: "data_member list" where [member_defs]:
  "MeasurementReasonEnum_members = []"

definition ToleranceLimitEnum_members :: "data_member list" where [member_defs]:
  "ToleranceLimitEnum_members = []"

definition ToolAlignmentState_members :: "data_member list" where [member_defs]:
  "ToolAlignmentState_members = []"

definition ToolIsQualifiedStatus_members :: "data_member list" where [member_defs]:
  "ToolIsQualifiedStatus_members = []"

definition CartesianWorkspaceType_type :: data_type where [entry_defs]:
  "CartesianWorkspaceType_type =
    \<lparr>typeName = ''CartesianWorkspaceType'', typeId = (0, 3007), binaryEncodingId = (0, 5007),
     memSize = ''UA_CartesianWorkspaceType'', typeKind = UA_DATATYPEKIND_STRUCTURE,
     pointerFree = True, overlayable = Not_Overlayable, membersSize = 3,
     typeMembers = CartesianWorkspaceType_members\<rparr>"

definition CylindricalWorkspaceType_type :: data_type where [entry_defs]:
  "CylindricalWorkspaceType_type =
    \<lparr>typeName = ''CylindricalWorkspaceType'', typeId = (0, 3008), binaryEncodingId = (0, 5013),
     memSize = ''UA_CylindricalWorkspaceType'', typeKind = UA_DATATYPEKIND_STRUCTURE,
     pointerFree = True, overlayable = Not_Overlayable, membersSize = 2,
     typeMembers = CylindricalWorkspaceType_members\<rparr>"

definition MeasurementReasonEnum_type :: data_type where [entry_defs]:
  "MeasurementReasonEnum_type =
    \<lparr>typeName = ''MeasurementReasonEnum'', typeId = (0, 3009), binaryEncodingId = (0, 0),
     memSize = ''UA_MeasurementReasonEnum'', typeKind = UA_DATATYPEKIND_ENUM,
     pointerFree = True, overlayable = UA_BINARY_OVERLAYABLE_INTEGER, membersSize = 0,
     typeMembers = MeasurementReasonEnum_members\<rparr>"

definition ToleranceLimitEnum_type :: data_type where [entry_defs]:
  "ToleranceLimitEnum_type =
    \<lparr>typeName = ''ToleranceLimitEnum'', typeId = (0, 3010), binaryEncodingId = (0, 0),
     memSize = ''UA_ToleranceLimitEnum'', typeKind = UA_DATATYPEKIND_ENUM,
     pointerFree = True, overlayable = UA_BINARY_OVERLAYABLE_INTEGER, membersSize = 0,
     typeMembers = ToleranceLimitEnum_members\<rparr>"

definition ToolAlignmentState_type :: data_type where [entry_defs]:
  "ToolAlignmentState_type =
    \<lparr>typeName = ''ToolAlignmentState'', typeId = (0, 3004), binaryEncodingId = (0, 0),
     memSize = ''UA_ToolAlignmentState'', typeKind = UA_DATATYPEKIND_ENUM,
     pointerFree = True, overlayable = UA_BINARY_OVERLAYABLE_INTEGER, membersSize = 0,
     typeMembers = ToolAlignmentState_members\<rparr>"

definition ToolIsQualifiedStatus_type :: data_type where [entry_defs]:
  "ToolIsQualifiedStatus_type =
    \<lparr>typeName = ''ToolIsQualifiedStatus'', typeId = (0, 3002), binaryEncodingId = (0, 0),
     memSize = ''UA_ToolIsQualifiedStatus'', typeKind = UA_DATATYPEKIND_ENUM,
     pointerFree = True, overlayable = UA_BINARY_OVERLAYABLE_INTEGER, membersSize = 0,
     typeMembers = ToolIsQualifiedStatus_members\<rparr>"

definition UA_TYPES_GMS :: "data_type list" where
  "UA_TYPES_GMS =
    [CartesianWorkspaceType_type, CylindricalWorkspaceType_type, MeasurementReasonEnum_type,
     ToleranceLimitEnum_type, ToolAlignmentState_type, ToolIsQualifiedStatus_type]"

definition UA_CartesianWorkspaceType_functions :: type_functions where [function_defs]:
  "UA_CartesianWorkspaceType_functions =
    (let r = Entry GMS_Table UA_TYPES_GMS_CARTESIANWORKSPACETYPE in
     \<lparr>fn_init = ''UA_CartesianWorkspaceType'', fn_new = r, fn_copy = r,
      fn_deleteMembers = Some r, fn_clear = r, fn_delete = r, fn_equal = Some r\<rparr>)"

definition UA_CylindricalWorkspaceType_functions :: type_functions where [function_defs]:
  "UA_CylindricalWorkspaceType_functions =
    (let r = Entry GMS_Table UA_TYPES_GMS_CYLINDRICALWORKSPACETYPE in
     \<lparr>fn_init = ''UA_CylindricalWorkspaceType'', fn_new = r, fn_copy = r,
      fn_deleteMembers = Some r, fn_clear = r, fn_delete = r, fn_equal = Some r\<rparr>)"

definition UA_MeasurementReasonEnum_functions :: type_functions where [function_defs]:
  "UA_MeasurementReasonEnum_functions =
    (let r = Entry GMS_Table UA_TYPES_GMS_MEASUREMENTREASONENUM in
     \<lparr>fn_init = ''UA_MeasurementReasonEnum'', fn_new = r, fn_copy = r,
      fn_deleteMembers = Some r, fn_clear = r, fn_delete = r, fn_equal = Some r\<rparr>)"

definition UA_ToleranceLimitEnum_functions :: type_functions where [function_defs]:
  "UA_ToleranceLimitEnum_functions =
    (let r = Entry GMS_Table UA_TYPES_GMS_TOLERANCELIMITENUM in
     \<lparr>fn_init = ''UA_ToleranceLimitEnum'', fn_new = r, fn_copy = r,
      fn_deleteMembers = Some r, fn_clear = r, fn_delete = r, fn_equal = Some r\<rparr>)"

definition UA_ToolAlignmentState_functions :: type_functions where [function_defs]:
  "UA_ToolAlignmentState_functions =
    (let r = Entry GMS_Table UA_TYPES_GMS_TOOLALIGNMENTSTATE in
     \<lparr>fn_init = ''UA_ToolAlignmentState'', fn_new = r, fn_copy = r,
      fn_deleteMembers = Some r, fn_clear = r, fn_delete = r, fn_equal = Some r\<rparr>)"

definition UA_ToolIsQualifiedStatus_functions :: type_functions where [function_defs]:
  "UA_ToolIsQualifiedStatus_functions =
    (let r = Entry GMS_Table UA_TYPES_GMS_TOOLISQUALIFIEDSTATUS in
     \<lparr>fn_init = ''UA_ToolIsQualifiedStatus'', fn_new = r, fn_copy = r,
      fn_deleteMembers = Some r, fn_clear = r, fn_delete = r, fn_equal = Some r\<rparr>)"

section \<open>\<^verbatim>\<open>types_tightening_generated\<close>\<close>

definition UA_TYPES_TIGHTENING_COUNT :: nat where [type_indices]:
  "UA_TYPES_TIGHTENING_COUNT = 1"

definition UA_TYPES_TIGHTENING_PROCESSINGTIMESDATATYPE :: nat where [type_indices]:
  "UA_TYPES_TIGHTENING_PROCESSINGTIMESDATATYPE = 0"

definition UA_IJT_ProcessingTimesDataType :: c_struct where [struct_defs]:
  "UA_IJT_ProcessingTimesDataType =
    [(''startTime'', Plain (Basic UA_DateTime)), (''endTime'', Plain (Basic UA_DateTime)),
     (''acquisitionDuration'', Ptr (Basic UA_Double)),
     (''processingDuration'', Ptr (Basic UA_Double))]"

definition IJT_ProcessingTimesDataType_members :: "data_member list" where [member_defs]:
  "IJT_ProcessingTimesDataType_members =
    [\<lparr>memberName = ''StartTime'', memberType = Builtin UA_DateTime,
       padding = No_Gap, isArray = False, isOptional = False\<rparr>,
     \<lparr>memberName = ''EndTime'', memberType = Builtin UA_DateTime,
       padding = Gap ''UA_IJT_ProcessingTimesDataType'' ''endTime'' ''startTime'' (Sizeof (Basic UA_DateTime)), isArray = False, isOptional = False\<rparr>,
     \<lparr>memberName = ''AcquisitionDuration'', memberType = Builtin UA_Double,
       padding = Gap ''UA_IJT_ProcessingTimesDataType'' ''acquisitionDuration'' ''endTime'' (Sizeof (Basic UA_DateTime)), isArray = False, isOptional = True\<rparr>,
     \<lparr>memberName = ''ProcessingDuration'', memberType = Builtin UA_Double,
       padding = Gap ''UA_IJT_ProcessingTimesDataType'' ''processingDuration'' ''acquisitionDuration'' Void_Ptr, isArray = False, isOptional = True\<rparr>]"

definition IJT_ProcessingTimesDataType_type :: data_type where [entry_defs]:
  "IJT_ProcessingTimesDataType_type =
    \<lparr>typeName = ''ProcessingTimesDataType'', typeId = (11, 3002), binaryEncodingId = (11, 5001),
     memSize = ''UA_IJT_ProcessingTimesDataType'', typeKind = UA_DATATYPEKIND_OPTSTRUCT,
     pointerFree = False, overlayable = Not_Overlayable, membersSize = 4,
     typeMembers = IJT_ProcessingTimesDataType_members\<rparr>"

definition UA_TYPES_TIGHTENING :: "data_type list" where
  "UA_TYPES_TIGHTENING =
    [IJT_ProcessingTimesDataType_type]"

definition UA_IJT_ProcessingTimesDataType_functions :: type_functions where [function_defs]:
  "UA_IJT_ProcessingTimesDataType_functions =
    (let r = Entry Tightening_Table UA_TYPES_TIGHTENING_PROCESSINGTIMESDATATYPE in
     \<lparr>fn_init = ''UA_IJT_ProcessingTimesDataType'', fn_new = r, fn_copy = r,
      fn_deleteMembers = Some r, fn_clear = r, fn_delete = r, fn_equal = None\<rparr>)"

section \<open>\<^verbatim>\<open>types_machinery_result_generated\<close>\<close>

definition UA_TYPES_MACHINERY_RESULT_COUNT :: nat where [type_indices]:
  "UA_TYPES_MACHINERY_RESULT_COUNT = 6"

definition UA_TYPES_MACHINERY_RESULT_BASERESULTTRANSFEROPTIONSDATATYPE :: nat where [type_indices]:
  "UA_TYPES_MACHINERY_RESULT_BASERESULTTRANSFEROPTIONSDATATYPE = 0"

definition UA_TYPES_MACHINERY_RESULT_RESULTTRANSFEROPTIONSDATATYPE :: nat where [type_indices]:
  "UA_TYPES_MACHINERY_RESULT_RESULTTRANSFEROPTIONSDATATYPE = 1"

definition UA_TYPES_MACHINERY_RESULT_PROCESSINGTIMESDATATYPE :: nat where [type_indices]:
  "UA_TYPES_MACHINERY_RESULT_PROCESSINGTIMESDATATYPE = 2"

definition UA_TYPES_MACHINERY_RESULT_RESULTDATATYPE :: nat where [type_indices]:
  "UA_TYPES_MACHINERY_RESULT_RESULTDATATYPE = 3"

definition UA_TYPES_MACHINERY_RESULT_RESULTEVALUATIONENUM :: nat where [type_indices]:
  "UA_TYPES_MACHINERY_RESULT_RESULTEVALUATIONENUM = 4"

definition UA_TYPES_MACHINERY_RESULT_RESULTMETADATATYPE :: nat where [type_indices]:
  "UA_TYPES_MACHINERY_RESULT_RESULTMETADATATYPE = 5"

definition UA_ResultEvaluationEnum :: "(string \<times> int) list" where
  "UA_ResultEvaluationEnum =
    [(''UA_RESULTEVALUATIONENUM_UNDEFINED'', 0), (''UA_RESULTEVALUATIONENUM_OK'', 1),
     (''UA_RESULTEVALUATIONENUM_NOTOK'', 2), (''UA_RESULTEVALUATIONENUM_NOTDECIDABLE'', 3),
     (''__UA_RESULTEVALUATIONENUM_FORCE32BIT'', 2147483647)]"

definition UA_BaseResultTransferOptionsDataType :: c_struct where [struct_defs]:
  "UA_BaseResultTransferOptionsDataType =
    [(''resultId'', Plain (Basic UA_String))]"

definition UA_ResultTransferOptionsDataType :: c_struct where [struct_defs]:
  "UA_ResultTransferOptionsDataType =
    [(''resultId'', Plain (Basic UA_String))]"

definition UA_ProcessingTimesDataType :: c_struct where [struct_defs]:
  "UA_ProcessingTimesDataType =
    [(''startTime'', Plain (Basic UA_DateTime)), (''endTime'', Plain (Basic UA_DateTime)),
     (''acquisitionDuration'', Ptr (Basic UA_Double)),
     (''processingDuration'', Ptr (Basic UA_Double))]"

definition UA_ResultDataType :: c_struct where [struct_defs]:
  "UA_ResultDataType =
    [(''resultMetaData'', Plain (Basic UA_ExtensionObject)), (''resultContentSize'', Size_t),
     (''resultContent'', Ptr (Basic UA_Variant))]"

definition UA_ResultMetaDataType :: c_struct where [struct_defs]:
  "UA_ResultMetaDataType =
    [(''resultId'', Plain (Basic UA_String)),
     (''hasTransferableDataOnFile'', Ptr (Basic UA_Boolean)),
     (''isPartial'', Ptr (Basic UA_Boolean)), (''isSimulated'', Ptr (Basic UA_Boolean)),
     (''resultState'', Ptr (Basic UA_Int32)), (''stepId'', Ptr (Basic UA_String)),
     (''partId'', Ptr (Basic UA_String)), (''externalRecipeId'', Ptr (Basic UA_String)),
     (''internalRecipeId'', Ptr (Basic UA_String)), (''productId'', Ptr (Basic UA_String)),
     (''externalConfigurationId'', Ptr (Basic UA_String)),
     (''internalConfigurationId'', Ptr (Basic UA_String)), (''jobId'', Ptr (Basic UA_String)),
     (''creationTime'', Ptr (Basic UA_DateTime)),
     (''processingTimes'', Ptr (Named ''UA_ProcessingTimesDataType'')), (''resultUriSize'', Size_t),
     (''resultUri'', Ptr (Basic UA_String)),
     (''resultEvaluation'', Ptr (Named ''UA_ResultEvaluationEnum'')),
     (''resultEvaluationCode'', Ptr (Basic UA_Int64)),
     (''resultEvaluationDetails'', Ptr (Basic UA_LocalizedText)), (''fileFormatSize'', Size_t),
     (''fileFormat'', Ptr (Basic UA_String))]"

definition BaseResultTransferOptionsDataType_members :: "data_member list" where [member_defs]:
  "BaseResultTransferOptionsDataType_members =
    [\<lparr>memberName = ''ResultId'', memberType = Builtin UA_String,
       padding = No_Gap, isArray = False, isOptional = False\<rparr>]"

definition ResultTransferOptionsDataType_members :: "data_member list" where [member_defs]:
  "ResultTransferOptionsDataType_members =
    [\<lparr>memberName = ''ResultId'', memberType = Builtin UA_String,
       padding = No_Gap, isArray = False, isOptional = False\<rparr>]"

definition ProcessingTimesDataType_members :: "data_member list" where [member_defs]:
  "ProcessingTimesDataType_members =
    [\<lparr>memberName = ''StartTime'', memberType = Builtin UA_DateTime,
       padding = No_Gap, isArray = False, isOptional = False\<rparr>,
     \<lparr>memberName = ''EndTime'', memberType = Builtin UA_DateTime,
       padding = Gap ''UA_ProcessingTimesDataType'' ''endTime'' ''startTime'' (Sizeof (Basic UA_DateTime)), isArray = False, isOptional = False\<rparr>,
     \<lparr>memberName = ''AcquisitionDuration'', memberType = Builtin UA_Double,
       padding = Gap ''UA_ProcessingTimesDataType'' ''acquisitionDuration'' ''endTime'' (Sizeof (Basic UA_DateTime)), isArray = False, isOptional = True\<rparr>,
     \<lparr>memberName = ''ProcessingDuration'', memberType = Builtin UA_Double,
       padding = Gap ''UA_ProcessingTimesDataType'' ''processingDuration'' ''acquisitionDuration'' Void_Ptr, isArray = False, isOptional = True\<rparr>]"

definition ResultDataType_members :: "data_member list" where [member_defs]:
  "ResultDataType_members =
    [\<lparr>memberName = ''ResultMetaData'', memberType = Builtin UA_ExtensionObject,
       padding = No_Gap, isArray = False, isOptional = False\<rparr>,
     \<lparr>memberName = ''ResultContent'', memberType = Builtin UA_Variant,
       padding = Gap ''UA_ResultDataType'' ''resultContentSize'' ''resultMetaData'' (Sizeof (Basic UA_ExtensionObject)), isArray = True, isOptional = False\<rparr>]"

definition ResultMetaDataType_members :: "data_member list" where [member_defs]:
  "ResultMetaDataType_members =
    [\<lparr>memberName = ''ResultId'', memberType = Builtin UA_String,
       padding = No_Gap, isArray = False, isOptional = False\<rparr>,
     \<lparr>memberName = ''HasTransferableDataOnFile'', memberType = Builtin UA_Boolean,
       padding = Gap ''UA_ResultMetaDataType'' ''hasTransferableDataOnFile'' ''resultId'' (Sizeof (Basic UA_String)), isArray = False, isOptional = True\<rparr>,
     \<lparr>memberName = ''IsPartial'', memberType = Builtin UA_Boolean,
       padding = Gap ''UA_ResultMetaDataType'' ''isPartial'' ''hasTransferableDataOnFile'' Void_Ptr, isArray = False, isOptional = True\<rparr>,
     \<lparr>memberName = ''IsSimulated'', memberType = Builtin UA_Boolean,
       padding = Gap ''UA_ResultMetaDataType'' ''isSimulated'' ''isPartial'' Void_Ptr, isArray = False, isOptional = True\<rparr>,
     \<lparr>memberName = ''ResultState'', memberType = Builtin UA_Int32,
       padding = Gap ''UA_ResultMetaDataType'' ''resultState'' ''isSimulated'' Void_Ptr, isArray = False, isOptional = True\<rparr>,
     \<lparr>memberName = ''StepId'', memberType = Builtin UA_String,
       padding = Gap ''UA_ResultMetaDataType'' ''stepId'' ''resultState'' Void_Ptr, isArray = False, isOptional = True\<rparr>,
     \<lparr>memberName = ''PartId'', memberType = Builtin UA_String,
       padding = Gap ''UA_ResultMetaDataType'' ''partId'' ''stepId'' Void_Ptr, isArray = False, isOptional = True\<rparr>,
     \<lparr>memberName = ''ExternalRecipeId'', memberType = Builtin UA_String,
       padding = Gap ''UA_ResultMetaDataType'' ''externalRecipeId'' ''partId'' Void_Ptr, isArray = False, isOptional = True\<rparr>,
     \<lparr>memberName = ''InternalRecipeId'', memberType = Builtin UA_String,
       padding = Gap ''UA_ResultMetaDataType'' ''internalRecipeId'' ''externalRecipeId'' Void_Ptr, isArray = False, isOptional = True\<rparr>,
     \<lparr>memberName = ''ProductId'', memberType = Builtin UA_String,
       padding = Gap ''UA_ResultMetaDataType'' ''productId'' ''internalRecipeId'' Void_Ptr, isArray = False, isOptional = True\<rparr>,
     \<lparr>memberName = ''ExternalConfigurationId'', memberType = Builtin UA_String,
       padding = Gap ''UA_ResultMetaDataType'' ''externalConfigurationId'' ''productId'' Void_Ptr, isArray = False, isOptional = True\<rparr>,
     \<lparr>memberName = ''InternalConfigurationId'', memberType = Builtin UA_String,
       padding = Gap ''UA_ResultMetaDataType'' ''internalConfigurationId'' ''externalConfigurationId'' Void_Ptr, isArray = False, isOptional = True\<rparr>,
     \<lparr>memberName = ''JobId'', memberType = Builtin UA_String,
       padding = Gap ''UA_ResultMetaDataType'' ''jobId'' ''internalConfigurationId'' Void_Ptr, isArray = False, isOptional = True\<rparr>,
     \<lparr>memberName = ''CreationTime'', memberType = Builtin UA_DateTime,
       padding = Gap ''UA_ResultMetaDataType'' ''creationTime'' ''jobId'' Void_Ptr, isArray = False, isOptional = True\<rparr>,
     \<lparr>memberName = ''ProcessingTimes'', memberType = Entry Machinery_Result_Table UA_TYPES_MACHINERY_RESULT_PROCESSINGTIMESDATATYPE,
       padding = Gap ''UA_ResultMetaDataType'' ''processingTimes'' ''creationTime'' Void_Ptr, isArray = False, isOptional = True\<rparr>,
     \<lparr>memberName = ''ResultUri'', memberType = Builtin UA_String,
       padding = Gap ''UA_ResultMetaDataType'' ''resultUriSize'' ''processingTimes'' Void_Ptr, isArray = True, isOptional = True\<rparr>,
     \<lparr>memberName = ''ResultEvaluation'', memberType = Entry Machinery_Result_Table UA_TYPES_MACHINERY_RESULT_RESULTEVALUATIONENUM,
       padding = Gap ''UA_ResultMetaDataType'' ''resultEvaluation'' ''resultUri'' Void_Ptr, isArray = False, isOptional = True\<rparr>,
     \<lparr>memberName = ''ResultEvaluationCode'', memberType = Builtin UA_Int64,
       padding = Gap ''UA_ResultMetaDataType'' ''resultEvaluationCode'' ''resultEvaluation'' Void_Ptr, isArray = False, isOptional = True\<rparr>,
     \<lparr>memberName = ''ResultEvaluationDetails'', memberType = Builtin UA_LocalizedText,
       padding = Gap ''UA_ResultMetaDataType'' ''resultEvaluationDetails'' ''resultEvaluationCode'' Void_Ptr, isArray = False, isOptional = True\<rparr>,
     \<lparr>memberName = ''FileFormat'', memberType = Builtin UA_String,
       padding = Gap ''UA_ResultMetaDataType'' ''fileFormatSize'' ''resultEvaluationDetails'' Void_Ptr, isArray = True, isOptional = True\<rparr>]"

definition ResultEvaluationEnum_members :: "data_member list" where [member_defs]:
  "ResultEvaluationEnum_members = []"

definition BaseResultTransferOptionsDataType_type :: data_type where [entry_defs]:
  "BaseResultTransferOptionsDataType_type =
    \<lparr>typeName = ''BaseResultTransferOptionsDataType'', typeId = (0, 3005), binaryEncodingId = (0, 0),
     memSize = ''UA_BaseResultTransferOptionsDataType'', typeKind = UA_DATATYPEKIND_STRUCTURE,
     pointerFree = False, overlayable = Not_Overlayable, membersSize = 1,
     typeMembers = BaseResultTransferOptionsDataType_members\<rparr>"

definition ResultTransferOptionsDataType_type :: data_type where [entry_defs]:
  "ResultTransferOptionsDataType_type =
    \<lparr>typeName = ''ResultTransferOptionsDataType'', typeId = (0, 3004), binaryEncodingId = (0, 5001),
     memSize = ''UA_ResultTransferOptionsDataType'', typeKind = UA_DATATYPEKIND_STRUCTURE,
     pointerFree = False, overlayable = Not_Overlayable, membersSize = 1,
     typeMembers = ResultTransferOptionsDataType_members\<rparr>"

definition ProcessingTimesDataType_type :: data_type where [entry_defs]:
  "ProcessingTimesDataType_type =
    \<lparr>typeName = ''ProcessingTimesDataType'', typeId = (0, 3006), binaryEncodingId = (0, 5003),
     memSize = ''UA_ProcessingTimesDataType'', typeKind = UA_DATATYPEKIND_OPTSTRUCT,
     pointerFree = False, overlayable = Not_Overlayable, membersSize = 4,
     typeMembers = ProcessingTimesDataType_members\<rparr>"

definition ResultDataType_type :: data_type where [entry_defs]:
  "ResultDataType_type =
    \<lparr>typeName = ''ResultDataType'', typeId = (0, 3008), binaryEncodingId = (0, 5008),
     memSize = ''UA_ResultDataType'', typeKind = UA_DATATYPEKIND_STRUCTURE,
     pointerFree = False, overlayable = Not_Overlayable, membersSize = 2,
     typeMembers = ResultDataType_members\<rparr>"

definition ResultEvaluationEnum_type :: data_type where [entry_defs]:
  "ResultEvaluationEnum_type =
    \<lparr>typeName = ''ResultEvaluationEnum'', typeId = (0, 3002), binaryEncodingId = (0, 0),
     memSize = ''UA_ResultEvaluationEnum'', typeKind = UA_DATATYPEKIND_ENUM,
     pointerFree = True, overlayable = UA_BINARY_OVERLAYABLE_INTEGER, membersSize = 0,
     typeMembers = ResultEvaluationEnum_members\<rparr>"

definition ResultMetaDataType_type :: data_type where [entry_defs]:
  "ResultMetaDataType_type =
    \<lparr>typeName = ''ResultMetaDataType'', typeId = (0, 3007), binaryEncodingId = (0, 5005),
     memSize = ''UA_ResultMetaDataType'', typeKind = UA_DATATYPEKIND_OPTSTRUCT,
     pointerFree = False, overlayable = Not_Overlayable, membersSize = 20,
     typeMembers = ResultMetaDataType_members\<rparr>"

definition UA_TYPES_MACHINERY_RESULT :: "data_type list" where
  "UA_TYPES_MACHINERY_RESULT =
    [BaseResultTransferOptionsDataType_type, ResultTransferOptionsDataType_type,
     ProcessingTimesDataType_type, ResultDataType_type, ResultEvaluationEnum_type,
     ResultMetaDataType_type]"

definition UA_BaseResultTransferOptionsDataType_functions :: type_functions where [function_defs]:
  "UA_BaseResultTransferOptionsDataType_functions =
    (let r = Entry Machinery_Result_Table UA_TYPES_MACHINERY_RESULT_BASERESULTTRANSFEROPTIONSDATATYPE in
     \<lparr>fn_init = ''UA_BaseResultTransferOptionsDataType'', fn_new = r, fn_copy = r,
      fn_deleteMembers = Some r, fn_clear = r, fn_delete = r, fn_equal = Some r\<rparr>)"

definition UA_ResultTransferOptionsDataType_functions :: type_functions where [function_defs]:
  "UA_ResultTransferOptionsDataType_functions =
    (let r = Entry Machinery_Result_Table UA_TYPES_MACHINERY_RESULT_RESULTTRANSFEROPTIONSDATATYPE in
     \<lparr>fn_init = ''UA_ResultTransferOptionsDataType'', fn_new = r, fn_copy = r,
      fn_deleteMembers = Some r, fn_clear = r, fn_delete = r, fn_equal = Some r\<rparr>)"

definition UA_ProcessingTimesDataType_functions :: type_functions where [function_defs]:
  "UA_ProcessingTimesDataType_functions =
    (let r = Entry Machinery_Result_Table UA_TYPES_MACHINERY_RESULT_PROCESSINGTIMESDATATYPE in
     \<lparr>fn_init = ''UA_ProcessingTimesDataType'', fn_new = r, fn_copy = r,
      fn_deleteMembers = Some r, fn_clear = r, fn_delete = r, fn_equal = Some r\<rparr>)"

definition UA_ResultDataType_functions :: type_functions where [function_defs]:
  "UA_ResultDataType_functions =
    (let r = Entry Machinery_Result_Table UA_TYPES_MACHINERY_RESULT_RESULTDATATYPE in
     \<lparr>fn_init = ''UA_ResultDataType'', fn_new = r, fn_copy = r,
      fn_deleteMembers = Some r, fn_clear = r, fn_delete = r, fn_equal = Some r\<rparr>)"

definition UA_ResultMetaDataType_functions :: type_functions where [function_defs]:
  "UA_ResultMetaDataType_functions =
    (let r = Entry Machinery_Result_Table UA_TYPES_MACHINERY_RESULT_RESULTMETADATATYPE in
     \<lparr>fn_init = ''UA_ResultMetaDataType'', fn_new = r, fn_copy = r,
      fn_deleteMembers = Some r, fn_clear = r, fn_delete = r, fn_equal = Some r\<rparr>)"

definition UA_ResultEvaluationEnum_functions :: type_functions where [function_defs]:
  "UA_ResultEvaluationEnum_functions =
    (let r = Entry Machinery_Result_Table UA_TYPES_MACHINERY_RESULT_RESULTEVALUATIONENUM in
     \<lparr>fn_init = ''UA_ResultEvaluationEnum'', fn_new = r, fn_copy = r,
      fn_deleteMembers = Some r, fn_clear = r, fn_delete = r, fn_equal = Some r\<rparr>)"

section \<open>\<^verbatim>\<open>types_ijt_base_generated\<close>\<close>

definition UA_TYPES_IJT_GENERATED_COUNT :: nat where [type_indices]:
  "UA_TYPES_IJT_GENERATED_COUNT = 22"

definition UA_TYPES_IJT_GENERATED_CALIBRATIONDATATYPE :: nat where [type_indices]:
  "UA_TYPES_IJT_GENERATED_CALIBRATIONDATATYPE = 0"

definition UA_TYPES_IJT_GENERATED_DESIGNVALUEDATATYPE :: nat where [type_indices]:
  "UA_TYPES_IJT_GENERATED_DESIGNVALUEDATATYPE = 1"

definition UA_TYPES_IJT_GENERATED_ENTITYDATATYPE :: nat where [type_indices]:
  "UA_TYPES_IJT_GENERATED_ENTITYDATATYPE = 2"

definition UA_TYPES_IJT_GENERATED_ERRORINFORMATIONDATATYPE :: nat where [type_indices]:
  "UA_TYPES_IJT_GENERATED_ERRORINFORMATIONDATATYPE = 3"

definition UA_TYPES_IJT_GENERATED_JOININGPROCESSDATATYPE :: nat where [type_indices]:
  "UA_TYPES_IJT_GENERATED_JOININGPROCESSDATATYPE = 4"

definition UA_TYPES_IJT_GENERATED_JOININGPROCESSIDENTIFICATIONDATATYPE :: nat where [type_indices]:
  "UA_TYPES_IJT_GENERATED_JOININGPROCESSIDENTIFICATIONDATATYPE = 5"

definition UA_TYPES_IJT_GENERATED_JOININGPROCESSMETADATATYPE :: nat where [type_indices]:
  "UA_TYPES_IJT_GENERATED_JOININGPROCESSMETADATATYPE = 6"

definition UA_TYPES_IJT_GENERATED_JOINTCOMPONENTDATATYPE :: nat where [type_indices]:
  "UA_TYPES_IJT_GENERATED_JOINTCOMPONENTDATATYPE = 7"

definition UA_TYPES_IJT_GENERATED_JOINTDATATYPE :: nat where [type_indices]:
  "UA_TYPES_IJT_GENERATED_JOINTDATATYPE = 8"

definition UA_TYPES_IJT_GENERATED_JOINTDESIGNDATATYPE :: nat where [type_indices]:
  "UA_TYPES_IJT_GENERATED_JOINTDESIGNDATATYPE = 9"

definition UA_TYPES_IJT_GENERATED_KEYVALUEDATATYPE :: nat where [type_indices]:
  "UA_TYPES_IJT_GENERATED_KEYVALUEDATATYPE = 10"

definition UA_TYPES_IJT_GENERATED_REPORTEDVALUEDATATYPE :: nat where [type_indices]:
  "UA_TYPES_IJT_GENERATED_REPORTEDVALUEDATATYPE = 11"

definition UA_TYPES_IJT_GENERATED_RESULTCOUNTERDATATYPE :: nat where [type_indices]:
  "UA_TYPES_IJT_GENERATED_RESULTCOUNTERDATATYPE = 12"

definition UA_TYPES_IJT_GENERATED_JOININGRESULTMETADATATYPE :: nat where [type_indices]:
  "UA_TYPES_IJT_GENERATED_JOININGRESULTMETADATATYPE = 13"

definition UA_TYPES_IJT_GENERATED_RESULTVALUEDATATYPE :: nat where [type_indices]:
  "UA_TYPES_IJT_GENERATED_RESULTVALUEDATATYPE = 14"

definition UA_TYPES_IJT_GENERATED_SIGNALDATATYPE :: nat where [type_indices]:
  "UA_TYPES_IJT_GENERATED_SIGNALDATATYPE = 15"

definition UA_TYPES_IJT_GENERATED_STEPRESULTDATATYPE :: nat where [type_indices]:
  "UA_TYPES_IJT_GENERATED_STEPRESULTDATATYPE = 16"

definition UA_TYPES_IJT_GENERATED_TRACECONTENTDATATYPE :: nat where [type_indices]:
  "UA_TYPES_IJT_GENERATED_TRACECONTENTDATATYPE = 17"

definition UA_TYPES_IJT_GENERATED_TRACEDATATYPE :: nat where [type_indices]:
  "UA_TYPES_IJT_GENERATED_TRACEDATATYPE = 18"

definition UA_TYPES_IJT_GENERATED_STEPTRACEDATATYPE :: nat where [type_indices]:
  "UA_TYPES_IJT_GENERATED_STEPTRACEDATATYPE = 19"

definition UA_TYPES_IJT_GENERATED_JOININGTRACEDATATYPE :: nat where [type_indices]:
  "UA_TYPES_IJT_GENERATED_JOININGTRACEDATATYPE = 20"

definition UA_TYPES_IJT_GENERATED_JOININGRESULTDATATYPE :: nat where [type_indices]:
  "UA_TYPES_IJT_GENERATED_JOININGRESULTDATATYPE = 21"

definition UA_CalibrationDataType :: c_struct where [struct_defs]:
  "UA_CalibrationDataType =
    [(''lastCalibration'', Plain (Basic UA_DateTime)),
     (''calibrationPlace'', Ptr (Basic UA_String)), (''nextCalibration'', Ptr (Basic UA_DateTime)),
     (''calibrationValue'', Ptr (Basic UA_Double)), (''sensorScale'', Ptr (Basic UA_Double)),
     (''certificateUri'', Ptr (Basic UA_String)),
     (''engineeringUnits'', Ptr (Basic UA_EUInformation))]"

definition UA_DesignValueDataType :: c_struct where [struct_defs]:
  "UA_DesignValueDataType =
    [(''physicalQuantity'', Ptr (Basic UA_Byte)), (''name'', Ptr (Basic UA_String)),
     (''designValue'', Ptr (Basic UA_Variant)), (''engineeringUnits'', Ptr (Basic UA_EUInformation))]"

definition UA_EntityDataType :: c_struct where [struct_defs]:
  "UA_EntityDataType =
    [(''name'', Ptr (Basic UA_String)), (''description'', Ptr (Basic UA_String)),
     (''entityId'', Plain (Basic UA_String)), (''entityOriginId'', Ptr (Basic UA_String)),
     (''isExternal'', Ptr (Basic UA_Boolean)), (''entityType'', Plain (Basic UA_Int16))]"

definition UA_ErrorInformationDataType :: c_struct where [struct_defs]:
  "UA_ErrorInformationDataType =
    [(''errorType'', Plain (Basic UA_Byte)), (''errorId'', Ptr (Basic UA_String)),
     (''legacyError'', Ptr (Basic UA_String)), (''errorMessage'', Ptr (Basic UA_LocalizedText))]"

definition UA_JoiningProcessDataType :: c_struct where [struct_defs]:
  "UA_JoiningProcessDataType =
    [(''joiningProcessMetaData'', Plain (Basic UA_ExtensionObject)),
     (''joiningProcessContentSize'', Size_t), (''joiningProcessContent'', Ptr (Basic UA_Variant))]"

definition UA_JoiningProcessIdentificationDataType :: c_struct where [struct_defs]:
  "UA_JoiningProcessIdentificationDataType =
    [(''joiningProcessId'', Ptr (Basic UA_String)),
     (''joiningProcessOriginId'', Ptr (Basic UA_String)), (''selectionName'', Ptr (Basic UA_String))]"

definition UA_JoiningProcessMetaDataType :: c_struct where [struct_defs]:
  "UA_JoiningProcessMetaDataType =
    [(''joiningProcessId'', Plain (Basic UA_String)),
     (''joiningProcessOriginId'', Ptr (Basic UA_String)),
     (''creationTime'', Ptr (Basic UA_DateTime)), (''lastUpdatedTime'', Ptr (Basic UA_DateTime)),
     (''name'', Ptr (Basic UA_String)), (''description'', Ptr (Basic UA_LocalizedText)),
     (''joiningTechnology'', Ptr (Basic UA_LocalizedText)),
     (''classification'', Ptr (Basic UA_Int16)), (''associatedEntitiesSize'', Size_t),
     (''associatedEntities'', Ptr (Named ''UA_EntityDataType''))]"

definition UA_JointComponentDataType :: c_struct where [struct_defs]:
  "UA_JointComponentDataType =
    [(''jointComponentId'', Plain (Basic UA_String)), (''name'', Ptr (Basic UA_String)),
     (''description'', Ptr (Basic UA_LocalizedText)),
     (''manufacturer'', Ptr (Basic UA_LocalizedText)), (''manufacturerUri'', Ptr (Basic UA_String)),
     (''jointComponentContent'', Ptr (Basic UA_Variant))]"

definition UA_JointDataType :: c_struct where [struct_defs]:
  "UA_JointDataType =
    [(''jointId'', Plain (Basic UA_String)), (''jointOriginId'', Ptr (Basic UA_String)),
     (''jointDesignId'', Ptr (Basic UA_String)), (''creationTime'', Ptr (Basic UA_DateTime)),
     (''lastUpdatedTime'', Ptr (Basic UA_DateTime)), (''name'', Ptr (Basic UA_String)),
     (''description'', Ptr (Basic UA_LocalizedText)), (''classification'', Ptr (Basic UA_Int16)),
     (''classificationDetails'', Ptr (Basic UA_LocalizedText)),
     (''jointStatus'', Ptr (Basic UA_String)), (''associatedEntitiesSize'', Size_t),
     (''associatedEntities'', Ptr (Named ''UA_EntityDataType'')),
     (''joiningTechnology'', Ptr (Basic UA_LocalizedText))]"

definition UA_JointDesignDataType :: c_struct where [struct_defs]:
  "UA_JointDesignDataType =
    [(''jointDesignId'', Plain (Basic UA_String)), (''name'', Ptr (Basic UA_String)),
     (''description'', Ptr (Basic UA_LocalizedText)), (''jointDesignContentSize'', Size_t),
     (''jointDesignContent'', Ptr (Named ''UA_DesignValueDataType'')),
     (''jointComponentIdListSize'', Size_t), (''jointComponentIdList'', Ptr (Basic UA_String))]"

definition UA_KeyValueDataType :: c_struct where [struct_defs]:
  "UA_KeyValueDataType =
    [(''key'', Plain (Basic UA_String)), (''value'', Plain (Basic UA_Variant))]"

definition UA_ReportedValueDataType :: c_struct where [struct_defs]:
  "UA_ReportedValueDataType =
    [(''physicalQuantity'', Ptr (Basic UA_Byte)), (''name'', Ptr (Basic UA_String)),
     (''currentValue'', Plain (Basic UA_Variant)), (''previousValue'', Ptr (Basic UA_Variant)),
     (''lowLimit'', Ptr (Basic UA_Double)), (''highLimit'', Ptr (Basic UA_Double)),
     (''engineeringUnits'', Ptr (Basic UA_EUInformation))]"

definition UA_ResultCounterDataType :: c_struct where [struct_defs]:
  "UA_ResultCounterDataType =
    [(''name'', Ptr (Basic UA_String)), (''counterValue'', Plain (Basic UA_UInt32)),
     (''counterType'', Plain (Basic UA_Int16))]"

definition UA_JoiningResultMetaDataType :: c_struct where [struct_defs]:
  "UA_JoiningResultMetaDataType =
    [(''resultId'', Plain (Basic UA_String)),
     (''hasTransferableDataOnFile'', Ptr (Basic UA_Boolean)),
     (''isPartial'', Ptr (Basic UA_Boolean)), (''isSimulated'', Ptr (Basic UA_Boolean)),
     (''resultState'', Ptr (Basic UA_Int32)), (''stepId'', Ptr (Basic UA_String)),
     (''partId'', Ptr (Basic UA_String)), (''externalRecipeId'', Ptr (Basic UA_String)),
     (''internalRecipeId'', Ptr (Basic UA_String)), (''productId'', Ptr (Basic UA_String)),
     (''externalConfigurationId'', Ptr (Basic UA_String)),
     (''internalConfigurationId'', Ptr (Basic UA_String)), (''jobId'', Ptr (Basic UA_String)),
     (''creationTime'', Ptr (Basic UA_DateTime)),
     (''processingTimes'', Ptr (Named ''UA_ProcessingTimesDataType'')), (''resultUriSize'', Size_t),
     (''resultUri'', Ptr (Basic UA_String)),
     (''resultEvaluation'', Ptr (Named ''UA_ResultEvaluationEnum'')),
     (''resultEvaluationCode'', Ptr (Basic UA_Int64)),
     (''resultEvaluationDetails'', Ptr (Basic UA_LocalizedText)), (''fileFormatSize'', Size_t),
     (''fileFormat'', Ptr (Basic UA_String)), (''joiningTechnology'', Ptr (Basic UA_LocalizedText)),
     (''sequenceNumber'', Ptr (Basic UA_UInt64)), (''name'', Ptr (Basic UA_String)),
     (''description'', Ptr (Basic UA_LocalizedText)), (''classification'', Ptr (Basic UA_Byte)),
     (''operationMode'', Ptr (Basic UA_Byte)), (''assemblyType'', Ptr (Basic UA_Byte)),
     (''associatedEntitiesSize'', Size_t),
     (''associatedEntities'', Ptr (Named ''UA_EntityDataType'')), (''resultCountersSize'', Size_t),
     (''resultCounters'', Ptr (Named ''UA_ResultCounterDataType'')),
     (''interventionType'', Ptr (Basic UA_Byte)), (''isGeneratedOffline'', Ptr (Basic UA_Boolean)),
     (''extendedMetaDataSize'', Size_t), (''extendedMetaData'', Ptr (Named ''UA_KeyValueDataType''))]"

definition UA_ResultValueDataType :: c_struct where [struct_defs]:
  "UA_ResultValueDataType =
    [(''measuredValue'', Plain (Basic UA_Double)), (''name'', Ptr (Basic UA_String)),
     (''resultEvaluation'', Ptr (Named ''UA_ResultEvaluationEnum'')),
     (''valueId'', Ptr (Basic UA_String)), (''valueTag'', Ptr (Basic UA_Int16)),
     (''tracePointIndex'', Ptr (Basic UA_Int32)), (''tracePointTimeOffset'', Ptr (Basic UA_Double)),
     (''parameterIdListSize'', Size_t), (''parameterIdList'', Ptr (Basic UA_String)),
     (''violationType'', Ptr (Basic UA_Byte)), (''violationConsequence'', Ptr (Basic UA_Byte)),
     (''sensorId'', Ptr (Basic UA_String)), (''lowLimit'', Ptr (Basic UA_Double)),
     (''highLimit'', Ptr (Basic UA_Double)), (''targetValue'', Ptr (Basic UA_Double)),
     (''resultStep'', Ptr (Basic UA_String)), (''physicalQuantity'', Ptr (Basic UA_Byte)),
     (''engineeringUnits'', Ptr (Basic UA_EUInformation))]"

definition UA_SignalDataType :: c_struct where [struct_defs]:
  "UA_SignalDataType =
    [(''signalId'', Plain (Basic UA_String)), (''signalValue'', Plain (Basic UA_Variant)),
     (''signalDescription'', Plain (Basic UA_String)), (''signalType'', Plain (Basic UA_Int16))]"

definition UA_StepResultDataType :: c_struct where [struct_defs]:
  "UA_StepResultDataType =
    [(''stepResultId'', Plain (Basic UA_String)), (''programStepId'', Ptr (Basic UA_String)),
     (''programStep'', Ptr (Basic UA_String)), (''name'', Ptr (Basic UA_String)),
     (''resultEvaluation'', Ptr (Named ''UA_ResultEvaluationEnum'')),
     (''startTimeOffset'', Ptr (Basic UA_Double)), (''stepTraceId'', Ptr (Basic UA_String)),
     (''stepResultValuesSize'', Size_t),
     (''stepResultValues'', Ptr (Named ''UA_ResultValueDataType''))]"

definition UA_TraceContentDataType :: c_struct where [struct_defs]:
  "UA_TraceContentDataType =
    [(''valuesSize'', Size_t), (''values'', Ptr (Basic UA_Double)),
     (''sensorId'', Ptr (Basic UA_String)), (''name'', Ptr (Basic UA_String)),
     (''description'', Ptr (Basic UA_String)), (''physicalQuantity'', Ptr (Basic UA_Byte)),
     (''engineeringUnits'', Ptr (Basic UA_EUInformation))]"

definition UA_TraceDataType :: c_struct where [struct_defs]:
  "UA_TraceDataType =
    [(''traceId'', Plain (Basic UA_String)), (''resultId'', Plain (Basic UA_String))]"

definition UA_StepTraceDataType :: c_struct where [struct_defs]:
  "UA_StepTraceDataType =
    [(''stepTraceId'', Plain (Basic UA_String)), (''stepResultId'', Plain (Basic UA_String)),
     (''numberOfTracePoints'', Plain (Basic UA_UInt32)),
     (''samplingInterval'', Ptr (Basic UA_Double)), (''startTimeOffset'', Ptr (Basic UA_Double)),
     (''stepTraceContentSize'', Size_t),
     (''stepTraceContent'', Ptr (Named ''UA_TraceContentDataType''))]"

definition UA_JoiningTraceDataType :: c_struct where [struct_defs]:
  "UA_JoiningTraceDataType =
    [(''traceId'', Plain (Basic UA_String)), (''resultId'', Plain (Basic UA_String)),
     (''stepTracesSize'', Size_t), (''stepTraces'', Ptr (Named ''UA_StepTraceDataType''))]"

definition UA_JoiningResultDataType :: c_struct where [struct_defs]:
  "UA_JoiningResultDataType =
    [(''failureReason'', Ptr (Basic UA_Byte)), (''overallResultValuesSize'', Size_t),
     (''overallResultValues'', Ptr (Named ''UA_ResultValueDataType'')),
     (''stepResultsSize'', Size_t), (''stepResults'', Ptr (Named ''UA_StepResultDataType'')),
     (''errorsSize'', Size_t), (''errors'', Ptr (Named ''UA_ErrorInformationDataType'')),
     (''failingStepResultId'', Ptr (Basic UA_String)),
     (''trace'', Ptr (Named ''UA_JoiningTraceDataType''))]"

definition CalibrationDataType_members :: "data_member list" where [member_defs]:
  "CalibrationDataType_members =
    [\<lparr>memberName = ''LastCalibration'', memberType = Builtin UA_DateTime,
       padding = No_Gap, isArray = False, isOptional = False\<rparr>,
     \<lparr>memberName = ''CalibrationPlace'', memberType = Builtin UA_String,
       padding = Gap ''UA_CalibrationDataType'' ''calibrationPlace'' ''lastCalibration'' (Sizeof (Basic UA_DateTime)), isArray = False, isOptional = True\<rparr>,
     \<lparr>memberName = ''NextCalibration'', memberType = Builtin UA_DateTime,
       padding = Gap ''UA_CalibrationDataType'' ''nextCalibration'' ''calibrationPlace'' Void_Ptr, isArray = False, isOptional = True\<rparr>,
     \<lparr>memberName = ''CalibrationValue'', memberType = Builtin UA_Double,
       padding = Gap ''UA_CalibrationDataType'' ''calibrationValue'' ''nextCalibration'' Void_Ptr, isArray = False, isOptional = True\<rparr>,
     \<lparr>memberName = ''SensorScale'', memberType = Builtin UA_Double,
       padding = Gap ''UA_CalibrationDataType'' ''sensorScale'' ''calibrationValue'' Void_Ptr, isArray = False, isOptional = True\<rparr>,
     \<lparr>memberName = ''CertificateUri'', memberType = Builtin UA_String,
       padding = Gap ''UA_CalibrationDataType'' ''certificateUri'' ''sensorScale'' Void_Ptr, isArray = False, isOptional = True\<rparr>,
     \<lparr>memberName = ''EngineeringUnits'', memberType = Builtin UA_EUInformation,
       padding = Gap ''UA_CalibrationDataType'' ''engineeringUnits'' ''certificateUri'' Void_Ptr, isArray = False, isOptional = True\<rparr>]"

definition DesignValueDataType_members :: "data_member list" where [member_defs]:
  "DesignValueDataType_members =
    [\<lparr>memberName = ''PhysicalQuantity'', memberType = Builtin UA_Byte,
       padding = No_Gap, isArray = False, isOptional = True\<rparr>,
     \<lparr>memberName = ''Name'', memberType = Builtin UA_String,
       padding = Gap ''UA_DesignValueDataType'' ''name'' ''physicalQuantity'' Void_Ptr, isArray = False, isOptional = True\<rparr>,
     \<lparr>memberName = ''DesignValue'', memberType = Builtin UA_Variant,
       padding = Gap ''UA_DesignValueDataType'' ''designValue'' ''name'' Void_Ptr, isArray = False, isOptional = True\<rparr>,
     \<lparr>memberName = ''EngineeringUnits'', memberType = Builtin UA_EUInformation,
       padding = Gap ''UA_DesignValueDataType'' ''engineeringUnits'' ''designValue'' Void_Ptr, isArray = False, isOptional = True\<rparr>]"

definition EntityDataType_members :: "data_member list" where [member_defs]:
  "EntityDataType_members =
    [\<lparr>memberName = ''Name'', memberType = Builtin UA_String,
       padding = No_Gap, isArray = False, isOptional = True\<rparr>,
     \<lparr>memberName = ''Description'', memberType = Builtin UA_String,
       padding = Gap ''UA_EntityDataType'' ''description'' ''name'' Void_Ptr, isArray = False, isOptional = True\<rparr>,
     \<lparr>memberName = ''EntityId'', memberType = Builtin UA_String,
       padding = Gap ''UA_EntityDataType'' ''entityId'' ''description'' Void_Ptr, isArray = False, isOptional = False\<rparr>,
     \<lparr>memberName = ''EntityOriginId'', memberType = Builtin UA_String,
       padding = Gap ''UA_EntityDataType'' ''entityOriginId'' ''entityId'' (Sizeof (Basic UA_String)), isArray = False, isOptional = True\<rparr>,
     \<lparr>memberName = ''IsExternal'', memberType = Builtin UA_Boolean,
       padding = Gap ''UA_EntityDataType'' ''isExternal'' ''entityOriginId'' Void_Ptr, isArray = False, isOptional = True\<rparr>,
     \<lparr>memberName = ''EntityType'', memberType = Builtin UA_Int16,
       padding = Gap ''UA_EntityDataType'' ''entityType'' ''isExternal'' Void_Ptr, isArray = False, isOptional = False\<rparr>]"

definition ErrorInformationDataType_members :: "data_member list" where [member_defs]:
  "ErrorInformationDataType_members =
    [\<lparr>memberName = ''ErrorType'', memberType = Builtin UA_Byte,
       padding = No_Gap, isArray = False, isOptional = False\<rparr>,
     \<lparr>memberName = ''ErrorId'', memberType = Builtin UA_String,
       padding = Gap ''UA_ErrorInformationDataType'' ''errorId'' ''errorType'' (Sizeof (Basic UA_Byte)), isArray = False, isOptional = True\<rparr>,
     \<lparr>memberName = ''LegacyError'', memberType = Builtin UA_String,
       padding = Gap ''UA_ErrorInformationDataType'' ''legacyError'' ''errorId'' Void_Ptr, isArray = False, isOptional = True\<rparr>,
     \<lparr>memberName = ''ErrorMessage'', memberType = Builtin UA_LocalizedText,
       padding = Gap ''UA_ErrorInformationDataType'' ''errorMessage'' ''legacyError'' Void_Ptr, isArray = False, isOptional = True\<rparr>]"

definition JoiningProcessDataType_members :: "data_member list" where [member_defs]:
  "JoiningProcessDataType_members =
    [\<lparr>memberName = ''JoiningProcessMetaData'', memberType = Builtin UA_ExtensionObject,
       padding = No_Gap, isArray = False, isOptional = False\<rparr>,
     \<lparr>memberName = ''JoiningProcessContent'', memberType = Builtin UA_Variant,
       padding = Gap ''UA_JoiningProcessDataType'' ''joiningProcessContentSize'' ''joiningProcessMetaData'' (Sizeof (Basic UA_ExtensionObject)), isArray = True, isOptional = False\<rparr>]"

definition JoiningProcessIdentificationDataType_members :: "data_member list" where [member_defs]:
  "JoiningProcessIdentificationDataType_members =
    [\<lparr>memberName = ''JoiningProcessId'', memberType = Builtin UA_String,
       padding = No_Gap, isArray = False, isOptional = True\<rparr>,
     \<lparr>memberName = ''JoiningProcessOriginId'', memberType = Builtin UA_String,
       padding = Gap ''UA_JoiningProcessIdentificationDataType'' ''joiningProcessOriginId'' ''joiningProcessId'' Void_Ptr, isArray = False, isOptional = True\<rparr>,
     \<lparr>memberName = ''SelectionName'', memberType = Builtin UA_String,
       padding = Gap ''UA_JoiningProcessIdentificationDataType'' ''selectionName'' ''joiningProcessOriginId'' Void_Ptr, isArray = False, isOptional = True\<rparr>]"

definition JoiningProcessMetaDataType_members :: "data_member list" where [member_defs]:
  "JoiningProcessMetaDataType_members =
    [\<lparr>memberName = ''JoiningProcessId'', memberType = Builtin UA_String,
       padding = No_Gap, isArray = False, isOptional = False\<rparr>,
     \<lparr>memberName = ''JoiningProcessOriginId'', memberType = Builtin UA_String,
       padding = Gap ''UA_JoiningProcessMetaDataType'' ''joiningProcessOriginId'' ''joiningProcessId'' (Sizeof (Basic UA_String)), isArray = False, isOptional = True\<rparr>,
     \<lparr>memberName = ''CreationTime'', memberType = Builtin UA_DateTime,
       padding = Gap ''UA_JoiningProcessMetaDataType'' ''creationTime'' ''joiningProcessOriginId'' Void_Ptr, isArray = False, isOptional = True\<rparr>,
     \<lparr>memberName = ''LastUpdatedTime'', memberType = Builtin UA_DateTime,
       padding = Gap ''UA_JoiningProcessMetaDataType'' ''lastUpdatedTime'' ''creationTime'' Void_Ptr, isArray = False, isOptional = True\<rparr>,
     \<lparr>memberName = ''Name'', memberType = Builtin UA_String,
       padding = Gap ''UA_JoiningProcessMetaDataType'' ''name'' ''lastUpdatedTime'' Void_Ptr, isArray = False, isOptional = True\<rparr>,
     \<lparr>memberName = ''Description'', memberType = Builtin UA_LocalizedText,
       padding = Gap ''UA_JoiningProcessMetaDataType'' ''description'' ''name'' Void_Ptr, isArray = False, isOptional = True\<rparr>,
     \<lparr>memberName = ''JoiningTechnology'', memberType = Builtin UA_LocalizedText,
       padding = Gap ''UA_JoiningProcessMetaDataType'' ''joiningTechnology'' ''description'' Void_Ptr, isArray = False, isOptional = True\<rparr>,
     \<lparr>memberName = ''Classification'', memberType = Builtin UA_Int16,
       padding = Gap ''UA_JoiningProcessMetaDataType'' ''classification'' ''joiningTechnology'' Void_Ptr, isArray = False, isOptional = True\<rparr>,
     \<lparr>memberName = ''AssociatedEntities'', memberType = Entry IJT_Table UA_TYPES_IJT_GENERATED_ENTITYDATATYPE,
       padding = Gap ''UA_JoiningProcessMetaDataType'' ''associatedEntitiesSize'' ''classification'' Void_Ptr, isArray = True, isOptional = True\<rparr>]"

definition JointComponentDataType_members :: "data_member list" where [member_defs]:
  "JointComponentDataType_members =
    [\<lparr>memberName = ''JointComponentId'', memberType = Builtin UA_String,
       padding = No_Gap, isArray = False, isOptional = False\<rparr>,
     \<lparr>memberName = ''Name'', memberType = Builtin UA_String,
       padding = Gap ''UA_JointComponentDataType'' ''name'' ''jointComponentId'' (Sizeof (Basic UA_String)), isArray = False, isOptional = True\<rparr>,
     \<lparr>memberName = ''Description'', memberType = Builtin UA_LocalizedText,
       padding = Gap ''UA_JointComponentDataType'' ''description'' ''name'' Void_Ptr, isArray = False, isOptional = True\<rparr>,
     \<lparr>memberName = ''Manufacturer'', memberType = Builtin UA_LocalizedText,
       padding = Gap ''UA_JointComponentDataType'' ''manufacturer'' ''description'' Void_Ptr, isArray = False, isOptional = True\<rparr>,
     \<lparr>memberName = ''ManufacturerUri'', memberType = Builtin UA_String,
       padding = Gap ''UA_JointComponentDataType'' ''manufacturerUri'' ''manufacturer'' Void_Ptr, isArray = False, isOptional = True\<rparr>,
     \<lparr>memberName = ''JointComponentContent'', memberType = Builtin UA_Variant,
       padding = Gap ''UA_JointComponentDataType'' ''jointComponentContent'' ''manufacturerUri'' Void_Ptr, isArray = False, isOptional = True\<rparr>]"

definition JointDataType_members :: "data_member list" where [member_defs]:
  "JointDataType_members =
    [\<lparr>memberName = ''JointId'', memberType = Builtin UA_String,
       padding = No_Gap, isArray = False, isOptional = False\<rparr>,
     \<lparr>memberName = ''JointOriginId'', memberType = Builtin UA_String,
       padding = Gap ''UA_JointDataType'' ''jointOriginId'' ''jointId'' (Sizeof (Basic UA_String)), isArray = False, isOptional = True\<rparr>,
     \<lparr>memberName = ''JointDesignId'', memberType = Builtin UA_String,
       padding = Gap ''UA_JointDataType'' ''jointDesignId'' ''jointOriginId'' Void_Ptr, isArray = False, isOptional = True\<rparr>,
     \<lparr>memberName = ''CreationTime'', memberType = Builtin UA_DateTime,
       padding = Gap ''UA_JointDataType'' ''creationTime'' ''jointDesignId'' Void_Ptr, isArray = False, isOptional = True\<rparr>,
     \<lparr>memberName = ''LastUpdatedTime'', memberType = Builtin UA_DateTime,
       padding = Gap ''UA_JointDataType'' ''lastUpdatedTime'' ''creationTime'' Void_Ptr, isArray = False, isOptional = True\<rparr>,
     \<lparr>memberName = ''Name'', memberType = Builtin UA_String,
       padding = Gap ''UA_JointDataType'' ''name'' ''lastUpdatedTime'' Void_Ptr, isArray = False, isOptional = True\<rparr>,
     \<lparr>memberName = ''Description'', memberType = Builtin UA_LocalizedText,
       padding = Gap ''UA_JointDataType'' ''description'' ''name'' Void_Ptr, isArray = False, isOptional = True\<rparr>,
     \<lparr>memberName = ''Classification'', memberType = Builtin UA_Int16,
       padding = Gap ''UA_JointDataType'' ''classification'' ''description'' Void_Ptr, isArray = False, isOptional = True\<rparr>,
     \<lparr>memberName = ''ClassificationDetails'', memberType = Builtin UA_LocalizedText,
       padding = Gap ''UA_JointDataType'' ''classificationDetails'' ''classification'' Void_Ptr, isArray = False, isOptional = True\<rparr>,
     \<lparr>memberName = ''JointStatus'', memberType = Builtin UA_String,
       padding = Gap ''UA_JointDataType'' ''jointStatus'' ''classificationDetails'' Void_Ptr, isArray = False, isOptional = True\<rparr>,
     \<lparr>memberName = ''AssociatedEntities'', memberType = Entry IJT_Table UA_TYPES_IJT_GENERATED_ENTITYDATATYPE,
       padding = Gap ''UA_JointDataType'' ''associatedEntitiesSize'' ''jointStatus'' Void_Ptr, isArray = True, isOptional = True\<rparr>,
     \<lparr>memberName = ''JoiningTechnology'', memberType = Builtin UA_LocalizedText,
       padding = Gap ''UA_JointDataType'' ''joiningTechnology'' ''associatedEntities'' Void_Ptr, isArray = False, isOptional = True\<rparr>]"

definition JointDesignDataType_members :: "data_member list" where [member_defs]:
  "JointDesignDataType_members =
    [\<lparr>memberName = ''JointDesignId'', memberType = Builtin UA_String,
       padding = No_Gap, isArray = False, isOptional = False\<rparr>,
     \<lparr>memberName = ''Name'', memberType = Builtin UA_String,
       padding = Gap ''UA_JointDesignDataType'' ''name'' ''jointDesignId'' (Sizeof (Basic UA_String)), isArray = False, isOptional = True\<rparr>,
     \<lparr>memberName = ''Description'', memberType = Builtin UA_LocalizedText,
       padding = Gap ''UA_JointDesignDataType'' ''description'' ''name'' Void_Ptr, isArray = False, isOptional = True\<rparr>,
     \<lparr>memberName = ''JointDesignContent'', memberType = Entry IJT_Table UA_TYPES_IJT_GENERATED_DESIGNVALUEDATATYPE,
       padding = Gap ''UA_JointDesignDataType'' ''jointDesignContentSize'' ''description'' Void_Ptr, isArray = True, isOptional = True\<rparr>,
     \<lparr>memberName = ''JointComponentIdList'', memberType = Builtin UA_String,
       padding = Gap ''UA_JointDesignDataType'' ''jointComponentIdListSize'' ''jointDesignContent'' Void_Ptr, isArray = True, isOptional = True\<rparr>]"

definition KeyValueDataType_members :: "data_member list" where [member_defs]:
  "KeyValueDataType_members =
    [\<lparr>memberName = ''Key'', memberType = Builtin UA_String,
       padding = No_Gap, isArray = False, isOptional = False\<rparr>,
     \<lparr>memberName = ''Value'', memberType = Builtin UA_Variant,
       padding = Gap ''UA_KeyValueDataType'' ''value'' ''key'' (Sizeof (Basic UA_String)), isArray = False, isOptional = False\<rparr>]"

definition ReportedValueDataType_members :: "data_member list" where [member_defs]:
  "ReportedValueDataType_members =
    [\<lparr>memberName = ''PhysicalQuantity'', memberType = Builtin UA_Byte,
       padding = No_Gap, isArray = False, isOptional = True\<rparr>,
     \<lparr>memberName = ''Name'', memberType = Builtin UA_String,
       padding = Gap ''UA_ReportedValueDataType'' ''name'' ''physicalQuantity'' Void_Ptr, isArray = False, isOptional = True\<rparr>,
     \<lparr>memberName = ''CurrentValue'', memberType = Builtin UA_Variant,
       padding = Gap ''UA_ReportedValueDataType'' ''currentValue'' ''name'' Void_Ptr, isArray = False, isOptional = False\<rparr>,
     \<lparr>memberName = ''PreviousValue'', memberType = Builtin UA_Variant,
       padding = Gap ''UA_ReportedValueDataType'' ''previousValue'' ''currentValue'' (Sizeof (Basic UA_Variant)), isArray = False, isOptional = True\<rparr>,
     \<lparr>memberName = ''LowLimit'', memberType = Builtin UA_Double,
       padding = Gap ''UA_ReportedValueDataType'' ''lowLimit'' ''previousValue'' Void_Ptr, isArray = False, isOptional = True\<rparr>,
     \<lparr>memberName = ''HighLimit'', memberType = Builtin UA_Double,
       padding = Gap ''UA_ReportedValueDataType'' ''highLimit'' ''lowLimit'' Void_Ptr, isArray = False, isOptional = True\<rparr>,
     \<lparr>memberName = ''EngineeringUnits'', memberType = Builtin UA_EUInformation,
       padding = Gap ''UA_ReportedValueDataType'' ''engineeringUnits'' ''highLimit'' Void_Ptr, isArray = False, isOptional = True\<rparr>]"

definition ResultCounterDataType_members :: "data_member list" where [member_defs]:
  "ResultCounterDataType_members =
    [\<lparr>memberName = ''Name'', memberType = Builtin UA_String,
       padding = No_Gap, isArray = False, isOptional = True\<rparr>,
     \<lparr>memberName = ''CounterValue'', memberType = Builtin UA_UInt32,
       padding = Gap ''UA_ResultCounterDataType'' ''counterValue'' ''name'' Void_Ptr, isArray = False, isOptional = False\<rparr>,
     \<lparr>memberName = ''CounterType'', memberType = Builtin UA_Int16,
       padding = Gap ''UA_ResultCounterDataType'' ''counterType'' ''counterValue'' (Sizeof (Basic UA_UInt32)), isArray = False, isOptional = False\<rparr>]"

definition JoiningResultMetaDataType_members :: "data_member list" where [member_defs]:
  "JoiningResultMetaDataType_members =
    [\<lparr>memberName = ''ResultId'', memberType = Builtin UA_String,
       padding = No_Gap, isArray = False, isOptional = False\<rparr>,
     \<lparr>memberName = ''HasTransferableDataOnFile'', memberType = Builtin UA_Boolean,
       padding = Gap ''UA_JoiningResultMetaDataType'' ''hasTransferableDataOnFile'' ''resultId'' (Sizeof (Basic UA_String)), isArray = False, isOptional = True\<rparr>,
     \<lparr>memberName = ''IsPartial'', memberType = Builtin UA_Boolean,
       padding = Gap ''UA_JoiningResultMetaDataType'' ''isPartial'' ''hasTransferableDataOnFile'' Void_Ptr, isArray = False, isOptional = True\<rparr>,
     \<lparr>memberName = ''IsSimulated'', memberType = Builtin UA_Boolean,
       padding = Gap ''UA_JoiningResultMetaDataType'' ''isSimulated'' ''isPartial'' Void_Ptr, isArray = False, isOptional = True\<rparr>,
     \<lparr>memberName = ''ResultState'', memberType = Builtin UA_Int32,
       padding = Gap ''UA_JoiningResultMetaDataType'' ''resultState'' ''isSimulated'' Void_Ptr, isArray = False, isOptional = True\<rparr>,
     \<lparr>memberName = ''StepId'', memberType = Builtin UA_String,
       padding = Gap ''UA_JoiningResultMetaDataType'' ''stepId'' ''resultState'' Void_Ptr, isArray = False, isOptional = True\<rparr>,
     \<lparr>memberName = ''PartId'', memberType = Builtin UA_String,
       padding = Gap ''UA_JoiningResultMetaDataType'' ''partId'' ''stepId'' Void_Ptr, isArray = False, isOptional = True\<rparr>,
     \<lparr>memberName = ''ExternalRecipeId'', memberType = Builtin UA_String,
       padding = Gap ''UA_JoiningResultMetaDataType'' ''externalRecipeId'' ''partId'' Void_Ptr, isArray = False, isOptional = True\<rparr>,
     \<lparr>memberName = ''InternalRecipeId'', memberType = Builtin UA_String,
       padding = Gap ''UA_JoiningResultMetaDataType'' ''internalRecipeId'' ''externalRecipeId'' Void_Ptr, isArray = False, isOptional = True\<rparr>,
     \<lparr>memberName = ''ProductId'', memberType = Builtin UA_String,
       padding = Gap ''UA_JoiningResultMetaDataType'' ''productId'' ''internalRecipeId'' Void_Ptr, isArray = False, isOptional = True\<rparr>,
     \<lparr>memberName = ''ExternalConfigurationId'', memberType = Builtin UA_String,
       padding = Gap ''UA_JoiningResultMetaDataType'' ''externalConfigurationId'' ''productId'' Void_Ptr, isArray = False, isOptional = True\<rparr>,
     \<lparr>memberName = ''InternalConfigurationId'', memberType = Builtin UA_String,
       padding = Gap ''UA_JoiningResultMetaDataType'' ''internalConfigurationId'' ''externalConfigurationId'' Void_Ptr, isArray = False, isOptional = True\<rparr>,
     \<lparr>memberName = ''JobId'', memberType = Builtin UA_String,
       padding = Gap ''UA_JoiningResultMetaDataType'' ''jobId'' ''internalConfigurationId'' Void_Ptr, isArray = False, isOptional = True\<rparr>,
     \<lparr>memberName = ''CreationTime'', memberType = Builtin UA_DateTime,
       padding = Gap ''UA_JoiningResultMetaDataType'' ''creationTime'' ''jobId'' Void_Ptr, isArray = False, isOptional = True\<rparr>,
     \<lparr>memberName = ''ProcessingTimes'', memberType = Entry Machinery_Result_Table UA_TYPES_MACHINERY_RESULT_PROCESSINGTIMESDATATYPE,
       padding = Gap ''UA_JoiningResultMetaDataType'' ''processingTimes'' ''creationTime'' Void_Ptr, isArray = False, isOptional = True\<rparr>,
     \<lparr>memberName = ''ResultUri'', memberType = Builtin UA_String,
       padding = Gap ''UA_JoiningResultMetaDataType'' ''resultUriSize'' ''processingTimes'' Void_Ptr, isArray = True, isOptional = True\<rparr>,
     \<lparr>memberName = ''ResultEvaluation'', memberType = Entry Machinery_Result_Table UA_TYPES_MACHINERY_RESULT_RESULTEVALUATIONENUM,
       padding = Gap ''UA_JoiningResultMetaDataType'' ''resultEvaluation'' ''resultUri'' Void_Ptr, isArray = False, isOptional = True\<rparr>,
     \<lparr>memberName = ''ResultEvaluationCode'', memberType = Builtin UA_Int64,
       padding = Gap ''UA_JoiningResultMetaDataType'' ''resultEvaluationCode'' ''resultEvaluation'' Void_Ptr, isArray = False, isOptional = True\<rparr>,
     \<lparr>memberName = ''ResultEvaluationDetails'', memberType = Builtin UA_LocalizedText,
       padding = Gap ''UA_JoiningResultMetaDataType'' ''resultEvaluationDetails'' ''resultEvaluationCode'' Void_Ptr, isArray = False, isOptional = True\<rparr>,
     \<lparr>memberName = ''FileFormat'', memberType = Builtin UA_String,
       padding = Gap ''UA_JoiningResultMetaDataType'' ''fileFormatSize'' ''resultEvaluationDetails'' Void_Ptr, isArray = True, isOptional = True\<rparr>,
     \<lparr>memberName = ''JoiningTechnology'', memberType = Builtin UA_LocalizedText,
       padding = Gap ''UA_JoiningResultMetaDataType'' ''joiningTechnology'' ''fileFormat'' Void_Ptr, isArray = False, isOptional = True\<rparr>,
     \<lparr>memberName = ''SequenceNumber'', memberType = Builtin UA_UInt64,
       padding = Gap ''UA_JoiningResultMetaDataType'' ''sequenceNumber'' ''joiningTechnology'' Void_Ptr, isArray = False, isOptional = True\<rparr>,
     \<lparr>memberName = ''Name'', memberType = Builtin UA_String,
       padding = Gap ''UA_JoiningResultMetaDataType'' ''name'' ''sequenceNumber'' Void_Ptr, isArray = False, isOptional = True\<rparr>,
     \<lparr>memberName = ''Description'', memberType = Builtin UA_LocalizedText,
       padding = Gap ''UA_JoiningResultMetaDataType'' ''description'' ''name'' Void_Ptr, isArray = False, isOptional = True\<rparr>,
     \<lparr>memberName = ''Classification'', memberType = Builtin UA_Byte,
       padding = Gap ''UA_JoiningResultMetaDataType'' ''classification'' ''description'' Void_Ptr, isArray = False, isOptional = True\<rparr>,
     \<lparr>memberName = ''OperationMode'', memberType = Builtin UA_Byte,
       padding = Gap ''UA_JoiningResultMetaDataType'' ''operationMode'' ''classification'' Void_Ptr, isArray = False, isOptional = True\<rparr>,
     \<lparr>memberName = ''AssemblyType'', memberType = Builtin UA_Byte,
       padding = Gap ''UA_JoiningResultMetaDataType'' ''assemblyType'' ''operationMode'' Void_Ptr, isArray = False, isOptional = True\<rparr>,
     \<lparr>memberName = ''AssociatedEntities'', memberType = Entry IJT_Table UA_TYPES_IJT_GENERATED_ENTITYDATATYPE,
       padding = Gap ''UA_JoiningResultMetaDataType'' ''associatedEntitiesSize'' ''assemblyType'' Void_Ptr, isArray = True, isOptional = True\<rparr>,
     \<lparr>memberName = ''ResultCounters'', memberType = Entry IJT_Table UA_TYPES_IJT_GENERATED_RESULTCOUNTERDATATYPE,
       padding = Gap ''UA_JoiningResultMetaDataType'' ''resultCountersSize'' ''associatedEntities'' Void_Ptr, isArray = True, isOptional = True\<rparr>,
     \<lparr>memberName = ''InterventionType'', memberType = Builtin UA_Byte,
       padding = Gap ''UA_JoiningResultMetaDataType'' ''interventionType'' ''resultCounters'' Void_Ptr, isArray = False, isOptional = True\<rparr>,
     \<lparr>memberName = ''IsGeneratedOffline'', memberType = Builtin UA_Boolean,
       padding = Gap ''UA_JoiningResultMetaDataType'' ''isGeneratedOffline'' ''interventionType'' Void_Ptr, isArray = False, isOptional = True\<rparr>,
     \<lparr>memberName = ''ExtendedMetaData'', memberType = Entry IJT_Table UA_TYPES_IJT_GENERATED_KEYVALUEDATATYPE,
       padding = Gap ''UA_JoiningResultMetaDataType'' ''extendedMetaDataSize'' ''isGeneratedOffline'' Void_Ptr, isArray = True, isOptional = True\<rparr>]"

definition ResultValueDataType_members :: "data_member list" where [member_defs]:
  "ResultValueDataType_members =
    [\<lparr>memberName = ''MeasuredValue'', memberType = Builtin UA_Double,
       padding = No_Gap, isArray = False, isOptional = False\<rparr>,
     \<lparr>memberName = ''Name'', memberType = Builtin UA_String,
       padding = Gap ''UA_ResultValueDataType'' ''name'' ''measuredValue'' (Sizeof (Basic UA_Double)), isArray = False, isOptional = True\<rparr>,
     \<lparr>memberName = ''ResultEvaluation'', memberType = Entry Machinery_Result_Table UA_TYPES_MACHINERY_RESULT_RESULTEVALUATIONENUM,
       padding = Gap ''UA_ResultValueDataType'' ''resultEvaluation'' ''name'' Void_Ptr, isArray = False, isOptional = True\<rparr>,
     \<lparr>memberName = ''ValueId'', memberType = Builtin UA_String,
       padding = Gap ''UA_ResultValueDataType'' ''valueId'' ''resultEvaluation'' Void_Ptr, isArray = False, isOptional = True\<rparr>,
     \<lparr>memberName = ''ValueTag'', memberType = Builtin UA_Int16,
       padding = Gap ''UA_ResultValueDataType'' ''valueTag'' ''valueId'' Void_Ptr, isArray = False, isOptional = True\<rparr>,
     \<lparr>memberName = ''TracePointIndex'', memberType = Builtin UA_Int32,
       padding = Gap ''UA_ResultValueDataType'' ''tracePointIndex'' ''valueTag'' Void_Ptr, isArray = False, isOptional = True\<rparr>,
     \<lparr>memberName = ''TracePointTimeOffset'', memberType = Builtin UA_Double,
       padding = Gap ''UA_ResultValueDataType'' ''tracePointTimeOffset'' ''tracePointIndex'' Void_Ptr, isArray = False, isOptional = True\<rparr>,
     \<lparr>memberName = ''ParameterIdList'', memberType = Builtin UA_String,
       padding = Gap ''UA_ResultValueDataType'' ''parameterIdListSize'' ''tracePointTimeOffset'' Void_Ptr, isArray = True, isOptional = True\<rparr>,
     \<lparr>memberName = ''ViolationType'', memberType = Builtin UA_Byte,
       padding = Gap ''UA_ResultValueDataType'' ''violationType'' ''parameterIdList'' Void_Ptr, isArray = False, isOptional = True\<rparr>,
     \<lparr>memberName = ''ViolationConsequence'', memberType = Builtin UA_Byte,
       padding = Gap ''UA_ResultValueDataType'' ''violationConsequence'' ''violationType'' Void_Ptr, isArray = False, isOptional = True\<rparr>,
     \<lparr>memberName = ''SensorId'', memberType = Builtin UA_String,
       padding = Gap ''UA_ResultValueDataType'' ''sensorId'' ''violationConsequence'' Void_Ptr, isArray = False, isOptional = True\<rparr>,
     \<lparr>memberName = ''LowLimit'', memberType = Builtin UA_Double,
       padding = Gap ''UA_ResultValueDataType'' ''lowLimit'' ''sensorId'' Void_Ptr, isArray = False, isOptional = True\<rparr>,
     \<lparr>memberName = ''HighLimit'', memberType = Builtin UA_Double,
       padding = Gap ''UA_ResultValueDataType'' ''highLimit'' ''lowLimit'' Void_Ptr, isArray = False, isOptional = True\<rparr>,
     \<lparr>memberName = ''TargetValue'', memberType = Builtin UA_Double,
       padding = Gap ''UA_ResultValueDataType'' ''targetValue'' ''highLimit'' Void_Ptr, isArray = False, isOptional = True\<rparr>,
     \<lparr>memberName = ''ResultStep'', memberType = Builtin UA_String,
       padding = Gap ''UA_ResultValueDataType'' ''resultStep'' ''targetValue'' Void_Ptr, isArray = False, isOptional = True\<rparr>,
     \<lparr>memberName = ''PhysicalQuantity'', memberType = Builtin UA_Byte,
       padding = Gap ''UA_ResultValueDataType'' ''physicalQuantity'' ''resultStep'' Void_Ptr, isArray = False, isOptional = True\<rparr>,
     \<lparr>memberName = ''EngineeringUnits'', memberType = Builtin UA_EUInformation,
       padding = Gap ''UA_ResultValueDataType'' ''engineeringUnits'' ''physicalQuantity'' Void_Ptr, isArray = False, isOptional = True\<rparr>]"

definition SignalDataType_members :: "data_member list" where [member_defs]:
  "SignalDataType_members =
    [\<lparr>memberName = ''SignalId'', memberType = Builtin UA_String,
       padding = No_Gap, isArray = False, isOptional = False\<rparr>,
     \<lparr>memberName = ''SignalValue'', memberType = Builtin UA_Variant,
       padding = Gap ''UA_SignalDataType'' ''signalValue'' ''signalId'' (Sizeof (Basic UA_String)), isArray = False, isOptional = False\<rparr>,
     \<lparr>memberName = ''SignalDescription'', memberType = Builtin UA_String,
       padding = Gap ''UA_SignalDataType'' ''signalDescription'' ''signalValue'' (Sizeof (Basic UA_Variant)), isArray = False, isOptional = False\<rparr>,
     \<lparr>memberName = ''SignalType'', memberType = Builtin UA_Int16,
       padding = Gap ''UA_SignalDataType'' ''signalType'' ''signalDescription'' (Sizeof (Basic UA_String)), isArray = False, isOptional = False\<rparr>]"

definition StepResultDataType_members :: "data_member list" where [member_defs]:
  "StepResultDataType_members =
    [\<lparr>memberName = ''StepResultId'', memberType = Builtin UA_String,
       padding = No_Gap, isArray = False, isOptional = False\<rparr>,
     \<lparr>memberName = ''ProgramStepId'', memberType = Builtin UA_String,
       padding = Gap ''UA_StepResultDataType'' ''programStepId'' ''stepResultId'' (Sizeof (Basic UA_String)), isArray = False, isOptional = True\<rparr>,
     \<lparr>memberName = ''ProgramStep'', memberType = Builtin UA_String,
       padding = Gap ''UA_StepResultDataType'' ''programStep'' ''programStepId'' Void_Ptr, isArray = False, isOptional = True\<rparr>,
     \<lparr>memberName = ''Name'', memberType = Builtin UA_String,
       padding = Gap ''UA_StepResultDataType'' ''name'' ''programStep'' Void_Ptr, isArray = False, isOptional = True\<rparr>,
     \<lparr>memberName = ''ResultEvaluation'', memberType = Entry Machinery_Result_Table UA_TYPES_MACHINERY_RESULT_RESULTEVALUATIONENUM,
       padding = Gap ''UA_StepResultDataType'' ''resultEvaluation'' ''name'' Void_Ptr, isArray = False, isOptional = True\<rparr>,
     \<lparr>memberName = ''StartTimeOffset'', memberType = Builtin UA_Double,
       padding = Gap ''UA_StepResultDataType'' ''startTimeOffset'' ''resultEvaluation'' Void_Ptr, isArray = False, isOptional = True\<rparr>,
     \<lparr>memberName = ''StepTraceId'', memberType = Builtin UA_String,
       padding = Gap ''UA_StepResultDataType'' ''stepTraceId'' ''startTimeOffset'' Void_Ptr, isArray = False, isOptional = True\<rparr>,
     \<lparr>memberName = ''StepResultValues'', memberType = Entry IJT_Table UA_TYPES_IJT_GENERATED_RESULTVALUEDATATYPE,
       padding = Gap ''UA_StepResultDataType'' ''stepResultValuesSize'' ''stepTraceId'' Void_Ptr, isArray = True, isOptional = True\<rparr>]"

definition TraceContentDataType_members :: "data_member list" where [member_defs]:
  "TraceContentDataType_members =
    [\<lparr>memberName = ''Values'', memberType = Builtin UA_Double,
       padding = No_Gap, isArray = True, isOptional = False\<rparr>,
     \<lparr>memberName = ''SensorId'', memberType = Builtin UA_String,
       padding = Gap ''UA_TraceContentDataType'' ''sensorId'' ''values'' Void_Ptr, isArray = False, isOptional = True\<rparr>,
     \<lparr>memberName = ''Name'', memberType = Builtin UA_String,
       padding = Gap ''UA_TraceContentDataType'' ''name'' ''sensorId'' Void_Ptr, isArray = False, isOptional = True\<rparr>,
     \<lparr>memberName = ''Description'', memberType = Builtin UA_String,
       padding = Gap ''UA_TraceContentDataType'' ''description'' ''name'' Void_Ptr, isArray = False, isOptional = True\<rparr>,
     \<lparr>memberName = ''PhysicalQuantity'', memberType = Builtin UA_Byte,
       padding = Gap ''UA_TraceContentDataType'' ''physicalQuantity'' ''description'' Void_Ptr, isArray = False, isOptional = True\<rparr>,
     \<lparr>memberName = ''EngineeringUnits'', memberType = Builtin UA_EUInformation,
       padding = Gap ''UA_TraceContentDataType'' ''engineeringUnits'' ''physicalQuantity'' Void_Ptr, isArray = False, isOptional = True\<rparr>]"

definition TraceDataType_members :: "data_member list" where [member_defs]:
  "TraceDataType_members =
    [\<lparr>memberName = ''TraceId'', memberType = Builtin UA_String,
       padding = No_Gap, isArray = False, isOptional = False\<rparr>,
     \<lparr>memberName = ''ResultId'', memberType = Builtin UA_String,
       padding = Gap ''UA_TraceDataType'' ''resultId'' ''traceId'' (Sizeof (Basic UA_String)), isArray = False, isOptional = False\<rparr>]"

definition StepTraceDataType_members :: "data_member list" where [member_defs]:
  "StepTraceDataType_members =
    [\<lparr>memberName = ''StepTraceId'', memberType = Builtin UA_String,
       padding = No_Gap, isArray = False, isOptional = False\<rparr>,
     \<lparr>memberName = ''StepResultId'', memberType = Builtin UA_String,
       padding = Gap ''UA_StepTraceDataType'' ''stepResultId'' ''stepTraceId'' (Sizeof (Basic UA_String)), isArray = False, isOptional = False\<rparr>,
     \<lparr>memberName = ''NumberOfTracePoints'', memberType = Builtin UA_UInt32,
       padding = Gap ''UA_StepTraceDataType'' ''numberOfTracePoints'' ''stepResultId'' (Sizeof (Basic UA_String)), isArray = False, isOptional = False\<rparr>,
     \<lparr>memberName = ''SamplingInterval'', memberType = Builtin UA_Double,
       padding = Gap ''UA_StepTraceDataType'' ''samplingInterval'' ''numberOfTracePoints'' (Sizeof (Basic UA_UInt32)), isArray = False, isOptional = True\<rparr>,
     \<lparr>memberName = ''StartTimeOffset'', memberType = Builtin UA_Double,
       padding = Gap ''UA_StepTraceDataType'' ''startTimeOffset'' ''samplingInterval'' Void_Ptr, isArray = False, isOptional = True\<rparr>,
     \<lparr>memberName = ''StepTraceContent'', memberType = Entry IJT_Table UA_TYPES_IJT_GENERATED_TRACECONTENTDATATYPE,
       padding = Gap ''UA_StepTraceDataType'' ''stepTraceContentSize'' ''startTimeOffset'' Void_Ptr, isArray = True, isOptional = False\<rparr>]"

definition JoiningTraceDataType_members :: "data_member list" where [member_defs]:
  "JoiningTraceDataType_members =
    [\<lparr>memberName = ''TraceId'', memberType = Builtin UA_String,
       padding = No_Gap, isArray = False, isOptional = False\<rparr>,
     \<lparr>memberName = ''ResultId'', memberType = Builtin UA_String,
       padding = Gap ''UA_JoiningTraceDataType'' ''resultId'' ''traceId'' (Sizeof (Basic UA_String)), isArray = False, isOptional = False\<rparr>,
     \<lparr>memberName = ''StepTraces'', memberType = Entry IJT_Table UA_TYPES_IJT_GENERATED_STEPTRACEDATATYPE,
       padding = Gap ''UA_JoiningTraceDataType'' ''stepTracesSize'' ''resultId'' (Sizeof (Basic UA_String)), isArray = True, isOptional = False\<rparr>]"

definition JoiningResultDataType_members :: "data_member list" where [member_defs]:
  "JoiningResultDataType_members =
    [\<lparr>memberName = ''FailureReason'', memberType = Builtin UA_Byte,
       padding = No_Gap, isArray = False, isOptional = True\<rparr>,
     \<lparr>memberName = ''OverallResultValues'', memberType = Entry IJT_Table UA_TYPES_IJT_GENERATED_RESULTVALUEDATATYPE,
       padding = Gap ''UA_JoiningResultDataType'' ''overallResultValuesSize'' ''failureReason'' Void_Ptr, isArray = True, isOptional = False\<rparr>,
     \<lparr>memberName = ''StepResults'', memberType = Entry IJT_Table UA_TYPES_IJT_GENERATED_STEPRESULTDATATYPE,
       padding = Gap ''UA_JoiningResultDataType'' ''stepResultsSize'' ''overallResultValues'' Void_Ptr, isArray = True, isOptional = True\<rparr>,
     \<lparr>memberName = ''Errors'', memberType = Entry IJT_Table UA_TYPES_IJT_GENERATED_ERRORINFORMATIONDATATYPE,
       padding = Gap ''UA_JoiningResultDataType'' ''errorsSize'' ''stepResults'' Void_Ptr, isArray = True, isOptional = True\<rparr>,
     \<lparr>memberName = ''FailingStepResultId'', memberType = Builtin UA_String,
       padding = Gap ''UA_JoiningResultDataType'' ''failingStepResultId'' ''errors'' Void_Ptr, isArray = False, isOptional = True\<rparr>,
     \<lparr>memberName = ''Trace'', memberType = Entry IJT_Table UA_TYPES_IJT_GENERATED_JOININGTRACEDATATYPE,
       padding = Gap ''UA_JoiningResultDataType'' ''trace'' ''failingStepResultId'' Void_Ptr, isArray = False, isOptional = True\<rparr>]"

definition CalibrationDataType_type :: data_type where [entry_defs]:
  "CalibrationDataType_type =
    \<lparr>typeName = ''CalibrationDataType'', typeId = (0, 0), binaryEncodingId = (0, 0),
     memSize = ''UA_CalibrationDataType'', typeKind = UA_DATATYPEKIND_OPTSTRUCT,
     pointerFree = False, overlayable = Not_Overlayable, membersSize = 7,
     typeMembers = CalibrationDataType_members\<rparr>"

definition DesignValueDataType_type :: data_type where [entry_defs]:
  "DesignValueDataType_type =
    \<lparr>typeName = ''DesignValueDataType'', typeId = (0, 0), binaryEncodingId = (0, 0),
     memSize = ''UA_DesignValueDataType'', typeKind = UA_DATATYPEKIND_OPTSTRUCT,
     pointerFree = False, overlayable = Not_Overlayable, membersSize = 4,
     typeMembers = DesignValueDataType_members\<rparr>"

definition EntityDataType_type :: data_type where [entry_defs]:
  "EntityDataType_type =
    \<lparr>typeName = ''EntityDataType'', typeId = (0, 0), binaryEncodingId = (0, 0),
     memSize = ''UA_EntityDataType'', typeKind = UA_DATATYPEKIND_OPTSTRUCT,
     pointerFree = False, overlayable = Not_Overlayable, membersSize = 6,
     typeMembers = EntityDataType_members\<rparr>"

definition ErrorInformationDataType_type :: data_type where [entry_defs]:
  "ErrorInformationDataType_type =
    \<lparr>typeName = ''ErrorInformationDataType'', typeId = (0, 0), binaryEncodingId = (0, 0),
     memSize = ''UA_ErrorInformationDataType'', typeKind = UA_DATATYPEKIND_OPTSTRUCT,
     pointerFree = False, overlayable = Not_Overlayable, membersSize = 4,
     typeMembers = ErrorInformationDataType_members\<rparr>"

definition JoiningProcessDataType_type :: data_type where [entry_defs]:
  "JoiningProcessDataType_type =
    \<lparr>typeName = ''JoiningProcessDataType'', typeId = (0, 0), binaryEncodingId = (0, 0),
     memSize = ''UA_JoiningProcessDataType'', typeKind = UA_DATATYPEKIND_STRUCTURE,
     pointerFree = False, overlayable = Not_Overlayable, membersSize = 2,
     typeMembers = JoiningProcessDataType_members\<rparr>"

definition JoiningProcessIdentificationDataType_type :: data_type where [entry_defs]:
  "JoiningProcessIdentificationDataType_type =
    \<lparr>typeName = ''JoiningProcessIdentificationDataType'', typeId = (0, 0), binaryEncodingId = (0, 0),
     memSize = ''UA_JoiningProcessIdentificationDataType'', typeKind = UA_DATATYPEKIND_OPTSTRUCT,
     pointerFree = False, overlayable = Not_Overlayable, membersSize = 3,
     typeMembers = JoiningProcessIdentificationDataType_members\<rparr>"

definition JoiningProcessMetaDataType_type :: data_type where [entry_defs]:
  "JoiningProcessMetaDataType_type =
    \<lparr>typeName = ''JoiningProcessMetaDataType'', typeId = (0, 0), binaryEncodingId = (0, 0),
     memSize = ''UA_JoiningProcessMetaDataType'', typeKind = UA_DATATYPEKIND_OPTSTRUCT,
     pointerFree = False, overlayable = Not_Overlayable, membersSize = 9,
     typeMembers = JoiningProcessMetaDataType_members\<rparr>"

definition JointComponentDataType_type :: data_type where [entry_defs]:
  "JointComponentDataType_type =
    \<lparr>typeName = ''JointComponentDataType'', typeId = (0, 0), binaryEncodingId = (0, 0),
     memSize = ''UA_JointComponentDataType'', typeKind = UA_DATATYPEKIND_OPTSTRUCT,
     pointerFree = False, overlayable = Not_Overlayable, membersSize = 6,
     typeMembers = JointComponentDataType_members\<rparr>"

definition JointDataType_type :: data_type where [entry_defs]:
  "JointDataType_type =
    \<lparr>typeName = ''JointDataType'', typeId = (0, 0), binaryEncodingId = (0, 0),
     memSize = ''UA_JointDataType'', typeKind = UA_DATATYPEKIND_OPTSTRUCT,
     pointerFree = False, overlayable = Not_Overlayable, membersSize = 12,
     typeMembers = JointDataType_members\<rparr>"

definition JointDesignDataType_type :: data_type where [entry_defs]:
  "JointDesignDataType_type =
    \<lparr>typeName = ''JointDesignDataType'', typeId = (0, 0), binaryEncodingId = (0, 0),
     memSize = ''UA_JointDesignDataType'', typeKind = UA_DATATYPEKIND_OPTSTRUCT,
     pointerFree = False, overlayable = Not_Overlayable, membersSize = 5,
     typeMembers = JointDesignDataType_members\<rparr>"

definition KeyValueDataType_type :: data_type where [entry_defs]:
  "KeyValueDataType_type =
    \<lparr>typeName = ''KeyValueDataType'', typeId = (0, 0), binaryEncodingId = (0, 0),
     memSize = ''UA_KeyValueDataType'', typeKind = UA_DATATYPEKIND_STRUCTURE,
     pointerFree = False, overlayable = Not_Overlayable, membersSize = 2,
     typeMembers = KeyValueDataType_members\<rparr>"

definition ReportedValueDataType_type :: data_type where [entry_defs]:
  "ReportedValueDataType_type =
    \<lparr>typeName = ''ReportedValueDataType'', typeId = (0, 0), binaryEncodingId = (0, 0),
     memSize = ''UA_ReportedValueDataType'', typeKind = UA_DATATYPEKIND_OPTSTRUCT,
     pointerFree = False, overlayable = Not_Overlayable, membersSize = 7,
     typeMembers = ReportedValueDataType_members\<rparr>"

definition ResultCounterDataType_type :: data_type where [entry_defs]:
  "ResultCounterDataType_type =
    \<lparr>typeName = ''ResultCounterDataType'', typeId = (0, 0), binaryEncodingId = (0, 0),
     memSize = ''UA_ResultCounterDataType'', typeKind = UA_DATATYPEKIND_OPTSTRUCT,
     pointerFree = False, overlayable = Not_Overlayable, membersSize = 3,
     typeMembers = ResultCounterDataType_members\<rparr>"

definition JoiningResultMetaDataType_type :: data_type where [entry_defs]:
  "JoiningResultMetaDataType_type =
    \<lparr>typeName = ''JoiningResultMetaDataType'', typeId = (0, 0), binaryEncodingId = (0, 0),
     memSize = ''UA_JoiningResultMetaDataType'', typeKind = UA_DATATYPEKIND_OPTSTRUCT,
     pointerFree = False, overlayable = Not_Overlayable, membersSize = 32,
     typeMembers = JoiningResultMetaDataType_members\<rparr>"

definition ResultValueDataType_type :: data_type where [entry_defs]:
  "ResultValueDataType_type =
    \<lparr>typeName = ''ResultValueDataType'', typeId = (0, 0), binaryEncodingId = (0, 0),
     memSize = ''UA_ResultValueDataType'', typeKind = UA_DATATYPEKIND_OPTSTRUCT,
     pointerFree = False, overlayable = Not_Overlayable, membersSize = 17,
     typeMembers = ResultValueDataType_members\<rparr>"

definition SignalDataType_type :: data_type where [entry_defs]:
  "SignalDataType_type =
    \<lparr>typeName = ''SignalDataType'', typeId = (0, 0), binaryEncodingId = (0, 0),
     memSize = ''UA_SignalDataType'', typeKind = UA_DATATYPEKIND_STRUCTURE,
     pointerFree = False, overlayable = Not_Overlayable, membersSize = 4,
     typeMembers = SignalDataType_members\<rparr>"

definition StepResultDataType_type :: data_type where [entry_defs]:
  "StepResultDataType_type =
    \<lparr>typeName = ''StepResultDataType'', typeId = (0, 0), binaryEncodingId = (0, 0),
     memSize = ''UA_StepResultDataType'', typeKind = UA_DATATYPEKIND_OPTSTRUCT,
     pointerFree = False, overlayable = Not_Overlayable, membersSize = 8,
     typeMembers = StepResultDataType_members\<rparr>"

definition TraceContentDataType_type :: data_type where [entry_defs]:
  "TraceContentDataType_type =
    \<lparr>typeName = ''TraceContentDataType'', typeId = (0, 0), binaryEncodingId = (0, 0),
     memSize = ''UA_TraceContentDataType'', typeKind = UA_DATATYPEKIND_OPTSTRUCT,
     pointerFree = False, overlayable = Not_Overlayable, membersSize = 6,
     typeMembers = TraceContentDataType_members\<rparr>"

definition TraceDataType_type :: data_type where [entry_defs]:
  "TraceDataType_type =
    \<lparr>typeName = ''TraceDataType'', typeId = (0, 0), binaryEncodingId = (0, 0),
     memSize = ''UA_TraceDataType'', typeKind = UA_DATATYPEKIND_STRUCTURE,
     pointerFree = False, overlayable = Not_Overlayable, membersSize = 2,
     typeMembers = TraceDataType_members\<rparr>"

definition StepTraceDataType_type :: data_type where [entry_defs]:
  "StepTraceDataType_type =
    \<lparr>typeName = ''StepTraceDataType'', typeId = (0, 0), binaryEncodingId = (0, 0),
     memSize = ''UA_StepTraceDataType'', typeKind = UA_DATATYPEKIND_OPTSTRUCT,
     pointerFree = False, overlayable = Not_Overlayable, membersSize = 6,
     typeMembers = StepTraceDataType_members\<rparr>"

definition JoiningTraceDataType_type :: data_type where [entry_defs]:
  "JoiningTraceDataType_type =
    \<lparr>typeName = ''JoiningTraceDataType'', typeId = (0, 0), binaryEncodingId = (0, 0),
     memSize = ''UA_JoiningTraceDataType'', typeKind = UA_DATATYPEKIND_STRUCTURE,
     pointerFree = False, overlayable = Not_Overlayable, membersSize = 3,
     typeMembers = JoiningTraceDataType_members\<rparr>"

definition JoiningResultDataType_type :: data_type where [entry_defs]:
  "JoiningResultDataType_type =
    \<lparr>typeName = ''JoiningResultDataType'', typeId = (0, 0), binaryEncodingId = (0, 0),
     memSize = ''UA_JoiningResultDataType'', typeKind = UA_DATATYPEKIND_OPTSTRUCT,
     pointerFree = False, overlayable = Not_Overlayable, membersSize = 6,
     typeMembers = JoiningResultDataType_members\<rparr>"

definition UA_TYPES_IJT_GENERATED :: "data_type list" where
  "UA_TYPES_IJT_GENERATED =
    [CalibrationDataType_type, DesignValueDataType_type, EntityDataType_type,
     ErrorInformationDataType_type, JoiningProcessDataType_type,
     JoiningProcessIdentificationDataType_type, JoiningProcessMetaDataType_type,
     JointComponentDataType_type, JointDataType_type, JointDesignDataType_type,
     KeyValueDataType_type, ReportedValueDataType_type, ResultCounterDataType_type,
     JoiningResultMetaDataType_type, ResultValueDataType_type, SignalDataType_type,
     StepResultDataType_type, TraceContentDataType_type, TraceDataType_type, StepTraceDataType_type,
     JoiningTraceDataType_type, JoiningResultDataType_type]"

definition UA_CalibrationDataType_functions :: type_functions where [function_defs]:
  "UA_CalibrationDataType_functions =
    (let r = Entry IJT_Table UA_TYPES_IJT_GENERATED_CALIBRATIONDATATYPE in
     \<lparr>fn_init = ''UA_CalibrationDataType'', fn_new = r, fn_copy = r,
      fn_deleteMembers = None, fn_clear = r, fn_delete = r, fn_equal = Some r\<rparr>)"

definition UA_DesignValueDataType_functions :: type_functions where [function_defs]:
  "UA_DesignValueDataType_functions =
    (let r = Entry IJT_Table UA_TYPES_IJT_GENERATED_DESIGNVALUEDATATYPE in
     \<lparr>fn_init = ''UA_DesignValueDataType'', fn_new = r, fn_copy = r,
      fn_deleteMembers = None, fn_clear = r, fn_delete = r, fn_equal = Some r\<rparr>)"

definition UA_EntityDataType_functions :: type_functions where [function_defs]:
  "UA_EntityDataType_functions =
    (let r = Entry IJT_Table UA_TYPES_IJT_GENERATED_ENTITYDATATYPE in
     \<lparr>fn_init = ''UA_EntityDataType'', fn_new = r, fn_copy = r,
      fn_deleteMembers = None, fn_clear = r, fn_delete = r, fn_equal = Some r\<rparr>)"

definition UA_ErrorInformationDataType_functions :: type_functions where [function_defs]:
  "UA_ErrorInformationDataType_functions =
    (let r = Entry IJT_Table UA_TYPES_IJT_GENERATED_ERRORINFORMATIONDATATYPE in
     \<lparr>fn_init = ''UA_ErrorInformationDataType'', fn_new = r, fn_copy = r,
      fn_deleteMembers = None, fn_clear = r, fn_delete = r, fn_equal = Some r\<rparr>)"

definition UA_JoiningProcessDataType_functions :: type_functions where [function_defs]:
  "UA_JoiningProcessDataType_functions =
    (let r = Entry IJT_Table UA_TYPES_IJT_GENERATED_JOININGPROCESSDATATYPE in
     \<lparr>fn_init = ''UA_JoiningProcessDataType'', fn_new = r, fn_copy = r,
      fn_deleteMembers = None, fn_clear = r, fn_delete = r, fn_equal = Some r\<rparr>)"

definition UA_JoiningProcessIdentificationDataType_functions :: type_functions where [function_defs]:
  "UA_JoiningProcessIdentificationDataType_functions =
    (let r = Entry IJT_Table UA_TYPES_IJT_GENERATED_JOININGPROCESSIDENTIFICATIONDATATYPE in
     \<lparr>fn_init = ''UA_JoiningProcessIdentificationDataType'', fn_new = r, fn_copy = r,
      fn_deleteMembers = None, fn_clear = r, fn_delete = r, fn_equal = Some r\<rparr>)"

definition UA_JoiningProcessMetaDataType_functions :: type_functions where [function_defs]:
  "UA_JoiningProcessMetaDataType_functions =
    (let r = Entry IJT_Table UA_TYPES_IJT_GENERATED_JOININGPROCESSMETADATATYPE in
     \<lparr>fn_init = ''UA_JoiningProcessMetaDataType'', fn_new = r, fn_copy = r,
      fn_deleteMembers = None, fn_clear = r, fn_delete = r, fn_equal = Some r\<rparr>)"

definition UA_JointComponentDataType_functions :: type_functions where [function_defs]:
  "UA_JointComponentDataType_functions =
    (let r = Entry IJT_Table UA_TYPES_IJT_GENERATED_JOINTCOMPONENTDATATYPE in
     \<lparr>fn_init = ''UA_JointComponentDataType'', fn_new = r, fn_copy = r,
      fn_deleteMembers = None, fn_clear = r, fn_delete = r, fn_equal = Some r\<rparr>)"

definition UA_JointDataType_functions :: type_functions where [function_defs]:
  "UA_JointDataType_functions =
    (let r = Entry IJT_Table UA_TYPES_IJT_GENERATED_JOINTDATATYPE in
     \<lparr>fn_init = ''UA_JointDataType'', fn_new = r, fn_copy = r,
      fn_deleteMembers = None, fn_clear = r, fn_delete = r, fn_equal = Some r\<rparr>)"

definition UA_JointDesignDataType_functions :: type_functions where [function_defs]:
  "UA_JointDesignDataType_functions =
    (let r = Entry IJT_Table UA_TYPES_IJT_GENERATED_JOINTDESIGNDATATYPE in
     \<lparr>fn_init = ''UA_JointDesignDataType'', fn_new = r, fn_copy = r,
      fn_deleteMembers = None, fn_clear = r, fn_delete = r, fn_equal = Some r\<rparr>)"

definition UA_KeyValueDataType_functions :: type_functions where [function_defs]:
  "UA_KeyValueDataType_functions =
    (let r = Entry IJT_Table UA_TYPES_IJT_GENERATED_KEYVALUEDATATYPE in
     \<lparr>fn_init = ''UA_KeyValueDataType'', fn_new = r, fn_copy = r,
      fn_deleteMembers = None, fn_clear = r, fn_delete = r, fn_equal = Some r\<rparr>)"

definition UA_ReportedValueDataType_functions :: type_functions where [function_defs]:
  "UA_ReportedValueDataType_functions =
    (let r = Entry IJT_Table UA_TYPES_IJT_GENERATED_REPORTEDVALUEDATATYPE in
     \<lparr>fn_init = ''UA_ReportedValueDataType'', fn_new = r, fn_copy = r,
      fn_deleteMembers = None, fn_clear = r, fn_delete = r, fn_equal = Some r\<rparr>)"

definition UA_ResultCounterDataType_functions :: type_functions where [function_defs]:
  "UA_ResultCounterDataType_functions =
    (let r = Entry IJT_Table UA_TYPES_IJT_GENERATED_RESULTCOUNTERDATATYPE in
     \<lparr>fn_init = ''UA_ResultCounterDataType'', fn_new = r, fn_copy = r,
      fn_deleteMembers = None, fn_clear = r, fn_delete = r, fn_equal = Some r\<rparr>)"

definition UA_JoiningResultMetaDataType_functions :: type_functions where [function_defs]:
  "UA_JoiningResultMetaDataType_functions =
    (let r = Entry IJT_Table UA_TYPES_IJT_GENERATED_JOININGRESULTMETADATATYPE in
     \<lparr>fn_init = ''UA_JoiningResultMetaDataType'', fn_new = r, fn_copy = r,
      fn_deleteMembers = None, fn_clear = r, fn_delete = r, fn_equal = Some r\<rparr>)"

definition UA_ResultValueDataType_functions :: type_functions where [function_defs]:
  "UA_ResultValueDataType_functions =
    (let r = Entry IJT_Table UA_TYPES_IJT_GENERATED_RESULTVALUEDATATYPE in
     \<lparr>fn_init = ''UA_ResultValueDataType'', fn_new = r, fn_copy = r,
      fn_deleteMembers = None, fn_clear = r, fn_delete = r, fn_equal = Some r\<rparr>)"

definition UA_SignalDataType_functions :: type_functions where [function_defs]:
  "UA_SignalDataType_functions =
    (let r = Entry IJT_Table UA_TYPES_IJT_GENERATED_SIGNALDATATYPE in
     \<lparr>fn_init = ''UA_SignalDataType'', fn_new = r, fn_copy = r,
      fn_deleteMembers = None, fn_clear = r, fn_delete = r, fn_equal = Some r\<rparr>)"

definition UA_StepResultDataType_functions :: type_functions where [function_defs]:
  "UA_StepResultDataType_functions =
    (let r = Entry IJT_Table UA_TYPES_IJT_GENERATED_STEPRESULTDATATYPE in
     \<lparr>fn_init = ''UA_StepResultDataType'', fn_new = r, fn_copy = r,
      fn_deleteMembers = None, fn_clear = r, fn_delete = r, fn_equal = Some r\<rparr>)"

definition UA_TraceContentDataType_functions :: type_functions where [function_defs]:
  "UA_TraceContentDataType_functions =
    (let r = Entry IJT_Table UA_TYPES_IJT_GENERATED_TRACECONTENTDATATYPE in
     \<lparr>fn_init = ''UA_TraceContentDataType'', fn_new = r, fn_copy = r,
      fn_deleteMembers = None, fn_clear = r, fn_delete = r, fn_equal = Some r\<rparr>)"

definition UA_TraceDataType_functions :: type_functions where [function_defs]:
  "UA_TraceDataType_functions =
    (let r = Entry IJT_Table UA_TYPES_IJT_GENERATED_TRACEDATATYPE in
     \<lparr>fn_init = ''UA_TraceDataType'', fn_new = r, fn_copy = r,
      fn_deleteMembers = None, fn_clear = r, fn_delete = r, fn_equal = Some r\<rparr>)"

definition UA_StepTraceDataType_functions :: type_functions where [function_defs]:
  "UA_StepTraceDataType_functions =
    (let r = Entry IJT_Table UA_TYPES_IJT_GENERATED_STEPTRACEDATATYPE in
     \<lparr>fn_init = ''UA_StepTraceDataType'', fn_new = r, fn_copy = r,
      fn_deleteMembers = None, fn_clear = r, fn_delete = r, fn_equal = Some r\<rparr>)"

definition UA_JoiningTraceDataType_functions :: type_functions where [function_defs]:
  "UA_JoiningTraceDataType_functions =
    (let r = Entry IJT_Table UA_TYPES_IJT_GENERATED_JOININGTRACEDATATYPE in
     \<lparr>fn_init = ''UA_JoiningTraceDataType'', fn_new = r, fn_copy = r,
      fn_deleteMembers = None, fn_clear = r, fn_delete = r, fn_equal = Some r\<rparr>)"

definition UA_JoiningResultDataType_functions :: type_functions where [function_defs]:
  "UA_JoiningResultDataType_functions =
    (let r = Entry IJT_Table UA_TYPES_IJT_GENERATED_JOININGRESULTDATATYPE in
     \<lparr>fn_init = ''UA_JoiningResultDataType'', fn_new = r, fn_copy = r,
      fn_deleteMembers = None, fn_clear = r, fn_delete = r, fn_equal = Some r\<rparr>)"

section \<open>Lookup\<close>

definition table_of :: "type_table \<Rightarrow> data_type list" where
  "table_of t = (case t of GMS_Table \<Rightarrow> UA_TYPES_GMS | Tightening_Table \<Rightarrow> UA_TYPES_TIGHTENING
     | Machinery_Result_Table \<Rightarrow> UA_TYPES_MACHINERY_RESULT | IJT_Table \<Rightarrow> UA_TYPES_IJT_GENERATED)"

text \<open>The structs by name, and the C type that a reference to a description stands for.\<close>

definition structs :: "(string \<times> c_struct) list" where
  "structs =
    [(''UA_CartesianWorkspaceType'', UA_CartesianWorkspaceType),
     (''UA_CylindricalWorkspaceType'', UA_CylindricalWorkspaceType),
     (''UA_IJT_ProcessingTimesDataType'', UA_IJT_ProcessingTimesDataType),
     (''UA_BaseResultTransferOptionsDataType'', UA_BaseResultTransferOptionsDataType),
     (''UA_ResultTransferOptionsDataType'', UA_ResultTransferOptionsDataType),
     (''UA_ProcessingTimesDataType'', UA_ProcessingTimesDataType),
     (''UA_ResultDataType'', UA_ResultDataType), (''UA_ResultMetaDataType'', UA_ResultMetaDataType),
     (''UA_CalibrationDataType'', UA_CalibrationDataType),
     (''UA_DesignValueDataType'', UA_DesignValueDataType),
     (''UA_EntityDataType'', UA_EntityDataType),
     (''UA_ErrorInformationDataType'', UA_ErrorInformationDataType),
     (''UA_JoiningProcessDataType'', UA_JoiningProcessDataType),
     (''UA_JoiningProcessIdentificationDataType'', UA_JoiningProcessIdentificationDataType),
     (''UA_JoiningProcessMetaDataType'', UA_JoiningProcessMetaDataType),
     (''UA_JointComponentDataType'', UA_JointComponentDataType),
     (''UA_JointDataType'', UA_JointDataType), (''UA_JointDesignDataType'', UA_JointDesignDataType),
     (''UA_KeyValueDataType'', UA_KeyValueDataType),
     (''UA_ReportedValueDataType'', UA_ReportedValueDataType),
     (''UA_ResultCounterDataType'', UA_ResultCounterDataType),
     (''UA_JoiningResultMetaDataType'', UA_JoiningResultMetaDataType),
     (''UA_ResultValueDataType'', UA_ResultValueDataType),
     (''UA_SignalDataType'', UA_SignalDataType), (''UA_StepResultDataType'', UA_StepResultDataType),
     (''UA_TraceContentDataType'', UA_TraceContentDataType),
     (''UA_TraceDataType'', UA_TraceDataType), (''UA_StepTraceDataType'', UA_StepTraceDataType),
     (''UA_JoiningTraceDataType'', UA_JoiningTraceDataType),
     (''UA_JoiningResultDataType'', UA_JoiningResultDataType)]"

definition struct_named :: "string \<Rightarrow> c_struct" where
  "struct_named S = (case map_of structs S of None \<Rightarrow> [] | Some fs \<Rightarrow> fs)"

fun described_type :: "type_ref \<Rightarrow> c_name" where
  "described_type (Builtin b) = Basic b"
| "described_type (Entry t i) = Named (memSize (table_of t ! i))"

definition handled_types :: "(string \<times> type_functions) list" where
  "handled_types =
    [(''UA_CartesianWorkspaceType'', UA_CartesianWorkspaceType_functions),
     (''UA_CylindricalWorkspaceType'', UA_CylindricalWorkspaceType_functions),
     (''UA_MeasurementReasonEnum'', UA_MeasurementReasonEnum_functions),
     (''UA_ToleranceLimitEnum'', UA_ToleranceLimitEnum_functions),
     (''UA_ToolAlignmentState'', UA_ToolAlignmentState_functions),
     (''UA_ToolIsQualifiedStatus'', UA_ToolIsQualifiedStatus_functions),
     (''UA_IJT_ProcessingTimesDataType'', UA_IJT_ProcessingTimesDataType_functions),
     (''UA_BaseResultTransferOptionsDataType'', UA_BaseResultTransferOptionsDataType_functions),
     (''UA_ResultTransferOptionsDataType'', UA_ResultTransferOptionsDataType_functions),
     (''UA_ProcessingTimesDataType'', UA_ProcessingTimesDataType_functions),
     (''UA_ResultDataType'', UA_ResultDataType_functions),
     (''UA_ResultMetaDataType'', UA_ResultMetaDataType_functions),
     (''UA_ResultEvaluationEnum'', UA_ResultEvaluationEnum_functions),
     (''UA_CalibrationDataType'', UA_CalibrationDataType_functions),
     (''UA_DesignValueDataType'', UA_DesignValueDataType_functions),
     (''UA_EntityDataType'', UA_EntityDataType_functions),
     (''UA_ErrorInformationDataType'', UA_ErrorInformationDataType_functions),
     (''UA_JoiningProcessDataType'', UA_JoiningProcessDataType_functions),
     (''UA_JoiningProcessIdentificationDataType'', UA_JoiningProcessIdentificationDataType_functions),
     (''UA_JoiningProcessMetaDataType'', UA_JoiningProcessMetaDataType_functions),
     (''UA_JointComponentDataType'', UA_JointComponentDataType_functions),
     (''UA_JointDataType'', UA_JointDataType_functions),
     (''UA_JointDesignDataType'', UA_JointDesignDataType_functions),
     (''UA_KeyValueDataType'', UA_KeyValueDataType_functions),
     (''UA_ReportedValueDataType'', UA_ReportedValueDataType_functions),
     (''UA_ResultCounterDataType'', UA_ResultCounterDataType_functions),
     (''UA_JoiningResultMetaDataType'', UA_JoiningResultMetaDataType_functions),
     (''UA_ResultValueDataType'', UA_ResultValueDataType_functions),
     (''UA_SignalDataType'', UA_SignalDataType_functions),
     (''UA_StepResultDataType'', UA_StepResultDataType_functions),
     (''UA_TraceContentDataType'', UA_TraceContentDataType_functions),
     (''UA_TraceDataType'', UA_TraceDataType_functions),
     (''UA_StepTraceDataType'', UA_StepTraceDataType_functions),
     (''UA_JoiningTraceDataType'', UA_JoiningTraceDataType_functions),
     (''UA_JoiningResultDataType'', UA_JoiningResultDataType_functions)]"

definition custom_types :: "data_type list" where
  "custom_types = UA_TYPES_GMS @ UA_TYPES_TIGHTENING @ UA_TYPES_MACHINERY_RESULT @ UA_TYPES_IJT_GENERATED"

text \<open>Both lookups at the names and references that occur.\<close>

lemma struct_named_simps [simp]:
  "struct_named ''UA_CartesianWorkspaceType'' = UA_CartesianWorkspaceType"
  "struct_named ''UA_CylindricalWorkspaceType'' = UA_CylindricalWorkspaceType"
  "struct_named ''UA_IJT_ProcessingTimesDataType'' = UA_IJT_ProcessingTimesDataType"
  "struct_named ''UA_BaseResultTransferOptionsDataType'' = UA_BaseResultTransferOptionsDataType"
  "struct_named ''UA_ResultTransferOptionsDataType'' = UA_ResultTransferOptionsDataType"
  "struct_named ''UA_ProcessingTimesDataType'' = UA_ProcessingTimesDataType"
  "struct_named ''UA_ResultDataType'' = UA_ResultDataType"
  "struct_named ''UA_ResultMetaDataType'' = UA_ResultMetaDataType"
  "struct_named ''UA_CalibrationDataType'' = UA_CalibrationDataType"
  "struct_named ''UA_DesignValueDataType'' = UA_DesignValueDataType"
  "struct_named ''UA_EntityDataType'' = UA_EntityDataType"
  "struct_named ''UA_ErrorInformationDataType'' = UA_ErrorInformationDataType"
  "struct_named ''UA_JoiningProcessDataType'' = UA_JoiningProcessDataType"
  "struct_named ''UA_JoiningProcessIdentificationDataType'' = UA_JoiningProcessIdentificationDataType"
  "struct_named ''UA_JoiningProcessMetaDataType'' = UA_JoiningProcessMetaDataType"
  "struct_named ''UA_JointComponentDataType'' = UA_JointComponentDataType"
  "struct_named ''UA_JointDataType'' = UA_JointDataType"
  "struct_named ''UA_JointDesignDataType'' = UA_JointDesignDataType"
  "struct_named ''UA_KeyValueDataType'' = UA_KeyValueDataType"
  "struct_named ''UA_ReportedValueDataType'' = UA_ReportedValueDataType"
  "struct_named ''UA_ResultCounterDataType'' = UA_ResultCounterDataType"
  "struct_named ''UA_JoiningResultMetaDataType'' = UA_JoiningResultMetaDataType"
  "struct_named ''UA_ResultValueDataType'' = UA_ResultValueDataType"
  "struct_named ''UA_SignalDataType'' = UA_SignalDataType"
  "struct_named ''UA_StepResultDataType'' = UA_StepResultDataType"
  "struct_named ''UA_TraceContentDataType'' = UA_TraceContentDataType"
  "struct_named ''UA_TraceDataType'' = UA_TraceDataType"
  "struct_named ''UA_StepTraceDataType'' = UA_StepTraceDataType"
  "struct_named ''UA_JoiningTraceDataType'' = UA_JoiningTraceDataType"
  "struct_named ''UA_JoiningResultDataType'' = UA_JoiningResultDataType"
  by (simp_all add: struct_named_def structs_def)

declare described_type.simps(2) [simp del]

lemma described_type_simps [simp]:
  "described_type (Entry GMS_Table UA_TYPES_GMS_CARTESIANWORKSPACETYPE) = Named ''UA_CartesianWorkspaceType''"
  "described_type (Entry GMS_Table UA_TYPES_GMS_CYLINDRICALWORKSPACETYPE) = Named ''UA_CylindricalWorkspaceType''"
  "described_type (Entry GMS_Table UA_TYPES_GMS_MEASUREMENTREASONENUM) = Named ''UA_MeasurementReasonEnum''"
  "described_type (Entry GMS_Table UA_TYPES_GMS_TOLERANCELIMITENUM) = Named ''UA_ToleranceLimitEnum''"
  "described_type (Entry GMS_Table UA_TYPES_GMS_TOOLALIGNMENTSTATE) = Named ''UA_ToolAlignmentState''"
  "described_type (Entry GMS_Table UA_TYPES_GMS_TOOLISQUALIFIEDSTATUS) = Named ''UA_ToolIsQualifiedStatus''"
  "described_type (Entry Tightening_Table UA_TYPES_TIGHTENING_PROCESSINGTIMESDATATYPE) = Named ''UA_IJT_ProcessingTimesDataType''"
  "described_type (Entry Machinery_Result_Table UA_TYPES_MACHINERY_RESULT_BASERESULTTRANSFEROPTIONSDATATYPE) = Named ''UA_BaseResultTransferOptionsDataType''"
  "described_type (Entry Machinery_Result_Table UA_TYPES_MACHINERY_RESULT_RESULTTRANSFEROPTIONSDATATYPE) = Named ''UA_ResultTransferOptionsDataType''"
  "described_type (Entry Machinery_Result_Table UA_TYPES_MACHINERY_RESULT_PROCESSINGTIMESDATATYPE) = Named ''UA_ProcessingTimesDataType''"
  "described_type (Entry Machinery_Result_Table UA_TYPES_MACHINERY_RESULT_RESULTDATATYPE) = Named ''UA_ResultDataType''"
  "described_type (Entry Machinery_Result_Table UA_TYPES_MACHINERY_RESULT_RESULTEVALUATIONENUM) = Named ''UA_ResultEvaluationEnum''"
  "described_type (Entry Machinery_Result_Table UA_TYPES_MACHINERY_RESULT_RESULTMETADATATYPE) = Named ''UA_ResultMetaDataType''"
  "described_type (Entry IJT_Table UA_TYPES_IJT_GENERATED_CALIBRATIONDATATYPE) = Named ''UA_CalibrationDataType''"
  "described_type (Entry IJT_Table UA_TYPES_IJT_GENERATED_DESIGNVALUEDATATYPE) = Named ''UA_DesignValueDataType''"
  "described_type (Entry IJT_Table UA_TYPES_IJT_GENERATED_ENTITYDATATYPE) = Named ''UA_EntityDataType''"
  "described_type (Entry IJT_Table UA_TYPES_IJT_GENERATED_ERRORINFORMATIONDATATYPE) = Named ''UA_ErrorInformationDataType''"
  "described_type (Entry IJT_Table UA_TYPES_IJT_GENERATED_JOININGPROCESSDATATYPE) = Named ''UA_JoiningProcessDataType''"
  "described_type (Entry IJT_Table UA_TYPES_IJT_GENERATED_JOININGPROCESSIDENTIFICATIONDATATYPE) = Named ''UA_JoiningProcessIdentificationDataType''"
  "described_type (Entry IJT_Table UA_TYPES_IJT_GENERATED_JOININGPROCESSMETADATATYPE) = Named ''UA_JoiningProcessMetaDataType''"
  "described_type (Entry IJT_Table UA_TYPES_IJT_GENERATED_JOINTCOMPONENTDATATYPE) = Named ''UA_JointComponentDataType''"
  "described_type (Entry IJT_Table UA_TYPES_IJT_GENERATED_JOINTDATATYPE) = Named ''UA_JointDataType''"
  "described_type (Entry IJT_Table UA_TYPES_IJT_GENERATED_JOINTDESIGNDATATYPE) = Named ''UA_JointDesignDataType''"
  "described_type (Entry IJT_Table UA_TYPES_IJT_GENERATED_KEYVALUEDATATYPE) = Named ''UA_KeyValueDataType''"
  "described_type (Entry IJT_Table UA_TYPES_IJT_GENERATED_REPORTEDVALUEDATATYPE) = Named ''UA_ReportedValueDataType''"
  "described_type (Entry IJT_Table UA_TYPES_IJT_GENERATED_RESULTCOUNTERDATATYPE) = Named ''UA_ResultCounterDataType''"
  "described_type (Entry IJT_Table UA_TYPES_IJT_GENERATED_JOININGRESULTMETADATATYPE) = Named ''UA_JoiningResultMetaDataType''"
  "described_type (Entry IJT_Table UA_TYPES_IJT_GENERATED_RESULTVALUEDATATYPE) = Named ''UA_ResultValueDataType''"
  "described_type (Entry IJT_Table UA_TYPES_IJT_GENERATED_SIGNALDATATYPE) = Named ''UA_SignalDataType''"
  "described_type (Entry IJT_Table UA_TYPES_IJT_GENERATED_STEPRESULTDATATYPE) = Named ''UA_StepResultDataType''"
  "described_type (Entry IJT_Table UA_TYPES_IJT_GENERATED_TRACECONTENTDATATYPE) = Named ''UA_TraceContentDataType''"
  "described_type (Entry IJT_Table UA_TYPES_IJT_GENERATED_TRACEDATATYPE) = Named ''UA_TraceDataType''"
  "described_type (Entry IJT_Table UA_TYPES_IJT_GENERATED_STEPTRACEDATATYPE) = Named ''UA_StepTraceDataType''"
  "described_type (Entry IJT_Table UA_TYPES_IJT_GENERATED_JOININGTRACEDATATYPE) = Named ''UA_JoiningTraceDataType''"
  "described_type (Entry IJT_Table UA_TYPES_IJT_GENERATED_JOININGRESULTDATATYPE) = Named ''UA_JoiningResultDataType''"
  by (simp_all add: described_type.simps table_of_def UA_TYPES_GMS_def UA_TYPES_TIGHTENING_def UA_TYPES_MACHINERY_RESULT_def
    UA_TYPES_IJT_GENERATED_def entry_defs type_indices)

end
