(* ===== verification/Ua_Value.thy ===== *)
theory Ua_Value
  imports Json
begin

text \<open>
  The OPC UA values that \<^verbatim>\<open>UaDataValueToJsonValue\<close> reads: the built-in types of the
  open62541 stack, variants, and the companion-specification structures, as far as the
  converter looks at them. A pointer that may be null is an option. What the stack computes or
  fixes is in the record \<open>ua_lib\<close>: the split of a time into its fields, and the positions of
  four types in its generated type table.
\<close>

section \<open>Built-in types\<close>

record guid =
  data1 :: "32 word"
  data2 :: "16 word"
  data3 :: "16 word"
  data4 :: "8 word list"

record localized_text =
  ltLocale :: "string option"
  ltText :: "string option"

record date_time_struct =
  dtYear :: int
  dtMonth :: int
  dtDay :: int
  dtHour :: int
  dtMin :: int
  dtSec :: int
  dtMilliSec :: int

record ua_lib =
  lib_toStruct :: "64 word \<Rightarrow> date_time_struct"
  lib_RANGE :: nat
  lib_EUINFORMATION :: nat
  lib_GUID :: nat
  lib_TIMEZONEDATATYPE :: nat

text \<open>
  The values without variants inside. Of a node id only the first four bytes of the union are
  read, so the constructor holds these. The types that are not converted carry no data.
\<close>

datatype ua_leaf =
    LBoolean bool
  | LSByte "8 word"
  | LByte "8 word"
  | LInt16 "16 word"
  | LUInt16 "16 word"
  | LInt32 "32 word"
  | LUInt32 "32 word"
  | LInt64 "64 word"
  | LUInt64 "64 word"
  | LFloat "32 word"
  | LDouble "64 word"
  | LString string
  | LDateTime "64 word"
  | LGuid guid
  | LByteString string
  | LXmlElement
  | LNodeId "32 word"
  | LExpandedNodeId
  | LStatusCode
  | LDataValue
  | LDiagnosticInfo
  | LQualifiedName "16 word" string
  | LLocalizedText localized_text

section \<open>Structures\<close>

record eu_information =
  euNamespaceUri :: string
  euUnitId :: "32 word"
  euDisplayName :: localized_text
  euDescription :: localized_text

record processing_times =
  ptStartTime :: "64 word"
  ptEndTime :: "64 word"
  ptAcquisitionDuration :: "64 word option"
  ptProcessingDuration :: "64 word option"

record entity =
  enName :: "string option"
  enDescription :: "string option"
  enEntityId :: string
  enEntityOriginId :: "string option"
  enIsExternal :: "bool option"
  enEntityType :: "16 word"

record result_value =
  rvMeasuredValue :: "64 word"
  rvName :: "string option"
  rvResultEvaluation :: "nat option"
  rvValueId :: "string option"
  rvValueTag :: "16 word option"
  rvTracePointIndex :: "32 word option"
  rvTracePointTimeOffset :: "64 word option"
  rvParameterIdList :: "string list option"
  rvViolationType :: "8 word option"
  rvViolationConsequence :: "8 word option"
  rvSensorId :: "string option"
  rvLowLimit :: "64 word option"
  rvHighLimit :: "64 word option"
  rvTargetValue :: "64 word option"
  rvResultStep :: "string option"
  rvPhysicalQuantity :: "8 word option"
  rvEngineeringUnits :: "eu_information option"

record step_result =
  srStepResultId :: string
  srProgramStepId :: "string option"
  srProgramStep :: "string option"
  srName :: "string option"
  srResultEvaluation :: "nat option"
  srStartTimeOffset :: "64 word option"
  srStepTraceId :: "string option"
  srStepResultValues :: "result_value list option"

record result_meta =
  rmResultId :: string
  rmResultState :: "32 word option"
  rmResultUri :: "string list option"
  rmFileFormat :: "string list option"

text \<open>Of the error information only the number of entries matters.\<close>

record joining_result =
  jrFailureReason :: "8 word option"
  jrOverallResultValues :: "result_value list option"
  jrStepResults :: "step_result list option"
  jrErrors :: "nat option"
  jrFailingStepResultId :: "string option"

record joining_meta =
  jmAssemblyType :: "8 word option"
  jmAssociatedEntities :: "entity list option"
  jmClassification :: "8 word option"
  jmCreationTime :: "64 word option"
  jmDescription :: "localized_text option"
  jmExternalConfigurationId :: "string option"
  jmExternalRecipeId :: "string option"
  jmFileFormat :: "string list option"

section \<open>Values and variants\<close>

text \<open>
  The kind of a data type, with its name for structures: \<open>KSimple\<close> stands for the kinds whose
  arrays are converted, \<open>KNotImplemented\<close> for those whose arrays are not. The name decides
  how the memory of a structure is read. An extension object is what the converter reads through
  the \<^verbatim>\<open>encoded\<close> member of the union: namespace, number and kind of the encoding id, the bytes of
  the body (none for an object without body, which has the encoding \<^verbatim>\<open>ENCODED_NOBODY\<close>), and
  what \<^verbatim>\<open>UA_decodeBinary\<close> makes of the bytes for the type that the converter asks for (all zero
  when they do not decode).
\<close>

datatype type_kind = KSimple | KNotImplemented | KStructure string | KOptStruct string | KEnum string

datatype ua_value =
    Leaf ua_leaf
  | ExtensionObject "16 word" "32 word" nat "string option" ua_body
  | VariantValue ua_variant
  | Structure type_kind ua_struct
and ua_variant =
    EmptyVariant
  | ScalarVariant ua_value
  | ArrayVariant type_kind "32 word list" "ua_value list"
and ua_body =
    BodyResultMeta result_meta
  | BodyEntity entity
  | BodyJoiningMeta joining_meta "(string \<times> ua_variant) list option"
  | BodyJoiningResult joining_result
  | BodyRange "64 word" "64 word"
  | BodyGuid guid
  | BodyTimeZone "16 word" bool
  | BodyOther
and ua_struct =
    SEUInformation eu_information
  | SRange "64 word" "64 word"
  | STimeZone "16 word" bool
  | SKeyValue string ua_variant
  | SProcessingTimes processing_times
  | SResultData ua_value "ua_variant list option"
  | SEntity entity
  | SResultValue result_value
  | SStepResult step_result
  | SResultEvaluation nat
  | SOther

definition zero_entity :: entity where
  "zero_entity = \<lparr>enName = None, enDescription = None, enEntityId = '''', enEntityOriginId = None,
     enIsExternal = None, enEntityType = 0\<rparr>"

definition zero_result_meta :: result_meta where
  "zero_result_meta = \<lparr>rmResultId = '''', rmResultState = None, rmResultUri = None, rmFileFormat = None\<rparr>"

definition zero_joining_result :: joining_result where
  "zero_joining_result = \<lparr>jrFailureReason = None, jrOverallResultValues = None, jrStepResults = None,
     jrErrors = None, jrFailingStepResultId = None\<rparr>"

definition zero_joining_meta :: joining_meta where
  "zero_joining_meta = \<lparr>jmAssemblyType = None, jmAssociatedEntities = None, jmClassification = None,
     jmCreationTime = None, jmDescription = None, jmExternalConfigurationId = None,
     jmExternalRecipeId = None, jmFileFormat = None\<rparr>"

end
