(* ===== verification/Value_Json.thy ===== *)
theory Value_Json
  imports Ua_Value
begin

text \<open>
  \<^verbatim>\<open>OpcUaClient/Converter/UaDataValueToJsonValue.cpp\<close>: OPC UA values as JSON. The flag
  \<open>ser\<close> is \<^verbatim>\<open>serializeStatusInformation\<close>: with it, every value that goes through a
  data value of its own is wrapped with its status. The result \<open>None\<close> is undefined behaviour:
  a read outside the array, or memory read as another type than it has. Logging is omitted. A
  function that fills \<^verbatim>\<open>*jsonValue\<close> member by member is the list of its members, in the
  order of the assignments; \<open>members_put\<close> shows that they are the assignments of the code.
  Words are printed on a little-endian machine, which one conversion depends on.
\<close>

section \<open>Members\<close>

definition members :: "(string \<times> json) list \<Rightarrow> json" where
  "members kvs = (if kvs = [] then JNull else JObj (fold (\<lambda>(k, v). sm_assign k v) kvs []))"

definition member_if :: "string \<Rightarrow> ('a \<Rightarrow> json) \<Rightarrow> 'a option \<Rightarrow> (string \<times> json) list" where
  "member_if k f x = (case x of None \<Rightarrow> [] | Some y \<Rightarrow> [(k, f y)])"

lemma members_put: "fold (\<lambda>(k, v) r. ebind r (json_put k v)) kvs (Inr JNull) = Inr (members kvs)"
proof -
  have step: "fold (\<lambda>(k, v) r. ebind r (json_put k v)) ps (Inr (JObj m)) =
      Inr (JObj (fold (\<lambda>(k, v). sm_assign k v) ps m))" for ps m
    by (induction ps arbitrary: m) auto
  show ?thesis by (cases kvs) (auto simp: members_def step split: prod.splits)
qed

text \<open>A data value without and with its status.\<close>

definition with_status :: "bool \<Rightarrow> 32 word \<Rightarrow> json \<Rightarrow> json" where
  "with_status ser status v =
     (if ser
      then members [(''value'', v),
        (''statusCode'', members [(''code'', JInt (uint status)), (''isGood'', JBool (status = 0))])]
      else v)"

section \<open>Built-in types\<close>

definition dateTime_string :: "date_time_struct \<Rightarrow> string" where
  "dateTime_string d =
     show_int (dtYear d) @ ''-'' @ show_int (dtMonth d) @ ''-'' @ show_int (dtDay d) @ ''T'' @
     show_int (dtHour d) @ '':'' @ show_int (dtMin d) @ '':'' @ show_int (dtSec d) @ '':'' @
     show_int (dtMilliSec d) @ ''Z''"

text \<open>\<^verbatim>\<open>*(uint32_t *)&guid.data4[i]\<close>\<close>

definition le32 :: "8 word list \<Rightarrow> nat" where
  "le32 bs = (\<Sum>i<4. unat (bs ! i) * 256 ^ i)"

definition guid_string :: "guid \<Rightarrow> string" where
  "guid_string g =
     show_hex (unat (data1 g)) @ ''-'' @ show_hex (unat (data2 g)) @ ''-'' @ show_hex (unat (data3 g)) @ ''-'' @
     show_hex (le32 (data4 g)) @ ''-'' @ show_hex (le32 (drop 4 (data4 g)))"

definition maxLength :: nat where "maxLength = 4000"

definition localizedText_json :: "localized_text \<Rightarrow> json" where
  "localizedText_json t =
     members
       ((case ltLocale t of Some s \<Rightarrow> if length s < maxLength then [(''locale'', JStr s)] else [] | None \<Rightarrow> []) @
        (case ltText t of Some s \<Rightarrow> if length s < maxLength then [(''text'', JStr s)] else [] | None \<Rightarrow> []))"

fun leaf_json :: "ua_lib \<Rightarrow> ua_leaf \<Rightarrow> json" where
  "leaf_json lib (LBoolean b) = JBool b"
| "leaf_json lib (LSByte w) = JInt (sint w)"
| "leaf_json lib (LByte w) = JInt (uint w)"
| "leaf_json lib (LInt16 w) = JInt (sint w)"
| "leaf_json lib (LUInt16 w) = JInt (uint w)"
| "leaf_json lib (LInt32 w) = JInt (sint w)"
| "leaf_json lib (LUInt32 w) = JInt (uint w)"
| "leaf_json lib (LInt64 w) = JInt (sint w)"
| "leaf_json lib (LUInt64 w) = JInt (uint w)"
| "leaf_json lib (LFloat w) = JReal (OfFloat w)"
| "leaf_json lib (LDouble w) = JReal (OfDouble w)"
| "leaf_json lib (LString s) = JStr s"
| "leaf_json lib (LDateTime w) = JStr (dateTime_string (lib_toStruct lib w))"
| "leaf_json lib (LGuid g) = JStr (guid_string g)"
| "leaf_json lib (LByteString s) = JStr s"
| "leaf_json lib LXmlElement = JNull"
| "leaf_json lib (LNodeId w) = JInt (uint w)"
| "leaf_json lib LExpandedNodeId = JNull"
| "leaf_json lib LStatusCode = JNull"
| "leaf_json lib LDataValue = JNull"
| "leaf_json lib LDiagnosticInfo = JNull"
| "leaf_json lib (LQualifiedName ns name) = members [(''namespaceIndex'', JInt (uint ns)), (''name'', JStr name)]"
| "leaf_json lib (LLocalizedText t) = localizedText_json t"

text \<open>A built-in value in a data value of its own, and an array of them.\<close>

definition leaf_value :: "ua_lib \<Rightarrow> bool \<Rightarrow> ua_leaf \<Rightarrow> json" where
  "leaf_value lib ser l = with_status ser 0 (leaf_json lib l)"

text \<open>What repeated \<^verbatim>\<open>push_back\<close> makes of a value that starts as null.\<close>

definition pushed :: "json list \<Rightarrow> json" where
  "pushed js = (if js = [] then JNull else JArr js)"

definition strings_value :: "ua_lib \<Rightarrow> bool \<Rightarrow> string list \<Rightarrow> json" where
  "strings_value lib ser ss = with_status ser 0 (pushed (map (\<lambda>s. leaf_json lib (LString s)) ss))"

section \<open>Structures without variants\<close>

definition eu_json :: "ua_lib \<Rightarrow> bool \<Rightarrow> eu_information \<Rightarrow> json" where
  "eu_json lib ser e =
     members
       [(''NamespaceUri'', JStr (euNamespaceUri e)), (''UnitId'', JInt (sint (euUnitId e))),
        (''DisplayName'', leaf_value lib ser (LLocalizedText (euDisplayName e))),
        (''Description'', leaf_value lib ser (LLocalizedText (euDescription e)))]"

definition range_json :: "64 word \<Rightarrow> 64 word \<Rightarrow> json" where
  "range_json low high = members [(''Low'', JReal (OfDouble low)), (''High'', JReal (OfDouble high))]"

definition timeZone_json :: "16 word \<Rightarrow> bool \<Rightarrow> json" where
  "timeZone_json offset dst = members [(''daylightSavingInOffset'', JBool dst), (''offset'', JInt (sint offset))]"

text \<open>The branch for structures spells one key differently from the branch for all other kinds.\<close>

definition processingTimes_json :: "ua_lib \<Rightarrow> bool \<Rightarrow> processing_times \<Rightarrow> json" where
  "processingTimes_json lib ser p =
     members
       (member_if ''acquisitionDuration'' (\<lambda>d. JReal (OfDouble d)) (ptAcquisitionDuration p) @
        [(''EndTime'', leaf_value lib ser (LDateTime (ptEndTime p)))] @
        member_if ''ProcessingDuration'' (\<lambda>d. JReal (OfDouble d)) (ptProcessingDuration p) @
        [(''StartTime'', leaf_value lib ser (LDateTime (ptStartTime p)))])"

definition ijtProcessingTimes_json :: "ua_lib \<Rightarrow> bool \<Rightarrow> processing_times \<Rightarrow> json" where
  "ijtProcessingTimes_json lib ser p =
     members
       (member_if ''AcquisitionDuration'' (\<lambda>d. JReal (OfDouble d)) (ptAcquisitionDuration p) @
        member_if ''ProcessingDuration'' (\<lambda>d. JReal (OfDouble d)) (ptProcessingDuration p) @
        [(''StartTime'', leaf_value lib ser (LDateTime (ptStartTime p))),
         (''EndTime'', leaf_value lib ser (LDateTime (ptEndTime p)))])"

text \<open>Three members of an entity are written under the same key.\<close>

definition decodeEntityDataType :: "entity \<Rightarrow> json" where
  "decodeEntityDataType e =
     members
       ([(''EntityId'', JStr (enEntityId e)), (''EntityType'', JInt (sint (enEntityType e)))] @
        member_if ''Description'' JStr (enDescription e) @
        member_if ''Description'' JStr (enEntityOriginId e) @
        member_if ''Name'' JStr (enName e) @
        member_if ''Description'' JBool (enIsExternal e))"

definition decodeResultEvaluationEnum :: "nat \<Rightarrow> json" where
  "decodeResultEvaluationEnum n =
     (if n = 0 then JStr ''UA_RESULTEVALUATIONENUM_UNDEFINED''
      else if n = 1 then JStr ''UA_RESULTEVALUATIONENUM_OK''
      else if n = 2 then JStr ''UA_RESULTEVALUATIONENUM_NOTOK''
      else if n = 3 then JStr ''UA_RESULTEVALUATIONENUM_NOTDECIDABLE''
      else JNull)"

definition decodeResultValueDataType :: "ua_lib \<Rightarrow> bool \<Rightarrow> result_value \<Rightarrow> json" where
  "decodeResultValueDataType lib ser r =
     members
       (member_if ''EngineeringUnits'' (\<lambda>e. with_status ser 0 (eu_json lib ser e)) (rvEngineeringUnits r) @
        member_if ''HighLimit'' (\<lambda>w. leaf_value lib ser (LDouble w)) (rvHighLimit r) @
        member_if ''LowLimit'' (\<lambda>w. leaf_value lib ser (LDouble w)) (rvLowLimit r) @
        [(''MeasuredValue'', JReal (OfDouble (rvMeasuredValue r)))] @
        member_if ''Name'' (\<lambda>s. leaf_value lib ser (LString s)) (rvName r) @
        member_if ''ParameterIdList'' (strings_value lib ser) (rvParameterIdList r) @
        member_if ''PhysicalQuantity'' (\<lambda>w. leaf_value lib ser (LByte w)) (rvPhysicalQuantity r) @
        member_if ''ResultEvaluation'' (\<lambda>n. with_status ser 0 (decodeResultEvaluationEnum n)) (rvResultEvaluation r) @
        member_if ''ResultStep'' (\<lambda>s. leaf_value lib ser (LString s)) (rvResultStep r) @
        member_if ''SensorId'' (\<lambda>s. leaf_value lib ser (LString s)) (rvSensorId r) @
        member_if ''TargetValue'' (\<lambda>w. leaf_value lib ser (LDouble w)) (rvTargetValue r) @
        member_if ''TracePointIndex'' (\<lambda>w. leaf_value lib ser (LInt32 w)) (rvTracePointIndex r) @
        member_if ''TracePointTimeOffset'' (\<lambda>w. leaf_value lib ser (LDouble w)) (rvTracePointTimeOffset r) @
        member_if ''ValueId'' (\<lambda>s. leaf_value lib ser (LString s)) (rvValueId r) @
        member_if ''ValueTag'' (\<lambda>w. leaf_value lib ser (LInt16 w)) (rvValueTag r) @
        member_if ''ViolationConsequence'' (\<lambda>w. leaf_value lib ser (LByte w)) (rvViolationConsequence r) @
        member_if ''ViolationType'' (\<lambda>w. leaf_value lib ser (LByte w)) (rvViolationType r))"

definition resultValues_value :: "ua_lib \<Rightarrow> bool \<Rightarrow> result_value list \<Rightarrow> json" where
  "resultValues_value lib ser rs = with_status ser 0 (pushed (map (decodeResultValueDataType lib ser) rs))"

definition decodeStepResultDataType :: "ua_lib \<Rightarrow> bool \<Rightarrow> step_result \<Rightarrow> json" where
  "decodeStepResultDataType lib ser r =
     members
       (member_if ''Name'' (\<lambda>s. leaf_value lib ser (LString s)) (srName r) @
        member_if ''ProgramStep'' (\<lambda>s. leaf_value lib ser (LString s)) (srProgramStep r) @
        member_if ''ProgramStepId'' (\<lambda>s. leaf_value lib ser (LString s)) (srProgramStepId r) @
        member_if ''ResultEvaluation'' (\<lambda>n. with_status ser 0 (decodeResultEvaluationEnum n)) (srResultEvaluation r) @
        member_if ''StartTimeOffset'' (\<lambda>w. leaf_value lib ser (LDouble w)) (srStartTimeOffset r) @
        [(''StepResultId'', leaf_value lib ser (LString (srStepResultId r)))] @
        member_if ''StepResultValues'' (resultValues_value lib ser) (srStepResultValues r) @
        member_if ''StepTraceId'' (\<lambda>s. leaf_value lib ser (LString s)) (srStepTraceId r))"

text \<open>Arrays of error informations have no conversion and become null.\<close>

definition decodeJoiningResultDataType :: "ua_lib \<Rightarrow> bool \<Rightarrow> joining_result \<Rightarrow> json" where
  "decodeJoiningResultDataType lib ser r =
     members
       (member_if ''Errors'' (\<lambda>n. with_status ser 0 JNull) (jrErrors r) @
        member_if ''FailingStepResultId'' (\<lambda>s. leaf_value lib ser (LString s)) (jrFailingStepResultId r) @
        member_if ''FailureReason'' (\<lambda>w. leaf_value lib ser (LByte w)) (jrFailureReason r) @
        member_if ''OverallResultValues'' (resultValues_value lib ser) (jrOverallResultValues r) @
        member_if ''StepResults'' (\<lambda>rs. with_status ser 0 (pushed (map (decodeStepResultDataType lib ser) rs)))
          (jrStepResults r))"

definition resultMeta_json :: "ua_lib \<Rightarrow> bool \<Rightarrow> result_meta \<Rightarrow> json" where
  "resultMeta_json lib ser r =
     members
       ([(''ResultId'', leaf_value lib ser (LString (rmResultId r)))] @
        member_if ''ResultState'' (\<lambda>w. leaf_value lib ser (LInt32 w)) (rmResultState r) @
        member_if ''ResultUri'' (strings_value lib ser) (rmResultUri r) @
        member_if ''FileFormat'' (strings_value lib ser) (rmFileFormat r))"

text \<open>
  The members of the joining meta data; the extended meta data, which hold variants, are
  converted by the caller. The assembly type is written under the key of the result id.
\<close>

definition decodeJoiningResultMetaDataType :: "ua_lib \<Rightarrow> bool \<Rightarrow> joining_meta \<Rightarrow> json option \<Rightarrow> json" where
  "decodeJoiningResultMetaDataType lib ser r extendedMetaData =
     members
       (member_if ''ResultId'' (\<lambda>w. leaf_value lib ser (LByte w)) (jmAssemblyType r) @
        member_if ''AssociatedEntities'' (\<lambda>es. with_status ser 0 (pushed (map decodeEntityDataType es)))
          (jmAssociatedEntities r) @
        member_if ''Classification'' (\<lambda>w. leaf_value lib ser (LByte w)) (jmClassification r) @
        member_if ''CreationTime'' (\<lambda>w. leaf_value lib ser (LDateTime w)) (jmCreationTime r) @
        member_if ''Description'' (\<lambda>t. leaf_value lib ser (LLocalizedText t)) (jmDescription r) @
        member_if ''ExtendedMetaData'' (with_status ser 0) extendedMetaData @
        member_if ''ExternalConfigurationId'' (\<lambda>s. leaf_value lib ser (LString s)) (jmExternalConfigurationId r) @
        member_if ''ExternalRecipeId'' (\<lambda>s. leaf_value lib ser (LString s)) (jmExternalRecipeId r) @
        member_if ''FileFormat'' (strings_value lib ser) (jmFileFormat r))"

section \<open>Arrays\<close>

text \<open>
  \<^verbatim>\<open>getValueFromDataValueArray\<close>, over the converted elements: the values pushed by the
  call for the remaining dimensions, whose data start at \<open>base\<close>. Indices are computed with 32
  bits. \<open>None\<close> is a read behind the end of the data.
\<close>

definition row_offset :: "32 word list \<Rightarrow> 32 word" where
  "row_offset ds = prod_list (butlast ds)"

fun array_rows :: "32 word list \<Rightarrow> nat \<Rightarrow> json list \<Rightarrow> json list option" where
  "array_rows [] base js = Some []"
| "array_rows [d] base js =
     (if base + unat d \<le> length js \<or> d = 0 then Some (take (unat d) (drop base js)) else None)"
| "array_rows (d # e # ds) base js =
     those (map (\<lambda>i. map_option JArr (array_rows (e # ds) (base + unat (of_nat i * row_offset (e # ds))) js)) [0..<unat d])"

definition array_json :: "32 word list \<Rightarrow> json list \<Rightarrow> json option" where
  "array_json dims js = map_option pushed (array_rows (if dims = [] then [of_nat (length js)] else dims) 0 js)"

definition convertible_array :: "type_kind \<Rightarrow> bool" where
  "convertible_array k =
     (k = KSimple \<or>
      k \<in> {KStructure ''EUInformation'', KStructure ''Range'', KStructure ''KeyValueDataType'',
           KOptStruct ''EntityDataType'', KOptStruct ''ResultDataType'', KOptStruct ''ResultValueDataType'',
           KOptStruct ''StepResultDataType''})"

section \<open>Values and variants\<close>

text \<open>The char array of a GUID is printed up to its first null byte.\<close>

definition guid_ext_string :: "guid \<Rightarrow> string option" where
  "guid_ext_string g =
     (if 0 \<in> set (data4 g)
      then Some (show_hex (unat (data1 g)) @ ''-'' @ show_hex (unat (data2 g)) @ ''-'' @ show_hex (unat (data3 g)) @
        ''-'' @ map (\<lambda>b. char_of (unat b)) (takeWhile (\<lambda>b. b \<noteq> 0) (data4 g)))
      else None)"

text \<open>
  The branch for extension objects of namespace 0. It compares the kind of the identifier with
  positions of the type table; the second case reads the extension object as another type. The
  default writes the bytes of the body to the log as a C string, so they are read up to the first
  null byte, and behind their end when there is none (or through a null pointer when they are empty).
\<close>

definition printed_body :: "string option \<Rightarrow> json option" where
  "printed_body raw =
     (case raw of None \<Rightarrow> Some JNull | Some bytes \<Rightarrow> if CHR 0x00 \<in> set bytes then Some JNull else None)"

definition ns0_ext_json :: "ua_lib \<Rightarrow> nat \<Rightarrow> string option \<Rightarrow> ua_body \<Rightarrow> json option" where
  "ns0_ext_json lib identifierType raw body =
     (if identifierType = lib_RANGE lib
      then (case body of BodyRange low high \<Rightarrow> Some (range_json low high) | _ \<Rightarrow> None)
      else if identifierType = lib_EUINFORMATION lib then None
      else if identifierType = lib_GUID lib
      then (case body of BodyGuid g \<Rightarrow> map_option JStr (guid_ext_string g) | _ \<Rightarrow> None)
      else if identifierType = lib_TIMEZONEDATATYPE lib
      then (case body of BodyTimeZone offset dst \<Rightarrow> Some (timeZone_json offset dst) | _ \<Rightarrow> None)
      else printed_body raw)"

text \<open>The branch \<^verbatim>\<open>default\<close>, which goes by the name of the type only.\<close>

definition default_json ::
    "ua_lib \<Rightarrow> bool \<Rightarrow> string \<Rightarrow> ua_struct \<Rightarrow> (string \<times> json) list option \<Rightarrow> json option" where
  "default_json lib ser name s result =
     (if name = ''ProcessingTimesDataType''
      then (case s of SProcessingTimes p \<Rightarrow> Some (ijtProcessingTimes_json lib ser p) | _ \<Rightarrow> None)
      else if name = ''EntityDataType''
      then (case s of SEntity e \<Rightarrow> Some (decodeEntityDataType e) | _ \<Rightarrow> None)
      else if name = ''ResultDataType'' then map_option members result
      else if name = ''ResultValueDataType''
      then (case s of SResultValue r \<Rightarrow> Some (decodeResultValueDataType lib ser r) | _ \<Rightarrow> None)
      else if name = ''ResultEvaluationEnum''
      then (case s of SResultEvaluation n \<Rightarrow> Some (decodeResultEvaluationEnum n) | _ \<Rightarrow> None)
      else if name = ''StepResultDataType''
      then (case s of SStepResult r \<Rightarrow> Some (decodeStepResultDataType lib ser r) | _ \<Rightarrow> None)
      else Some JNull)"

text \<open>
  The recursion through variants. The members of a result are assigned twice when its kind is a
  structure, as that case has no \<^verbatim>\<open>break\<close> and runs into the default.
\<close>

fun value_json :: "ua_lib \<Rightarrow> bool \<Rightarrow> ua_value \<Rightarrow> json option"
  and variant_json :: "ua_lib \<Rightarrow> bool \<Rightarrow> 32 word \<Rightarrow> ua_variant \<Rightarrow> json option"
  and values_json :: "ua_lib \<Rightarrow> bool \<Rightarrow> ua_value list \<Rightarrow> json list option"
  and variants_json :: "ua_lib \<Rightarrow> bool \<Rightarrow> ua_variant list \<Rightarrow> json list option"
  and keyValues_json :: "ua_lib \<Rightarrow> bool \<Rightarrow> (string \<times> ua_variant) list \<Rightarrow> json list option"
  and encoded_json :: "ua_lib \<Rightarrow> bool \<Rightarrow> 32 word \<Rightarrow> ua_body \<Rightarrow> json option"
  and result_members :: "ua_lib \<Rightarrow> bool \<Rightarrow> ua_struct \<Rightarrow> (string \<times> json) list option"
  and keyValue_json :: "ua_lib \<Rightarrow> bool \<Rightarrow> ua_struct \<Rightarrow> json option" where
  "value_json lib ser (Leaf l) = Some (leaf_json lib l)"
| "value_json lib ser (ExtensionObject ns num identifierType raw body) =
     (if ns \<noteq> 0 then encoded_json lib ser num body else ns0_ext_json lib identifierType raw body)"
| "value_json lib ser (VariantValue v) = variant_json lib ser 0 v"
| "value_json lib ser (Structure kind s) =
     (case kind of
        KStructure name \<Rightarrow>
          (if name = ''EUInformation''
           then (case s of SEUInformation e \<Rightarrow> Some (eu_json lib ser e) | _ \<Rightarrow> None)
           else if name = ''Range''
           then (case s of SRange low high \<Rightarrow> Some (range_json low high) | _ \<Rightarrow> None)
           else if name = ''TimeZoneDataType''
           then (case s of STimeZone offset dst \<Rightarrow> Some (timeZone_json offset dst) | _ \<Rightarrow> None)
           else if name = ''KeyValueDataType'' then keyValue_json lib ser s
           else if name = ''ProcessingTimesDataType''
           then (case s of SProcessingTimes p \<Rightarrow> Some (processingTimes_json lib ser p) | _ \<Rightarrow> None)
           else if name = ''ResultDataType''
           then default_json lib ser name s (map_option (\<lambda>kvs. kvs @ kvs) (result_members lib ser s))
           else Some JNull)
      | KOptStruct name \<Rightarrow> default_json lib ser name s (result_members lib ser s)
      | KEnum name \<Rightarrow> default_json lib ser name s (result_members lib ser s)
      | _ \<Rightarrow> Some JNull)"
| "variant_json lib ser status EmptyVariant = Some (with_status ser status JNull)"
| "variant_json lib ser status (ScalarVariant v) = map_option (with_status ser status) (value_json lib ser v)"
| "variant_json lib ser status (ArrayVariant kind dims vs) =
     (if convertible_array kind
      then (case values_json lib ser vs of None \<Rightarrow> None
            | Some js \<Rightarrow> map_option (with_status ser status) (array_json dims js))
      else Some (with_status ser status JNull))"
| "values_json lib ser [] = Some []"
| "values_json lib ser (v # vs) =
     (case value_json lib ser v of None \<Rightarrow> None | Some j \<Rightarrow> map_option (\<lambda>js. j # js) (values_json lib ser vs))"
| "variants_json lib ser [] = Some []"
| "variants_json lib ser (v # vs) =
     (case variant_json lib ser 0 v of None \<Rightarrow> None | Some j \<Rightarrow> map_option (\<lambda>js. j # js) (variants_json lib ser vs))"
| "keyValues_json lib ser [] = Some []"
| "keyValues_json lib ser ((k, v) # kvs) =
     (case variant_json lib ser 0 v of None \<Rightarrow> None
      | Some j \<Rightarrow> map_option (\<lambda>js. members [(''Key'', JStr k), (''Value'', with_status ser 0 j)] # js)
                   (keyValues_json lib ser kvs))"
| "encoded_json lib ser num (BodyJoiningMeta r None) =
     (if num = 5046 then Some (decodeJoiningResultMetaDataType lib ser r None)
      else if num = 5005 then Some (resultMeta_json lib ser zero_result_meta)
      else if num = 5079 then Some (decodeEntityDataType zero_entity)
      else if num = 5049 then Some (decodeJoiningResultDataType lib ser zero_joining_result)
      else Some JNull)"
| "encoded_json lib ser num (BodyJoiningMeta r (Some kvs)) =
     (if num = 5046
      then map_option (\<lambda>js. decodeJoiningResultMetaDataType lib ser r (Some (pushed js))) (keyValues_json lib ser kvs)
      else if num = 5005 then Some (resultMeta_json lib ser zero_result_meta)
      else if num = 5079 then Some (decodeEntityDataType zero_entity)
      else if num = 5049 then Some (decodeJoiningResultDataType lib ser zero_joining_result)
      else Some JNull)"
| "encoded_json lib ser num body =
     (if num = 5005
      then Some (resultMeta_json lib ser (case body of BodyResultMeta r \<Rightarrow> r | _ \<Rightarrow> zero_result_meta))
      else if num = 5079
      then Some (decodeEntityDataType (case body of BodyEntity e \<Rightarrow> e | _ \<Rightarrow> zero_entity))
      else if num = 5046 then Some (decodeJoiningResultMetaDataType lib ser zero_joining_meta None)
      else if num = 5049
      then Some (decodeJoiningResultDataType lib ser (case body of BodyJoiningResult r \<Rightarrow> r | _ \<Rightarrow> zero_joining_result))
      else Some JNull)"
| "result_members lib ser (SResultData meta None) =
     map_option (\<lambda>m. [(''ResultMetaData'', with_status ser 0 m)]) (value_json lib ser meta)"
| "result_members lib ser (SResultData meta (Some vs)) =
     (case value_json lib ser meta of None \<Rightarrow> None
      | Some m \<Rightarrow> map_option (\<lambda>js. [(''ResultMetaData'', with_status ser 0 m),
                     (''ResultContent'', with_status ser 0 (pushed js))]) (variants_json lib ser vs))"
| "result_members lib ser s = None"
| "keyValue_json lib ser (SKeyValue k v) =
     map_option (\<lambda>j. members [(''Key'', JStr k), (''Value'', with_status ser 0 j)]) (variant_json lib ser 0 v)"
| "keyValue_json lib ser s = None"

text \<open>\<^verbatim>\<open>UaDataValueToJsonValue(dataValue, serializeStatusInformation).getValue()\<close>\<close>

record ua_data_value =
  dvStatus :: "32 word"
  dvValue :: ua_variant

definition UaDataValueToJsonValue :: "ua_lib \<Rightarrow> bool \<Rightarrow> ua_data_value \<Rightarrow> json option" where
  "UaDataValueToJsonValue lib ser dv = variant_json lib ser (dvStatus dv) (dvValue dv)"

end
