(* ===== verification/Ua_Stack.thy ===== *)
theory Ua_Stack
  imports Data_Client Value_Json
begin

text \<open>
  The interface to the open62541 stack: its node ids, browse descriptions and references, and
  the calls that \<^verbatim>\<open>OpcUaClient/OpcUaInterface.hpp\<close>, \<^verbatim>\<open>OpcUaSubscriptionInterface.hpp\<close>
  and the client make. The stack is not part of the program, so every call is a field of the
  parameter \<open>ua_stack\<close>, a function on the state \<open>'w\<close> of the stack; a C function does not
  throw. The wrapper functions of \<^verbatim>\<open>OpcUaWrapper\<close> are defined on top of them in
  \<open>Opcua_Client\<close>.
\<close>

section \<open>Node ids and references\<close>

datatype ua_ident = UaNumeric "32 word" | UaString string | UaGuid guid | UaByteString string

record ua_node_id =
  namespaceIndex :: "16 word"
  uaIdentifier :: ua_ident

definition ua_numeric :: "32 word \<Rightarrow> ua_node_id" where
  "ua_numeric i = \<lparr>namespaceIndex = 0, uaIdentifier = UaNumeric i\<rparr>"

definition UA_NS0ID_HASSUBTYPE :: "32 word" where "UA_NS0ID_HASSUBTYPE = 45"
definition UA_NS0ID_HIERARCHICALREFERENCES :: "32 word" where "UA_NS0ID_HIERARCHICALREFERENCES = 33"
definition UA_NS0ID_HASMODELLINGRULE :: "32 word" where "UA_NS0ID_HASMODELLINGRULE = 37"
definition UA_NS0ID_SERVER_NAMESPACEARRAY :: "32 word" where "UA_NS0ID_SERVER_NAMESPACEARRAY = 2255"

text \<open>The text form of an identifier belongs to the stack, and so does its test for null.\<close>

record ua_ids =
  ids_parse :: "string \<Rightarrow> ua_ident"
  ids_print :: "ua_ident \<Rightarrow> string"
  ids_isNull :: "ua_node_id \<Rightarrow> bool"

record ua_reference =
  rfReferenceTypeId :: ua_node_id
  rfNodeId :: ua_node_id
  rfBrowseName :: "16 word \<times> string"
  rfNodeClass :: nat
  rfTypeDefinition :: ua_node_id

record ua_browse_description =
  bdDirection :: BrowseDirection
  bdReferenceTypeId :: ua_node_id
  bdIncludeSubtypes :: bool
  bdNodeClassMask :: "32 word"
  bdResultMask :: "32 word"

section \<open>Status codes\<close>

type_synonym status = "32 word"

definition UA_STATUSCODE_GOOD :: status where "UA_STATUSCODE_GOOD = 0"
definition UA_STATUSCODE_BADUSERACCESSDENIED :: status where "UA_STATUSCODE_BADUSERACCESSDENIED = 0x801F0000"
definition UA_STATUSCODE_BADNODEIDUNKNOWN :: status where "UA_STATUSCODE_BADNODEIDUNKNOWN = 0x80340000"
definition UA_STATUSCODE_BADAPPLICATIONSIGNATUREINVALID :: status where
  "UA_STATUSCODE_BADAPPLICATIONSIGNATUREINVALID = 0x80580000"
definition UA_STATUSCODE_BADDISCONNECT :: status where "UA_STATUSCODE_BADDISCONNECT = 0x80AD0000"
definition UA_STATUSCODE_BADCONNECTIONCLOSED :: status where "UA_STATUSCODE_BADCONNECTIONCLOSED = 0x80AE0000"

text \<open>The severity is in the two highest bits.\<close>

definition UA_StatusCode_isBad :: "status \<Rightarrow> bool" where
  "UA_StatusCode_isBad s \<longleftrightarrow> 2 \<le> unat (drop_bit 30 s)"

text \<open>\<^verbatim>\<open>OpcUaNonGoodStatusCodeException\<close>: the code in eight hexadecimal digits, and its name.\<close>

definition toHex :: "status \<Rightarrow> string" where
  "toHex s = pad_left 8 (CHR ''0'') (show_hex (unat s))"

definition nonGood :: "(status \<Rightarrow> string) \<Rightarrow> status \<Rightarrow> exn" where
  "nonGood name s = OpcUaNonGoodStatusCodeException (toHex s @ '', '' @ name s)"

definition nonGood_message :: "(status \<Rightarrow> string) \<Rightarrow> status \<Rightarrow> string \<Rightarrow> exn" where
  "nonGood_message name s message = OpcUaNonGoodStatusCodeException (toHex s @ '', '' @ name s @ '': '' @ message)"

section \<open>The calls of the stack\<close>

text \<open>The states that the code names; the stack has others, known by their numbers only.\<close>

datatype channel_state =
    ChannelClosed | ChannelOpen | ChannelConnecting | ChannelConnected | ChannelHelSent | ChannelHelReceived
  | ChannelAckSent | ChannelAckReceived | ChannelOpnSent | ChannelClosing | ChannelOther nat

datatype session_state =
    SessionActivated | SessionClosed | SessionCreateRequested | SessionCreated
  | SessionActivateRequested | SessionClosing | SessionOther nat

text \<open>
  A response that may come without results is an option or a possibly empty list: the stack
  leaves the pointer to the results null when the service fails.
\<close>

record 'w ua_stack =
  st_statusName :: "status \<Rightarrow> string"
  st_ids :: ua_ids
  st_lib :: ua_lib
  st_connect :: "string \<Rightarrow> 'w \<Rightarrow> status \<times> 'w"
  st_connectUsername :: "string \<Rightarrow> string \<Rightarrow> string \<Rightarrow> 'w \<Rightarrow> status \<times> 'w"
  st_disconnect :: "'w \<Rightarrow> status \<times> 'w"
  st_getState :: "'w \<Rightarrow> (channel_state \<times> session_state \<times> status) \<times> 'w"
  st_readNamespaceArray :: "'w \<Rightarrow> string list option \<times> 'w"
  st_browse :: "ua_node_id \<Rightarrow> ua_browse_description \<Rightarrow> 'w \<Rightarrow> (status \<times> ua_reference list) list \<times> 'w"
  st_translate :: "ua_node_id \<Rightarrow> (16 word \<times> string) \<Rightarrow> 'w \<Rightarrow> (status \<times> ua_node_id list) option \<times> 'w"
  st_read :: "ua_node_id list \<Rightarrow> 'w \<Rightarrow> ua_data_value list \<times> 'w"
  st_readNodeClass :: "ua_node_id \<Rightarrow> 'w \<Rightarrow> (status \<times> nat) \<times> 'w"
  st_readBrowseName :: "ua_node_id \<Rightarrow> 'w \<Rightarrow> (status \<times> (16 word \<times> string)) \<times> 'w"
  st_createSubscription :: "'w \<Rightarrow> (status \<times> 32 word) \<times> 'w"
  st_deleteSubscription :: "32 word \<Rightarrow> 'w \<Rightarrow> status \<times> 'w"
  st_createDataChange :: "32 word \<Rightarrow> ua_node_id \<Rightarrow> 32 word \<Rightarrow> 'w \<Rightarrow> (status \<times> 32 word \<times> 32 word) \<times> 'w"
  st_deleteMonitoredItems :: "32 word \<Rightarrow> 32 word list \<Rightarrow> 'w \<Rightarrow> (status \<times> status list) \<times> 'w"

end
