(* ===== verification/Namespace_Cache.thy ===== *)
theory Namespace_Cache
  imports Ua_Stack
begin

text \<open>
  \<^verbatim>\<open>OpcUaClient/Converter/\<close> and the namespace cache of \<^verbatim>\<open>OpcUaClient.cpp\<close>: node ids
  carry the URI of their namespace inside the program and its index on the wire. The cache is
  a pair of maps that is filled from the table of the server. An index is a key through its
  value, as \<^verbatim>\<open>std::map<uint16_t, ...>\<close> orders it. \<open>m_typeNamespaces\<close> holds the
  index that the four tables of generated data types were last given, by the URI of the table.
\<close>

record ns_cache =
  m_uriToIndexCache :: "(string, 16 word) smap"
  m_indexToUriCache :: "(nat, string) smap"
  m_typeNamespaces :: "(string, 16 word) smap"

section \<open>Converters\<close>

definition getNsIndexFromUri :: "(string, 16 word) smap \<Rightarrow> string \<Rightarrow> 16 word" where
  "getNsIndexFromUri uriToID uri =
     (if uri = '''' then 0
      else case sm_find uriToID uri of None \<Rightarrow> 0 | Some i \<Rightarrow> i)"

definition getUriFromNsIndex :: "(nat, string) smap \<Rightarrow> 16 word \<Rightarrow> string" where
  "getUriFromNsIndex idToUri nsIndex =
     (if nsIndex = 0 then ''''
      else case sm_find idToUri (unat nsIndex) of None \<Rightarrow> '''' | Some u \<Rightarrow> u)"

definition ModelNodeIdToUaNodeId :: "ua_ids \<Rightarrow> (string, 16 word) smap \<Rightarrow> NodeId_t \<Rightarrow> ua_node_id" where
  "ModelNodeIdToUaNodeId ids uriToID modelNodeId =
     \<lparr>namespaceIndex = getNsIndexFromUri uriToID (nUri modelNodeId), uaIdentifier = ids_parse ids (nId modelNodeId)\<rparr>"

definition UaNodeIdToModelNodeId :: "ua_ids \<Rightarrow> (nat, string) smap \<Rightarrow> ua_node_id \<Rightarrow> NodeId_t" where
  "UaNodeIdToModelNodeId ids idToUri nodeId =
     NodeId (getUriFromNsIndex idToUri (namespaceIndex nodeId)) (ids_print ids (uaIdentifier nodeId))"

definition ModelQualifiedNameToUaQualifiedName :: "(string, 16 word) smap \<Rightarrow> QualifiedName_t \<Rightarrow> 16 word \<times> string" where
  "ModelQualifiedNameToUaQualifiedName uriToID q = (getNsIndexFromUri uriToID (qUri q), takeWhile (\<lambda>c. c \<noteq> CHR 0x00) (qName q))"

definition UaQualifiedNameToModelQualifiedName :: "(nat, string) smap \<Rightarrow> 16 word \<times> string \<Rightarrow> QualifiedName_t" where
  "UaQualifiedNameToModelQualifiedName idToUri q = QualifiedName (getUriFromNsIndex idToUri (fst q)) (snd q)"

definition UaNodeClassToModelNodeClass :: "nat \<Rightarrow> exn + NodeClass_t" where
  "UaNodeClassToModelNodeClass nodeClass =
     (if nodeClass = 1 then Inr Object
      else if nodeClass = 2 then Inr Variable
      else if nodeClass = 4 then Inr Method
      else if nodeClass = 8 then Inr ObjectType
      else if nodeClass = 16 then Inr VariableType
      else if nodeClass = 32 then Inr NodeClass_t.ReferenceType
      else if nodeClass = 64 then Inr DataType
      else Inl (UmatiException ''Incompatible NodeClass''))"

section \<open>Filling the cache\<close>

definition empty_cache :: ns_cache where
  "empty_cache = \<lparr>m_uriToIndexCache = [], m_indexToUriCache = [], m_typeNamespaces = []\<rparr>"

definition clear_cache :: "ns_cache \<Rightarrow> ns_cache" where
  "clear_cache c = c\<lparr>m_uriToIndexCache := [], m_indexToUriCache := []\<rparr>"

definition updateCustomDataTypesNamespace :: "string \<Rightarrow> nat \<Rightarrow> ns_cache \<Rightarrow> ns_cache" where
  "updateCustomDataTypesNamespace namespaceURI nsIndex c =
     (if namespaceURI \<in> set [''http://opcfoundation.org/UA/Machinery/Result/'',
        ''http://opcfoundation.org/UA/IJT/'', ''http://opcfoundation.org/UA/GMS/'',
        ''http://opcfoundation.org/UA/IJT/Base/'']
      then c\<lparr>m_typeNamespaces := sm_assign namespaceURI (of_nat nsIndex) (m_typeNamespaces c)\<rparr>
      else c)"

text \<open>One step of the loop; the index is cut to 16 bits.\<close>

definition add_namespace_uri :: "nat \<times> string \<Rightarrow> ns_cache \<Rightarrow> ns_cache" where
  "add_namespace_uri = (\<lambda>(i, namespaceURI) c.
     if sm_find (m_uriToIndexCache c) namespaceURI = None
     then updateCustomDataTypesNamespace namespaceURI i
           (c\<lparr>m_uriToIndexCache := sm_assign namespaceURI (of_nat i) (m_uriToIndexCache c),
              m_indexToUriCache := sm_assign (unat (of_nat i :: 16 word)) namespaceURI (m_indexToUriCache c)\<rparr>)
     else c)"

definition fillNamespaceCache :: "string list \<Rightarrow> ns_cache \<Rightarrow> ns_cache" where
  "fillNamespaceCache uaNamespaces c = fold add_namespace_uri (zip [0..<length uaNamespaces] uaNamespaces) c"

definition verifyCompatibleNamespaceCache :: "(nat, string) smap \<Rightarrow> (nat, string) smap \<Rightarrow> bool" where
  "verifyCompatibleNamespaceCache new old =
     list_all (\<lambda>(i, u). case sm_find new i of None \<Rightarrow> False | Some u' \<Rightarrow> u' = u) old"

text \<open>\<^verbatim>\<open>Namespaces()\<close> lists the URIs in the order of their indices.\<close>

definition cache_namespaces :: "ns_cache \<Rightarrow> string list" where
  "cache_namespaces c = map snd (m_indexToUriCache c)"

section \<open>Round trips\<close>

definition cache_of :: "string list \<Rightarrow> ns_cache \<Rightarrow> bool" where
  "cache_of us c \<longleftrightarrow>
     sm_ok (m_uriToIndexCache c) \<and> sm_ok (m_indexToUriCache c) \<and>
     (\<forall>u. sm_find (m_uriToIndexCache c) u = None \<longleftrightarrow> u \<notin> set us) \<and>
     (\<forall>u i. sm_find (m_uriToIndexCache c) u = Some i \<longrightarrow>
        unat i < length us \<and> us ! unat i = u \<and> sm_find (m_indexToUriCache c) (unat i) = Some u \<and>
        (\<forall>j < unat i. us ! j \<noteq> u)) \<and>
     (\<forall>k u. sm_find (m_indexToUriCache c) k = Some u \<longrightarrow> k < length us \<and> us ! k = u)"

lemma fill_snoc:
  "fillNamespaceCache (us @ [u]) c = add_namespace_uri (length us, u) (fillNamespaceCache us c)"
  by (simp add: fillNamespaceCache_def)

lemma updateCustomDataTypesNamespace_maps [simp]:
  "m_uriToIndexCache (updateCustomDataTypesNamespace u i c) = m_uriToIndexCache c"
  "m_indexToUriCache (updateCustomDataTypesNamespace u i c) = m_indexToUriCache c"
  by (simp_all add: updateCustomDataTypesNamespace_def)

text \<open>What a cache has for a table it also has for the table with one more namespace.\<close>

lemma cache_of_older:
  assumes "cache_of us c"
  shows "sm_find (m_uriToIndexCache c) w = Some i \<Longrightarrow>
      unat i < Suc (length us) \<and> (us @ [u]) ! unat i = w \<and> unat i \<noteq> length us \<and>
      sm_find (m_indexToUriCache c) (unat i) = Some w \<and> (\<forall>j < unat i. (us @ [u]) ! j \<noteq> w)"
    and "sm_find (m_indexToUriCache c) k = Some w \<Longrightarrow> k < Suc (length us) \<and> (us @ [u]) ! k = w"
proof -
  assume "sm_find (m_uriToIndexCache c) w = Some i"
  with assms have "unat i < length us" "us ! unat i = w" "sm_find (m_indexToUriCache c) (unat i) = Some w"
    "\<forall>j < unat i. us ! j \<noteq> w" by (simp_all add: cache_of_def)
  then show "unat i < Suc (length us) \<and> (us @ [u]) ! unat i = w \<and> unat i \<noteq> length us \<and>
      sm_find (m_indexToUriCache c) (unat i) = Some w \<and> (\<forall>j < unat i. (us @ [u]) ! j \<noteq> w)"
    by (simp add: nth_append)
next
  assume "sm_find (m_indexToUriCache c) k = Some w"
  with assms have "k < length us" "us ! k = w" by (simp_all add: cache_of_def)
  then show "k < Suc (length us) \<and> (us @ [u]) ! k = w" by (simp add: nth_append)
qed

lemma fillNamespaceCache_clear:
  assumes "length us \<le> 2 ^ 16"
  shows "cache_of us (fillNamespaceCache us (clear_cache c0))"
  using assms
proof (induction us rule: rev_induct)
  case Nil
  then show ?case by (simp add: cache_of_def fillNamespaceCache_def clear_cache_def)
next
  case (snoc u us)
  let ?c = "fillNamespaceCache us (clear_cache c0)"
  have c: "cache_of us ?c" using snoc by simp
  have n: "unat (of_nat (length us) :: 16 word) = length us" using snoc.prems by (simp add: unat_of_nat)
  note older = cache_of_older [OF c, where u = u]
  have maps: "sm_ok (m_uriToIndexCache ?c)" "sm_ok (m_indexToUriCache ?c)"
    "\<And>w. sm_find (m_uriToIndexCache ?c) w = None \<longleftrightarrow> w \<notin> set us"
    using c by (simp_all add: cache_of_def)
  show ?case
  proof (cases "u \<in> set us")
    case True
    with c have "fillNamespaceCache (us @ [u]) (clear_cache c0) = ?c"
      by (auto simp: fill_snoc add_namespace_uri_def cache_of_def)
    with older c True show ?thesis unfolding cache_of_def by simp blast
  next
    case False
    with c have fill: "fillNamespaceCache (us @ [u]) (clear_cache c0) = updateCustomDataTypesNamespace u (length us) (?c
       \<lparr>m_uriToIndexCache := sm_assign u (of_nat (length us)) (m_uriToIndexCache ?c),
        m_indexToUriCache := sm_assign (length us) u (m_indexToUriCache ?c)\<rparr>)"
      by (simp add: fill_snoc add_namespace_uri_def cache_of_def n)
    have old: "us ! j \<noteq> u" if "j < length us" for j using that False nth_mem by metis
    show ?thesis using older maps n old unfolding cache_of_def fill
      by (simp add: smap_simps nth_append)
  qed
qed

lemma fillNamespaceCache_of:
  "length us \<le> 2 ^ 16 \<Longrightarrow> cache_of us (fillNamespaceCache us empty_cache)"
  using fillNamespaceCache_clear [of us empty_cache] by (simp add: clear_cache_def empty_cache_def)

text \<open>
  C37: what the conversion of a node id to the wire and back does. With the table of a server of
  at most 65536 namespaces in the cache, and an identifier whose text form is the one that the
  stack prints, a node id of a known namespace comes back unchanged; one of the first
  namespace, or without URI, comes back without URI; and a node id of a namespace that the
  server does not have silently becomes a node id of namespace 0.
\<close>

theorem node_id_roundtrip:
  assumes "length us \<le> 2 ^ 16" and "c = fillNamespaceCache us empty_cache"
    and "ids_print ids (ids_parse ids (nId n)) = nId n"
  shows "UaNodeIdToModelNodeId ids (m_indexToUriCache c) (ModelNodeIdToUaNodeId ids (m_uriToIndexCache c) n) =
    (if nUri n \<in> set us \<and> nUri n \<noteq> us ! 0 then n else NodeId '''' (nId n))"
proof -
  have c: "cache_of us c" using fillNamespaceCache_of [OF assms(1)] assms(2) by simp
  note defs = UaNodeIdToModelNodeId_def ModelNodeIdToUaNodeId_def getNsIndexFromUri_def getUriFromNsIndex_def
  show ?thesis
  proof (cases "sm_find (m_uriToIndexCache c) (nUri n)")
    case None
    with c have "nUri n \<notin> set us" by (simp add: cache_of_def)
    with None assms(3) show ?thesis by (simp add: defs)
  next
    case (Some i)
    have i: "unat i < length us" "us ! unat i = nUri n" "sm_find (m_indexToUriCache c) (unat i) = Some (nUri n)"
        "\<forall>j < unat i. us ! j \<noteq> nUri n"
      using c Some by (simp_all add: cache_of_def)
    then have known: "nUri n \<in> set us" by (metis nth_mem)
    have zero: "i = 0 \<longleftrightarrow> nUri n = us ! 0"
    proof
      assume "nUri n = us ! 0"
      with i(4) have "unat i = 0" by (metis gr0I)
      then show "i = 0" by (simp add: unat_eq_0)
    qed (use i(2) in simp)
    show ?thesis
    proof (cases "nUri n = ''''")
      case True
      then show ?thesis using assms(3) by (cases n) (simp add: defs)
    next
      case False
      then show ?thesis using Some i(3) known zero assms(3) by (cases n) (auto simp: defs)
    qed
  qed
qed

definition plain_ids :: ua_ids where
  "plain_ids = \<lparr>ids_parse = UaString, ids_print = (\<lambda>i. case i of UaString s \<Rightarrow> s | _ \<Rightarrow> ''i=0''), ids_isNull = (\<lambda>_. False)\<rparr>"

lemma node_id_roundtrip_witness:
  "UaNodeIdToModelNodeId plain_ids
     (m_indexToUriCache (fillNamespaceCache [''urn:ns0'', ''urn:app'', ''urn:di''] empty_cache))
     (ModelNodeIdToUaNodeId plain_ids
       (m_uriToIndexCache (fillNamespaceCache [''urn:ns0'', ''urn:app'', ''urn:di''] empty_cache))
       (NodeId ''urn:di'' ''s=Machines'')) = NodeId ''urn:di'' ''s=Machines''"
  using node_id_roundtrip [of "[''urn:ns0'', ''urn:app'', ''urn:di'']" _ plain_ids "NodeId ''urn:di'' ''s=Machines''", OF _ refl]
  by (simp add: plain_ids_def)

end
