(* ===== verification/Value_Json_Properties.thy ===== *)
theory Value_Json_Properties
  imports Value_Json
begin

text \<open>
  Properties of the value converter: when it is defined, arrays of one dimension are converted in
  order, rows of matrices overlap, and the status goes with the value.
\<close>

section \<open>Well-formed results\<close>

lemma members_ok: "list_all (\<lambda>p. json_ok (snd p)) kvs \<Longrightarrow> json_ok (members kvs)"
proof -
  assume kvs: "list_all (\<lambda>p. json_ok (snd p)) kvs"
  have "sm_ok m \<and> list_all (\<lambda>p. json_ok (snd p)) m \<Longrightarrow>
      sm_ok (fold (\<lambda>(k, v). sm_assign k v) kvs m) \<and>
      list_all (\<lambda>p. json_ok (snd p)) (fold (\<lambda>(k, v). sm_assign k v) kvs m)" for m
    using kvs
  proof (induction kvs arbitrary: m)
    case (Cons p kvs)
    obtain k v where p: "p = (k, v)" by fastforce
    have "sm_ok (sm_assign k v m)" "list_all (\<lambda>p. json_ok (snd p)) (sm_assign k v m)"
      using Cons.prems p by (simp_all add: smap_simps list_all_assign)
    with Cons.IH [of "sm_assign k v m"] Cons.prems p show ?case by simp
  qed simp
  from this [of "[]"] show "json_ok (members kvs)" by (auto simp: members_def)
qed

lemma member_if_ok [simp]: "list_all P (member_if k f x) \<longleftrightarrow> (\<forall>y. x = Some y \<longrightarrow> P (k, f y))"
  by (auto simp: member_if_def split: option.splits)

lemma with_status_ok [simp]: "json_ok v \<Longrightarrow> json_ok (with_status ser st v)"
  by (auto simp: with_status_def intro!: members_ok)

lemma pushed_ok [simp]: "json_ok (pushed js) \<longleftrightarrow> list_all json_ok js"
  by (auto simp: pushed_def)

lemma leaf_ok [simp]: "json_ok (leaf_json lib l)"
  by (cases "(lib, l)" rule: leaf_json.cases) (auto simp: localizedText_json_def intro!: members_ok split: option.splits)

lemma list_all_mapI: "(\<And>x. P (f x)) \<Longrightarrow> list_all P (map f xs)"
  by (induction xs) auto

lemma leaf_value_ok [simp]: "json_ok (leaf_value lib ser l)" "json_ok (strings_value lib ser ss)"
  by (simp_all add: leaf_value_def strings_value_def list_all_mapI)

lemma structures_ok [simp]:
  "json_ok (eu_json lib ser e)" "json_ok (range_json low high)" "json_ok (timeZone_json off dst)"
  "json_ok (processingTimes_json lib ser p)" "json_ok (ijtProcessingTimes_json lib ser p)"
  "json_ok (decodeEntityDataType en)" "json_ok (decodeResultEvaluationEnum n)"
  "json_ok (decodeResultValueDataType lib ser rv)"
  by (auto simp: eu_json_def range_json_def timeZone_json_def processingTimes_json_def ijtProcessingTimes_json_def
      decodeEntityDataType_def decodeResultEvaluationEnum_def decodeResultValueDataType_def
      intro!: members_ok with_status_ok)

lemma result_structures_ok [simp]:
  "json_ok (resultValues_value lib ser rvs)" "json_ok (decodeStepResultDataType lib ser sr)"
  "json_ok (decodeJoiningResultDataType lib ser jr)" "json_ok (resultMeta_json lib ser rm)"
  "(\<forall>x. ext = Some x \<longrightarrow> json_ok x) \<Longrightarrow> json_ok (decodeJoiningResultMetaDataType lib ser jm ext)"
proof -
  show rvs: "json_ok (resultValues_value lib ser rvs)" for rvs
    by (simp add: resultValues_value_def list_all_mapI)
  show sr: "json_ok (decodeStepResultDataType lib ser sr)" for sr
    by (auto simp: decodeStepResultDataType_def rvs intro!: members_ok)
  show "json_ok (decodeJoiningResultDataType lib ser jr)" "json_ok (resultMeta_json lib ser rm)"
    by (auto simp: decodeJoiningResultDataType_def resultMeta_json_def rvs sr intro!: members_ok list_all_mapI with_status_ok)
  show "(\<forall>x. ext = Some x \<longrightarrow> json_ok x) \<Longrightarrow> json_ok (decodeJoiningResultMetaDataType lib ser jm ext)"
    by (auto simp: decodeJoiningResultMetaDataType_def intro!: members_ok list_all_mapI with_status_ok)
qed

section \<open>Arrays\<close>

definition elements :: "32 word list \<Rightarrow> nat" where
  "elements ds = prod_list (map unat ds)"

lemma those_map_Some: "(\<And>x. x \<in> set xs \<Longrightarrow> f x = Some (g x)) \<Longrightarrow> those (map f xs) = Some (map g xs)"
  by (induction xs) auto

lemma unat_prod_list_le: "unat (prod_list (ds :: 32 word list)) \<le> elements ds"
proof (induction ds)
  case (Cons d ds)
  have "unat (d * prod_list ds) \<le> unat d * unat (prod_list ds)"
    by (simp add: unat_word_ariths)
  also have "\<dots> \<le> unat d * elements ds" using Cons by simp
  finally show ?case by (simp add: elements_def)
qed (simp add: elements_def)

lemma row_offset_le: "elements ds \<noteq> 0 \<Longrightarrow> unat (row_offset ds) \<le> elements ds"
proof (cases ds rule: rev_cases)
  case (snoc es e)
  assume "elements ds \<noteq> 0"
  with snoc have "0 < unat e" by (auto simp: elements_def)
  then have "elements es * 1 \<le> elements es * unat e" by (intro mult_le_mono) simp_all
  with unat_prod_list_le [of es] snoc have "unat (prod_list es) \<le> elements es * unat e" by linarith
  with snoc show ?thesis by (simp add: row_offset_def elements_def)
qed (simp add: row_offset_def elements_def)

text \<open>No read outside the data when the dimensions fit, in spite of the wrong offsets.\<close>

lemma array_rows_defined:
  assumes "elements ds = 0 \<or> base + elements ds \<le> length js" and "list_all json_ok js"
  shows "\<exists>rows. array_rows ds base js = Some rows \<and> list_all json_ok rows"
  using assms
proof (induction ds base js rule: array_rows.induct)
  case (2 d base js)
  have "list_all json_ok (take (unat d) (drop base js))"
    using 2(2) by (auto simp: list_all_iff dest!: in_set_takeD in_set_dropD)
  with 2(1) show ?case by (auto simp: elements_def unat_eq_0)
next
  case (3 d e ds base js)
  let ?ds = "e # ds" let ?off = "row_offset (e # ds)"
  have row: "\<exists>rows. array_rows ?ds (base + unat (of_nat i * ?off)) js = Some rows \<and> list_all json_ok rows"
    if i: "i < unat d" for i
  proof (rule "3.IH")
    show "i \<in> set [0..<unat d]" using i by simp
    show "list_all json_ok js" by (rule "3.prems")
    show "elements ?ds = 0 \<or> base + unat (of_nat i * ?off) + elements ?ds \<le> length js"
    proof (cases "elements ?ds = 0")
      case False
      have "unat (of_nat i * ?off) \<le> unat (of_nat i :: 32 word) * unat ?off" by (simp add: unat_word_ariths)
      also have "\<dots> \<le> i * unat ?off" by (simp add: unat_of_nat)
      also have "\<dots> \<le> i * elements ?ds" using row_offset_le [OF False] by simp
      finally have "base + unat (of_nat i * ?off) + elements ?ds \<le> base + Suc i * elements ?ds" by simp
      also have "\<dots> \<le> base + unat d * elements ?ds" using i by (intro add_mono mult_le_mono) simp_all
      also have "\<dots> = base + elements (d # ?ds)" by (simp add: elements_def)
      also have "\<dots> \<le> length js" using "3.prems"(1) False i by (auto simp: elements_def)
      finally show ?thesis ..
    qed simp
  qed
  then obtain rows where rows: "\<And>i. i < unat d \<Longrightarrow>
      array_rows ?ds (base + unat (of_nat i * ?off)) js = Some (rows i) \<and> list_all json_ok (rows i)" by metis
  have "those (map (\<lambda>i. map_option JArr (array_rows ?ds (base + unat (of_nat i * ?off)) js)) [0..<unat d]) =
      Some (map (\<lambda>i. JArr (rows i)) [0..<unat d])"
    by (rule those_map_Some) (simp add: rows)
  with rows show ?case by (auto simp: list_all_iff)
qed simp

section \<open>The converter is defined\<close>

text \<open>
  Well-typed values: the name of a structure is the one of its memory, the dimensions of an
  array fit its data, and an extension object has an encoded node id, whose identifier kind is
  at most 5, while the four positions in the type table are behind the built-in types. Printable
  values are those in which every extension object of namespace 0 has no body or one with a null
  byte in it.
\<close>

definition terminated_body :: "string option \<Rightarrow> bool" where
  "terminated_body raw \<longleftrightarrow> (\<forall>bytes. raw = Some bytes \<longrightarrow> CHR 0x00 \<in> set bytes)"

lemma printed_body_simps:
  "terminated_body raw \<Longrightarrow> printed_body raw = Some JNull" "\<not> terminated_body raw \<Longrightarrow> printed_body raw = None"
  by (auto simp: terminated_body_def printed_body_def split: option.splits)

definition lib_ok :: "ua_lib \<Rightarrow> bool" where
  "lib_ok lib \<longleftrightarrow> 5 < lib_RANGE lib \<and> 5 < lib_EUINFORMATION lib \<and> 5 < lib_GUID lib \<and> 5 < lib_TIMEZONEDATATYPE lib"

fun struct_name :: "ua_struct \<Rightarrow> string" where
  "struct_name (SEUInformation e) = ''EUInformation''"
| "struct_name (SRange low high) = ''Range''"
| "struct_name (STimeZone offset dst) = ''TimeZoneDataType''"
| "struct_name (SKeyValue k v) = ''KeyValueDataType''"
| "struct_name (SProcessingTimes p) = ''ProcessingTimesDataType''"
| "struct_name (SResultData m vs) = ''ResultDataType''"
| "struct_name (SEntity e) = ''EntityDataType''"
| "struct_name (SResultValue r) = ''ResultValueDataType''"
| "struct_name (SStepResult r) = ''StepResultDataType''"
| "struct_name (SResultEvaluation n) = ''ResultEvaluationEnum''"
| "struct_name SOther = ''Other''"

definition kind_ok :: "type_kind \<Rightarrow> ua_struct \<Rightarrow> bool" where
  "kind_ok k s \<longleftrightarrow> k \<in> {KStructure (struct_name s), KOptStruct (struct_name s), KEnum (struct_name s)}"

definition dims_ok :: "32 word list \<Rightarrow> nat \<Rightarrow> bool" where
  "dims_ok dims n \<longleftrightarrow> (if dims = [] then n < 2 ^ 32 else elements dims = n)"

fun value_ok :: "ua_value \<Rightarrow> bool" and variant_ok :: "ua_variant \<Rightarrow> bool"
  and values_ok :: "ua_value list \<Rightarrow> bool" and variants_ok :: "ua_variant list \<Rightarrow> bool"
  and keyValues_ok :: "(string \<times> ua_variant) list \<Rightarrow> bool"
  and body_ok :: "ua_body \<Rightarrow> bool" and struct_ok :: "ua_struct \<Rightarrow> bool" where
  "value_ok (Leaf l) = True"
| "value_ok (ExtensionObject ns num idType raw body) =
     (idType \<le> 5 \<and> body_ok body \<and> (ns = 0 \<longrightarrow> terminated_body raw))"
| "value_ok (VariantValue v) = variant_ok v"
| "value_ok (Structure k s) = (kind_ok k s \<and> struct_ok s)"
| "variant_ok EmptyVariant = True"
| "variant_ok (ScalarVariant v) = value_ok v"
| "variant_ok (ArrayVariant k dims vs) = (dims_ok dims (length vs) \<and> values_ok vs)"
| "values_ok [] = True"
| "values_ok (v # vs) = (value_ok v \<and> values_ok vs)"
| "variants_ok [] = True"
| "variants_ok (v # vs) = (variant_ok v \<and> variants_ok vs)"
| "keyValues_ok [] = True"
| "keyValues_ok ((k, v) # kvs) = (variant_ok v \<and> keyValues_ok kvs)"
| "body_ok (BodyJoiningMeta r (Some kvs)) = keyValues_ok kvs"
| "body_ok b = True"
| "struct_ok (SKeyValue k v) = variant_ok v"
| "struct_ok (SResultData m (Some vs)) = (value_ok m \<and> variants_ok vs)"
| "struct_ok (SResultData m None) = value_ok m"
| "struct_ok s = True"

text \<open>A result that is there and satisfies a predicate.\<close>

definition some_ok :: "('a \<Rightarrow> bool) \<Rightarrow> 'a option \<Rightarrow> bool" where
  "some_ok P r \<longleftrightarrow> (\<exists>x. r = Some x \<and> P x)"

lemma some_ok_simps [simp]: "some_ok P (Some x) \<longleftrightarrow> P x" "\<not> some_ok P None"
  by (simp_all add: some_ok_def)

lemma some_ok_map: "some_ok P r \<Longrightarrow> (\<And>x. P x \<Longrightarrow> Q (f x)) \<Longrightarrow> some_ok Q (map_option f r)"
  by (auto simp: some_ok_def)

lemma some_ok_bind:
  "some_ok P r \<Longrightarrow> (\<And>x. P x \<Longrightarrow> some_ok Q (f x)) \<Longrightarrow> some_ok Q (case r of None \<Rightarrow> None | Some x \<Rightarrow> f x)"
  by (auto simp: some_ok_def)

lemma array_json_ok:
  assumes "dims_ok dims (length js)" and "list_all json_ok js"
  shows "some_ok json_ok (array_json dims js)"
proof -
  have one: "unat (of_nat (length js) :: 32 word) = length js" if "dims = []"
    using assms(1) that by (simp add: dims_ok_def unat_of_nat)
  have "elements (if dims = [] then [of_nat (length js)] else dims) = length js"
    using assms(1) one by (auto simp: dims_ok_def elements_def)
  with array_rows_defined [of "if dims = [] then [of_nat (length js)] else dims" 0 js] assms(2)
  show ?thesis by (auto simp: array_json_def some_ok_def)
qed

lemma values_json_length: "values_json lib ser vs = Some js \<Longrightarrow> length js = length vs"
  by (induction vs arbitrary: js) (auto split: option.splits)

lemma default_json_ok:
  assumes "struct_name s = name" and "name = ''ResultDataType'' \<Longrightarrow> some_ok (list_all (\<lambda>p. json_ok (snd p))) r"
  shows "some_ok json_ok (default_json lib ser name s r)"
  using assms by (cases s) (auto simp: default_json_def intro: some_ok_map members_ok)

lemma ns0_null:
  assumes "lib_ok lib" and "idType \<le> 5"
  shows "ns0_ext_json lib idType raw body = printed_body raw"
proof -
  have "idType \<noteq> lib_RANGE lib" "idType \<noteq> lib_EUINFORMATION lib" "idType \<noteq> lib_GUID lib"
    "idType \<noteq> lib_TIMEZONEDATATYPE lib" using assms by (auto simp: lib_ok_def)
  then show ?thesis by (simp add: ns0_ext_json_def)
qed

lemma conversion_ok:
  "lib_ok lib \<Longrightarrow> value_ok v \<Longrightarrow> some_ok json_ok (value_json lib ser v)"
  "lib_ok lib \<Longrightarrow> variant_ok va \<Longrightarrow> some_ok json_ok (variant_json lib ser st va)"
  "lib_ok lib \<Longrightarrow> values_ok vs \<Longrightarrow> some_ok (list_all json_ok) (values_json lib ser vs)"
  "lib_ok lib \<Longrightarrow> variants_ok vas \<Longrightarrow> some_ok (list_all json_ok) (variants_json lib ser vas)"
  "lib_ok lib \<Longrightarrow> keyValues_ok kvs \<Longrightarrow> some_ok (list_all json_ok) (keyValues_json lib ser kvs)"
  "lib_ok lib \<Longrightarrow> body_ok b \<Longrightarrow> some_ok json_ok (encoded_json lib ser num b)"
  "lib_ok lib \<Longrightarrow> struct_ok s \<Longrightarrow> struct_name s = ''ResultDataType'' \<Longrightarrow>
      some_ok (list_all (\<lambda>p. json_ok (snd p))) (result_members lib ser s)"
  "lib_ok lib \<Longrightarrow> struct_ok s' \<Longrightarrow> struct_name s' = ''KeyValueDataType'' \<Longrightarrow> some_ok json_ok (keyValue_json lib ser s')"
proof (induction lib ser v and lib ser st va and lib ser vs and lib ser vas and lib ser kvs
    and lib ser num b and lib ser s and lib ser s' rule:
    value_json_variant_json_values_json_variants_json_keyValues_json_encoded_json_result_members_keyValue_json.induct)
  case (2 lib ser ns num idType raw body)
  then show ?case using ns0_null [of lib] by (auto simp: printed_body_simps)
next
  case (4 lib ser kind s)
  have twice: "some_ok (list_all (\<lambda>p. json_ok (snd p))) (map_option (\<lambda>kvs. kvs @ kvs) (result_members lib ser s))"
    if "struct_name s = ''ResultDataType''"
    using 4 that by (intro some_ok_map [where P = "list_all (\<lambda>p. json_ok (snd p))"]) (auto simp: kind_ok_def)
  have plain: "some_ok json_ok (default_json lib ser (struct_name s) s (result_members lib ser s))"
    using 4 by (intro default_json_ok) (auto simp: kind_ok_def)
  from 4 consider "kind = KStructure (struct_name s)" | "kind = KOptStruct (struct_name s)" | "kind = KEnum (struct_name s)"
    by (auto simp: kind_ok_def)
  then show ?case
  proof cases
    case 1
    with 4 twice show ?thesis
      by (cases s) (auto intro: default_json_ok)
  qed (simp_all add: plain)
next
  case (7 lib ser status kind dims vs)
  show ?case
  proof (cases "convertible_array kind")
    case True
    with 7 obtain js where js: "values_json lib ser vs = Some js" "list_all json_ok js" by (auto simp: some_ok_def)
    with values_json_length [OF js(1)] 7(3) have "some_ok json_ok (array_json dims js)"
      by (intro array_json_ok) auto
    with True js show ?thesis by (auto simp: some_ok_def)
  qed simp
qed (auto simp: some_ok_def intro!: members_ok result_structures_ok)

text \<open>
  C36: when the converter is defined. On a well-typed value in which every encoded extension object
  of namespace 0 has no body or a body with a null byte, it returns a well-formed JSON value: it never
  reads outside the data of an array, of any number of dimensions, although the offsets of the rows
  are wrong (they are too small, never too large), and it never gets into the branches that read
  memory as another type. The condition on namespace 0 is needed: for an extension object
  whose body has no null byte the behaviour is undefined, as the body is written to the log as a
  C string. Extension objects that the stack has decoded are not values of this model.
\<close>

theorem UaDataValueToJsonValue_defined:
  assumes "lib_ok lib"
  shows "(variant_ok (dvValue dv) \<longrightarrow> (\<exists>j. UaDataValueToJsonValue lib ser dv = Some j \<and> json_ok j)) \<and>
    (dvValue dv = ScalarVariant (ExtensionObject 0 num idType raw body) \<and> idType \<le> 5 \<and> \<not> terminated_body raw \<longrightarrow>
       UaDataValueToJsonValue lib ser dv = None)"
proof (intro conjI impI)
  show "\<exists>j. UaDataValueToJsonValue lib ser dv = Some j \<and> json_ok j" if "variant_ok (dvValue dv)"
    using conversion_ok(2) [OF assms that] by (auto simp: UaDataValueToJsonValue_def some_ok_def)
  show "UaDataValueToJsonValue lib ser dv = None"
    if "dvValue dv = ScalarVariant (ExtensionObject 0 num idType raw body) \<and> idType \<le> 5 \<and> \<not> terminated_body raw"
    using that by (simp add: UaDataValueToJsonValue_def ns0_null [OF assms] printed_body_simps)
qed

definition example_lib :: ua_lib where
  "example_lib =
     \<lparr>lib_toStruct = \<lambda>w. \<lparr>dtYear = 1601, dtMonth = 1, dtDay = 1, dtHour = 0, dtMin = 0, dtSec = 0, dtMilliSec = 0\<rparr>,
      lib_RANGE = 170, lib_EUINFORMATION = 171, lib_GUID = 13, lib_TIMEZONEDATATYPE = 160\<rparr>"

definition example_result :: ua_data_value where
  "example_result =
     \<lparr>dvStatus = 0, dvValue = ScalarVariant (Structure (KStructure ''ResultDataType'')
        (SResultData (ExtensionObject 4 5079 0 (Some ''e'') (BodyEntity zero_entity))
           (Some [ArrayVariant KSimple [2, 2, 1] (map (Leaf \<circ> LInt32) [1, 2, 3, 4])])))\<rparr>"

definition example_object :: "string option \<Rightarrow> ua_data_value" where
  "example_object raw = \<lparr>dvStatus = 0, dvValue = ScalarVariant (ExtensionObject 0 886 0 raw BodyOther)\<rparr>"

theorem UaDataValueToJsonValue_defined_witness:
  "(\<exists>j. UaDataValueToJsonValue example_lib True example_result = Some j \<and> json_ok j) \<and>
   (\<exists>j. UaDataValueToJsonValue example_lib True (example_object None) = Some j \<and> json_ok j) \<and>
   UaDataValueToJsonValue example_lib True (example_object (Some ''body'')) = None"
proof -
  have lib: "lib_ok example_lib" by (simp add: lib_ok_def example_lib_def)
  have ok: "variant_ok (dvValue example_result)" "variant_ok (dvValue (example_object None))"
    by (simp_all add: example_result_def example_object_def terminated_body_def kind_ok_def dims_ok_def elements_def)
  have "dvValue (example_object (Some ''body'')) = ScalarVariant (ExtensionObject 0 886 0 (Some ''body'') BodyOther) \<and>
      (0::nat) \<le> 5 \<and> \<not> terminated_body (Some ''body'')"
    by (simp add: example_object_def terminated_body_def)
  with UaDataValueToJsonValue_defined [OF lib, of example_result True]
    UaDataValueToJsonValue_defined [OF lib, of "example_object None" True]
    UaDataValueToJsonValue_defined [OF lib, of "example_object (Some ''body'')" True 886 0 "Some ''body''" BodyOther] ok
  show ?thesis by blast
qed

lemma values_json_leaves: "values_json lib ser (map Leaf ls) = Some (map (leaf_json lib) ls)"
  by (induction ls) auto

text \<open>
  An array of one dimension keeps its elements and their order, whether the dimension is
  given or left out; an empty array becomes null and not the empty array.
\<close>

theorem array_in_order:
  assumes "length ls < 2 ^ 32" and "dims = [] \<or> dims = [of_nat (length ls)]"
  shows "UaDataValueToJsonValue lib ser \<lparr>dvStatus = st, dvValue = ArrayVariant KSimple dims (map Leaf ls)\<rparr> =
    Some (with_status ser st (if ls = [] then JNull else JArr (map (leaf_json lib) ls)))"
proof -
  have "(if dims = [] then [of_nat (length (map (leaf_json lib) ls))] else dims) = [of_nat (length ls)]"
    using assms(2) by auto
  moreover have "unat (of_nat (length ls) :: 32 word) = length ls" using assms(1) by (simp add: unat_of_nat)
  ultimately have "array_json dims (map (leaf_json lib) ls) = Some (pushed (map (leaf_json lib) ls))"
    by (simp add: array_json_def)
  then show ?thesis
    by (auto simp: UaDataValueToJsonValue_def convertible_array_def values_json_leaves pushed_def)
qed

theorem array_in_order_witness:
  "UaDataValueToJsonValue example_lib False \<lparr>dvStatus = 0, dvValue = ArrayVariant KSimple [] (map Leaf [LBoolean True, LString ''x''])\<rparr> =
     Some (JArr [JBool True, JStr ''x''])"
  using array_in_order [of "[LBoolean True, LString ''x'']" "[]" example_lib False 0] by (simp add: with_status_def)

text \<open>
  A matrix is converted wrongly. The offset of a row leaves out the last dimension, so row
  \<open>i\<close> of the result starts at element \<open>i\<close> of the data and not behind the rows before it: the
  rows overlap. With at least two columns and distinct values every row but the first differs
  from the row of the matrix.
\<close>

theorem matrix_rows_overlap:
  fixes r c :: "32 word"
  assumes "0 < r" and "0 < c" and "length ls = unat r * unat c"
  shows "UaDataValueToJsonValue lib False \<lparr>dvStatus = st, dvValue = ArrayVariant KSimple [r, c] (map Leaf ls)\<rparr> =
      Some (JArr (map (\<lambda>i. JArr (take (unat c) (drop i (map (leaf_json lib) ls)))) [0..<unat r])) \<and>
    (1 < c \<and> distinct (map (leaf_json lib) ls) \<longrightarrow>
       (\<forall>i. 0 < i \<and> i < unat r \<longrightarrow>
          take (unat c) (drop i (map (leaf_json lib) ls)) \<noteq> take (unat c) (drop (i * unat c) (map (leaf_json lib) ls))))"
proof -
  let ?js = "map (leaf_json lib) ls"
  have r: "0 < unat r" and c: "0 < unat c" using assms(1,2) by (simp_all add: word_less_nat_alt)
  have bound: "i + unat c \<le> length ?js" if "i < unat r" for i
  proof -
    have "i * unat c + unat c \<le> unat r * unat c" using that by (metis Suc_leI add.commute mult_Suc mult_le_mono1)
    moreover have "i * 1 \<le> i * unat c" using c by (intro mult_le_mono) simp_all
    ultimately show ?thesis using assms(3) by (simp only: length_map mult_1_right)
  qed
  have row: "map_option JArr (array_rows [c] (unat (of_nat i * row_offset [c])) ?js) = Some (JArr (take (unat c) (drop i ?js)))"
    if "i \<in> set [0..<unat r]" for i
  proof -
    have i: "i < unat r" using that by simp
    also have "\<dots> < 2 ^ 32" using unsigned_less [of r] by simp
    finally have "unat (of_nat i :: 32 word) = i" by (simp add: unat_of_nat)
    with bound [OF i] show ?thesis by (simp add: row_offset_def)
  qed
  have "array_json [r, c] ?js = Some (pushed (map (\<lambda>i. JArr (take (unat c) (drop i ?js))) [0..<unat r]))"
    using those_map_Some [of "[0..<unat r]", OF row] by (simp add: array_json_def)
  then have "UaDataValueToJsonValue lib False \<lparr>dvStatus = st, dvValue = ArrayVariant KSimple [r, c] (map Leaf ls)\<rparr> =
      Some (JArr (map (\<lambda>i. JArr (take (unat c) (drop i ?js))) [0..<unat r]))"
    using r by (simp add: UaDataValueToJsonValue_def convertible_array_def values_json_leaves with_status_def pushed_def)
  moreover have "take (unat c) (drop i ?js) \<noteq> take (unat c) (drop (i * unat c) ?js)"
    if "1 < c" "distinct ?js" "0 < i" "i < unat r" for i
  proof -
    have "1 < unat c" using that(1) by (simp add: word_less_nat_alt)
    then have less: "i < i * unat c" using that(3) by simp
    have "i * unat c + unat c \<le> unat r * unat c" using that(4) by (metis Suc_leI add.commute mult_Suc mult_le_mono1)
    then have inside: "i * unat c < length ?js" using c by (simp only: assms(3) length_map)
    have "i < length ?js" using less inside by (rule less_trans)
    then have "?js ! i \<noteq> ?js ! (i * unat c)"
      using that(2) less inside by (simp only: nth_eq_iff_index_eq)
    moreover have "take (unat c) (drop i ?js) ! 0 = ?js ! i" "take (unat c) (drop (i * unat c) ?js) ! 0 = ?js ! (i * unat c)"
      using c inside \<open>i < length ?js\<close> by simp_all
    ultimately show ?thesis by metis
  qed
  ultimately show ?thesis by blast
qed

theorem matrix_rows_overlap_witness:
  "UaDataValueToJsonValue example_lib False \<lparr>dvStatus = 0, dvValue = ArrayVariant KSimple [2, 2] (map Leaf [LInt32 1, LInt32 2, LInt32 3, LInt32 4])\<rparr> =
     Some (JArr [JArr [JInt 1, JInt 2], JArr [JInt 2, JInt 3]])"
  using matrix_rows_overlap [of 2 2 "[LInt32 1, LInt32 2, LInt32 3, LInt32 4]" example_lib 0] by (simp add: upt_rec)

text \<open>
  The four conversions for extension objects of namespace 0 are never reached. The code
  compares the kind of the node id, which is at most 5, with positions in the table of types;
  as these are larger, an encoded range, unit, GUID or time zone becomes null, if its body can be
  printed.
\<close>

theorem ns0_extension_objects_lost:
  assumes "lib_ok lib" and "idType \<le> 5"
  shows "UaDataValueToJsonValue lib ser
      \<lparr>dvStatus = st, dvValue = ScalarVariant (ExtensionObject 0 num idType raw body)\<rparr> =
    (if terminated_body raw then Some (with_status ser st JNull) else None)"
  by (simp add: UaDataValueToJsonValue_def ns0_null [OF assms] printed_body_simps)

theorem ns0_extension_objects_lost_witness:
  "UaDataValueToJsonValue example_lib False
     \<lparr>dvStatus = 0, dvValue = ScalarVariant (ExtensionObject 0 886 0 (Some [CHR 0x00]) (BodyRange 1 2))\<rparr> = Some JNull"
  using ns0_extension_objects_lost [of example_lib 0 False 0 886 "Some [CHR 0x00]" "BodyRange 1 2"]
  by (simp add: lib_ok_def example_lib_def with_status_def terminated_body_def)

end
