(* ===== verification/Custom_Types.thy ===== *)
theory Custom_Types
  imports Generated_Types Namespace_Cache Value_Json_Properties
begin

text \<open>
  What the program does with the tables of \<open>Generated_Types\<close>: the arrays it registers with the
  stack (\<^verbatim>\<open>OpcUaClient.cpp\<close>), the namespace indices it writes into them, and the accesses to
  structs by which \<^verbatim>\<open>UaDataValueToJsonValue.cpp\<close> reads decoded memory. The properties: each
  description agrees with its struct on every abi, the converter reads memory as the type it
  has, and the bodies it decodes itself are those the stack leaves encoded.
\<close>

section \<open>Registration\<close>

datatype UA_DataTypeArray = UA_DataTypeArray "UA_DataTypeArray option" nat type_table

definition GmsTypes :: UA_DataTypeArray where
  "GmsTypes = UA_DataTypeArray None 6 GMS_Table"

definition TighteningSystemTypes :: UA_DataTypeArray where
  "TighteningSystemTypes = UA_DataTypeArray (Some GmsTypes) 1 Tightening_Table"

definition MachineryResultTypes :: UA_DataTypeArray where
  "MachineryResultTypes = UA_DataTypeArray (Some TighteningSystemTypes) 5 Machinery_Result_Table"

definition IJTBaseTypes :: UA_DataTypeArray where
  "IJTBaseTypes = UA_DataTypeArray (Some MachineryResultTypes) UA_TYPES_IJT_GENERATED_COUNT IJT_Table"

definition getMachineryResultTypes :: UA_DataTypeArray where
  "getMachineryResultTypes = MachineryResultTypes"

text \<open>
  The entries of a table once the namespaces were read: the index of its namespace is written
  into both ids of every entry, and kept when the server no longer has the namespace.
\<close>

definition table_uri :: "type_table \<Rightarrow> string" where
  "table_uri t = (case t of
     GMS_Table \<Rightarrow> ''http://opcfoundation.org/UA/GMS/''
   | Tightening_Table \<Rightarrow> ''http://opcfoundation.org/UA/IJT/''
   | Machinery_Result_Table \<Rightarrow> ''http://opcfoundation.org/UA/Machinery/Result/''
   | IJT_Table \<Rightarrow> ''http://opcfoundation.org/UA/IJT/Base/'')"

definition in_namespace :: "ns_cache \<Rightarrow> type_table \<Rightarrow> data_type \<Rightarrow> data_type" where
  "in_namespace c t d = (case sm_find (m_typeNamespaces c) (table_uri t) of
     None \<Rightarrow> d
   | Some nsIdx \<Rightarrow> d\<lparr>typeId := (unat nsIdx, snd (typeId d)),
                    binaryEncodingId := (unat nsIdx, snd (binaryEncodingId d))\<rparr>)"

text \<open>The types that a chain of arrays holds, in the order of the chain.\<close>

fun registered :: "ns_cache \<Rightarrow> UA_DataTypeArray \<Rightarrow> data_type list" where
  "registered c (UA_DataTypeArray next n t) =
     map (in_namespace c t) (take n (table_of t)) @
     (case next of None \<Rightarrow> [] | Some a \<Rightarrow> registered c a)"

section \<open>Accesses of the converter\<close>

text \<open>
  A field that the converter hands to a variant, with the description it hands over: a value
  by its address, by the pointer that the field holds, or an array by its pointer and the length
  next to it. The variant keeps no C type, so the description alone decides how the memory is
  read.
\<close>

datatype access = From_Address | From_Pointer | From_Array

type_synonym field_access = "string \<times> access \<times> type_ref"

definition accesses_decodeJoiningResultMetaDataType :: "string \<times> field_access list" where
  "accesses_decodeJoiningResultMetaDataType = (''UA_JoiningResultMetaDataType'',
    [(''assemblyType'', From_Pointer, Builtin UA_Byte),
     (''associatedEntities'', From_Array, Entry IJT_Table UA_TYPES_IJT_GENERATED_ENTITYDATATYPE),
     (''classification'', From_Pointer, Builtin UA_Byte),
     (''creationTime'', From_Pointer, Builtin UA_DateTime),
     (''description'', From_Pointer, Builtin UA_LocalizedText),
     (''extendedMetaData'', From_Array, Entry IJT_Table UA_TYPES_IJT_GENERATED_KEYVALUEDATATYPE),
     (''externalConfigurationId'', From_Pointer, Builtin UA_String),
     (''externalRecipeId'', From_Pointer, Builtin UA_String),
     (''fileFormat'', From_Array, Builtin UA_String)])"

definition accesses_decodeJoiningResultDataType :: "string \<times> field_access list" where
  "accesses_decodeJoiningResultDataType = (''UA_JoiningResultDataType'',
    [(''errors'', From_Array, Entry IJT_Table UA_TYPES_IJT_GENERATED_ERRORINFORMATIONDATATYPE),
     (''failingStepResultId'', From_Pointer, Builtin UA_String),
     (''failureReason'', From_Pointer, Builtin UA_Byte),
     (''overallResultValues'', From_Array, Entry IJT_Table UA_TYPES_IJT_GENERATED_RESULTVALUEDATATYPE),
     (''stepResults'', From_Array, Entry IJT_Table UA_TYPES_IJT_GENERATED_STEPRESULTDATATYPE)])"

definition accesses_decodeResultDataType :: "string \<times> field_access list" where
  "accesses_decodeResultDataType = (''UA_ResultDataType'',
    [(''resultMetaData'', From_Address, Builtin UA_ExtensionObject),
     (''resultContent'', From_Array, Builtin UA_Variant)])"

definition accesses_decodeStepResultDataType :: "string \<times> field_access list" where
  "accesses_decodeStepResultDataType = (''UA_StepResultDataType'',
    [(''name'', From_Pointer, Builtin UA_String),
     (''programStep'', From_Pointer, Builtin UA_String),
     (''programStepId'', From_Pointer, Builtin UA_String),
     (''resultEvaluation'', From_Pointer, Entry Machinery_Result_Table UA_TYPES_MACHINERY_RESULT_RESULTEVALUATIONENUM),
     (''startTimeOffset'', From_Pointer, Builtin UA_Double),
     (''stepResultId'', From_Address, Builtin UA_String),
     (''stepResultValues'', From_Array, Entry IJT_Table UA_TYPES_IJT_GENERATED_RESULTVALUEDATATYPE),
     (''stepTraceId'', From_Pointer, Builtin UA_String)])"

definition accesses_decodeResultValueDataType :: "string \<times> field_access list" where
  "accesses_decodeResultValueDataType = (''UA_ResultValueDataType'',
    [(''engineeringUnits'', From_Pointer, Builtin UA_EUInformation),
     (''highLimit'', From_Pointer, Builtin UA_Double),
     (''lowLimit'', From_Pointer, Builtin UA_Double), (''name'', From_Pointer, Builtin UA_String),
     (''parameterIdList'', From_Array, Builtin UA_String),
     (''physicalQuantity'', From_Pointer, Builtin UA_Byte),
     (''resultEvaluation'', From_Pointer, Entry Machinery_Result_Table UA_TYPES_MACHINERY_RESULT_RESULTEVALUATIONENUM),
     (''resultStep'', From_Pointer, Builtin UA_String),
     (''sensorId'', From_Pointer, Builtin UA_String),
     (''targetValue'', From_Pointer, Builtin UA_Double),
     (''tracePointIndex'', From_Pointer, Builtin UA_Int32),
     (''tracePointTimeOffset'', From_Pointer, Builtin UA_Double),
     (''valueId'', From_Pointer, Builtin UA_String), (''valueTag'', From_Pointer, Builtin UA_Int16),
     (''violationConsequence'', From_Pointer, Builtin UA_Byte),
     (''violationType'', From_Pointer, Builtin UA_Byte)])"

definition accesses_resultMetaData :: "string \<times> field_access list" where
  "accesses_resultMetaData = (''UA_ResultMetaDataType'',
    [(''resultId'', From_Address, Builtin UA_String), (''resultState'', From_Pointer, Builtin UA_Int32),
     (''resultUri'', From_Array, Builtin UA_String), (''fileFormat'', From_Array, Builtin UA_String)])"

definition accesses_ijtProcessingTimes :: "string \<times> field_access list" where
  "accesses_ijtProcessingTimes = (''UA_IJT_ProcessingTimesDataType'',
    [(''startTime'', From_Address, Builtin UA_DateTime), (''endTime'', From_Address, Builtin UA_DateTime)])"

definition accesses_keyValue :: "string \<times> field_access list" where
  "accesses_keyValue = (''UA_KeyValueDataType'', [(''value'', From_Address, Builtin UA_Variant)])"

definition accesses_processingTimes :: "string \<times> field_access list" where
  "accesses_processingTimes = (''UA_ProcessingTimesDataType'',
    [(''endTime'', From_Address, Builtin UA_DateTime), (''startTime'', From_Address, Builtin UA_DateTime)])"

definition converter_accesses :: "(string \<times> field_access list) list" where
  "converter_accesses =
    [accesses_decodeJoiningResultMetaDataType, accesses_decodeJoiningResultDataType,
     accesses_decodeResultDataType, accesses_decodeStepResultDataType,
     accesses_decodeResultValueDataType, accesses_resultMetaData, accesses_ijtProcessingTimes,
     accesses_keyValue, accesses_processingTimes]"

text \<open>The type that a field has to have for an access.\<close>

fun access_type :: "access \<Rightarrow> type_ref \<Rightarrow> c_type" where
  "access_type From_Address r = Plain (described_type r)"
| "access_type From_Pointer r = Ptr (described_type r)"
| "access_type From_Array r = Ptr (described_type r)"

definition access_ok :: "c_struct \<Rightarrow> field_access \<Rightarrow> bool" where
  "access_ok fs = (\<lambda>(f, a, r). (f, access_type a r) \<in> set fs \<and>
     (a = From_Array \<longrightarrow> (f @ ''Size'', Size_t) \<in> set fs))"

text \<open>
  The bodies that the converter decodes itself, by the identifier of the encoding: the struct it
  decodes into and the description it decodes by.
\<close>

definition decoded_bodies :: "(32 word \<times> string \<times> type_ref) list" where
  "decoded_bodies =
    [(5005, ''UA_ResultMetaDataType'', Entry Machinery_Result_Table UA_TYPES_MACHINERY_RESULT_RESULTMETADATATYPE),
     (5079, ''UA_EntityDataType'', Entry IJT_Table UA_TYPES_IJT_GENERATED_ENTITYDATATYPE),
     (5046, ''UA_JoiningResultMetaDataType'', Entry IJT_Table UA_TYPES_IJT_GENERATED_JOININGRESULTMETADATATYPE),
     (5049, ''UA_JoiningResultDataType'', Entry IJT_Table UA_TYPES_IJT_GENERATED_JOININGRESULTDATATYPE)]"

text \<open>
  The casts of the converter by the name of the type: for structures, and in the branch
  \<^verbatim>\<open>default\<close>, where the name is that of an entry of a table.
\<close>

definition structure_casts :: "(string \<times> string) list" where
  "structure_casts =
    [(''KeyValueDataType'', ''UA_KeyValueDataType''),
     (''ProcessingTimesDataType'', ''UA_ProcessingTimesDataType''),
     (''ResultDataType'', ''UA_ResultDataType'')]"

definition default_casts :: "(type_table \<times> nat \<times> string) list" where
  "default_casts =
    [(Tightening_Table, UA_TYPES_TIGHTENING_PROCESSINGTIMESDATATYPE, ''UA_IJT_ProcessingTimesDataType''),
     (IJT_Table, UA_TYPES_IJT_GENERATED_ENTITYDATATYPE, ''UA_EntityDataType''),
     (Machinery_Result_Table, UA_TYPES_MACHINERY_RESULT_RESULTDATATYPE, ''UA_ResultDataType''),
     (IJT_Table, UA_TYPES_IJT_GENERATED_RESULTVALUEDATATYPE, ''UA_ResultValueDataType''),
     (Machinery_Result_Table, UA_TYPES_MACHINERY_RESULT_RESULTEVALUATIONENUM, ''UA_ResultEvaluationEnum''),
     (IJT_Table, UA_TYPES_IJT_GENERATED_STEPRESULTDATATYPE, ''UA_StepResultDataType'')]"

text \<open>The casts of whole arrays, by the kind and the name of the type of their elements.\<close>

definition array_casts :: "(data_type_kind \<times> string \<times> string) list" where
  "array_casts =
    [(UA_DATATYPEKIND_STRUCTURE, ''KeyValueDataType'', ''UA_KeyValueDataType''),
     (UA_DATATYPEKIND_OPTSTRUCT, ''EntityDataType'', ''UA_EntityDataType''),
     (UA_DATATYPEKIND_OPTSTRUCT, ''ResultDataType'', ''UA_ResultDataType''),
     (UA_DATATYPEKIND_OPTSTRUCT, ''ResultValueDataType'', ''UA_ResultValueDataType''),
     (UA_DATATYPEKIND_OPTSTRUCT, ''StepResultDataType'', ''UA_StepResultDataType'')]"

text \<open>
  The casts to types of the stack: in the cases for kinds of scalars and of arrays, by the name of
  the kind, and for structures by the name of the type.
\<close>

definition scalar_kind_casts :: "(string \<times> string) list" where
  "scalar_kind_casts =
    [(''BOOLEAN'', ''UA_Boolean''), (''SBYTE'', ''UA_SByte''), (''BYTE'', ''UA_Byte''), (''INT16'', ''UA_Int16''),
     (''UINT16'', ''UA_UInt16''), (''INT32'', ''UA_Int32''), (''UINT32'', ''UA_UInt32''), (''INT64'', ''UA_Int64''),
     (''UINT64'', ''UA_UInt64''), (''FLOAT'', ''UA_Float''), (''DOUBLE'', ''UA_Double''), (''STRING'', ''UA_String''),
     (''DATETIME'', ''UA_DateTime''), (''GUID'', ''UA_Guid''), (''BYTESTRING'', ''UA_ByteString''),
     (''NODEID'', ''UA_NodeId''), (''EXTENSIONOBJECT'', ''UA_ExtensionObject''), (''VARIANT'', ''UA_Variant''),
     (''QUALIFIEDNAME'', ''UA_QualifiedName''), (''LOCALIZEDTEXT'', ''UA_LocalizedText'')]"

definition array_kind_casts :: "(string \<times> string) list" where
  "array_kind_casts =
    [(''BOOLEAN'', ''UA_Boolean''), (''SBYTE'', ''UA_SByte''), (''BYTE'', ''UA_Byte''), (''INT16'', ''UA_Int16''),
     (''UINT16'', ''UA_UInt16''), (''INT32'', ''UA_Int32''), (''UINT32'', ''UA_UInt32''), (''INT64'', ''UA_Int64''),
     (''UINT64'', ''UA_UInt64''), (''FLOAT'', ''UA_Float''), (''DOUBLE'', ''UA_Double''), (''STRING'', ''UA_String''),
     (''DATETIME'', ''UA_DateTime''), (''LOCALIZEDTEXT'', ''UA_LocalizedText''), (''NODEID'', ''UA_NodeId''),
     (''EXTENSIONOBJECT'', ''UA_ExtensionObject''), (''QUALIFIEDNAME'', ''UA_QualifiedName''), (''VARIANT'', ''UA_Variant'')]"

definition stack_structure_casts :: "(string \<times> string) list" where
  "stack_structure_casts =
    [(''EUInformation'', ''UA_EUInformation''), (''Range'', ''UA_Range''), (''TimeZoneDataType'', ''UA_TimeZoneDataType'')]"

definition stack_array_casts :: "(string \<times> string) list" where
  "stack_array_casts = [(''EUInformation'', ''UA_EUInformation''), (''Range'', ''UA_Range'')]"

text \<open>
  The cases for extension objects of namespace 0, by the position in the type table: they read the
  decoded object, which has the type of the position, or the memory of the variant, which holds the
  extension object itself.
\<close>

datatype ns0_memory = Decoded_Data | Variant_Data

definition ns0_casts :: "(string \<times> ns0_memory \<times> string) list" where
  "ns0_casts =
    [(''RANGE'', Decoded_Data, ''UA_Range''), (''EUINFORMATION'', Variant_Data, ''UA_EUInformation''),
     (''GUID'', Decoded_Data, ''UA_Guid''), (''TIMEZONEDATATYPE'', Decoded_Data, ''UA_TimeZoneDataType'')]"

text \<open>Pointers of fields that are cast before they are read.\<close>

definition entity_field_casts :: "(string \<times> string \<times> ua_builtin) list" where
  "entity_field_casts = [(''UA_EntityDataType'', ''isExternal'', UA_Boolean)]"

definition processingTimes_field_casts :: "(string \<times> string \<times> ua_builtin) list" where
  "processingTimes_field_casts =
    [(''UA_ProcessingTimesDataType'', ''acquisitionDuration'', UA_Double),
     (''UA_ProcessingTimesDataType'', ''processingDuration'', UA_Double)]"

text \<open>
  The names that the stack documents: \<^verbatim>\<open>UA_DATATYPEKIND_X\<close> and the position \<^verbatim>\<open>UA_TYPES_X\<close>
  belong to the C type whose name without \<^verbatim>\<open>UA_\<close> is \<^verbatim>\<open>X\<close> in capitals.
\<close>

definition capitals :: "string \<Rightarrow> string" where
  "capitals = map (\<lambda>c. let n = of_char c :: nat in if 97 \<le> n \<and> n \<le> 122 then char_of (n - 32) else c)"

definition stack_type_named :: "string \<Rightarrow> string \<Rightarrow> bool" where
  "stack_type_named X S \<longleftrightarrow> take 3 S = ''UA_'' \<and> capitals (drop 3 S) = X"

fun ns0_cast_ok :: "string \<times> ns0_memory \<times> string \<Rightarrow> bool" where
  "ns0_cast_ok (X, Decoded_Data, S) = stack_type_named X S"
| "ns0_cast_ok (X, Variant_Data, S) = (S = ''UA_ExtensionObject'')"

text \<open>A cast is right for a type when its struct has the fields of the struct that is read.\<close>

definition cast_ok :: "data_type \<Rightarrow> string \<Rightarrow> bool" where
  "cast_ok d S \<longleftrightarrow> memSize d = S \<or> typeKind d \<noteq> UA_DATATYPEKIND_ENUM \<and>
     struct_named S \<noteq> [] \<and> struct_named (memSize d) = struct_named S"

section \<open>The tables\<close>

definition described :: "data_type \<Rightarrow> bool" where
  "described d \<longleftrightarrow> describes struct_named described_type (memSize d) (typeMembers d)"

lemmas describes_eval = described_def describes_def fields_of.simps Let_def

lemma gms_described:
  "described CartesianWorkspaceType_type"
  "described CylindricalWorkspaceType_type"
  by (simp_all add: describes_eval struct_defs member_defs entry_defs)

lemma tightening_described:
  "described IJT_ProcessingTimesDataType_type"
  by (simp_all add: describes_eval struct_defs member_defs entry_defs)

lemma machinery_result_described:
  "described BaseResultTransferOptionsDataType_type"
  "described ResultTransferOptionsDataType_type"
  "described ProcessingTimesDataType_type"
  "described ResultDataType_type"
  "described ResultMetaDataType_type"
  by (simp_all add: describes_eval struct_defs member_defs entry_defs)

lemma ijt_described:
  "described CalibrationDataType_type"
  "described DesignValueDataType_type"
  "described EntityDataType_type"
  "described ErrorInformationDataType_type"
  "described JoiningProcessDataType_type"
  "described JoiningProcessIdentificationDataType_type"
  "described JoiningProcessMetaDataType_type"
  "described JointComponentDataType_type"
  "described JointDataType_type"
  "described JointDesignDataType_type"
  "described KeyValueDataType_type"
  "described ReportedValueDataType_type"
  "described ResultCounterDataType_type"
  "described JoiningResultMetaDataType_type"
  "described ResultValueDataType_type"
  "described SignalDataType_type"
  "described StepResultDataType_type"
  "described TraceContentDataType_type"
  "described TraceDataType_type"
  "described StepTraceDataType_type"
  "described JoiningTraceDataType_type"
  "described JoiningResultDataType_type"
  by (simp_all add: describes_eval struct_defs member_defs entry_defs)

lemmas tables = UA_TYPES_GMS_def UA_TYPES_TIGHTENING_def UA_TYPES_MACHINERY_RESULT_def UA_TYPES_IJT_GENERATED_def

lemma enums_only_rest:
  "\<forall>d \<in> set custom_types. typeKind d = UA_DATATYPEKIND_ENUM \<or> described d"
proof -
  have "typeKind MeasurementReasonEnum_type = UA_DATATYPEKIND_ENUM"
    "typeKind ToleranceLimitEnum_type = UA_DATATYPEKIND_ENUM"
    "typeKind ToolAlignmentState_type = UA_DATATYPEKIND_ENUM"
    "typeKind ToolIsQualifiedStatus_type = UA_DATATYPEKIND_ENUM"
    "typeKind ResultEvaluationEnum_type = UA_DATATYPEKIND_ENUM"
    by (simp_all add: entry_defs)
  then show ?thesis
    by (simp add: custom_types_def tables gms_described tightening_described machinery_result_described
        ijt_described)
qed

text \<open>
  The entries are well formed: the counts are right, a structure is \<^verbatim>\<open>OPTSTRUCT\<close> when it has
  an optional member, no member refers to a type behind its own, so the recursion of the stack over
  members ends, and a type without pointers has only values of builtin numbers.
\<close>

fun table_rank :: "type_table \<Rightarrow> nat" where
  "table_rank GMS_Table = 0"
| "table_rank Tightening_Table = 1"
| "table_rank Machinery_Result_Table = 2"
| "table_rank IJT_Table = 3"

fun ref_rank :: "type_ref \<Rightarrow> nat" where
  "ref_rank (Builtin b) = 0"
| "ref_rank (Entry t i) = 100 * table_rank t + i + 1"

definition entry_ok :: "nat \<Rightarrow> data_type \<Rightarrow> bool" where
  "entry_ok r d \<longleftrightarrow>
     membersSize d = length (typeMembers d) \<and>
     (typeKind d = UA_DATATYPEKIND_OPTSTRUCT \<longleftrightarrow> list_ex isOptional (typeMembers d)) \<and>
     (typeKind d = UA_DATATYPEKIND_ENUM \<longrightarrow> typeMembers d = []) \<and>
     list_all (\<lambda>m. ref_rank (memberType m) < r) (typeMembers d) \<and>
     (pointerFree d \<longrightarrow> list_all (\<lambda>m. \<not> isArray m \<and> \<not> isOptional m \<and> memberType m = Builtin UA_Double) (typeMembers d))"

definition table_ok :: "type_table \<Rightarrow> bool" where
  "table_ok t \<longleftrightarrow> list_all (\<lambda>(i, d). entry_ok (ref_rank (Entry t i)) d) (zip [0..<length (table_of t)] (table_of t))"

lemma tables_well_formed:
  "table_ok GMS_Table" "table_ok Tightening_Table" "table_ok Machinery_Result_Table" "table_ok IJT_Table"
  "length UA_TYPES_GMS = UA_TYPES_GMS_COUNT" "length UA_TYPES_TIGHTENING = UA_TYPES_TIGHTENING_COUNT"
  "length UA_TYPES_MACHINERY_RESULT = UA_TYPES_MACHINERY_RESULT_COUNT"
  "length UA_TYPES_IJT_GENERATED = UA_TYPES_IJT_GENERATED_COUNT"
  by (simp_all add: table_ok_def entry_ok_def table_of_def tables type_indices entry_defs member_defs upt_rec)

lemma functions_pass_own_type:
  "list_all (\<lambda>(S, fs). fn_init fs = S \<and> described_type (fn_new fs) = Named S \<and>
     described_type (fn_copy fs) = Named S \<and> described_type (fn_clear fs) = Named S \<and>
     described_type (fn_delete fs) = Named S \<and>
     pred_option (\<lambda>r. described_type r = Named S) (fn_deleteMembers fs) \<and>
     pred_option (\<lambda>r. described_type r = Named S) (fn_equal fs)) handled_types"
  by (simp add: handled_types_def function_defs Let_def)

section \<open>Properties\<close>

text \<open>
  C13: The descriptions in the four tables describe the C structs of the headers. On every abi,
  the fields that the stack reads and writes by the members of an entry are exactly the fields of
  the struct whose size the entry has: the same names, offsets and types, lengths and pointers of
  arrays included. No padding is negative or as large as an alignment, and no field reaches
  beyond the end of the struct.
\<close>

theorem description_matches_struct:
  assumes "abi_ok A" and "d \<in> set custom_types" and "typeKind d \<noteq> UA_DATATYPEKIND_ENUM"
  shows "stack_fields A struct_named described_type 0 (typeMembers d) =
      struct_fields A (struct_named (memSize d)) \<and>
    (\<forall>m \<in> set (typeMembers d). 0 \<le> padding_value A struct_named (padding m) \<and>
      padding_value A struct_named (padding m) < int (calign A (snd (hd (fields_of described_type m))))) \<and>
    (\<forall>(f, p, t) \<in> set (stack_fields A struct_named described_type 0 (typeMembers d)).
      int (calign A t) dvd p \<and> 0 \<le> p \<and> p + int (csize A t) \<le> int (place_end A 0 (struct_named (memSize d))))"
proof -
  from assms(2,3) enums_only_rest have "describes struct_named described_type (memSize d) (typeMembers d)"
    by (auto simp: described_def)
  note fields = stack_fields_struct [OF assms(1) this]
  have "int (calign A t) dvd int p \<and> int p + int (csize A t) \<le> int (place_end A 0 (struct_named (memSize d)))"
    if "(f, p, t) \<in> set (place A 0 (struct_named (memSize d)))" for f p t
    using place_bounds [OF assms(1) that] by (metis int_dvd_int_iff of_nat_add of_nat_le_iff)
  with fields show ?thesis by (auto simp: struct_fields_def)
qed

definition abi64 :: abi where
  "abi64 = \<lparr>abi_size = (\<lambda>n. case n of
       Named S \<Rightarrow> 4
     | Basic b \<Rightarrow> (case b of UA_Boolean \<Rightarrow> 1 | UA_Byte \<Rightarrow> 1 | UA_Int16 \<Rightarrow> 2 | UA_Int32 \<Rightarrow> 4 | UA_UInt32 \<Rightarrow> 4
         | UA_String \<Rightarrow> 16 | UA_LocalizedText \<Rightarrow> 32 | UA_ExtensionObject \<Rightarrow> 48 | UA_Variant \<Rightarrow> 48
         | UA_EUInformation \<Rightarrow> 88 | _ \<Rightarrow> 8)),
     abi_align = (\<lambda>n. case n of
       Named S \<Rightarrow> 4
     | Basic b \<Rightarrow> (case b of UA_Boolean \<Rightarrow> 1 | UA_Byte \<Rightarrow> 1 | UA_Int16 \<Rightarrow> 2 | UA_Int32 \<Rightarrow> 4 | UA_UInt32 \<Rightarrow> 4 | _ \<Rightarrow> 8)),
     word_size = 8\<rparr>"

theorem description_matches_struct_witness:
  "stack_fields abi64 struct_named described_type 0 ErrorInformationDataType_members =
    [(''errorType'', 0, Plain (Basic UA_Byte)), (''errorId'', 8, Ptr (Basic UA_String)),
     (''legacyError'', 16, Ptr (Basic UA_String)), (''errorMessage'', 24, Ptr (Basic UA_LocalizedText))]"
proof -
  have "abi_ok abi64" by (auto simp: abi_ok_def abi64_def split: c_name.splits ua_builtin.splits)
  moreover have "ErrorInformationDataType_type \<in> set custom_types"
    by (simp add: custom_types_def tables)
  moreover have "typeKind ErrorInformationDataType_type \<noteq> UA_DATATYPEKIND_ENUM"
    "typeMembers ErrorInformationDataType_type = ErrorInformationDataType_members"
    "memSize ErrorInformationDataType_type = ''UA_ErrorInformationDataType''"
    by (simp_all add: ErrorInformationDataType_type_def)
  ultimately have "stack_fields abi64 struct_named described_type 0 ErrorInformationDataType_members =
      struct_fields abi64 UA_ErrorInformationDataType"
    using description_matches_struct [of abi64 ErrorInformationDataType_type] by simp
  also have "\<dots> = [(''errorType'', 0, Plain (Basic UA_Byte)), (''errorId'', 8, Ptr (Basic UA_String)),
     (''legacyError'', 16, Ptr (Basic UA_String)), (''errorMessage'', 24, Ptr (Basic UA_LocalizedText))]"
    by code_simp
  finally show ?thesis .
qed

text \<open>
  C35: The converter reads memory as the type it has, with one exception. Every field that it hands
  to a variant is a field of the struct and of the C type of the description it hands over, with
  the length next to the pointer for arrays; every body is decoded by the description of the struct
  it is decoded into; every type of the tables whose name selects a cast has the fields of the
  struct it is cast to, although two tables have a type \<^verbatim>\<open>ProcessingTimesDataType\<close>; the casts by kind,
  by the names of structures of the stack and of the pointers in fields are those of the type. The
  exception is the case for units in the branch for extension objects of namespace 0, which reads
  the extension object as a unit; this branch is not reached, since it compares kinds of node ids
  with positions in the type table (\<open>ns0_null\<close>). Not counted as casts to a type are reads of bytes:
  of strings as \<^verbatim>\<open>char\<close>, and of the last eight bytes of a GUID as two integers.
\<close>

theorem converter_reads_types_as_described:
  "list_all (\<lambda>(S, fs). list_all (access_ok (struct_named S)) fs) converter_accesses \<and>
   list_all (\<lambda>(i, S, r). described_type r = Named S) decoded_bodies \<and>
   list_all (\<lambda>d. list_all (\<lambda>(t, i, S). cast_ok d S) [(t, i, S) \<leftarrow> default_casts. typeName d = typeName (table_of t ! i)] \<and>
     list_all (\<lambda>(n, S). cast_ok d S) [(n, S) \<leftarrow> structure_casts. typeName d = n \<and> typeKind d = UA_DATATYPEKIND_STRUCTURE] \<and>
     list_all (\<lambda>(k, n, S). cast_ok d S) [(k, n, S) \<leftarrow> array_casts. typeName d = n \<and> typeKind d = k])
   custom_types \<and>
   list_all (\<lambda>(k, S). stack_type_named k S) (scalar_kind_casts @ array_kind_casts) \<and>
   list_all (\<lambda>(n, S). S = ''UA_'' @ n) (stack_structure_casts @ stack_array_casts) \<and>
   list_all (\<lambda>(S, f, b). (f, Ptr (Basic b)) \<in> set (struct_named S)) (entity_field_casts @ processingTimes_field_casts) \<and>
   [c \<leftarrow> ns0_casts. \<not> ns0_cast_ok c] = [(''EUINFORMATION'', Variant_Data, ''UA_EUInformation'')]"
proof (intro conjI)
  show "list_all (\<lambda>(k, S). stack_type_named k S) (scalar_kind_casts @ array_kind_casts)"
    "list_all (\<lambda>(n, S). S = ''UA_'' @ n) (stack_structure_casts @ stack_array_casts)"
    "[c \<leftarrow> ns0_casts. \<not> ns0_cast_ok c] = [(''EUINFORMATION'', Variant_Data, ''UA_EUInformation'')]"
    by code_simp+
  show "list_all (\<lambda>(S, f, b). (f, Ptr (Basic b)) \<in> set (struct_named S)) (entity_field_casts @ processingTimes_field_casts)"
    by (simp add: entity_field_casts_def processingTimes_field_casts_def struct_defs)
  show "list_all (\<lambda>(S, fs). list_all (access_ok (struct_named S)) fs) converter_accesses"
    by (simp add: converter_accesses_def access_ok_def struct_defs accesses_decodeJoiningResultMetaDataType_def
        accesses_decodeJoiningResultDataType_def accesses_decodeResultDataType_def
        accesses_decodeStepResultDataType_def accesses_decodeResultValueDataType_def
        accesses_resultMetaData_def accesses_ijtProcessingTimes_def accesses_keyValue_def
        accesses_processingTimes_def)
  show "list_all (\<lambda>(i, S, r). described_type r = Named S) decoded_bodies"
    by (simp add: decoded_bodies_def)
  let ?names = "[(''ProcessingTimesDataType'', ''UA_IJT_ProcessingTimesDataType''), (''EntityDataType'', ''UA_EntityDataType''),
     (''ResultDataType'', ''UA_ResultDataType''), (''ResultValueDataType'', ''UA_ResultValueDataType''),
     (''ResultEvaluationEnum'', ''UA_ResultEvaluationEnum''), (''StepResultDataType'', ''UA_StepResultDataType'')]"
  have names: "map (\<lambda>(t, i, S). (typeName (table_of t ! i), S)) default_casts = ?names"
    by (simp add: default_casts_def table_of_def tables type_indices entry_defs)
  have casts: "list_all (\<lambda>(t, i, S). cast_ok d S) [(t, i, S) \<leftarrow> default_casts. typeName d = typeName (table_of t ! i)] =
      list_all (\<lambda>(n, S). typeName d = n \<longrightarrow> cast_ok d S) ?names" for d
    unfolding names [symmetric] by (auto simp: list_all_iff)
  show "list_all (\<lambda>d. list_all (\<lambda>(t, i, S). cast_ok d S) [(t, i, S) \<leftarrow> default_casts. typeName d = typeName (table_of t ! i)] \<and>
     list_all (\<lambda>(n, S). cast_ok d S) [(n, S) \<leftarrow> structure_casts. typeName d = n \<and> typeKind d = UA_DATATYPEKIND_STRUCTURE] \<and>
     list_all (\<lambda>(k, n, S). cast_ok d S) [(k, n, S) \<leftarrow> array_casts. typeName d = n \<and> typeKind d = k])
   custom_types"
    unfolding casts
    by (simp add: structure_casts_def array_casts_def custom_types_def tables entry_defs cast_ok_def
        UA_ProcessingTimesDataType_def UA_IJT_ProcessingTimesDataType_def)
qed

lemma registered_ids:
  "d \<in> set (registered c getMachineryResultTypes) \<Longrightarrow>
   snd (binaryEncodingId d) \<in> {0, 5001, 5003, 5007, 5008, 5013}"
proof -
  have keep: "snd (binaryEncodingId (in_namespace c t e)) = snd (binaryEncodingId e)" for t e
    by (simp add: in_namespace_def split: option.splits)
  have "map (\<lambda>e. snd (binaryEncodingId e)) (registered c getMachineryResultTypes) =
      [0, 5001, 5003, 5008, 0, 5001, 5007, 5013, 0, 0, 0, 0]"
    by (simp add: getMachineryResultTypes_def MachineryResultTypes_def TighteningSystemTypes_def GmsTypes_def
        table_of_def tables keep o_def) (simp add: entry_defs)
  then have "(\<lambda>e. snd (binaryEncodingId e)) ` set (registered c getMachineryResultTypes) \<subseteq>
      {0, 5001, 5003, 5007, 5008, 5013}"
    unfolding set_map [symmetric] by simp
  moreover assume "d \<in> set (registered c getMachineryResultTypes)"
  ultimately show ?thesis by blast
qed

text \<open>
  C17: The bodies of extension objects that the converter decodes itself are bodies that the
  stack leaves encoded, as the converter reads the \<^verbatim>\<open>encoded\<close> member of the union: whatever
  the namespaces, no type registered with the stack has one of their encodings. That the array
  of result types is registered without its sixth entry is needed for it, as that entry has the
  encoding 5005.
\<close>

theorem converter_decodes_unregistered:
  assumes "encoded_json lib ser num body \<noteq> Some JNull"
    and "d \<in> set (registered c getMachineryResultTypes)"
  shows "num \<in> fst ` set decoded_bodies \<and> of_nat (snd (binaryEncodingId d)) \<noteq> num \<and>
    of_nat (snd (binaryEncodingId (UA_TYPES_MACHINERY_RESULT ! 5))) \<in> fst ` set decoded_bodies"
proof -
  have num: "num \<in> {5005, 5079, 5046, 5049}"
  proof (rule ccontr)
    assume "num \<notin> {5005, 5079, 5046, 5049}"
    then have "encoded_json lib ser num body = Some JNull"
      by (cases "(lib, ser, num, body)" rule: encoded_json.cases) auto
    with assms(1) show False by simp
  qed
  have "snd (binaryEncodingId d) \<in> {0, 5001, 5003, 5007, 5008, 5013}" by (rule registered_ids [OF assms(2)])
  then have "of_nat (snd (binaryEncodingId d)) \<noteq> num" using num by auto
  with num show ?thesis
    by (auto simp: decoded_bodies_def tables entry_defs)
qed

theorem converter_decodes_unregistered_witness:
  "in_namespace empty_cache Machinery_Result_Table ResultDataType_type
     \<in> set (registered empty_cache getMachineryResultTypes) \<and>
   of_nat (snd (binaryEncodingId (in_namespace empty_cache Machinery_Result_Table ResultDataType_type)))
     \<noteq> (5079 :: 32 word)"
proof -
  have "encoded_json example_lib False 5079 (BodyEntity zero_entity) \<noteq> Some JNull"
    by (simp add: decodeEntityDataType_def members_def)
  moreover have "in_namespace empty_cache Machinery_Result_Table ResultDataType_type
      \<in> set (registered empty_cache getMachineryResultTypes)"
    by (simp add: getMachineryResultTypes_def MachineryResultTypes_def table_of_def tables)
  ultimately show ?thesis using converter_decodes_unregistered by blast
qed

text \<open>The indices that a refresh of the namespaces writes are those of the new table.\<close>

lemma fill_typeNamespaces:
  assumes "length us \<le> 2 ^ 16" and "sm_ok (m_typeNamespaces c0)"
  shows "sm_ok (m_typeNamespaces (fillNamespaceCache us (clear_cache c0))) \<and>
    (\<forall>t. table_uri t \<in> set us \<longrightarrow>
      sm_find (m_typeNamespaces (fillNamespaceCache us (clear_cache c0))) (table_uri t) =
      sm_find (m_uriToIndexCache (fillNamespaceCache us (clear_cache c0))) (table_uri t))"
  using assms
proof (induction us rule: rev_induct)
  case Nil
  then show ?case by (simp add: fillNamespaceCache_def clear_cache_def)
next
  case (snoc u us)
  let ?c = "fillNamespaceCache us (clear_cache c0)"
  have c: "cache_of us ?c" using snoc.prems by (intro fillNamespaceCache_clear) simp
  from snoc have IH: "sm_ok (m_typeNamespaces ?c)"
    "\<And>t. table_uri t \<in> set us \<Longrightarrow> sm_find (m_typeNamespaces ?c) (table_uri t) = sm_find (m_uriToIndexCache ?c) (table_uri t)"
    by auto
  show ?case
  proof (cases "u \<in> set us")
    case True
    with c have "fillNamespaceCache (us @ [u]) (clear_cache c0) = ?c"
      by (auto simp: fill_snoc add_namespace_uri_def cache_of_def)
    with IH True show ?thesis by auto
  next
    case False
    have uris: "table_uri t \<in> {''http://opcfoundation.org/UA/Machinery/Result/'',
        ''http://opcfoundation.org/UA/IJT/'', ''http://opcfoundation.org/UA/GMS/'',
        ''http://opcfoundation.org/UA/IJT/Base/''}" for t
      by (cases t) (simp_all add: table_uri_def)
    from False c have "sm_find (m_uriToIndexCache ?c) u = None" and ok: "sm_ok (m_uriToIndexCache ?c)"
      by (simp_all add: cache_of_def)
    then have fill: "fillNamespaceCache (us @ [u]) (clear_cache c0) = updateCustomDataTypesNamespace u (length us) (?c
       \<lparr>m_uriToIndexCache := sm_assign u (of_nat (length us)) (m_uriToIndexCache ?c),
        m_indexToUriCache := sm_assign (unat (of_nat (length us) :: 16 word)) u (m_indexToUriCache ?c)\<rparr>)"
      by (simp add: fill_snoc add_namespace_uri_def)
    have "table_uri t \<in> set us" if "table_uri t \<in> set (us @ [u])" "table_uri t \<noteq> u" for t
      using that by simp
    with IH ok uris show ?thesis
      unfolding fill updateCustomDataTypesNamespace_def by (auto simp: smap_simps)
  qed
qed

text \<open>
  C18: When the server has the namespaces of the registered tables, a refresh writes into each
  registered type the index of the namespace of its own table, and the encodings of the
  registered types, apart from the unset ones, are distinct, so the stack finds at most one type
  for an encoding.
\<close>

theorem registered_types_unambiguous:
  assumes "length us \<le> 2 ^ 16" and "sm_ok (m_typeNamespaces c0)"
    and "{table_uri Machinery_Result_Table, table_uri Tightening_Table, table_uri GMS_Table} \<subseteq> set us"
  defines "c \<equiv> fillNamespaceCache us (clear_cache c0)"
  shows "distinct (filter (\<lambda>(n, i). i \<noteq> 0) (map binaryEncodingId (registered c getMachineryResultTypes))) \<and>
    (\<forall>t \<in> {Machinery_Result_Table, Tightening_Table, GMS_Table}. \<forall>d.
       us ! fst (binaryEncodingId (in_namespace c t d)) = table_uri t \<and>
       us ! fst (typeId (in_namespace c t d)) = table_uri t)"
proof -
  have c: "cache_of us c" unfolding c_def by (rule fillNamespaceCache_clear [OF assms(1)])
  have found: "\<exists>w. sm_find (m_typeNamespaces c) (table_uri t) = Some w \<and> us ! unat w = table_uri t"
    if "table_uri t \<in> set us" for t
  proof -
    from fill_typeNamespaces [OF assms(1,2)] that
    have eq: "sm_find (m_typeNamespaces c) (table_uri t) = sm_find (m_uriToIndexCache c) (table_uri t)"
      by (simp add: c_def)
    from c that have "sm_find (m_uriToIndexCache c) (table_uri t) \<noteq> None" by (simp add: cache_of_def)
    then obtain w where "sm_find (m_uriToIndexCache c) (table_uri t) = Some w" by blast
    with eq c show ?thesis by (auto simp: cache_of_def)
  qed
  obtain m where m: "sm_find (m_typeNamespaces c) (table_uri Machinery_Result_Table) = Some m"
    "us ! unat m = table_uri Machinery_Result_Table" using found assms(3) by blast
  obtain i where i: "sm_find (m_typeNamespaces c) (table_uri Tightening_Table) = Some i"
    "us ! unat i = table_uri Tightening_Table" using found assms(3) by blast
  obtain g where g: "sm_find (m_typeNamespaces c) (table_uri GMS_Table) = Some g"
    "us ! unat g = table_uri GMS_Table" using found assms(3) by blast
  have "table_uri Machinery_Result_Table \<noteq> table_uri Tightening_Table" by (simp add: table_uri_def)
  with m i have "unat m \<noteq> unat i" by metis
  moreover have "map binaryEncodingId (registered c getMachineryResultTypes) =
      map (Pair (unat m)) [0, 5001, 5003, 5008, 0] @ [(unat i, 5001)] @ map (Pair (unat g)) [5007, 5013, 0, 0, 0, 0]"
    by (simp add: getMachineryResultTypes_def MachineryResultTypes_def TighteningSystemTypes_def GmsTypes_def
        table_of_def tables in_namespace_def m i g o_def) (simp add: entry_defs)
  moreover have "\<forall>t \<in> {Machinery_Result_Table, Tightening_Table, GMS_Table}. \<forall>d.
       us ! fst (binaryEncodingId (in_namespace c t d)) = table_uri t \<and>
       us ! fst (typeId (in_namespace c t d)) = table_uri t"
    using m i g by (simp add: in_namespace_def)
  ultimately show ?thesis by simp
qed

theorem registered_types_unambiguous_witness:
  "distinct (filter (\<lambda>(n, i). i \<noteq> 0) (map binaryEncodingId (registered
     (fillNamespaceCache [''http://opcfoundation.org/UA/'', ''http://opcfoundation.org/UA/IJT/'',
        ''http://opcfoundation.org/UA/GMS/'', ''http://opcfoundation.org/UA/Machinery/Result/'']
      (clear_cache empty_cache)) getMachineryResultTypes)))"
  using registered_types_unambiguous [of "[''http://opcfoundation.org/UA/'', ''http://opcfoundation.org/UA/IJT/'',
        ''http://opcfoundation.org/UA/GMS/'', ''http://opcfoundation.org/UA/Machinery/Result/'']" empty_cache]
  by (simp add: table_uri_def empty_cache_def)

text \<open>
  Branches of the converter that no type of the tables reaches, as their kind is another one: the
  structure \<^verbatim>\<open>ProcessingTimesDataType\<close> and arrays of \<^verbatim>\<open>ResultDataType\<close>; and a type whose
  arrays have no branch, although the errors of a joining result are such an array.
\<close>

lemma unreached_branches:
  "list_all (\<lambda>d. (typeName d = ''ProcessingTimesDataType'' \<longrightarrow> typeKind d \<noteq> UA_DATATYPEKIND_STRUCTURE) \<and>
     (typeName d = ''ResultDataType'' \<longrightarrow> typeKind d \<noteq> UA_DATATYPEKIND_OPTSTRUCT)) custom_types"
  "typeKind ErrorInformationDataType_type = UA_DATATYPEKIND_OPTSTRUCT"
  "\<not> list_ex (\<lambda>(k, n, S). n = typeName ErrorInformationDataType_type) array_casts"
  "(''errors'', From_Array, Entry IJT_Table UA_TYPES_IJT_GENERATED_ERRORINFORMATIONDATATYPE)
     \<in> set (snd accesses_decodeJoiningResultDataType)"
  by (simp_all add: custom_types_def tables entry_defs array_casts_def accesses_decodeJoiningResultDataType_def)

text \<open>
  Without the namespace of the tightening table, a foreign type of the namespace 11 with the
  encoding 5001 is taken for its entry.
\<close>

lemma tightening_keeps_index_11:
  assumes "sm_find (m_typeNamespaces c) (table_uri Tightening_Table) = None"
  shows "IJT_ProcessingTimesDataType_type \<in> set (registered c getMachineryResultTypes) \<and>
    binaryEncodingId IJT_ProcessingTimesDataType_type = (11, 5001)"
  using assms
  by (simp add: getMachineryResultTypes_def MachineryResultTypes_def TighteningSystemTypes_def
      table_of_def UA_TYPES_TIGHTENING_def in_namespace_def IJT_ProcessingTimesDataType_type_def)

end
