(* ===== verification/Type_Inheritance.thy ===== *)
theory Type_Inheritance
  imports Type_Reader
begin

text \<open>
  Properties of the type reader: the inheritance phase keeps every pointer valid, ends within
  the fuel that the number of bidirectional nodes gives, and gives every type at least the
  children that each of its ancestors declares; \<^verbatim>\<open>toStructureNode\<close> adds the children again
  on every call.
\<close>

section \<open>What the inheritance phase keeps\<close>

text \<open>
  The bidirectional nodes \<open>B\<close>, the number of nodes and lists, and the browse name \<open>nm\<close> of
  every node stay; only the child lists and one flag of the nodes change.
\<close>

definition shape :: "nat \<Rightarrow> nat \<Rightarrow> StructureBiNode list \<Rightarrow> (nat \<Rightarrow> QualifiedName_t) \<Rightarrow> type_heap \<Rightarrow> bool" where
  "shape N L B nm h \<longleftrightarrow> heap_ok h \<and> length (th_nodes h) = N \<and> length (th_lists h) = L \<and> th_bis h = B \<and>
     (\<forall>a < N. SpecifiedBrowseName (sn_at h a) = nm a)"

lemma shapeD:
  assumes "shape N L B nm h"
  shows "heap_ok h" and "length (th_nodes h) = N" and "length (th_lists h) = L" and "th_bis h = B"
    and "a < N \<Longrightarrow> SpecifiedBrowseName (sn_at h a) = nm a"
  using assms by (simp_all add: shape_def)

lemma shape_bi:
  assumes "shape N L B nm h" and "b < length B"
  shows "structureNode (B ! b) < N"
    and "parent (B ! b) = Some p \<Longrightarrow> p < b"
    and "c \<in> set (SpecifiedBiChildNodes (B ! b)) \<Longrightarrow> b < c \<and> c < length B"
  using heap_ok_bi [OF shapeD(1) [OF assms(1)], of b] assms
  by (auto simp: shapeD [OF assms(1)] bi_ok_def)

lemma shape_set_children:
  assumes "shape N L B nm h" and "\<forall>c \<in> set xs. c < N"
  shows "shape N L B nm (set_children l xs h)"
  using assms heap_ok_set_children [of h xs l] by (auto simp: shape_def) (simp_all add: set_children_def)

lemma shape_set_flag:
  assumes "shape N L B nm h" and "a < N"
  shows "shape N L B nm (set_node a ((sn_at h a)\<lparr>ofBaseDataVariableType := b\<rparr>) h)"
proof -
  have "node_ok h ((sn_at h a)\<lparr>ofBaseDataVariableType := b\<rparr>)"
    using heap_ok_node [OF shapeD(1) [OF assms(1)]] assms by (simp add: shape_def node_ok_def)
  then have "heap_ok (set_node a ((sn_at h a)\<lparr>ofBaseDataVariableType := b\<rparr>) h)"
    using heap_ok_set_node assms(1) by (simp add: shape_def)
  then show ?thesis using assms by (auto simp: shape_def) (auto simp: set_node_def nth_list_update)
qed

lemma shape_list: "shape N L B nm h \<Longrightarrow> l < L \<Longrightarrow> c \<in> set (th_lists h ! l) \<Longrightarrow> c < N"
  using heap_ok_list [of h l c] by (simp add: shape_def)

lemma shape_child_list: "shape N L B nm h \<Longrightarrow> a < N \<Longrightarrow> SpecifiedChildNodes (sn_at h a) < L"
  using heap_ok_node [of h a] by (simp add: shape_def)

section \<open>The names in a list\<close>

definition names :: "(nat \<Rightarrow> QualifiedName_t) \<Rightarrow> nat \<Rightarrow> type_heap \<Rightarrow> QualifiedName_t set" where
  "names nm l h = nm ` set (th_lists h ! l)"

text \<open>The invariant of all steps: the shape, and names that no step takes out of the list \<open>l\<close>.\<close>

definition keeps_names ::
    "nat \<Rightarrow> nat \<Rightarrow> StructureBiNode list \<Rightarrow> (nat \<Rightarrow> QualifiedName_t) \<Rightarrow> nat \<Rightarrow> QualifiedName_t set \<Rightarrow> type_heap \<Rightarrow> bool" where
  "keeps_names N L B nm l S h \<longleftrightarrow> shape N L B nm h \<and> l < L \<and> S \<subseteq> names nm l h"

lemma keeps_names_append:
  assumes "keeps_names N L B nm l S h" and "x < N" and "k < L"
  shows "keeps_names N L B nm l S (set_children k (th_lists h ! k @ [x]) h)"
    and "keeps_names N L B nm l (insert (nm x) S) (set_children l (th_lists h ! l @ [x]) h)"
  using assms shape_list [of N L B nm h] shape_set_children [of N L B nm h]
  by (auto simp: keeps_names_def names_def) (auto simp: set_children_def nth_list_update shape_def)

lemma keeps_names_flag:
  assumes "keeps_names N L B nm l S h" and "a < N"
  shows "keeps_names N L B nm l S (set_node a ((sn_at h a)\<lparr>ofBaseDataVariableType := b\<rparr>) h)"
  using assms shape_set_flag by (simp add: keeps_names_def names_def set_node_def)

text \<open>The two updates of \<^verbatim>\<open>toStructureNode\<close>: a child is appended, and the flag is copied.\<close>

lemma runs_append_structure:
  assumes "b < length B" and "c < length B"
  shows "runs (keeps_names N L B nm l S) (\<lambda>e. False) (\<lambda>_. True)
    (update (\<lambda>h. let l = SpecifiedChildNodes (sn_at h (structureNode (bi_at h b)))
       in set_children l (th_lists h ! l @ [structureNode (B ! c)]) h))"
proof (rule runs_update)
  fix h assume P: "keeps_names N L B nm l S h"
  then have sh: "shape N L B nm h" by (simp add: keeps_names_def)
  have "SpecifiedChildNodes (sn_at h (structureNode (bi_at h b))) < L"
    using shape_child_list [OF sh] shape_bi(1) [OF sh assms(1)] shapeD(4) [OF sh] by simp
  then show "keeps_names N L B nm l S (let l = SpecifiedChildNodes (sn_at h (structureNode (bi_at h b)))
       in set_children l (th_lists h ! l @ [structureNode (B ! c)]) h)"
    using keeps_names_append(1) [OF P shape_bi(1) [OF sh assms(2)]] by (simp add: Let_def)
qed simp

lemma runs_copy_flag:
  assumes "b < length B"
  shows "runs (keeps_names N L B nm l S) (\<lambda>e. False) (\<lambda>a. a = structureNode (B ! b))
    (seq (update (\<lambda>h. let a = structureNode (bi_at h b)
          in set_node a ((sn_at h a)\<lparr>ofBaseDataVariableType := biOfBaseDataVariableType (bi_at h b)\<rparr>) h)) (\<lambda>_.
     reads (\<lambda>h. structureNode (bi_at h b))))"
proof (rule runs_seq_any [OF runs_update runs_reads])
  fix h assume P: "keeps_names N L B nm l S h"
  then have sh: "shape N L B nm h" by (simp add: keeps_names_def)
  then show "structureNode (bi_at h b) = structureNode (B ! b)"
    and "keeps_names N L B nm l S (let a = structureNode (bi_at h b)
          in set_node a ((sn_at h a)\<lparr>ofBaseDataVariableType := biOfBaseDataVariableType (bi_at h b)\<rparr>) h)"
    using keeps_names_flag [OF P shape_bi(1) [OF sh assms]] by (simp_all add: Let_def shapeD(4))
qed simp

lemma runs_toStructureNode:
  "b < length B \<Longrightarrow> length B - b < fuel \<Longrightarrow>
   runs (keeps_names N L B nm l S) (\<lambda>e. False) (\<lambda>a. a = structureNode (B ! b)) (toStructureNode fuel b)"
proof (induction fuel arbitrary: b)
  case (Suc fuel)
  let ?P = "keeps_names N L B nm l S"
  have one: "runs ?P (\<lambda>e. False) (\<lambda>_. True)
      (seq (toStructureNode fuel c) (\<lambda>a. update (\<lambda>h. let l = SpecifiedChildNodes (sn_at h (structureNode (bi_at h b)))
         in set_children l (th_lists h ! l @ [a]) h)))" if c: "b < c" "c < length B" for c
    by (rule runs_seq [OF Suc.IH [OF c(2)]])
      (use Suc.prems c runs_append_structure [OF Suc.prems(1) c(2)] in auto)
  show ?case
    unfolding toStructureNode.simps
  proof (rule runsI)
    fix h r t assume P: "?P h" and run: "seq (reads (\<lambda>h. SpecifiedBiChildNodes (bi_at h b))) (\<lambda>children.
     seq (for_each children (\<lambda>innerChild.
            seq (toStructureNode fuel innerChild) (\<lambda>innerChildStructureNode.
            update (\<lambda>h. let l = SpecifiedChildNodes (sn_at h (structureNode (bi_at h b)))
                        in set_children l (th_lists h ! l @ [innerChildStructureNode]) h)))) (\<lambda>_.
     seq (update (\<lambda>h. let a = structureNode (bi_at h b)
            in set_node a ((sn_at h a)\<lparr>ofBaseDataVariableType := biOfBaseDataVariableType (bi_at h b)\<rparr>) h)) (\<lambda>_.
     reads (\<lambda>h. structureNode (bi_at h b))))) h = (r, t)"
    have sh: "shape N L B nm h" using P by (simp add: keeps_names_def)
    have "runs ?P (\<lambda>e. False) (\<lambda>_. True) (for_each (SpecifiedBiChildNodes (bi_at h b)) (\<lambda>innerChild.
            seq (toStructureNode fuel innerChild) (\<lambda>innerChildStructureNode.
            update (\<lambda>h. let l = SpecifiedChildNodes (sn_at h (structureNode (bi_at h b)))
                        in set_children l (th_lists h ! l @ [innerChildStructureNode]) h))))"
      by (rule runs_for_each, rule one) (use shape_bi(3) [OF sh Suc.prems(1)] shapeD(4) [OF sh] in auto)
    from runsD [OF runs_seq_any [OF this runs_copy_flag [OF Suc.prems(1)]] P] run
    show "?P t \<and> (case r of Inl e \<Rightarrow> False | Inr a \<Rightarrow> a = structureNode (B ! b))" by simp
  qed
qed simp

section \<open>One inherited child\<close>

lemma find_child_Some:
  "find_child h a xs = Some el \<Longrightarrow> el \<in> set xs \<and> same_child h a el"
  by (auto simp: find_child_def find_Some_iff)

lemma keeps_names_insert:
  "keeps_names N L B nm l S h \<Longrightarrow> x \<in> names nm l h \<Longrightarrow> keeps_names N L B nm l (insert x S) h"
  by (simp add: keeps_names_def)

lemma keeps_names_add_missing:
  assumes "keeps_names N L B nm l S h" and "c < N" and "k < L"
  shows "keeps_names N L B nm l S (add_missing k c h)"
  using assms keeps_names_append(1) by (simp add: add_missing_def split: option.splits)

lemma keeps_names_add_all:
  assumes "keeps_names N L B nm l S h" and "\<forall>c \<in> set cs. c < N" and "found < N"
  shows "keeps_names N L B nm l S
    (fold (\<lambda>c h'. add_missing (SpecifiedChildNodes (sn_at h' found)) c h') cs h)"
  using assms(1,2)
proof (induction cs arbitrary: h)
  case (Cons c cs)
  then have "SpecifiedChildNodes (sn_at h found) < L"
    using shape_child_list assms(3) by (auto simp: keeps_names_def)
  with Cons show ?case by (simp add: keeps_names_add_missing)
qed simp

lemma keeps_names_replace:
  assumes "keeps_names N L B nm l S h" and "sn < N" and "nm found = nm sn"
  shows "keeps_names N L B nm l S (set_children l (remove1 found (th_lists h ! l) @ [sn]) h)"
proof -
  let ?xs = "th_lists h ! l"
  have sh: "shape N L B nm h" "l < L" "S \<subseteq> nm ` set ?xs"
    using assms(1) by (simp_all add: keeps_names_def names_def)
  have "shape N L B nm (set_children l (remove1 found ?xs @ [sn]) h)"
    by (rule shape_set_children [OF sh(1)])
      (use shape_list [OF sh(1,2)] assms(2) in \<open>auto dest: notin_set_remove1\<close>)
  moreover have "set ?xs \<subseteq> insert found (set (remove1 found ?xs))"
    by (metis in_set_remove1 insertCI subsetI)
  then have "nm ` set ?xs \<subseteq> nm ` set (remove1 found ?xs @ [sn])"
    using assms(3) by auto
  ultimately show ?thesis
    using sh by (auto simp: keeps_names_def names_def shape_def set_children_def)
qed

lemma keeps_names_inherit_child:
  assumes P: "keeps_names N L B nm l S h" and sn: "sn < N"
  shows "keeps_names N L B nm l (insert (nm sn) S) (inherit_child l sn h)"
proof (cases "find_child h sn (th_lists h ! l)")
  case None
  moreover have "l < L" using P by (simp add: keeps_names_def)
  ultimately show ?thesis using keeps_names_append(2) [OF P sn] by (simp add: inherit_child_def)
next
  case (Some found)
  have sh: "shape N L B nm h" "l < L" using P by (simp_all add: keeps_names_def)
  from find_child_Some [OF Some] have found: "found \<in> set (th_lists h ! l)" "same_child h sn found" by auto
  have fN: "found < N" using shape_list [OF sh found(1)] .
  have name: "nm found = nm sn"
    using found(2) shapeD(5) [OF sh(1) fN] shapeD(5) [OF sh(1) sn] by (auto simp: same_child_def)
  have "nm sn \<in> names nm l h" unfolding names_def using found(1) name by (metis image_eqI)
  from keeps_names_insert [OF P this] have P': "keeps_names N L B nm l (insert (nm sn) S) h" .
  have "\<forall>c \<in> set (children_at h sn). c < N"
    using shape_list [OF sh(1) shape_child_list [OF sh(1) sn]] by blast
  from keeps_names_add_all [OF P' this fN] keeps_names_replace [OF _ sn name] Some show ?thesis
    by (simp add: inherit_child_def Let_def)
qed

section \<open>All ancestors\<close>

definition declared :: "(nat \<Rightarrow> QualifiedName_t) \<Rightarrow> StructureBiNode list \<Rightarrow> nat list \<Rightarrow> QualifiedName_t set" where
  "declared nm B cs = {nm (structureNode (B ! c)) | c. c \<in> set cs \<and> \<not> isType (B ! c)}"

lemma declared_Cons:
  "declared nm B (c # cs) = (if isType (B ! c) then {} else {nm (structureNode (B ! c))}) \<union> declared nm B cs"
  by (auto simp: declared_def)

lemma hoare_inherit_children:
  assumes "\<forall>c \<in> set cs. c < length B" and fuel: "length B < fuel"
  shows "hoare (keeps_names N L B nm l S)
    (for_each cs (\<lambda>currentChild. seq (reads (\<lambda>h. isType (bi_at h currentChild))) (\<lambda>is_type.
       if is_type then ret () else seq (toStructureNode fuel currentChild) (\<lambda>sn. update (inherit_child l sn)))))
    (\<lambda>_. keeps_names N L B nm l (S \<union> declared nm B cs)) (\<lambda>_ _. False)"
  using assms(1)
proof (induction cs arbitrary: S)
  case Nil
  show ?case by (auto simp: declared_def intro: hoare_ret)
next
  case (Cons c cs)
  have c: "c < length B" using Cons.prems by simp
  have step: "hoare (keeps_names N L B nm l S)
      (seq (toStructureNode fuel c) (\<lambda>sn. update (inherit_child l sn)))
      (\<lambda>_. keeps_names N L B nm l (insert (nm (structureNode (B ! c))) S)) (\<lambda>_ _. False)"
  proof (rule hoare_seq)
    show "hoare (keeps_names N L B nm l S) (toStructureNode fuel c)
        (\<lambda>a h. keeps_names N L B nm l S h \<and> a = structureNode (B ! c)) (\<lambda>_ _. False)"
      using runs_toStructureNode [OF c, of fuel N L nm l S] fuel by (simp add: runs_hoare)
    show "hoare (\<lambda>h. keeps_names N L B nm l S h \<and> a = structureNode (B ! c)) (update (inherit_child l a))
        (\<lambda>_. keeps_names N L B nm l (insert (nm (structureNode (B ! c))) S)) (\<lambda>_ _. False)" for a
    proof (rule hoare_update)
      fix h assume h: "keeps_names N L B nm l S h \<and> a = structureNode (B ! c)"
      then have "a < N" using shape_bi(1) [OF _ c] by (auto simp: keeps_names_def)
      with h show "keeps_names N L B nm l (insert (nm (structureNode (B ! c))) S) (inherit_child l a h)"
        using keeps_names_inherit_child by blast
    qed
  qed
  let ?S = "S \<union> (if isType (B ! c) then {} else {nm (structureNode (B ! c))})"
  have one: "hoare (keeps_names N L B nm l S)
      (seq (reads (\<lambda>h. isType (bi_at h c))) (\<lambda>is_type.
       if is_type then ret () else seq (toStructureNode fuel c) (\<lambda>sn. update (inherit_child l sn))))
      (\<lambda>_. keeps_names N L B nm l ?S) (\<lambda>_ _. False)"
    by (rule hoare_branch [where b = "\<lambda>h. isType (bi_at h c)" and f = "\<lambda>h. h"
          and ?P1.0 = "\<lambda>h. keeps_names N L B nm l S h \<and> isType (B ! c)"
          and ?P2.0 = "\<lambda>h. keeps_names N L B nm l S h \<and> \<not> isType (B ! c)"])
      (auto simp: keeps_names_def shape_def intro!: hoare_ret
        hoare_weaken [OF step, unfolded keeps_names_def shape_def])
  have eq: "S \<union> declared nm B (c # cs) = ?S \<union> declared nm B cs"
    by (simp add: declared_Cons Un_assoc)
  have "\<forall>c \<in> set cs. c < length B" using Cons.prems by simp
  then show ?case
    unfolding for_each.simps eq by (rule hoare_seq [OF one Cons.IH])
qed

lemma shape_declared:
  assumes "keeps_names N L B nm l S h"
  shows "th_bis h = B" and "shape N L B nm h"
  using assms by (simp_all add: keeps_names_def shape_def)

lemma hoare_inherit_ancestor:
  assumes anc: "anc < length B" and fuel: "length B < fuel"
  shows "hoare (keeps_names N L B nm l S) (inherit_ancestor fuel l anc)
    (\<lambda>_. keeps_names N L B nm l (S \<union> declared nm B (SpecifiedBiChildNodes (B ! anc)))) (\<lambda>_ _. False)"
  unfolding hoare_def
proof (intro allI impI)
  fix h assume P: "keeps_names N L B nm l S h"
  have B: "th_bis h = B" and sh: "shape N L B nm h" using shape_declared [OF P] by auto
  have "\<forall>c \<in> set (SpecifiedBiChildNodes (B ! anc)). c < length B"
    using shape_bi(3) [OF sh anc] by blast
  from hoare_inherit_children [OF this fuel, of N L nm l S, unfolded hoare_def, rule_format, OF P]
  show "case inherit_ancestor fuel l anc h of (Inl e, t) \<Rightarrow> False
      | (Inr x, t) \<Rightarrow> keeps_names N L B nm l (S \<union> declared nm B (SpecifiedBiChildNodes (B ! anc))) t"
    by (simp add: inherit_ancestor_def B)
qed

lemma hoare_inherit_ancestors:
  assumes "\<forall>a \<in> set as. a < length B" and fuel: "length B < fuel"
  shows "hoare (keeps_names N L B nm l S) (for_each as (inherit_ancestor fuel l))
    (\<lambda>_. keeps_names N L B nm l (S \<union> (\<Union>a \<in> set as. declared nm B (SpecifiedBiChildNodes (B ! a)))))
    (\<lambda>_ _. False)"
  using assms(1)
proof (induction as arbitrary: S)
  case Nil
  show ?case by (auto intro: hoare_ret)
next
  case (Cons a as)
  let ?D = "\<lambda>a. declared nm B (SpecifiedBiChildNodes (B ! a))"
  have eq: "S \<union> (\<Union>a \<in> set (a # as). ?D a) = (S \<union> ?D a) \<union> (\<Union>a \<in> set as. ?D a)" by auto
  have a: "a < length B" and as: "\<forall>a \<in> set as. a < length B" using Cons.prems by auto
  show ?case
    unfolding for_each.simps eq
    by (rule hoare_seq [OF hoare_inherit_ancestor [OF a fuel] Cons.IH [OF as]])
qed

lemma bloodline_bound:
  "shape N L B nm h \<Longrightarrow> b < length B \<Longrightarrow> a \<in> set (bloodline fuel h b) \<Longrightarrow> a < length B"
proof (induction fuel h b rule: bloodline.induct)
  case (2 fuel h b)
  have B: "th_bis h = B" using shapeD(4) [OF "2.prems"(1)] .
  show ?case
  proof (cases "parent (bi_at h b)")
    case (Some p)
    then have "p < length B" using shape_bi(2) [OF "2.prems"(1,2)] "2.prems"(2) B
      by (metis less_trans)
    then show ?thesis using "2.IH" [OF Some "2.prems"(1)] "2.prems"(2,3) Some by auto
  qed (use "2.prems" in simp)
qed simp

text \<open>
  C12: a type inherits from all its ancestors. On a heap with valid pointers the inheritance
  step of a type always succeeds, within a fuel of one more than the number of bidirectional
  nodes, and leaves all pointers valid; and for every ancestor of the type, the type included,
  every child that the ancestor declares and that is not a type has a namesake among the
  children of the resulting type, even where optional children were replaced on the way.
\<close>

theorem inherits_from_all_ancestors:
  assumes "heap_ok h" and "b < length (th_bis h)" and "length (th_bis h) < fuel"
  shows "\<exists>a h'. inherit_type fuel b h = (Inr a, h') \<and> heap_ok h' \<and> a < length (th_nodes h') \<and>
    (\<forall>anc \<in> set (bloodline fuel h b). \<forall>c \<in> set (SpecifiedBiChildNodes (bi_at h anc)).
       \<not> isType (bi_at h c) \<longrightarrow>
       (\<exists>el \<in> set (children_at h' a).
          SpecifiedBrowseName (sn_at h' el) = SpecifiedBrowseName (sn_at h (structureNode (bi_at h c)))))"
proof -
  define N L B nm where "N = length (th_nodes h)" and "L = length (th_lists h)" and "B = th_bis h"
    and "nm = (\<lambda>a. SpecifiedBrowseName (sn_at h a))"
  note names_def' = N_def L_def B_def nm_def
  define n where "n = (sn_at h (structureNode (bi_at h b)))
    \<lparr>ofBaseDataVariableType := biOfBaseDataVariableType (bi_at h b)\<rparr>"
  define l where "l = SpecifiedChildNodes n"
  have sh: "shape N L B nm h" using assms(1) by (simp add: shape_def names_def')
  have b: "b < length B" using assms(2) by (simp add: B_def)
  have "l < L" using shape_child_list [OF sh shape_bi(1) [OF sh b]] by (simp add: l_def n_def B_def)
  then have P: "keeps_names N L B nm l {} h" using sh by (simp add: keeps_names_def)
  let ?as = "bloodline fuel h b"
  let ?S = "\<Union>a \<in> set ?as. declared nm B (SpecifiedBiChildNodes (B ! a))"
  have as: "\<forall>a \<in> set (rev ?as). a < length B" using bloodline_bound [OF sh b] by auto
  have fuel: "length B < fuel" using assms(3) by (simp add: B_def)
  obtain r h1 where run: "for_each (rev ?as) (inherit_ancestor fuel l) h = (r, h1)" by fastforce
  from hoare_inherit_ancestors [OF as fuel, of N L nm l "{}"] P run
  have r: "r = Inr ()" and P1: "keeps_names N L B nm l ?S h1"
    unfolding hoare_def by (cases r; force)+
  have sh1: "shape N L B nm h1" using P1 by (simp add: keeps_names_def)
  define h2 where "h2 = h1\<lparr>th_nodes := th_nodes h1 @ [n]\<rparr>"
  have "node_ok h1 n" using \<open>l < L\<close> sh1 by (simp add: node_ok_def l_def shape_def)
  then have ok2: "heap_ok h2" using heap_ok_new_node [of h1 n] shapeD(1) [OF sh1]
    by (simp add: h2_def new_node_def)
  have res: "inherit_type fuel b h = (Inr N, h2)"
    using run r shapeD(2) [OF sh1]
    by (simp add: inherit_type_def n_def [symmetric] l_def [symmetric] seq_def [of "for_each _ _"] alloc_def
        new_node_def h2_def)
  have at_N: "sn_at h2 N = n" using shapeD(2) [OF sh1] by (auto simp: h2_def)
  have old: "SpecifiedBrowseName (sn_at h2 el) = nm el" if "el < N" for el
    using that shapeD(2,5) [OF sh1] by (simp add: h2_def nth_append)
  have "\<exists>el \<in> set (children_at h2 N). SpecifiedBrowseName (sn_at h2 el) = nm (structureNode (B ! c))"
    if "anc \<in> set ?as" "c \<in> set (SpecifiedBiChildNodes (B ! anc))" "\<not> isType (B ! c)" for anc c
  proof -
    have "nm (structureNode (B ! c)) \<in> names nm l h1"
      using P1 that by (auto simp: keeps_names_def declared_def)
    then obtain el where el: "el \<in> set (th_lists h1 ! l)" "nm el = nm (structureNode (B ! c))"
      by (auto simp: names_def)
    then have "el < N" using shape_list [OF sh1 \<open>l < L\<close>] by blast
    with el old at_N show ?thesis by (auto simp: l_def h2_def intro!: bexI [of _ el])
  qed
  then show ?thesis
    using res ok2 shapeD(2) [OF sh1] by (auto simp: names_def' h2_def)
qed

text \<open>
  A small type tree: the base type 0 declares the child 2; type 1 is a subtype of 0 without
  children of its own.
\<close>

definition example_bi :: "nat \<Rightarrow> nat option \<Rightarrow> bool \<Rightarrow> nat list \<Rightarrow> StructureBiNode" where
  "example_bi sn par t cs =
     \<lparr>structureNode = sn, parent = par, namespaceUri = ''urn:x'', isType = t,
      biOfBaseDataVariableType = False, SpecifiedBiChildNodes = cs\<rparr>"

definition example_heap :: type_heap where
  "example_heap =
     \<lparr>th_nodes = map (\<lambda>(n, l). StructureNode_full Object Optional NodeId_HasComponent (NodeId '''' ''i=58'')
         (QualifiedName ''urn:x'' n) False l) [(''Base'', 0), (''Sub'', 1), (''Child'', 2)],
      th_lists = [[], [], []],
      th_bis = [example_bi 0 None True [1, 2], example_bi 1 (Some 0) True [], example_bi 2 (Some 0) False []]\<rparr>"

lemma example_heap_ok: "heap_ok example_heap"
  by (auto simp: heap_ok_def node_ok_def bi_ok_def example_heap_def example_bi_def
      StructureNode_full_def nth_Cons' less_Suc_eq numeral_eq_Suc)

theorem inherits_from_all_ancestors_witness:
  "\<exists>a h'. inherit_type 4 1 example_heap = (Inr a, h') \<and>
     (\<exists>el \<in> set (children_at h' a). SpecifiedBrowseName (sn_at h' el) = QualifiedName ''urn:x'' ''Child'')"
proof -
  have "\<exists>a h'. inherit_type 4 1 example_heap = (Inr a, h') \<and> heap_ok h' \<and> a < length (th_nodes h') \<and>
    (\<forall>anc \<in> set (bloodline 4 example_heap 1). \<forall>c \<in> set (SpecifiedBiChildNodes (bi_at example_heap anc)).
       \<not> isType (bi_at example_heap c) \<longrightarrow>
       (\<exists>el \<in> set (children_at h' a). SpecifiedBrowseName (sn_at h' el) =
          SpecifiedBrowseName (sn_at example_heap (structureNode (bi_at example_heap c)))))"
    by (rule inherits_from_all_ancestors [OF example_heap_ok]) (simp_all add: example_heap_def)
  moreover have "0 \<in> set (bloodline 4 example_heap 1)"
    by (simp add: numeral_eq_Suc example_heap_def example_bi_def)
  moreover have "2 \<in> set (SpecifiedBiChildNodes (bi_at example_heap 0))" "\<not> isType (bi_at example_heap 2)"
    "SpecifiedBrowseName (sn_at example_heap (structureNode (bi_at example_heap 2))) = QualifiedName ''urn:x'' ''Child''"
    by (simp_all add: example_heap_def example_bi_def StructureNode_full_def)
  ultimately show ?thesis by metis
qed

section \<open>Repeated conversion\<close>

declare toStructureNode.simps(2) [simp del]

text \<open>A node without bidirectional children is only flagged.\<close>

lemma toStructureNode_leaf:
  assumes "SpecifiedBiChildNodes (bi_at h c) = []"
  shows "\<exists>h'. toStructureNode (Suc k) c h = (Inr (structureNode (bi_at h c)), h') \<and>
    th_lists h' = th_lists h \<and> th_bis h' = th_bis h \<and>
    (\<forall>a. a < length (th_nodes h) \<longrightarrow> SpecifiedChildNodes (sn_at h' a) = SpecifiedChildNodes (sn_at h a)) \<and>
    length (th_nodes h') = length (th_nodes h)"
proof -
  let ?i = "structureNode (bi_at h c)"
  have same: "SpecifiedChildNodes ((th_nodes h)[?i := (sn_at h ?i)\<lparr>ofBaseDataVariableType := f\<rparr>] ! a) =
      SpecifiedChildNodes (sn_at h a)" if "a < length (th_nodes h)" for a f
    using that by (cases "?i = a") simp_all
  show ?thesis
    using assms same by (simp add: toStructureNode.simps(2) set_node_def act_defs Let_def)
qed

lemma toStructureNode_loop:
  assumes "\<And>c. c \<in> set cs \<Longrightarrow> SpecifiedBiChildNodes (bi_at h c) = []" and "structureNode (bi_at h b) < length (th_nodes h)"
    and "SpecifiedChildNodes (sn_at h (structureNode (bi_at h b))) < length (th_lists h)"
  shows "\<exists>h'. for_each cs (\<lambda>c. seq (toStructureNode (Suc k) c) (\<lambda>a. update (\<lambda>h.
        let l = SpecifiedChildNodes (sn_at h (structureNode (bi_at h b)))
        in set_children l (th_lists h ! l @ [a]) h))) h = (Inr (), h') \<and>
    th_bis h' = th_bis h \<and> length (th_nodes h') = length (th_nodes h) \<and>
    (\<forall>a. a < length (th_nodes h) \<longrightarrow> SpecifiedChildNodes (sn_at h' a) = SpecifiedChildNodes (sn_at h a)) \<and>
    th_lists h' = (th_lists h)[SpecifiedChildNodes (sn_at h (structureNode (bi_at h b))) :=
      children_at h (structureNode (bi_at h b)) @ map (\<lambda>c. structureNode (bi_at h c)) cs]"
  using assms
proof (induction cs arbitrary: h)
  case (Cons c cs)
  let ?a = "structureNode (bi_at h b)"
  let ?l = "SpecifiedChildNodes (sn_at h ?a)"
  obtain h1 where h1: "toStructureNode (Suc k) c h = (Inr (structureNode (bi_at h c)), h1)"
    "th_lists h1 = th_lists h" "th_bis h1 = th_bis h" "length (th_nodes h1) = length (th_nodes h)"
    and sc: "\<And>a. a < length (th_nodes h) \<Longrightarrow> SpecifiedChildNodes (sn_at h1 a) = SpecifiedChildNodes (sn_at h a)"
    using toStructureNode_leaf [of h c k] Cons.prems(1) [of c] by auto
  define h2 where "h2 = set_children ?l (children_at h ?a @ [structureNode (bi_at h c)]) h1"
  have h2: "th_bis h2 = th_bis h" "length (th_nodes h2) = length (th_nodes h)"
    "th_lists h2 = (th_lists h)[?l := children_at h ?a @ [structureNode (bi_at h c)]]"
    "\<And>a. a < length (th_nodes h) \<Longrightarrow> SpecifiedChildNodes (sn_at h2 a) = SpecifiedChildNodes (sn_at h a)"
    using h1 sc by (simp_all add: h2_def set_children_def)
  have step: "seq (toStructureNode (Suc k) c) (\<lambda>a. update (\<lambda>h.
        let l = SpecifiedChildNodes (sn_at h (structureNode (bi_at h b)))
        in set_children l (th_lists h ! l @ [a]) h)) h = (Inr (), h2)"
    using h1 sc Cons.prems(2) by (simp add: seq_def update_def h2_def Let_def)
  from Cons.IH [of h2] Cons.prems h2 obtain h3 where
    "for_each cs (\<lambda>c. seq (toStructureNode (Suc k) c) (\<lambda>a. update (\<lambda>h.
        let l = SpecifiedChildNodes (sn_at h (structureNode (bi_at h b)))
        in set_children l (th_lists h ! l @ [a]) h))) h2 = (Inr (), h3)"
    "th_bis h3 = th_bis h" "length (th_nodes h3) = length (th_nodes h)"
    "\<And>a. a < length (th_nodes h) \<Longrightarrow> SpecifiedChildNodes (sn_at h3 a) = SpecifiedChildNodes (sn_at h a)"
    "th_lists h3 = (th_lists h)[?l := children_at h ?a @ map (\<lambda>c. structureNode (bi_at h c)) (c # cs)]"
    by auto
  then show ?case
    unfolding for_each.simps seq_def [of "seq _ _"] step by auto
qed (auto simp: act_defs)

text \<open>
  Converting a bidirectional node is not idempotent. For a node whose children have no
  children of their own, every call appends the structure nodes of all children to its child
  list once more. As each type converts the children of all its ancestors, a child list grows
  with every descendant that is set up.
\<close>

theorem toStructureNode_appends_again:
  assumes "heap_ok h" and "b < length (th_bis h)" and "1 < fuel"
    and "\<forall>c \<in> set (SpecifiedBiChildNodes (bi_at h b)). SpecifiedBiChildNodes (bi_at h c) = []"
  shows "\<exists>h1. toStructureNode fuel b h = (Inr (structureNode (bi_at h b)), h1) \<and>
    children_at h1 (structureNode (bi_at h b)) =
      children_at h (structureNode (bi_at h b)) @
      map (\<lambda>c. structureNode (bi_at h c)) (SpecifiedBiChildNodes (bi_at h b))"
proof -
  let ?a = "structureNode (bi_at h b)"
  define k where "k = fuel - 2"
  have k: "fuel = Suc (Suc k)" using assms(3) by (simp add: k_def)
  have a: "?a < length (th_nodes h)" using heap_ok_bi [OF assms(1,2)] by (simp add: bi_ok_def)
  from toStructureNode_loop [of "SpecifiedBiChildNodes (bi_at h b)" h b k] assms(4) a heap_ok_node [OF assms(1) a]
  obtain h1 where h1: "for_each (SpecifiedBiChildNodes (bi_at h b)) (\<lambda>c. seq (toStructureNode (Suc k) c) (\<lambda>a. update (\<lambda>h.
        let l = SpecifiedChildNodes (sn_at h (structureNode (bi_at h b)))
        in set_children l (th_lists h ! l @ [a]) h))) h = (Inr (), h1)"
    "th_bis h1 = th_bis h" "length (th_nodes h1) = length (th_nodes h)"
    "SpecifiedChildNodes (sn_at h1 ?a) = SpecifiedChildNodes (sn_at h ?a)"
    "th_lists h1 = (th_lists h)[SpecifiedChildNodes (sn_at h ?a) :=
      children_at h ?a @ map (\<lambda>c. structureNode (bi_at h c)) (SpecifiedBiChildNodes (bi_at h b))]"
    by blast
  let ?h2 = "set_node ?a ((sn_at h1 ?a)\<lparr>ofBaseDataVariableType := biOfBaseDataVariableType (bi_at h b)\<rparr>) h1"
  have "toStructureNode fuel b h = (Inr ?a, ?h2)"
    using h1(1,2) by (simp add: k toStructureNode.simps(2) [of "Suc k"] seq_def [of "for_each _ _"] Let_def reads_def)
      (simp add: set_node_def)
  moreover have "children_at ?h2 ?a = children_at h ?a @ map (\<lambda>c. structureNode (bi_at h c)) (SpecifiedBiChildNodes (bi_at h b))"
    using a h1 heap_ok_node [OF assms(1) a] by (simp add: set_node_def)
  ultimately show ?thesis by blast
qed

theorem toStructureNode_appends_again_witness:
  "\<exists>h1. toStructureNode 4 0 example_heap = (Inr 0, h1) \<and> children_at h1 0 = [1, 2]"
  using toStructureNode_appends_again [OF example_heap_ok, of 0 4]
  by (auto simp: example_heap_def example_bi_def StructureNode_full_def)

end
