(* ===== verification/Gateway.thy ===== *)
theory Gateway
  imports Dashboard_Machine_Observer
begin

text \<open>
  \<^verbatim>\<open>DashboardOpcUaClient.cpp\<close> and \<^verbatim>\<open>Main.cpp\<close>: one iteration of the gateway, and the
  program as a step relation. The steps are labelled with what the called component returned
  or with what came from outside: a signal, a reset requested by the client, a change of the
  connection.
\<close>

section \<open>One iteration\<close>

text \<open>Times of \<^verbatim>\<open>steady_clock\<close> are in milliseconds.\<close>

record 'w gateway =
  m_pMachineObserver :: "'w dashboard_observer"
  m_lastPublish :: int
  m_lastConnectionVerify :: int
  reset_requests :: nat

type_synonym ('w, 'a) gact = "('w gateway, exn, 'a) act"

definition StartMachineObserver :: "'w dashboard_observer \<Rightarrow> int \<Rightarrow> 'w gateway" where
  "StartMachineObserver observer now =
     \<lparr>m_pMachineObserver = observer, m_lastPublish = now, m_lastConnectionVerify = now, reset_requests = 0\<rparr>"

definition on_observer :: "('w, 'a) mact \<Rightarrow> ('w, 'a) gact" where
  "on_observer = zoom m_pMachineObserver (\<lambda>o' s. s\<lparr>m_pMachineObserver := o'\<rparr>)"

text \<open>
  \<open>received\<close> is what \<^verbatim>\<open>UA_Client_run_iterate\<close> does, which runs the callbacks of the values
  that have arrived; \<open>currentTime\<close> is the time after the pause of ten milliseconds.
\<close>

definition Iterate ::
    "('w, callback) data_client \<Rightarrow> (nat \<Rightarrow> json \<Rightarrow> exn + string) \<Rightarrow> ('w dashboard_observer \<Rightarrow> 'w dashboard_observer) \<Rightarrow>
      int \<Rightarrow> ('w, unit) gact" where
  "Iterate D dump received currentTime =
     seq (update (\<lambda>s. s\<lparr>m_pMachineObserver := received (m_pMachineObserver s)\<rparr>)) (\<lambda>_.
     seq (reads (\<lambda>s. currentTime - m_lastPublish s)) (\<lambda>pudDiff_ms.
     seq (if pudDiff_ms > 900
          then seq (update (\<lambda>s. s\<lparr>m_lastPublish := currentTime\<rparr>)) (\<lambda>_. on_observer (PublishAll dump))
          else ret ()) (\<lambda>_.
     seq (reads (\<lambda>s. currentTime - m_lastConnectionVerify s)) (\<lambda>diffConnVerify_ms.
     if diffConnVerify_ms > 30000
     then seq (update (\<lambda>s. s\<lparr>m_lastConnectionVerify := currentTime\<rparr>)) (\<lambda>_.
          seq (on_observer (ob_world (dc_VerifyConnection D))) (\<lambda>verified.
          if \<not> verified then update (\<lambda>s. s\<lparr>reset_requests := Suc (reset_requests s)\<rparr>) else ret ()))
     else ret ()))))"

section \<open>The wait for a connection\<close>

text \<open>
  \<^verbatim>\<open>connect\<close> reads two atomic flags that other threads write: the arguments are what the reads of
  each round return. The loop gives the number of rounds that waited; the function reads the
  state of the connection once more after it.
\<close>

function connect_rounds :: "(nat \<Rightarrow> bool) \<Rightarrow> (nat \<Rightarrow> bool) \<Rightarrow> nat \<Rightarrow> nat" where
  "connect_rounds is_running isConnected i =
     (if is_running i \<and> \<not> isConnected i \<and> i < 60 then connect_rounds is_running isConnected (Suc i) else i)"
  by pat_completeness auto
termination by (relation "measure (\<lambda>(r, c, i). 60 - i)") auto

declare connect_rounds.simps [simp del]

definition DashboardOpcUaClient_connect :: "(nat \<Rightarrow> bool) \<Rightarrow> (nat \<Rightarrow> bool) \<Rightarrow> bool" where
  "DashboardOpcUaClient_connect is_running isConnected = isConnected (Suc (connect_rounds is_running isConnected 0))"

section \<open>The program\<close>

text \<open>
  The state of the connection can change between the last test of the waiting loop and the
  value that \<^verbatim>\<open>connect\<close> returns, so these are two steps.
\<close>

datatype main_pc = Outer | Connecting | Connect_ends | ReadingTypes | Iterating | Exited int | Terminated

record main_state =
  pc :: main_pc
  running :: bool
  reset :: bool
  resetCounter :: nat
  connected :: bool
  waits :: nat
  constructed :: nat

datatype main_event =
    Construct
  | Leave
  | Wait
  | Stop_waiting
  | Connect_returns bool
  | Types_read "exn + unit"
  | Iterated "exn + unit"
  | Leave_iteration
  | Signal
  | Reset_issued
  | Connection_changed bool

definition main_init :: main_state where
  "main_init = \<lparr>pc = Outer, running = True, reset = False, resetCounter = 0, connected = False, waits = 0, constructed = 0\<rparr>"

text \<open>The handler of the signals, and the function that the client calls for a reset.\<close>

definition stopHandler :: "main_state \<Rightarrow> main_state" where [simp]:
  "stopHandler s = s\<lparr>running := False\<rparr>"

definition issueReset :: "main_state \<Rightarrow> main_state" where [simp]:
  "issueReset s = s\<lparr>reset := True\<rparr>"

text \<open>The two handlers of the loop around \<^verbatim>\<open>ReadTypes\<close>.\<close>

fun retried :: "exn \<Rightarrow> bool" where
  "retried (ClientNotConnected m) = True"
| "retried (OpcUaNonGoodStatusCodeException m) = True"
| "retried _ = False"

definition has_client :: "main_pc \<Rightarrow> bool" where
  "has_client p \<longleftrightarrow> p = Connecting \<or> p = Connect_ends \<or> p = ReadingTypes \<or> p = Iterating"

inductive main_step :: "main_state \<Rightarrow> main_event \<Rightarrow> main_state \<Rightarrow> bool" where
  construct: "main_step s Construct
      (s\<lparr>pc := Connecting, resetCounter := (if reset s then Suc (resetCounter s) else resetCounter s),
         reset := False, waits := 0, constructed := Suc (constructed s), connected := False\<rparr>)"
    if "pc s = Outer" and "running s"
| leave: "main_step s Leave (s\<lparr>pc := Exited 0\<rparr>)"
    if "pc s = Outer" and "\<not> running s"
| wait: "main_step s Wait (s\<lparr>waits := Suc (waits s)\<rparr>)"
    if "pc s = Connecting" and "running s" and "\<not> connected s" and "waits s < 60"
| stop_waiting: "main_step s Stop_waiting (s\<lparr>pc := Connect_ends\<rparr>)"
    if "pc s = Connecting" and "\<not> (running s \<and> \<not> connected s \<and> waits s < 60)"
| connect_ok: "main_step s (Connect_returns True) (s\<lparr>pc := ReadingTypes\<rparr>)"
    if "pc s = Connect_ends" and "connected s"
| connect_fails: "main_step s (Connect_returns False) (s\<lparr>pc := Exited (-1)\<rparr>)"
    if "pc s = Connect_ends" and "\<not> connected s"
| types_ok: "main_step s (Types_read (Inr ())) (s\<lparr>pc := Iterating\<rparr>)"
    if "pc s = ReadingTypes"
| types_retry: "main_step s (Types_read (Inl e)) s"
    if "pc s = ReadingTypes" and "retried e"
| types_fail: "main_step s (Types_read (Inl e)) (s\<lparr>pc := Terminated\<rparr>)"
    if "pc s = ReadingTypes" and "\<not> retried e"
| iterate_ok: "main_step s (Iterated (Inr ())) s"
    if "pc s = Iterating" and "running s" and "\<not> reset s"
| iterate_fail: "main_step s (Iterated (Inl e)) (s\<lparr>pc := Terminated\<rparr>)"
    if "pc s = Iterating" and "running s" and "\<not> reset s"
| leave_iteration: "main_step s Leave_iteration (s\<lparr>pc := Outer\<rparr>)"
    if "pc s = Iterating" and "\<not> (running s \<and> \<not> reset s)"
| signal: "main_step s Signal (stopHandler s)"
| reset_issued: "main_step s Reset_issued (issueReset s)"
    if "has_client (pc s)"
| connection_changed: "main_step s (Connection_changed b) (s\<lparr>connected := b\<rparr>)"
    if "has_client (pc s)"

code_pred main_step .

inductive main_run :: "main_state \<Rightarrow> main_event list \<Rightarrow> main_state \<Rightarrow> bool" where
  nil: "main_run s [] s"
| cons: "main_run s (e # es) u" if "main_step s e t" and "main_run t es u"

inductive_cases main_run_Cons: "main_run s (e # es) u"
inductive_cases main_run_Nil: "main_run s [] u"

lemma main_run_append: "main_run s es t \<Longrightarrow> main_run t es' u \<Longrightarrow> main_run s (es @ es') u"
  by (induction rule: main_run.induct) (auto intro: main_run.cons)

text \<open>An invariant of the steps holds along every run.\<close>

lemma main_run_invariant:
  assumes "main_run s es t" and "Q s" and "\<And>s e t. main_step s e t \<Longrightarrow> Q s \<Longrightarrow> Q t"
  shows "Q t"
  using assms(1,2) by (induction rule: main_run.induct) (auto intro: assms(3))

text \<open>The events of the main thread, without the failed attempts to read the types.\<close>

fun progress_event :: "main_event \<Rightarrow> bool" where
  "progress_event Signal = False"
| "progress_event Reset_issued = False"
| "progress_event (Connection_changed b) = False"
| "progress_event (Types_read (Inl e)) \<longleftrightarrow> \<not> retried e"
| "progress_event _ = True"

section \<open>Invariants\<close>

definition main_inv :: "main_state \<Rightarrow> bool" where
  "main_inv s \<longleftrightarrow> waits s \<le> 60 \<and>
     (constructed s = 0 \<longrightarrow> (pc s = Outer \<or> pc s = Exited 0) \<and> resetCounter s = 0 \<and> \<not> reset s) \<and>
     (0 < constructed s \<longrightarrow> constructed s = Suc (resetCounter s)) \<and>
     (pc s = Outer \<and> 0 < constructed s \<longrightarrow> reset s \<or> \<not> running s) \<and>
     (pc s = Exited 0 \<longrightarrow> \<not> running s)"

lemma main_step_inv:
  assumes "main_step s e t" and "main_inv s"
  shows "main_inv t"
  using assms
proof (cases rule: main_step.cases)
  case construct
  with assms(2) show ?thesis by (cases "constructed s = 0") (auto simp: main_inv_def)
qed (auto simp: main_inv_def has_client_def)

lemma main_inv_init: "main_inv main_init"
  by (simp add: main_inv_def main_init_def)

end
