(* ===== verification/Mqtt_Publisher.thy ===== *)
theory Mqtt_Publisher
  imports Topics "HOL-Library.Word"
begin

text \<open>
  \<^verbatim>\<open>MqttPublisher_Paho\<close>: the publisher on the MQTT client library. The library is the
  parameter \<open>mqtt_lib\<close>: its calls run on a state \<open>'w\<close> and may throw.
\<close>

section \<open>Options\<close>

record will_options =
  woTopic :: string
  woPayload :: string
  woRetained :: bool

record ssl_options =
  soCaPath :: string
  soTrustStore :: string
  soVerify :: bool

record connect_options =
  coKeepAlive :: nat
  coCleanSession :: bool
  coReconnect :: "nat \<times> nat"
  coUserName :: "string option"
  coPassword :: "string option"
  coHttpsProxy :: "string option"
  coHttpProxy :: "string option"
  coSsl :: "ssl_options option"
  coWill :: "will_options option"

record 'w mqtt_lib =
  ml_connect :: "connect_options \<Rightarrow> ('w, exn, unit) act"
  ml_publish :: "string \<Rightarrow> string \<Rightarrow> nat \<Rightarrow> bool \<Rightarrow> ('w, exn, unit) act"
  ml_wait_for :: "nat \<Rightarrow> ('w, exn, unit) act"
  ml_disconnect :: "('w, exn, unit) act"

record 'w mqtt_publisher =
  m_cli :: 'w
  m_onlineTopic :: string
  m_versionTopic :: string
  m_gitClientVersion :: string

type_synonym ('w, 'a) pact = "('w mqtt_publisher, exn, 'a) act"

definition on_cli :: "('w, exn, 'a) act \<Rightarrow> ('w, 'a) pact" where
  "on_cli = zoom m_cli (\<lambda>w s. s\<lparr>m_cli := w\<rparr>)"

text \<open>The one exception class of the library.\<close>

fun is_mqtt_exception :: "exn \<Rightarrow> bool" where
  "is_mqtt_exception (LibraryException m) = True"
| "is_mqtt_exception _ = False"

definition catch_mqtt :: "('w, unit) pact \<Rightarrow> ('w, unit) pact" where
  "catch_mqtt m = try_catch m (\<lambda>ex. if is_mqtt_exception ex then Some (ret ()) else None)"

section \<open>The publisher\<close>

definition MqttPublisher_new :: "'w \<Rightarrow> string \<Rightarrow> string \<Rightarrow> string \<Rightarrow> 'w mqtt_publisher" where [simp]:
  "MqttPublisher_new cli onlineTopic versionTopic gitClientVersion =
     \<lparr>m_cli = cli, m_onlineTopic = onlineTopic, m_versionTopic = versionTopic, m_gitClientVersion = gitClientVersion\<rparr>"

definition getUri :: "string \<Rightarrow> string \<Rightarrow> 16 word \<Rightarrow> string" where
  "getUri protocol host port = protocol @ ''://'' @ host @ '':'' @ show_nat (unat port) @ ''/ws''"

definition getOptions :: "string \<Rightarrow> string \<Rightarrow> connect_options" where
  "getOptions username password =
     \<lparr>coKeepAlive = 10, coCleanSession = True, coReconnect = (2, 10),
      coUserName = (if username \<noteq> '''' then Some username else None),
      coPassword = (if password \<noteq> '''' then Some password else None),
      coHttpsProxy = None, coHttpProxy = None, coSsl = None, coWill = None\<rparr>"

definition getLastWill :: "'w mqtt_publisher \<Rightarrow> will_options" where
  "getLastWill p = \<lparr>woTopic = m_onlineTopic p, woPayload = ''0'', woRetained = True\<rparr>"

text \<open>Twelve random letters, given as numbers.\<close>

definition getClientId :: "nat list \<Rightarrow> string" where
  "getClientId draws = ''Dashboard Paho Client '' @ map (\<lambda>d. char_of (97 + d mod 26)) (take 12 draws)"

definition publisher_options ::
    "string \<Rightarrow> string \<Rightarrow> string \<Rightarrow> string \<Rightarrow> string \<Rightarrow> string \<Rightarrow> string \<Rightarrow> 'w mqtt_publisher \<Rightarrow> connect_options" where
  "publisher_options protocol CaCertPath CaTrustStorePath username password httpProxy httpsProxy p =
     (let o0 = getOptions username password;
          o1 = (if length httpsProxy \<noteq> 0 then o0\<lparr>coHttpsProxy := Some httpsProxy\<rparr> else o0);
          o2 = (if length httpProxy \<noteq> 0 then o1\<lparr>coHttpProxy := Some httpProxy\<rparr> else o1);
          o3 = (if protocol = ''wss''
                then o2\<lparr>coSsl := Some \<lparr>soCaPath = CaCertPath, soTrustStore = CaTrustStorePath, soVerify = False\<rparr>\<rparr>
                else o2)
      in o3\<lparr>coWill := Some (getLastWill p)\<rparr>)"

text \<open>The rest of the constructor, on the publisher with its members set.\<close>

definition MqttPublisher_connect :: "'w mqtt_lib \<Rightarrow> connect_options \<Rightarrow> ('w, unit) pact" where
  "MqttPublisher_connect L opts = catch_mqtt (on_cli (ml_connect L opts))"

definition MqttPublisher_Publish :: "'w mqtt_lib \<Rightarrow> string \<Rightarrow> string \<Rightarrow> ('w, unit) pact" where
  "MqttPublisher_Publish L channel message = catch_mqtt (on_cli (ml_publish L channel message 0 True))"

definition MqttCallbacks_connected :: "'w mqtt_lib \<Rightarrow> ('w, unit) pact" where
  "MqttCallbacks_connected L =
     seq (reads (\<lambda>p. (m_onlineTopic p, m_versionTopic p, m_gitClientVersion p))) (\<lambda>(onlineTopic, versionTopic, version).
     seq (MqttPublisher_Publish L onlineTopic ''1'') (\<lambda>_.
     MqttPublisher_Publish L versionTopic version))"

definition MqttPublisher_delete :: "'w mqtt_lib \<Rightarrow> ('w, unit) pact" where
  "MqttPublisher_delete L =
     seq (reads m_onlineTopic) (\<lambda>onlineTopic.
     catch_mqtt
       (seq (on_cli (ml_publish L onlineTopic ''0'' 0 True)) (\<lambda>_.
        seq (on_cli (ml_wait_for L 1000)) (\<lambda>_.
        on_cli (ml_disconnect L)))))"

section \<open>The retained online state\<close>

text \<open>
  The documented behaviour of the library and a broker, of which \<open>view\<close> shows the retained
  message of each topic. Every call may fail at any time, and then it throws the exception of the
  library and leaves the retained messages as they are. A message that is accepted becomes the
  retained message of its topic. Waiting and disconnecting do not change retained messages.
\<close>

definition calls_or_throws :: "('w, exn, unit) act \<Rightarrow> ('w \<Rightarrow> 'w \<Rightarrow> bool) \<Rightarrow> ('w \<Rightarrow> 'w \<Rightarrow> bool) \<Rightarrow> bool" where
  "calls_or_throws m Q E \<longleftrightarrow>
     (\<forall>w. \<exists>w'. (m w = (Inr (), w') \<and> Q w w') \<or> (\<exists>x. m w = (Inl (Throw (LibraryException x)), w') \<and> E w w'))"

definition retaining_broker :: "'w mqtt_lib \<Rightarrow> ('w \<Rightarrow> string \<Rightarrow> string option) \<Rightarrow> bool" where
  "retaining_broker L view \<longleftrightarrow>
     (\<forall>t m. calls_or_throws (ml_publish L t m 0 True) (\<lambda>w w'. view w' = (view w)(t \<mapsto> m)) (\<lambda>w w'. view w' = view w)) \<and>
     (\<forall>ms. calls_or_throws (ml_wait_for L ms) (\<lambda>w w'. view w' = view w) (\<lambda>w w'. view w' = view w)) \<and>
     calls_or_throws (ml_disconnect L) (\<lambda>w w'. view w' = view w) (\<lambda>w w'. view w' = view w)"

text \<open>Whether the library accepts a message, which is when its call returns.\<close>

definition accepts :: "'w mqtt_lib \<Rightarrow> 'w \<Rightarrow> string \<Rightarrow> string \<Rightarrow> bool" where
  "accepts L w t m \<longleftrightarrow> fst (ml_publish L t m 0 True w) = Inr ()"

lemma calls_or_throwsE:
  assumes "calls_or_throws m Q E"
  obtains (call) w' where "m w = (Inr (), w')" and "Q w w'"
    | (throw) w' x where "m w = (Inl (Throw (LibraryException x)), w')" and "E w w'"
  using assms unfolding calls_or_throws_def by metis

lemma Publish_retains:
  assumes "retaining_broker L view"
  shows "\<exists>w. MqttPublisher_Publish L t m p = (Inr (), p\<lparr>m_cli := w\<rparr>) \<and>
    w = snd (ml_publish L t m 0 True (m_cli p)) \<and>
    view w = (if accepts L (m_cli p) t m then (view (m_cli p))(t \<mapsto> m) else view (m_cli p))"
proof -
  have "calls_or_throws (ml_publish L t m 0 True) (\<lambda>w w'. view w' = (view w)(t \<mapsto> m)) (\<lambda>w w'. view w' = view w)"
    using assms by (simp add: retaining_broker_def)
  then show ?thesis
    by (cases rule: calls_or_throwsE [where w = "m_cli p"])
      (auto simp: MqttPublisher_Publish_def catch_mqtt_def on_cli_def accepts_def act_defs)
qed

lemma Publish_all:
  assumes "retaining_broker L view" and "\<forall>(t, m) \<in> set msgs. t \<noteq> topic"
  shows "\<exists>w. for_each msgs (\<lambda>(t, m). MqttPublisher_Publish L t m) p = (Inr (), p\<lparr>m_cli := w\<rparr>) \<and>
    view w topic = view (m_cli p) topic"
  using assms(2)
proof (induction msgs arbitrary: p)
  case Nil
  then show ?case by (intro exI [of _ "m_cli p"]) (simp add: ret_def)
next
  case (Cons x msgs)
  obtain t m where x: "x = (t, m)" by fastforce
  obtain w where w: "MqttPublisher_Publish L t m p = (Inr (), p\<lparr>m_cli := w\<rparr>)" "view w topic = view (m_cli p) topic"
    using Publish_retains [OF assms(1), of t m p] Cons.prems x by (auto split: if_splits)
  from Cons.IH [of "p\<lparr>m_cli := w\<rparr>"] Cons.prems w x show ?case by (auto simp: seq_def)
qed

lemma delete_retains:
  assumes "retaining_broker L view"
  shows "\<exists>r. MqttPublisher_delete L p = (Inr (), r) \<and>
    view (m_cli r) = (if accepts L (m_cli p) (m_onlineTopic p) ''0'' then (view (m_cli p))(m_onlineTopic p \<mapsto> ''0'') else view (m_cli p))"
proof -
  let ?same = "\<lambda>w w'. view w' = view w"
  have contract: "calls_or_throws (ml_publish L (m_onlineTopic p) ''0'' 0 True)
      (\<lambda>w w'. view w' = (view w)(m_onlineTopic p \<mapsto> ''0'')) ?same"
    "calls_or_throws (ml_wait_for L 1000) ?same ?same" "calls_or_throws (ml_disconnect L) ?same ?same"
    using assms by (simp_all add: retaining_broker_def)
  note unfold = MqttPublisher_delete_def catch_mqtt_def on_cli_def accepts_def act_defs
  from contract(1) show ?thesis
  proof (cases rule: calls_or_throwsE [where w = "m_cli p"])
    case sent: (call w1)
    from contract(2) show ?thesis
    proof (cases rule: calls_or_throwsE [where w = w1])
      case waited: (call w2)
      from contract(3) show ?thesis
        by (cases rule: calls_or_throwsE [where w = w2]) (auto simp: sent waited unfold)
    qed (auto simp: sent unfold)
  qed (auto simp: unfold)
qed

text \<open>
  C39: the online state that others see. The connection is made with a last will that says 0 on
  the online topic. Whatever calls of the library fail, the callback for a new connection, every
  publication and the destructor return: no exception of the library gets out of the publisher.
  The callback makes the retained message of the online topic 1 if the library accepts it, it stays
  whatever is then published on other topics, accepted or not, and the destructor makes it 0 if
  the library accepts that; a message that is not accepted leaves the state as it was.
\<close>

theorem online_state_retained:
  assumes "retaining_broker L view" and "m_versionTopic p \<noteq> m_onlineTopic p"
    and "\<forall>(t, m) \<in> set msgs. t \<noteq> m_onlineTopic p"
  shows "coWill (publisher_options protocol ca trust user password http https p) =
      Some \<lparr>woTopic = m_onlineTopic p, woPayload = ''0'', woRetained = True\<rparr> \<and>
    (\<exists>q r. seq (MqttCallbacks_connected L) (\<lambda>_. for_each msgs (\<lambda>(t, m). MqttPublisher_Publish L t m)) p = (Inr (), q) \<and>
      view (m_cli q) (m_onlineTopic p) =
        (if accepts L (m_cli p) (m_onlineTopic p) ''1'' then Some ''1'' else view (m_cli p) (m_onlineTopic p)) \<and>
      MqttPublisher_delete L q = (Inr (), r) \<and>
      view (m_cli r) (m_onlineTopic p) =
        (if accepts L (m_cli q) (m_onlineTopic p) ''0'' then Some ''0'' else view (m_cli q) (m_onlineTopic p)))"
proof
  show "coWill (publisher_options protocol ca trust user password http https p) =
      Some \<lparr>woTopic = m_onlineTopic p, woPayload = ''0'', woRetained = True\<rparr>"
    by (simp add: publisher_options_def getLastWill_def Let_def)
next
  let ?t = "m_onlineTopic p"
  let ?all = "((?t, ''1'') # (m_versionTopic p, m_gitClientVersion p) # msgs)"
  have run: "seq (MqttCallbacks_connected L) (\<lambda>_. for_each msgs (\<lambda>(t, m). MqttPublisher_Publish L t m)) p =
      for_each ?all (\<lambda>(t, m). MqttPublisher_Publish L t m) p"
    by (simp add: MqttCallbacks_connected_def seq_assoc)
  obtain w where w: "MqttPublisher_Publish L ?t ''1'' p = (Inr (), p\<lparr>m_cli := w\<rparr>)"
      "view w ?t = (if accepts L (m_cli p) ?t ''1'' then Some ''1'' else view (m_cli p) ?t)"
    using Publish_retains [OF assms(1), of ?t "''1''" p] by (auto split: if_splits)
  obtain w' where w': "for_each ((m_versionTopic p, m_gitClientVersion p) # msgs) (\<lambda>(t, m). MqttPublisher_Publish L t m)
        (p\<lparr>m_cli := w\<rparr>) = (Inr (), p\<lparr>m_cli := w'\<rparr>)" "view w' ?t = view w ?t"
    using Publish_all [OF assms(1), of "(m_versionTopic p, m_gitClientVersion p) # msgs" ?t "p\<lparr>m_cli := w\<rparr>"] assms(2,3)
    by auto
  define q where "q = p\<lparr>m_cli := w'\<rparr>"
  have q: "for_each ?all (\<lambda>(t, m). MqttPublisher_Publish L t m) p = (Inr (), q)" "m_cli q = w'" "m_onlineTopic q = ?t"
    using w(1) w'(1) by (simp_all add: seq_def q_def)
  obtain r where "MqttPublisher_delete L q = (Inr (), r)"
      "view (m_cli r) ?t = (if accepts L (m_cli q) ?t ''0'' then Some ''0'' else view (m_cli q) ?t)"
    using delete_retains [OF assms(1), of q] q(3) by (auto split: if_splits)
  moreover have "view (m_cli q) ?t = (if accepts L (m_cli p) ?t ''1'' then Some ''1'' else view (m_cli p) ?t)"
    using w(2) w'(2) q(2) by simp
  ultimately show "\<exists>q r. seq (MqttCallbacks_connected L) (\<lambda>_. for_each msgs (\<lambda>(t, m). MqttPublisher_Publish L t m)) p = (Inr (), q) \<and>
      view (m_cli q) ?t = (if accepts L (m_cli p) ?t ''1'' then Some ''1'' else view (m_cli p) ?t) \<and>
      MqttPublisher_delete L q = (Inr (), r) \<and>
      view (m_cli r) ?t = (if accepts L (m_cli q) ?t ''0'' then Some ''0'' else view (m_cli q) ?t)"
    unfolding run using q(1) by blast
qed

text \<open>
  A broker whose connection comes and goes: the list says which of the next messages are refused.
  Disconnecting always fails. The online message is accepted, version and payload are refused, and the
  last message is accepted.
\<close>

type_synonym flaky = "bool list \<times> (string \<Rightarrow> string option)"

definition flaky_publish :: "string \<Rightarrow> string \<Rightarrow> nat \<Rightarrow> bool \<Rightarrow> (flaky, exn, unit) act" where
  "flaky_publish t m q r = (\<lambda>(refuses, v).
     if refuses \<noteq> [] \<and> hd refuses then raise (LibraryException ''MQTT error [-3]: Disconnected'') (tl refuses, v)
     else ret () (tl refuses, if r then v(t \<mapsto> m) else v))"

definition example_broker :: "flaky mqtt_lib" where
  "example_broker =
     \<lparr>ml_connect = (\<lambda>opts. ret ()), ml_publish = flaky_publish, ml_wait_for = (\<lambda>ms. ret ()),
      ml_disconnect = raise (LibraryException ''MQTT error [-3]: Disconnected'')\<rparr>"

definition example_publisher :: "flaky mqtt_publisher" where
  "example_publisher = \<lparr>m_cli = ([False, True, True, False], \<lambda>_. None), m_onlineTopic = ''c/online'',
     m_versionTopic = ''c/version'', m_gitClientVersion = ''1.0''\<rparr>"

lemma example_broker_retains: "retaining_broker example_broker snd"
  by (auto simp: retaining_broker_def calls_or_throws_def example_broker_def flaky_publish_def act_defs)

lemma online_state_retained_witness:
  "\<exists>q r. seq (MqttCallbacks_connected example_broker)
       (\<lambda>_. for_each [(''c/m'', ''{}'')] (\<lambda>(t, m). MqttPublisher_Publish example_broker t m)) example_publisher = (Inr (), q) \<and>
     snd (m_cli q) ''c/online'' = Some ''1'' \<and> snd (m_cli q) ''c/m'' = None \<and>
     MqttPublisher_delete example_broker q = (Inr (), r) \<and> snd (m_cli r) ''c/online'' = Some ''0''"
proof -
  let ?run = "seq (MqttCallbacks_connected example_broker)
    (\<lambda>_. for_each [(''c/m'', ''{}'')] (\<lambda>(t, m). MqttPublisher_Publish example_broker t m)) example_publisher"
  have facts: "accepts example_broker (m_cli example_publisher) ''c/online'' ''1''"
    "snd (m_cli (snd ?run)) ''c/m'' = None" "accepts example_broker (m_cli (snd ?run)) ''c/online'' ''0''"
    by code_simp+
  have topic: "m_onlineTopic example_publisher = ''c/online''" "m_versionTopic example_publisher = ''c/version''"
    by (simp_all add: example_publisher_def)
  from online_state_retained [OF example_broker_retains, of example_publisher "[(''c/m'', ''{}'')]"] facts topic
  show ?thesis by fastforce
qed

end
