(* ===== verification/Subscription.thy ===== *)
theory Subscription
  imports Namespace_Cache
begin

text \<open>
  \<^verbatim>\<open>OpcUaClient/Subscription.cpp\<close>: the one subscription of a client, its monitored
  items and the callbacks of these. The state of the stack (\<open>su_world\<close>) is part of the
  record, because every operation takes the stack's client as an argument; the client's own
  state extends the record. \<^verbatim>\<open>m_pSubscriptionID\<close> has no initial value: \<open>None\<close> stands
  for the indeterminate value, and using it is undefined behaviour. Calls of callbacks are
  appended to \<open>su_delivered\<close>.
\<close>

record ('w, 'cb) subscription =
  su_world :: 'w
  nextId :: "32 word"
  m_pSubscriptionID :: "32 word option"
  m_callbacks :: "(int, 'cb) smap"
  su_delivered :: "('cb \<times> json) list"

type_synonym ('w, 'cb, 'z, 'a) sact = "(('w, 'cb, 'z) subscription_scheme, exn, 'a) act"

text \<open>A call of the stack does not throw.\<close>

definition stack_call :: "('w \<Rightarrow> 'a \<times> 'w) \<Rightarrow> ('w, 'cb, 'z, 'a) sact" where
  "stack_call f s = (case f (su_world s) of (x, w) \<Rightarrow> (Inr x, s\<lparr>su_world := w\<rparr>))"

definition defined_value :: "'a option \<Rightarrow> ('s, 'e, 'a) act" where
  "defined_value v = (case v of None \<Rightarrow> undefined_behaviour | Some x \<Rightarrow> ret x)"

text \<open>The two calls of \<^verbatim>\<open>OpcUaSubscriptionWrapper\<close>, which only hand the call on.\<close>

definition SessionCreateSubscription :: "'w ua_stack \<Rightarrow> ('w, 'cb, 'z, status \<times> 32 word) sact" where [simp]:
  "SessionCreateSubscription S = stack_call (st_createSubscription S)"

definition SessionDeleteSubscription :: "'w ua_stack \<Rightarrow> 32 word \<Rightarrow> ('w, 'cb, 'z, status) sact" where [simp]:
  "SessionDeleteSubscription S subscriptionId = stack_call (st_deleteSubscription S subscriptionId)"

section \<open>The subscription\<close>

definition createSubscription :: "'w ua_stack \<Rightarrow> ('w, 'cb, 'z, unit) sact" where
  "createSubscription S =
     seq (SessionCreateSubscription S) (\<lambda>(serviceResult, subscriptionId).
     if \<not> UA_StatusCode_isBad serviceResult
     then update (\<lambda>s. s\<lparr>m_pSubscriptionID := Some subscriptionId\<rparr>)
     else ret ())"

definition deleteSubscription :: "'w ua_stack \<Rightarrow> ('w, 'cb, 'z, unit) sact" where
  "deleteSubscription S =
     seq (reads m_pSubscriptionID) (\<lambda>sid.
     seq (defined_value sid) (\<lambda>i.
     seq (SessionDeleteSubscription S i) (\<lambda>status. ret ())))"

definition subscriptionStatusChanged :: "'w ua_stack \<Rightarrow> status \<Rightarrow> ('w, 'cb, 'z, unit) sact" where
  "subscriptionStatusChanged S status =
     (if UA_StatusCode_isBad status
      then seq (deleteSubscription S) (\<lambda>_. createSubscription S)
      else ret ())"

section \<open>Monitored items\<close>

text \<open>Only the client handle and the node of the request depend on the call.\<close>

definition prepareMonItemCreateReq ::
    "'w ua_stack \<Rightarrow> ns_cache \<Rightarrow> NodeId_t \<Rightarrow> ('w, 'cb, 'z, 32 word \<times> ua_node_id) sact" where
  "prepareMonItemCreateReq S cache nodeId =
     seq (reads nextId) (\<lambda>clientHandle.
     seq (update (\<lambda>s. s\<lparr>nextId := clientHandle + 1\<rparr>)) (\<lambda>_.
     ret (clientHandle, ModelNodeIdToUaNodeId (st_ids S) (m_uriToIndexCache cache) nodeId)))"

definition validateMonitorItemResult :: "'w ua_stack \<Rightarrow> status \<Rightarrow> 32 word \<Rightarrow> exn + unit" where
  "validateMonitorItemResult S uaResult revisedQueueSize =
     (if UA_StatusCode_isBad uaResult then Inl (nonGood (st_statusName S) uaResult)
      else if revisedQueueSize \<noteq> 1 then Inl (UmatiException ''Length mismatch.'')
      else Inr ())"

text \<open>
  The handle is built from the id of the monitored item and the client handle, in this order,
  while the constructor takes the client handle first.
\<close>

definition Subscription_Subscribe ::
    "'w ua_stack \<Rightarrow> ns_cache \<Rightarrow> NodeId_t \<Rightarrow> 'cb \<Rightarrow> ('w, 'cb, 'z, ValueSubscriptionHandle) sact" where
  "Subscription_Subscribe S cache nodeId callback =
     seq (prepareMonItemCreateReq S cache nodeId) (\<lambda>(clientHandle, uaNode).
     try_catch
       (seq (reads m_pSubscriptionID) (\<lambda>sid.
        seq (defined_value sid) (\<lambda>i.
        seq (stack_call (st_createDataChange S i uaNode clientHandle)) (\<lambda>(statusCode, monitoredItemId, revisedQueueSize).
        seq (lift_sum (validateMonitorItemResult S statusCode revisedQueueSize)) (\<lambda>_.
        seq (update (\<lambda>s. s\<lparr>m_callbacks := sm_insert (sint clientHandle) callback (m_callbacks s)\<rparr>)) (\<lambda>_.
        ret (ValueSubscriptionHandle_new monitoredItemId clientHandle nodeId)))))))
       (\<lambda>ex. Some (raise (rethrow_sliced ex))))"

text \<open>
  \<^verbatim>\<open>Unsubscribe\<close>: the ids of the request come from the client handles, as many as there are
  item ids; \<^verbatim>\<open>at(i)\<close> throws when there are fewer handles. A result is read for every
  item, also when the service failed and sent none.
\<close>

definition ids_of_request :: "32 word list \<Rightarrow> 32 word list \<Rightarrow> exn + 32 word list" where
  "ids_of_request monItemIds clientHandles =
     (if length clientHandles < length monItemIds
      then Inl (StdException ''vector::_M_range_check'')
      else Inr (take (length monItemIds) clientHandles))"

definition Subscription_Unsubscribe ::
    "'w ua_stack \<Rightarrow> 32 word list \<Rightarrow> 32 word list \<Rightarrow> ('w, 'cb, 'z, unit) sact" where
  "Subscription_Unsubscribe S monItemIds clientHandles =
     seq (update (\<lambda>s. s\<lparr>m_callbacks := fold (\<lambda>h. sm_erase (sint h)) clientHandles (m_callbacks s)\<rparr>)) (\<lambda>_.
     seq (lift_sum (ids_of_request monItemIds clientHandles)) (\<lambda>newMonitoredItemIds.
     seq (reads m_pSubscriptionID) (\<lambda>sid.
     seq (defined_value sid) (\<lambda>i.
     seq (stack_call (st_deleteMonitoredItems S i newMonitoredItemIds)) (\<lambda>(serviceResult, results).
     if length results < length newMonitoredItemIds then undefined_behaviour else ret ())))))"

text \<open>
  \<^verbatim>\<open>dataChange\<close>: the loop counts the notifications, but its body reads the first one each
  time. The value is converted after the callback is found.
\<close>

definition dataChange_item ::
    "'w ua_stack \<Rightarrow> (32 word \<times> ua_data_value) \<Rightarrow> ('w, 'cb, 'z, unit) sact" where
  "dataChange_item S = (\<lambda>(clientHandle, dataValue).
     seq (reads m_callbacks) (\<lambda>callbacks.
     case sm_find callbacks (sint clientHandle) of
       None \<Rightarrow> ret ()
     | Some cb \<Rightarrow>
         seq (defined_value (UaDataValueToJsonValue (st_lib S) False dataValue)) (\<lambda>v.
         update (\<lambda>s. s\<lparr>su_delivered := su_delivered s @ [(cb, v)]\<rparr>))))"

text \<open>
  The diagnostic infos come as a reference, which is a pointer (\<open>None\<close> is null) that the function
  never reads.
\<close>

definition dataChange ::
    "'w ua_stack \<Rightarrow> (32 word \<times> ua_data_value) list \<Rightarrow> unit option \<Rightarrow> ('w, 'cb, 'z, unit) sact" where
  "dataChange S monitoredItems diagnosticInfos =
     for_each [0..<length monitoredItems] (\<lambda>i. dataChange_item S (hd monitoredItems))"

text \<open>
  The callback that the stack calls makes a notification of one item. It has no diagnostic infos, and
  passes \<^verbatim>\<open>*notify.diagnosticInfos\<close> all the same. The standard leaves this undefined, although
  compilers only pass the null pointer on; the model follows the compilers, as otherwise no
  value would ever arrive.
\<close>

definition createDataChangeCallback :: "'w ua_stack \<Rightarrow> 32 word \<Rightarrow> ua_data_value \<Rightarrow> ('w, 'cb, 'z, unit) sact" where
  "createDataChangeCallback S handle dataValue = dataChange S [(handle, dataValue)] None"

end
