(* ===== verification/Opcua_Client.thy ===== *)
theory Opcua_Client
  imports Subscription
begin

text \<open>
  \<^verbatim>\<open>OpcUaClient/OpcUaClient.cpp\<close> and \<^verbatim>\<open>OpcUaWrapper\<close> of \<^verbatim>\<open>OpcUaInterface.hpp\<close>: the
  implementation of the data source on the stack. The state extends the one of the
  subscription by the connection flags, the namespace table of the wrapper, the namespace
  cache, the cache of super types and the number of resets that were requested.
\<close>

record ('w, 'cb) ua_client = "('w, 'cb) subscription" +
  m_serverUri :: string
  m_username :: string
  m_password :: string
  m_isConnected :: bool
  m_tryConnecting :: bool
  namespaceArray :: "string list"
  m_cache :: ns_cache
  m_superTypes :: "ua_node_id \<rightharpoonup> ua_node_id"
  issuedResets :: nat

type_synonym ('w, 'cb, 'a) uact = "(('w, 'cb) ua_client, exn, 'a) act"

section \<open>The wrapper of the stack\<close>

definition c_str :: "string \<Rightarrow> string" where
  "c_str = takeWhile (\<lambda>c. c \<noteq> CHR 0x00)"

lemma c_str_idem [simp]: "c_str (c_str s) = c_str s"
  by (simp add: c_str_def takeWhile_eq_all_conv)

text \<open>The calls that only forward their arguments; \<^verbatim>\<open>sURL\<close> and the credentials become C strings.\<close>

definition SessionConnect :: "'w ua_stack \<Rightarrow> string \<Rightarrow> ('w, 'cb, status) uact" where [simp]:
  "SessionConnect S sURL = stack_call (st_connect S (c_str sURL))"

definition SessionConnectUsername :: "'w ua_stack \<Rightarrow> string \<Rightarrow> string \<Rightarrow> string \<Rightarrow> ('w, 'cb, status) uact" where [simp]:
  "SessionConnectUsername S sURL username password =
     stack_call (st_connectUsername S (c_str sURL) (c_str username) (c_str password))"

definition SessionDisconnect :: "'w ua_stack \<Rightarrow> bool \<Rightarrow> ('w, 'cb, status) uact" where [simp]:
  "SessionDisconnect S bDeleteSubscriptions = stack_call (st_disconnect S)"

definition SessionRead :: "'w ua_stack \<Rightarrow> ua_node_id list \<Rightarrow> ('w, 'cb, ua_data_value list) uact" where [simp]:
  "SessionRead S nodesToRead = stack_call (st_read S nodesToRead)"

definition SessionGetNamespaceTable :: "('w, 'cb, string list) uact" where [simp]:
  "SessionGetNamespaceTable = reads namespaceArray"

definition SessionIsConnected :: "'w ua_stack \<Rightarrow> ('w, 'cb, bool) uact" where
  "SessionIsConnected S =
     seq (stack_call (st_getState S)) (\<lambda>(channel, session, statusCode).
     ret (\<not> UA_StatusCode_isBad statusCode \<and> session = SessionActivated \<and> channel = ChannelOpen))"

definition SessionUpdateNamespaceTable :: "'w ua_stack \<Rightarrow> ('w, 'cb, unit) uact" where
  "SessionUpdateNamespaceTable S =
     seq (update (\<lambda>s. s\<lparr>namespaceArray := []\<rparr>)) (\<lambda>_.
     seq (stack_call (st_readNamespaceArray S)) (\<lambda>results.
     case results of None \<Rightarrow> ret () | Some ns \<Rightarrow> update (\<lambda>s. s\<lparr>namespaceArray := ns\<rparr>)))"

text \<open>The response and the references of all its results.\<close>

definition SessionBrowse ::
    "'w ua_stack \<Rightarrow> ua_node_id \<Rightarrow> ua_browse_description \<Rightarrow>
      ('w, 'cb, (status \<times> ua_reference list) list \<times> ua_reference list) uact" where
  "SessionBrowse S nodeToBrowse browseContext =
     seq (stack_call (st_browse S nodeToBrowse browseContext)) (\<lambda>results.
     ret (results, concat (map snd results)))"

text \<open>A response without results is dereferenced all the same.\<close>

definition SessionTranslateBrowsePathsToNodeIds ::
    "'w ua_stack \<Rightarrow> ua_node_id \<Rightarrow> (16 word \<times> string) \<Rightarrow> ('w, 'cb, status \<times> ua_node_id list) uact" where
  "SessionTranslateBrowsePathsToNodeIds S startingNode targetName =
     seq (stack_call (st_translate S startingNode targetName)) defined_value"

section \<open>Namespaces\<close>

definition initializeNamespaceCache :: "'w ua_stack \<Rightarrow> ('w, 'cb, unit) uact" where
  "initializeNamespaceCache S =
     seq (SessionUpdateNamespaceTable S) (\<lambda>_.
     update (\<lambda>s. s\<lparr>m_cache := clear_cache (m_cache s)\<rparr>))"

definition m_issueReset :: "('w, 'cb, unit) uact" where
  "m_issueReset = update (\<lambda>s. s\<lparr>issuedResets := Suc (issuedResets s)\<rparr>)"

definition updateNamespaceCache :: "'w ua_stack \<Rightarrow> ('w, 'cb, unit) uact" where
  "updateNamespaceCache S =
     seq (reads (\<lambda>s. m_indexToUriCache (m_cache s))) (\<lambda>existingIndexToUri.
     seq (initializeNamespaceCache S) (\<lambda>_.
     seq SessionGetNamespaceTable (\<lambda>uaNamespaces.
     seq (update (\<lambda>s. s\<lparr>m_cache := fillNamespaceCache uaNamespaces (m_cache s)\<rparr>)) (\<lambda>_.
     seq (reads (\<lambda>s. m_indexToUriCache (m_cache s))) (\<lambda>newIndexToUri.
     if \<not> verifyCompatibleNamespaceCache newIndexToUri existingIndexToUri
     then m_issueReset else ret ())))))"

definition Namespaces :: "('w, 'cb, string list) uact" where
  "Namespaces = reads (\<lambda>s. cache_namespaces (m_cache s))"

definition toUaNodeId :: "'w ua_stack \<Rightarrow> NodeId_t \<Rightarrow> ('w, 'cb, ua_node_id) uact" where
  "toUaNodeId S n = reads (\<lambda>s. ModelNodeIdToUaNodeId (st_ids S) (m_uriToIndexCache (m_cache s)) n)"

definition toModelNodeId :: "'w ua_stack \<Rightarrow> ua_node_id \<Rightarrow> ('w, 'cb, NodeId_t) uact" where
  "toModelNodeId S n = reads (\<lambda>s. UaNodeIdToModelNodeId (st_ids S) (m_indexToUriCache (m_cache s)) n)"

section \<open>Connecting\<close>

definition on_connected :: "'w ua_stack \<Rightarrow> ('w, 'cb, unit) uact" where
  "on_connected S = seq (updateNamespaceCache S) (\<lambda>_. createSubscription S)"

datatype server_state = SERVERSTATE_FAILED | SERVERSTATE_RUNNING | SERVERSTATE_SHUTDOWN

fun connectionStatusChanged :: "'w ua_stack \<Rightarrow> server_state \<Rightarrow> ('w, 'cb, unit) uact" where
  "connectionStatusChanged S SERVERSTATE_FAILED = update (\<lambda>s. s\<lparr>m_isConnected := False\<rparr>)"
| "connectionStatusChanged S SERVERSTATE_RUNNING =
     seq (update (\<lambda>s. s\<lparr>m_isConnected := True\<rparr>)) (\<lambda>_. on_connected S)"
| "connectionStatusChanged S SERVERSTATE_SHUTDOWN = ret ()"

definition permanent_failure :: "status \<Rightarrow> bool" where
  "permanent_failure result \<longleftrightarrow>
     result = UA_STATUSCODE_BADDISCONNECT \<or> result = UA_STATUSCODE_BADUSERACCESSDENIED \<or>
     result = UA_STATUSCODE_BADCONNECTIONCLOSED \<or> result = UA_STATUSCODE_BADAPPLICATIONSIGNATUREINVALID"

definition SessionConnect_any :: "'w ua_stack \<Rightarrow> ('w, 'cb, status) uact" where
  "SessionConnect_any S =
     seq (reads (\<lambda>s. (c_str (m_serverUri s), m_username s, m_password s))) (\<lambda>(sURL, username, password).
     if username = '''' \<and> password = ''''
     then SessionConnect S sURL
     else SessionConnectUsername S sURL username password)"

definition connect :: "'w ua_stack \<Rightarrow> ('w, 'cb, bool) uact" where
  "connect S =
     seq (SessionConnect_any S) (\<lambda>result.
     if UA_StatusCode_isBad result
     then seq (connectionStatusChanged S SERVERSTATE_FAILED) (\<lambda>_.
          seq (if permanent_failure result then update (\<lambda>s. s\<lparr>m_tryConnecting := False\<rparr>) else ret ()) (\<lambda>_.
          ret False))
     else seq (connectionStatusChanged S SERVERSTATE_RUNNING) (\<lambda>_. ret True))"

text \<open>
  The constructor connects once before the thread starts. \<open>nextId\<close> is a static member, which
  outlives the client.
\<close>

definition ua_client_fields :: "string \<Rightarrow> string \<Rightarrow> string \<Rightarrow> 32 word \<Rightarrow> 'w \<Rightarrow> ('w, 'cb) ua_client" where
  "ua_client_fields serverURI Username Password next_id w =
     \<lparr>su_world = w, nextId = next_id, m_pSubscriptionID = None, m_callbacks = [], su_delivered = [],
      m_serverUri = serverURI, m_username = Username, m_password = Password,
      m_isConnected = False, m_tryConnecting = True, namespaceArray = [], m_cache = empty_cache,
      m_superTypes = (\<lambda>_. None), issuedResets = 0\<rparr>"

definition OpcUaClient_new ::
    "'w ua_stack \<Rightarrow> string \<Rightarrow> string \<Rightarrow> string \<Rightarrow> 32 word \<Rightarrow> 'w \<Rightarrow> (exn abrupt + bool) \<times> ('w, 'cb) ua_client" where
  "OpcUaClient_new S serverURI Username Password next_id w =
     connect S (ua_client_fields serverURI Username Password next_id w)"

text \<open>
  The thread. One round connects or sleeps; the loop is given fuel, as only a change of
  \<^verbatim>\<open>m_tryConnecting\<close> ends it.
\<close>

definition connect_round :: "'w ua_stack \<Rightarrow> ('w, 'cb, unit) uact" where
  "connect_round S =
     seq (reads m_isConnected) (\<lambda>connected.
     if \<not> connected then seq (connect S) (\<lambda>_. ret ()) else ret ())"

fun threadConnectExecution :: "nat \<Rightarrow> 'w ua_stack \<Rightarrow> ('w, 'cb, unit) uact" where
  "threadConnectExecution 0 S = no_fuel"
| "threadConnectExecution (Suc k) S =
     seq (reads m_tryConnecting) (\<lambda>trying.
     if trying then seq (connect_round S) (\<lambda>_. threadConnectExecution k S) else ret ())"

definition disconnect :: "'w ua_stack \<Rightarrow> ('w, 'cb, bool) uact" where
  "disconnect S =
     seq (deleteSubscription S) (\<lambda>_.
     seq (SessionDisconnect S True) (\<lambda>status. ret (status = UA_STATUSCODE_GOOD)))"

text \<open>The destructor, after the thread has been joined.\<close>

definition OpcUaClient_delete :: "'w ua_stack \<Rightarrow> ('w, 'cb, unit) uact" where
  "OpcUaClient_delete S =
     seq (update (\<lambda>s. s\<lparr>m_tryConnecting := False\<rparr>)) (\<lambda>_.
     seq (deleteSubscription S) (\<lambda>_.
     seq (disconnect S) (\<lambda>_. ret ())))"

definition checkConnection :: "'w ua_stack \<Rightarrow> ('w, 'cb, unit) uact" where
  "checkConnection S =
     seq (reads m_isConnected) (\<lambda>connected.
     seq (if connected then SessionIsConnected S else ret False) (\<lambda>alive.
     if \<not> connected \<or> \<not> alive
     then seq (connectionStatusChanged S SERVERSTATE_FAILED) (\<lambda>_.
          raise (ClientNotConnected ''Need connected client.''))
     else ret ()))"

definition VerifyConnection :: "'w ua_stack \<Rightarrow> ('w, 'cb, bool) uact" where
  "VerifyConnection S =
     seq (stack_call (st_readNodeClass S (ua_numeric UA_NS0ID_SERVER_NAMESPACEARRAY))) (\<lambda>(status, nodeClass).
     if status \<noteq> UA_STATUSCODE_GOOD then ret False
     else if nodeClass \<noteq> 2 then ret False
     else ret True)"

section \<open>Printing node ids\<close>

text \<open>
  Log statements on error paths print the member \<^verbatim>\<open>identifier.string.data\<close> of a node id as a C
  string, whatever the kind of the id. For a number this is the null pointer (the stack clears an id
  before it writes the number), for a GUID its last eight bytes taken for an address, for an empty
  string a marker of the stack that is no address. Printing is defined only for a string that has
  a null byte in it, since the stack does not terminate strings; the null pointer must not be
  printed either.
\<close>

datatype string_pointer = Null_Pointer | Stray_Pointer | Points_To string

fun string_data :: "ua_ident \<Rightarrow> string_pointer" where
  "string_data (UaNumeric i) = Null_Pointer"
| "string_data (UaString s) = (if s = '''' then Stray_Pointer else Points_To s)"
| "string_data (UaByteString s) = (if s = '''' then Stray_Pointer else Points_To s)"
| "string_data (UaGuid g) = (if list_all (\<lambda>b. b = 0) (data4 g) then Null_Pointer else Stray_Pointer)"

fun terminated :: "string_pointer \<Rightarrow> bool" where
  "terminated (Points_To s) \<longleftrightarrow> CHR 0x00 \<in> set s"
| "terminated _ \<longleftrightarrow> False"

definition printable_id :: "ua_node_id \<Rightarrow> bool" where
  "printable_id n \<longleftrightarrow> terminated (string_data (uaIdentifier n))"

definition log_string_data :: "ua_node_id \<Rightarrow> ('w, 'cb, unit) uact" where
  "log_string_data n = (if printable_id n then ret () else undefined_behaviour)"

text \<open>\<^verbatim>\<open>readNodeClass\<close> prints the number when the pointer is null.\<close>

definition log_string_or_number :: "ua_node_id \<Rightarrow> ('w, 'cb, unit) uact" where
  "log_string_or_number n = (if string_data (uaIdentifier n) \<noteq> Null_Pointer then log_string_data n else ret ())"

section \<open>Attributes\<close>

definition readNodeBrowseName :: "'w ua_stack \<Rightarrow> NodeId_t \<Rightarrow> ('w, 'cb, string) uact" where
  "readNodeBrowseName S node =
     seq (toUaNodeId S node) (\<lambda>nodeId.
     seq (checkConnection S) (\<lambda>_.
     seq (stack_call (st_readBrowseName S nodeId)) (\<lambda>(uaResult, resultname).
     if UA_StatusCode_isBad uaResult
     then seq (log_string_data nodeId) (\<lambda>_. raise (nonGood (st_statusName S) uaResult))
     else ret (nUri node @ '';'' @ snd resultname))))"

definition getTypeName :: "'w ua_stack \<Rightarrow> NodeId_t \<Rightarrow> ('w, 'cb, string) uact" where
  "getTypeName S nodeId = readNodeBrowseName S nodeId"

text \<open>
  \<^verbatim>\<open>readNodeClass\<close> throws on a bad status, catches that itself, prints the id a second time
  and returns what the call has left in the variable.
\<close>

definition readNodeClass :: "'w ua_stack \<Rightarrow> ua_node_id \<Rightarrow> ('w, 'cb, nat) uact" where
  "readNodeClass S nodeId =
     seq (checkConnection S) (\<lambda>_.
     seq (stack_call (st_readNodeClass S nodeId)) (\<lambda>(uaResult, returnClass).
     seq (try_catch
            (if UA_StatusCode_isBad uaResult
             then seq (log_string_or_number nodeId) (\<lambda>_. raise (nonGood (st_statusName S) uaResult))
             else ret ())
            (\<lambda>_. Some (log_string_or_number nodeId))) (\<lambda>_.
     ret returnClass)))"

section \<open>Super types\<close>

text \<open>A node id that owns memory dangles after the response it came with is cleared.\<close>

fun owns_memory :: "ua_ident \<Rightarrow> bool" where
  "owns_memory (UaString s) \<longleftrightarrow> s \<noteq> ''''"
| "owns_memory (UaByteString s) \<longleftrightarrow> s \<noteq> ''''"
| "owns_memory _ \<longleftrightarrow> False"

definition null_node :: ua_node_id where
  "null_node = ua_numeric 0"

definition superType_context :: "nat \<Rightarrow> ua_browse_description" where
  "superType_context nodeClass =
     \<lparr>bdDirection = BACKWARD, bdReferenceTypeId = ua_numeric UA_NS0ID_HASSUBTYPE, bdIncludeSubtypes = True,
      bdNodeClassMask = of_nat nodeClass, bdResultMask = 0\<rparr>"

definition browseSuperType :: "'w ua_stack \<Rightarrow> ua_node_id \<Rightarrow> ('w, 'cb, ua_node_id) uact" where
  "browseSuperType S typeNodeId =
     seq (readNodeClass S typeNodeId) (\<lambda>nodeClass.
     if nodeClass \<noteq> 8 \<and> nodeClass \<noteq> 16 then raise (UmatiException ''Invalid NodeClass'')
     else seq (SessionBrowse S typeNodeId (superType_context nodeClass)) (\<lambda>(results, referenceDescriptions).
     if results = [] then undefined_behaviour
     else if UA_StatusCode_isBad (fst (hd results))
     then raise (nonGood (st_statusName S) (fst (hd results)))
     else case referenceDescriptions of
         [] \<Rightarrow> ret null_node
       | [r] \<Rightarrow> if owns_memory (uaIdentifier (rfNodeId r)) then undefined_behaviour else ret (rfNodeId r)
       | _ \<Rightarrow> seq (log_string_data typeNodeId) (\<lambda>_. ret null_node)))"

text \<open>
  The recursion counts \<^verbatim>\<open>maxDepth\<close> down (a 64-bit count that wraps) and never looks at it,
  so it is given fuel of its own.
\<close>

fun isSameOrSubtype_ua ::
    "nat \<Rightarrow> 'w ua_stack \<Rightarrow> ua_node_id \<Rightarrow> ua_node_id \<Rightarrow> 64 word \<Rightarrow> ('w, 'cb, bool) uact" where
  "isSameOrSubtype_ua 0 S expectedType checkType maxDepth = no_fuel"
| "isSameOrSubtype_ua (Suc k) S expectedType checkType maxDepth =
     (if ids_isNull (st_ids S) checkType then ret False
      else if expectedType = checkType then ret True
      else seq (reads (\<lambda>s. m_superTypes s checkType)) (\<lambda>it.
        case it of
          Some superType \<Rightarrow> isSameOrSubtype_ua k S expectedType superType (maxDepth - 1)
        | None \<Rightarrow>
            seq (browseSuperType S checkType) (\<lambda>superType.
            seq (update (\<lambda>s. s\<lparr>m_superTypes := (m_superTypes s)(checkType \<mapsto> superType)\<rparr>)) (\<lambda>_.
            isSameOrSubtype_ua k S expectedType superType (maxDepth - 1)))))"

definition isSameOrSubtype ::
    "nat \<Rightarrow> 'w ua_stack \<Rightarrow> NodeId_t \<Rightarrow> NodeId_t \<Rightarrow> nat \<Rightarrow> ('w, 'cb, bool) uact" where
  "isSameOrSubtype fuel S expectedType checkType maxDepth =
     seq (toUaNodeId S expectedType) (\<lambda>expectedTypeUa.
     seq (toUaNodeId S checkType) (\<lambda>checkTypeUa.
     try_catch (isSameOrSubtype_ua fuel S expectedTypeUa checkTypeUa (of_nat maxDepth))
       (\<lambda>_. Some (ret False))))"

section \<open>Browsing\<close>

definition ReferenceDescriptionToBrowseResult :: "'w ua_stack \<Rightarrow> ua_reference \<Rightarrow> ('w, 'cb, BrowseResult_t) uact" where
  "ReferenceDescriptionToBrowseResult S ref =
     seq (lift_sum (UaNodeClassToModelNodeClass (rfNodeClass ref))) (\<lambda>nodeClass.
     seq (toModelNodeId S (rfTypeDefinition ref)) (\<lambda>typeDefinition.
     seq (toModelNodeId S (rfNodeId ref)) (\<lambda>nodeId.
     seq (toModelNodeId S (rfReferenceTypeId ref)) (\<lambda>referenceTypeId.
     seq (reads (\<lambda>s. UaQualifiedNameToModelQualifiedName (m_indexToUriCache (m_cache s)) (rfBrowseName ref))) (\<lambda>browseName.
     ret \<lparr>brNodeClass = nodeClass, brNodeId = nodeId, brTypeDefinition = typeDefinition,
          brReferenceTypeId = referenceTypeId, brBrowseName = browseName\<rparr>)))))"

fun ReferenceDescriptionsToBrowseResults ::
    "'w ua_stack \<Rightarrow> (ua_reference \<Rightarrow> ('w, 'cb, bool) uact) \<Rightarrow> ua_reference list \<Rightarrow>
      ('w, 'cb, BrowseResult_t list) uact" where
  "ReferenceDescriptionsToBrowseResults S accept [] = ret []"
| "ReferenceDescriptionsToBrowseResults S accept (ref # refs) =
     seq (accept ref) (\<lambda>b.
     if \<not> b then ReferenceDescriptionsToBrowseResults S accept refs
     else seq (ReferenceDescriptionToBrowseResult S ref) (\<lambda>entry.
          seq (ReferenceDescriptionsToBrowseResults S accept refs) (\<lambda>entries.
          ret (entry # entries))))"

text \<open>
  The reference type is a shallow copy of a temporary, so an identifier with memory of its own
  dangles when the request is encoded.
\<close>

definition getUaBrowseContext :: "'w ua_stack \<Rightarrow> BrowseContext_t \<Rightarrow> ('w, 'cb, ua_browse_description) uact" where
  "getUaBrowseContext S ctx =
     seq (if \<not> NodeId_isNull (referenceTypeId ctx) then toUaNodeId S (referenceTypeId ctx) else ret null_node) (\<lambda>ref.
     ret \<lparr>bdDirection = browseDirection ctx, bdReferenceTypeId = ref, bdIncludeSubtypes = includeSubtypes ctx,
          bdNodeClassMask = nodeClassMask ctx, bdResultMask = resultMask ctx\<rparr>)"

definition BrowseWithContextAndFilter ::
    "'w ua_stack \<Rightarrow> NodeId_t \<Rightarrow> ua_browse_description \<Rightarrow> (ua_reference \<Rightarrow> ('w, 'cb, bool) uact) \<Rightarrow>
      ('w, 'cb, BrowseResult_t list) uact" where
  "BrowseWithContextAndFilter S startNode browseContext accept =
     seq (toUaNodeId S startNode) (\<lambda>startUaNodeId.
     seq (checkConnection S) (\<lambda>_.
     if owns_memory (uaIdentifier (bdReferenceTypeId browseContext)) then undefined_behaviour
     else seq (SessionBrowse S startUaNodeId browseContext) (\<lambda>(results, referenceDescriptions).
     if results \<noteq> [] \<and> UA_StatusCode_isBad (fst (hd results))
     then seq (log_string_data startUaNodeId) (\<lambda>_.
          seq (log_string_data (bdReferenceTypeId browseContext)) (\<lambda>_.
          seq (updateNamespaceCache S) (\<lambda>_. raise (nonGood (st_statusName S) (fst (hd results))))))
     else ReferenceDescriptionsToBrowseResults S accept referenceDescriptions)))"

definition Browse :: "'w ua_stack \<Rightarrow> NodeId_t \<Rightarrow> BrowseContext_t \<Rightarrow> ('w, 'cb, BrowseResult_t list) uact" where
  "Browse S startNode browseContext =
     seq (getUaBrowseContext S browseContext) (\<lambda>uaBrowseContext.
     BrowseWithContextAndFilter S startNode uaBrowseContext (\<lambda>_. ret True))"

definition nodeClassFromNodeId :: "'w ua_stack \<Rightarrow> ua_node_id \<Rightarrow> ('w, 'cb, nat) uact" where
  "nodeClassFromNodeId S typeDefinitionUaNodeId =
     seq (readNodeClass S typeDefinitionUaNodeId) (\<lambda>nodeClass.
     if nodeClass = 8 then ret 1
     else if nodeClass = 16 then ret 2
     else seq (log_string_data typeDefinitionUaNodeId) (\<lambda>_. raise (UmatiException ''Invalid NodeClass'')))"

text \<open>The filter calls the inner comparison, whose exceptions are not caught.\<close>

definition BrowseWithResultTypeFilter ::
    "nat \<Rightarrow> 'w ua_stack \<Rightarrow> NodeId_t \<Rightarrow> BrowseContext_t \<Rightarrow> NodeId_t \<Rightarrow> ('w, 'cb, BrowseResult_t list) uact" where
  "BrowseWithResultTypeFilter fuel S startNode browseContext typeDefinition =
     seq (getUaBrowseContext S browseContext) (\<lambda>uaBrowseContext.
     seq (toUaNodeId S typeDefinition) (\<lambda>typeDefinitionUaNodeId.
     seq (nodeClassFromNodeId S typeDefinitionUaNodeId) (\<lambda>mask.
     BrowseWithContextAndFilter S startNode (uaBrowseContext\<lparr>bdNodeClassMask := of_nat mask\<rparr>)
       (\<lambda>ref. isSameOrSubtype_ua fuel S typeDefinitionUaNodeId (rfTypeDefinition ref) 100))))"

text \<open>
  \<^verbatim>\<open>browseModellingRule\<close> reads the browse names after it has cleared the response they
  belong to.
\<close>

definition prepareObjectAndVariableTypeBrowseContext :: BrowseContext_t where
  "prepareObjectAndVariableTypeBrowseContext = BrowseContext_default
     \<lparr>nodeClassMask := or (or (or MASK_OBJECT MASK_OBJECT_TYPE) MASK_VARIABLE) MASK_VARIABLE_TYPE\<rparr>"

fun last_modelling_rule :: "ModellingRule_t \<Rightarrow> string list \<Rightarrow> ModellingRule_t" where
  "last_modelling_rule r [] = r"
| "last_modelling_rule r (name # names) =
     last_modelling_rule
       (if name = ''Mandatory'' then Mandatory
        else if name = ''Optional'' then Optional
        else if name = ''MandatoryPlaceholder'' then MandatoryPlaceholder
        else if name = ''OptionalPlaceholder'' then OptionalPlaceholder
        else r) names"

definition browseModellingRule :: "'w ua_stack \<Rightarrow> ua_node_id \<Rightarrow> ('w, 'cb, ModellingRule_t) uact" where
  "browseModellingRule S uaNodeId =
     seq (getUaBrowseContext S prepareObjectAndVariableTypeBrowseContext) (\<lambda>ctx.
     seq (SessionBrowse S uaNodeId (ctx\<lparr>bdReferenceTypeId := ua_numeric UA_NS0ID_HASMODELLINGRULE\<rparr>)) (\<lambda>(results, refs).
     if results = [] then undefined_behaviour
     else if UA_StatusCode_isBad (fst (hd results))
     then seq (log_string_data uaNodeId) (\<lambda>_. raise (nonGood (st_statusName S) (fst (hd results))))
     else if \<exists>r \<in> set refs. snd (rfBrowseName r) \<noteq> '''' \<or> owns_memory (uaIdentifier (rfNodeId r)) \<or>
          owns_memory (uaIdentifier (rfTypeDefinition r)) \<or> owns_memory (uaIdentifier (rfReferenceTypeId r))
     then undefined_behaviour
     else seq (ReferenceDescriptionsToBrowseResults S (\<lambda>_. ret True) refs) (\<lambda>entries.
     ret (last_modelling_rule Optional (map (\<lambda>e. qName (brBrowseName e)) entries)))))"

text \<open>\<^verbatim>\<open>prepareBrowseContext\<close> copies the reference type only when it is null.\<close>

definition prepareBrowseContext :: "'w ua_stack \<Rightarrow> NodeId_t \<Rightarrow> ('w, 'cb, ua_browse_description) uact" where
  "prepareBrowseContext S ref =
     seq (toUaNodeId S ref) (\<lambda>referenceTypeUaNodeId.
     ret \<lparr>bdDirection = FORWARD,
          bdReferenceTypeId = (if ids_isNull (st_ids S) referenceTypeUaNodeId then referenceTypeUaNodeId else null_node),
          bdIncludeSubtypes = True, bdNodeClassMask = 0, bdResultMask = 8 + 32 + 4 + 1\<rparr>)"

section \<open>Browse paths\<close>

text \<open>Several targets are only logged; without a target the null pointer is read.\<close>

definition TranslateBrowsePathToNodeId ::
    "'w ua_stack \<Rightarrow> NodeId_t \<Rightarrow> QualifiedName_t \<Rightarrow> ('w, 'cb, NodeId_t) uact" where
  "TranslateBrowsePathToNodeId S startNode browseName =
     seq (checkConnection S) (\<lambda>_.
     if QualifiedName_isNull browseName then raise (InvalidArgument ''browseName is NULL'')
     else if NodeId_isNull startNode then raise (InvalidArgument ''startNode is NULL'')
     else
     seq (toUaNodeId S startNode) (\<lambda>startUaNodeId.
     seq (reads (\<lambda>s. ModelQualifiedNameToUaQualifiedName (m_uriToIndexCache (m_cache s)) browseName)) (\<lambda>uaBrowseName.
     seq (SessionTranslateBrowsePathsToNodeIds S startUaNodeId uaBrowseName) (\<lambda>(uaResult, targets).
     if UA_StatusCode_isBad uaResult
     then seq (if uaResult = UA_STATUSCODE_BADNODEIDUNKNOWN then updateNamespaceCache S else ret ()) (\<lambda>_.
          raise (nonGood (st_statusName S) uaResult))
     else case targets of
         [] \<Rightarrow> undefined_behaviour
       | target # _ \<Rightarrow> toModelNodeId S target))))"

section \<open>Values\<close>

definition Subscribe ::
    "'w ua_stack \<Rightarrow> NodeId_t \<Rightarrow> 'cb \<Rightarrow> ('w, 'cb, ValueSubscriptionHandle option) uact" where
  "Subscribe S nodeId callback =
     try_catch
       (seq (reads m_cache) (\<lambda>cache.
        seq (try_catch (Subscription_Subscribe S cache nodeId callback)
               (\<lambda>ex. Some (raise (rethrow_sliced ex)))) (\<lambda>h.
        ret (Some h))))
       (\<lambda>ex. Some (seq (updateNamespaceCache S) (\<lambda>_. ret None)))"

definition Unsubscribe_items :: "'w ua_stack \<Rightarrow> 32 word list \<Rightarrow> 32 word list \<Rightarrow> ('w, 'cb, unit) uact" where
  "Unsubscribe_items S monItemIds clientHandles = Subscription_Unsubscribe S monItemIds clientHandles"

text \<open>Only the status of the first value is looked at, and that of an empty response as well.\<close>

definition readValues2 :: "'w ua_stack \<Rightarrow> NodeId_t list \<Rightarrow> ('w, 'cb, json list) uact" where
  "readValues2 S modelNodeIds =
     seq (reads (\<lambda>s. map (ModelNodeIdToUaNodeId (st_ids S) (m_uriToIndexCache (m_cache s))) modelNodeIds)) (\<lambda>readValueId.
     seq (SessionRead S readValueId) (\<lambda>results.
     case results of
       [] \<Rightarrow> undefined_behaviour
     | r # _ \<Rightarrow>
         if UA_StatusCode_isBad (dvStatus r)
         then raise (OpcUaException (''Received non good status for reading: '' @ st_statusName S (dvStatus r)))
         else defined_value (those (map (UaDataValueToJsonValue (st_lib S) False) results))))"

section \<open>The data source\<close>

text \<open>
  The client as an implementation of \<^verbatim>\<open>IDashboardDataClient\<close>. The fuel bounds the search
  for super types.
\<close>

definition OpcUaClient_methods :: "nat \<Rightarrow> 'w ua_stack \<Rightarrow> (('w, 'cb) ua_client, 'cb) data_client" where
  "OpcUaClient_methods fuel S =
     \<lparr>dc_Browse = Browse S,
      dc_isSameOrSubtype = isSameOrSubtype fuel S,
      dc_BrowseWithResultTypeFilter = BrowseWithResultTypeFilter fuel S,
      dc_TranslateBrowsePathToNodeId = TranslateBrowsePathToNodeId S,
      dc_readNodeBrowseName = readNodeBrowseName S,
      dc_getTypeName = getTypeName S,
      dc_Subscribe = Subscribe S,
      dc_Unsubscribe = Unsubscribe_items S,
      dc_ReadeNodeValues = readValues2 S,
      dc_Namespaces = Namespaces,
      dc_VerifyConnection = VerifyConnection S\<rparr>"

end
