(* ===== verification/Startup.thy ===== *)
theory Startup
  imports Gateway Mqtt_Publisher Configuration Opcua_Client
begin

text \<open>
  The start of the program: \<^verbatim>\<open>main\<close> up to its loop (\<^verbatim>\<open>Main.cpp\<close>) and the constructor of
  \<^verbatim>\<open>DashboardOpcUaClient\<close>, which hand the configuration to the topics, the client, the publisher
  and the reader of types.
\<close>

section \<open>The configuration\<close>

definition configFilename :: "string list \<Rightarrow> string" where
  "configFilename argv = (if length argv \<ge> 2 then argv ! 1 else ''configuration.json'')"

fun is_ConfigurationException :: "exn \<Rightarrow> bool" where
  "is_ConfigurationException (ConfigurationException m) = True"
| "is_ConfigurationException _ = False"

text \<open>
  \<open>files\<close> gives the text of the files that can be opened. The only handler is that of
  \<^verbatim>\<open>ConfigurationException\<close>; any other exception terminates the program.
\<close>

definition main_load ::
    "(real_bits \<Rightarrow> int) \<Rightarrow> (string \<Rightarrow> parse_failure + json) \<Rightarrow> (string \<Rightarrow> string option) \<Rightarrow> string list \<Rightarrow>
      main_pc + configuration \<times> topic_config" where
  "main_load trunc parse files argv =
     (let f = configFilename argv in
      case ConfigurationJsonFile trunc parse f (files f) of
        Inl ex \<Rightarrow> Inl (if is_ConfigurationException ex then Exited 1 else Terminated)
      | Inr config \<Rightarrow> Inr (config, \<lparr>Prefix = mqttPrefix (Mqtt config), ClientId = mqttClientId (Mqtt config)\<rparr>))"

section \<open>The parts\<close>

record ('w, 'cb, 'm) gateway_parts =
  gp_client :: "('w, 'cb) ua_client"
  gp_publisher :: "'m mqtt_publisher"
  gp_typeReader :: type_reader
  gp_machinesFilter :: "NodeId_t list"

definition new_publisher :: "string \<Rightarrow> topic_config \<Rightarrow> 'm \<Rightarrow> 'm mqtt_publisher" where
  "new_publisher gitClientVersion tc cli =
     MqttPublisher_new cli (Topics_ClientOnline tc) (Topics_GwVersion tc) gitClientVersion"

definition new_publisher_options :: "configuration \<Rightarrow> 'm mqtt_publisher \<Rightarrow> connect_options" where
  "new_publisher_options config p =
     (let m = Mqtt config in
      publisher_options (mqttProtocol m) (CaCertPath m) (CaTrustStorePath m) (mqttUsername m)
        (mqttPassword m) (HttpProxy m) (HttpsProxy m) p)"

text \<open>
  The members are constructed in order; an exception of one ends the construction. \<open>cli\<close> is the
  MQTT client object, made for the address of the broker and a random id.
\<close>

definition DashboardOpcUaClient_new ::
    "'w ua_stack \<Rightarrow> 'm mqtt_lib \<Rightarrow> string \<Rightarrow> (string \<Rightarrow> string \<Rightarrow> 'm) \<Rightarrow> nat list \<Rightarrow>
      configuration \<Rightarrow> topic_config \<Rightarrow> 32 word \<Rightarrow> 'w \<Rightarrow> exn abrupt + ('w, 'cb, 'm) gateway_parts" where
  "DashboardOpcUaClient_new S L gitClientVersion async_client draws config tc next_id w =
     (case OpcUaClient_new S (Endpoint (OpcUa config)) (uaUsername (OpcUa config)) (uaPassword (OpcUa config)) next_id w of
        (Inl e, uaClient) \<Rightarrow> Inl e
      | (Inr b, uaClient) \<Rightarrow>
          (let m = Mqtt config;
               p = new_publisher gitClientVersion tc
                     (async_client (getUri (mqttProtocol m) (mqttHostname m) (mqttPort m)) (getClientId draws))
           in case MqttPublisher_connect L (new_publisher_options config p) p of
                (Inl e, p') \<Rightarrow> Inl e
              | (Inr u, p') \<Rightarrow>
                  Inr \<lparr>gp_client = uaClient, gp_publisher = p',
                       gp_typeReader = OpcUaTypeReader_new (ObjectTypeNamespaces config) (NamespaceInformations config),
                       gp_machinesFilter = MachinesFilter config\<rparr>))"

section \<open>Failures of the library\<close>

definition library_errors :: "exn + 'a \<Rightarrow> bool" where
  "library_errors r \<longleftrightarrow> (\<forall>e. r = Inl e \<longrightarrow> (\<exists>m. e = LibraryException m))"

lemma library_errors_ebind:
  "library_errors r \<Longrightarrow> (\<And>x. library_errors (k x)) \<Longrightarrow> library_errors (ebind r k)"
  by (cases r) (auto simp: library_errors_def)

lemma library_errors_simps [simp]:
  "library_errors (Inr x)" "library_errors (Inl (LibraryException m))"
  "library_errors (Inl type_error_302)"
  by (simp_all add: library_errors_def type_error_302_def)

lemma library_errors_json:
  "library_errors (json_to_string j)" "library_errors (json_to_bool j)"
  "library_errors (json_to_word trunc j)" "library_errors (json_at k j)"
  "(\<And>v. library_errors (f v)) \<Longrightarrow> library_errors (json_value k d f j)"
  "(\<And>v. library_errors (f v)) \<Longrightarrow> library_errors (json_to_list f j)"
proof -
  show "library_errors (json_to_string j)" "library_errors (json_to_bool j)"
    "library_errors (json_to_word trunc j)" by (cases j; simp)+
  show "library_errors (json_at k j)" by (cases j) (simp_all split: option.splits)
  show "library_errors (json_value k d f j)" if "\<And>v. library_errors (f v)"
    using that by (cases j) (simp_all split: option.splits)
  show "library_errors (json_to_list f j)" if f: "\<And>v. library_errors (f v)"
  proof -
    have "library_errors (map_ebind f vs)" for vs
      by (induction vs) (simp_all add: f library_errors_ebind)
    then show ?thesis by (cases j) simp_all
  qed
qed

lemma configuration_library_errors: "library_errors (configuration_from_json trunc j)"
proof -
  note steps = library_errors_ebind library_errors_json library_errors_simps
  have "library_errors (NodeId_from_json j)" "library_errors (NamespaceInformation_from_json j)"
    "library_errors (MqttConfig_from_json trunc j)" "library_errors (OpcUaConfig_from_json trunc j)" for j
    unfolding NodeId_from_json_def NamespaceInformation_from_json_def MqttConfig_from_json_def
      OpcUaConfig_from_json_def Let_def by (intro steps)+
  then show ?thesis unfolding configuration_from_json_def by (intro steps)
qed

section \<open>Properties\<close>

text \<open>
  C27: How the program starts. It exits with the code 1 exactly when the file cannot be opened,
  is no JSON, or lacks the client id, host, port or endpoint. When a number of the file is out of
  range, a section is missing or a setting has the wrong type, the exception of the JSON library is
  not caught and the program is terminated. Otherwise it goes on.
\<close>

theorem startup_outcomes:
  "(main_load trunc parse files argv = Inl (Exited 1) \<longleftrightarrow>
     (case files (configFilename argv) of
        None \<Rightarrow> True
      | Some s \<Rightarrow> (case parse s of
           Inl (ParseError w) \<Rightarrow> True
         | Inl (OutOfRange w) \<Rightarrow> False
         | Inr j \<Rightarrow> (\<exists>c. configuration_from_json trunc j = Inr c \<and>
             (mqttClientId (Mqtt c) = '''' \<or> mqttHostname (Mqtt c) = '''' \<or> mqttPort (Mqtt c) = 0 \<or>
              Endpoint (OpcUa c) = ''''))))) \<and>
   (main_load trunc parse files argv = Inl Terminated \<longleftrightarrow>
     (\<exists>s. files (configFilename argv) = Some s \<and>
        ((\<exists>w. parse s = Inl (OutOfRange w)) \<or> (\<exists>j e. parse s = Inr j \<and> configuration_from_json trunc j = Inl e)))) \<and>
   main_load trunc parse files argv \<in> {Inl (Exited 1), Inl Terminated} \<union> range Inr"
proof (cases "files (configFilename argv)")
  case None
  then show ?thesis by (simp add: main_load_def ConfigurationJsonFile_def)
next
  case (Some s)
  show ?thesis
  proof (cases "parse s")
    case (Inl w)
    with Some show ?thesis by (cases w) (simp_all add: main_load_def ConfigurationJsonFile_def)
  next
    case (Inr j)
    show ?thesis
    proof (cases "configuration_from_json trunc j")
      case (Inl e)
      with configuration_library_errors [of trunc j] obtain m where "e = LibraryException m"
        by (auto simp: library_errors_def)
      with Some Inr Inl show ?thesis by (simp add: main_load_def ConfigurationJsonFile_def)
    next
      case loaded: (Inr c)
      show ?thesis
      proof (cases "Verify c = Inr ()")
        case True
        with Some Inr loaded show ?thesis
          by (simp add: main_load_def ConfigurationJsonFile_def) (simp add: Verify_iff)
      next
        case False
        then obtain m where "Verify c = Inl (ConfigurationException m)"
          by (auto simp: Verify_def Let_def split: if_splits)
        with Some Inr loaded False [unfolded Verify_iff] show ?thesis
          by (simp add: main_load_def ConfigurationJsonFile_def)
      qed
    qed
  qed
qed



end
