(* ===== verification/Opcua_Connection.thy ===== *)
theory Opcua_Connection
  imports Opcua_Client Value_Json_Properties
begin

text \<open>
  Connection and namespaces of the OPC UA client: what an update of the namespace cache does,
  when a reset is requested, and when the connecting thread ends.
\<close>

section \<open>Frames of the stack calls\<close>

lemma stack_call_run [simp]: "stack_call f s = (Inr (fst (f (su_world s))), s\<lparr>su_world := snd (f (su_world s))\<rparr>)"
  by (simp add: stack_call_def split: prod.splits)

lemma seq_stack_call [simp]:
  "seq (stack_call f) g s = g (fst (f (su_world s))) (s\<lparr>su_world := snd (f (su_world s))\<rparr>)"
  by (simp add: seq_def)

lemma runs_stack_call [runs_rules]:
  "(\<And>s w. P s \<Longrightarrow> P (s\<lparr>su_world := w\<rparr>)) \<Longrightarrow> (\<And>w. Q (fst (f w))) \<Longrightarrow> runs P A Q (stack_call f)"
  by (simp add: runs_def)

lemma runs_reads_any [runs_rules]: "runs P A (\<lambda>_. True) (reads f)"
  by (simp add: runs_reads)

section \<open>The namespace cache\<close>

lemma cache_of_lookup:
  assumes "cache_of us c" and "distinct us"
  shows "sm_find (m_indexToUriCache c) k = Some u \<longleftrightarrow> k < length us \<and> us ! k = u"
proof
  assume k: "k < length us \<and> us ! k = u"
  then have "u \<in> set us" by auto
  with assms(1) obtain i where "sm_find (m_uriToIndexCache c) u = Some i" unfolding cache_of_def by (metis not_None_eq)
  with assms(1) have i: "unat i < length us" "us ! unat i = u" "sm_find (m_indexToUriCache c) (unat i) = Some u"
    by (simp_all add: cache_of_def)
  with k assms(2) have "unat i = k" using nth_eq_iff_index_eq [of us "unat i" k] by simp
  with i(3) show "sm_find (m_indexToUriCache c) k = Some u" by simp
qed (use assms(1) in \<open>simp add: cache_of_def\<close>)

lemma verifyCompatible_iff:
  assumes "sm_ok old"
  shows "verifyCompatibleNamespaceCache new old \<longleftrightarrow>
     (\<forall>k u. sm_find old k = Some u \<longrightarrow> sm_find new k = Some u)"
proof -
  have entry: "(case sm_find new i of None \<Rightarrow> False | Some u' \<Rightarrow> u' = u) \<longleftrightarrow> sm_find new i = Some u" for i u
    by (simp split: option.splits)
  have "(k, u) \<in> set old \<longleftrightarrow> sm_find old k = Some u" for k u
    using sm_find_mem [of old k u] sm_mem_find [OF assms, of k u] by iprover
  moreover have "(\<forall>x \<in> set old. case x of (i, u) \<Rightarrow> sm_find new i = Some u) \<longleftrightarrow>
      (\<forall>k u. (k, u) \<in> set old \<longrightarrow> sm_find new k = Some u)" by auto
  ultimately show ?thesis
    unfolding verifyCompatibleNamespaceCache_def list_all_iff entry by simp
qed

lemma compatible_caches:
  assumes "cache_of us c" and "cache_of us' c'" and "distinct us" and "distinct us'"
  shows "verifyCompatibleNamespaceCache (m_indexToUriCache c') (m_indexToUriCache c) \<longleftrightarrow> take (length us) us' = us"
proof -
  have "sm_ok (m_indexToUriCache c)" using assms(1) by (simp add: cache_of_def)
  then have "verifyCompatibleNamespaceCache (m_indexToUriCache c') (m_indexToUriCache c) \<longleftrightarrow>
      (\<forall>k < length us. k < length us' \<and> us' ! k = us ! k)"
    using assms by (auto simp: verifyCompatible_iff cache_of_lookup)
  also have "\<dots> \<longleftrightarrow> take (length us) us' = us"
  proof
    assume *: "\<forall>k < length us. k < length us' \<and> us' ! k = us ! k"
    then have "length us \<le> length us'" by (metis not_less order_refl)
    with * show "take (length us) us' = us" by (intro nth_equalityI) auto
  next
    assume *: "take (length us) us' = us"
    then have "length us \<le> length us'" by (metis length_take min.cobounded1 min_def)
    moreover from * have "us' ! k = us ! k" if "k < length us" for k using that by (metis nth_take)
    ultimately show "\<forall>k < length us. k < length us' \<and> us' ! k = us ! k" by auto
  qed
  finally show ?thesis .
qed

definition server_table :: "'w ua_stack \<Rightarrow> 'w \<Rightarrow> string list" where
  "server_table S w = (case fst (st_readNamespaceArray S w) of None \<Rightarrow> [] | Some us \<Rightarrow> us)"

lemma updateNamespaceCache_run:
  "updateNamespaceCache S s =
     (let s1 = s\<lparr>su_world := snd (st_readNamespaceArray S (su_world s)), namespaceArray := server_table S (su_world s)\<rparr>;
          c' = fillNamespaceCache (server_table S (su_world s)) (clear_cache (m_cache s))
      in (Inr (), s1\<lparr>m_cache := c',
            issuedResets := (if verifyCompatibleNamespaceCache (m_indexToUriCache c') (m_indexToUriCache (m_cache s))
                             then issuedResets s else Suc (issuedResets s))\<rparr>))"
  by (simp add: updateNamespaceCache_def initializeNamespaceCache_def SessionUpdateNamespaceTable_def
      server_table_def m_issueReset_def act_defs Let_def split: option.splits)

text \<open>
  C19: a refresh of the namespace cache. Whatever the server answers, the refresh succeeds and
  the cache holds exactly the table of the server (the empty one when the table cannot be
  read). A reset of the whole program is requested if and only if the table that the cache held
  before is not an initial part of the new one: new namespaces may be added at the end, none
  may disappear or move.
\<close>

theorem updateNamespaceCache_resets:
  assumes "cache_of us (m_cache s)" and "distinct us"
    and "us' = server_table S (su_world s)" and "distinct us'" and "length us' \<le> 2 ^ 16"
  shows "\<exists>t. updateNamespaceCache S s = (Inr (), t) \<and> cache_of us' (m_cache t) \<and>
    issuedResets t = (if take (length us) us' = us then issuedResets s else Suc (issuedResets s))"
proof -
  have c': "cache_of us' (fillNamespaceCache us' (clear_cache (m_cache s)))"
    by (rule fillNamespaceCache_clear [OF assms(5)])
  show ?thesis
    using compatible_caches [OF assms(1) c' assms(2,4)] c' assms(3) by (simp add: updateNamespaceCache_run Let_def)
qed

text \<open>
  A server for the examples: its namespace table is the world, every node is an object type
  without super type, every call succeeds.
\<close>

definition example_ids :: ua_ids where
  "example_ids = plain_ids\<lparr>ids_isNull := (\<lambda>n. n = null_node)\<rparr>"

definition example_stack :: "status \<Rightarrow> string list ua_stack" where
  "example_stack code =
     \<lparr>st_statusName = (\<lambda>_. ''Status''), st_ids = example_ids, st_lib = example_lib,
      st_connect = (\<lambda>u w. (code, w)), st_connectUsername = (\<lambda>u n p w. (code, w)), st_disconnect = (\<lambda>w. (0, w)),
      st_getState = (\<lambda>w. ((ChannelOpen, SessionActivated, 0), w)),
      st_readNamespaceArray = (\<lambda>w. (Some w, w)),
      st_browse = (\<lambda>n d w. ([(0, [])], w)), st_translate = (\<lambda>n q w. (Some (0, [n]), w)),
      st_read = (\<lambda>ns w. (map (\<lambda>_. \<lparr>dvStatus = 0, dvValue = ScalarVariant (Leaf (LBoolean True))\<rparr>) ns, w)),
      st_readNodeClass = (\<lambda>n w. ((0, 8), w)), st_readBrowseName = (\<lambda>n w. ((0, (0, ''Name'')), w)),
      st_createSubscription = (\<lambda>w. ((0, 1), w)), st_deleteSubscription = (\<lambda>i w. (0, w)),
      st_createDataChange = (\<lambda>i n h w. ((0, 40, 1), w)),
      st_deleteMonitoredItems = (\<lambda>i ids w. ((0, map (\<lambda>_. 0) ids), w))\<rparr>"

definition example_ua_client :: "string list \<Rightarrow> (string list, nat) ua_client" where
  "example_ua_client table = ua_client_fields ''opc.tcp://host:4840'' '''' '''' 1 table"

lemma updateNamespaceCache_resets_witness:
  "\<exists>t :: (string list, nat) ua_client.
     updateNamespaceCache (example_stack 0)
       ((example_ua_client [''urn:b'', ''urn:a''])\<lparr>m_cache := fillNamespaceCache [''urn:a'', ''urn:b''] empty_cache\<rparr>) = (Inr (), t) \<and>
     issuedResets t = 1"
proof -
  let ?s = "(example_ua_client [''urn:b'', ''urn:a''])\<lparr>m_cache := fillNamespaceCache [''urn:a'', ''urn:b''] empty_cache\<rparr>"
  have "cache_of [''urn:a'', ''urn:b''] (m_cache ?s)" using fillNamespaceCache_of [of "[''urn:a'', ''urn:b'']"] by simp
  moreover have "[''urn:b'', ''urn:a''] = server_table (example_stack 0) (su_world ?s)"
    by (simp add: server_table_def example_stack_def example_ua_client_def ua_client_fields_def)
  ultimately show ?thesis
    using updateNamespaceCache_resets [of "[''urn:a'', ''urn:b'']" ?s "[''urn:b'', ''urn:a'']" "example_stack 0"]
    by (auto simp: example_ua_client_def ua_client_fields_def)
qed

section \<open>Connecting\<close>

lemma updateNamespaceCache_flags:
  assumes "updateNamespaceCache S s = (r, t)"
  shows "r = Inr ()" and "m_isConnected t = m_isConnected s" and "m_tryConnecting t = m_tryConnecting s"
    and "m_pSubscriptionID t = m_pSubscriptionID s" and "m_callbacks t = m_callbacks s"
    and "m_superTypes t = m_superTypes s" and "nextId t = nextId s" and "su_delivered t = su_delivered s"
  using assms by (auto simp: updateNamespaceCache_run Let_def)

lemma createSubscription_run:
  "createSubscription S s =
     (let ((st, i), w) = st_createSubscription S (su_world s) in
      (Inr (), s\<lparr>su_world := w, m_pSubscriptionID := (if UA_StatusCode_isBad st then m_pSubscriptionID s else Some i)\<rparr>))"
  by (simp add: createSubscription_def act_defs split: prod.splits)

definition connect_answer :: "'w ua_stack \<Rightarrow> ('w, 'cb) ua_client \<Rightarrow> status \<times> 'w" where
  "connect_answer S s =
     (if m_username s = '''' \<and> m_password s = '''' then st_connect S (c_str (m_serverUri s)) (su_world s)
      else st_connectUsername S (c_str (m_serverUri s)) (c_str (m_username s)) (c_str (m_password s)) (su_world s))"

lemma connect_failed:
  assumes "connect_answer S s = (c, w)" and "UA_StatusCode_isBad c"
  shows "connect S s = (Inr False, s\<lparr>su_world := w, m_isConnected := False,
    m_tryConnecting := (m_tryConnecting s \<and> \<not> permanent_failure c)\<rparr>)"
  using assms by (auto simp: connect_def SessionConnect_any_def connect_answer_def act_defs split: if_splits)

lemma connect_good:
  assumes "connect_answer S s = (c, w)" and "\<not> UA_StatusCode_isBad c"
    and "updateNamespaceCache S (s\<lparr>su_world := w, m_isConnected := True\<rparr>) = (r, u)"
  shows "connect S s = (Inr True, snd (createSubscription S u))"
proof -
  have "connect S s = seq (connectionStatusChanged S SERVERSTATE_RUNNING) (\<lambda>_. ret True) (s\<lparr>su_world := w\<rparr>)"
    using assms by (auto simp: connect_def SessionConnect_any_def connect_answer_def act_defs split: if_splits)
  also have "\<dots> = seq (createSubscription S) (\<lambda>_. ret True) u"
    using assms(3) updateNamespaceCache_flags(1) [OF assms(3)]
    by (simp add: on_connected_def seq_assoc) (simp add: seq_def)
  finally show ?thesis by (simp add: seq_def createSubscription_run ret_def split: prod.splits)
qed

lemma connect_succeeded:
  assumes "connect_answer S s = (c, w)" and "\<not> UA_StatusCode_isBad c"
  shows "\<exists>t. connect S s = (Inr True, t) \<and> m_isConnected t \<and> m_tryConnecting t = m_tryConnecting s"
proof -
  obtain r u where u: "updateNamespaceCache S (s\<lparr>su_world := w, m_isConnected := True\<rparr>) = (r, u)" by fastforce
  from connect_good [OF assms u] updateNamespaceCache_flags(2,3) [OF u] show ?thesis
    by (simp add: createSubscription_run split: prod.splits)
qed

text \<open>Every attempt to connect gets the same answer.\<close>

definition answers_with :: "'w ua_stack \<Rightarrow> status \<Rightarrow> bool" where
  "answers_with S c \<longleftrightarrow>
     (\<forall>u w. fst (st_connect S u w) = c) \<and> (\<forall>u n p w. fst (st_connectUsername S u n p w) = c)"

lemma answers_with_connect: "answers_with S c \<Longrightarrow> fst (connect_answer S s) = c"
  by (simp add: answers_with_def connect_answer_def)

lemma permanent_failure_bad: "permanent_failure c \<Longrightarrow> UA_StatusCode_isBad c"
  by (auto simp: permanent_failure_def UA_StatusCode_isBad_def UA_STATUSCODE_BADDISCONNECT_def
      UA_STATUSCODE_BADUSERACCESSDENIED_def UA_STATUSCODE_BADCONNECTIONCLOSED_def
      UA_STATUSCODE_BADAPPLICATIONSIGNATUREINVALID_def)

lemma connect_keeps_trying:
  assumes "answers_with S c" and "\<not> permanent_failure c"
  shows "runs m_tryConnecting (\<lambda>_. False) (\<lambda>_. True) (connect S)"
proof (rule runsI)
  fix s r t assume s: "m_tryConnecting s" and run: "connect S s = (r, t)"
  obtain w where w: "connect_answer S s = (c, w)" using answers_with_connect [OF assms(1), of s] by (metis prod.collapse)
  show "m_tryConnecting t \<and> (case r of Inl e \<Rightarrow> False | Inr x \<Rightarrow> True)"
  proof (cases "UA_StatusCode_isBad c")
    case True
    then show ?thesis using connect_failed [OF w] run s assms(2) by auto
  next
    case False
    then show ?thesis using connect_succeeded [OF w] run s by auto
  qed
qed

lemma thread_keeps_trying:
  assumes "answers_with S c" and "\<not> permanent_failure c"
  shows "runs m_tryConnecting (\<lambda>e. e = OutOfFuel) (\<lambda>_. False) (threadConnectExecution k S :: ('w, 'cb, unit) uact)"
proof (induction k)
  case 0
  show ?case by (simp add: runs_no_fuel)
next
  case (Suc k)
  have round: "runs m_tryConnecting (\<lambda>e. e = OutOfFuel) (\<lambda>_. True) (connect_round S :: ('w, 'cb, unit) uact)"
    unfolding connect_round_def
    by (intro runs_seq_any runs_reads_any runs_if runs_ret TrueI runs_weaken [OF connect_keeps_trying [OF assms]]) auto
  show ?case
    unfolding threadConnectExecution.simps
    by (rule runs_seq [OF runs_reads [where Q = id]]) (auto intro!: runs_seq_any [OF round] Suc.IH)
qed

text \<open>
  C25: the thread that keeps the connection up. Started without a connection, against a server
  that answers every attempt with the same status code, it ends if and only if the code is one
  of the four that the source takes for permanent (disconnected, access denied, connection
  closed, signature invalid); the client then stays disconnected for good. With any other code,
  good or bad, it runs until the client is destroyed.
\<close>

theorem connect_thread_ends:
  assumes "answers_with S c" and "m_tryConnecting s" and "\<not> m_isConnected s"
  shows "((\<exists>k t. threadConnectExecution k S s = (Inr (), t)) \<longleftrightarrow> permanent_failure c) \<and>
    (\<forall>k t. threadConnectExecution k S s = (Inr (), t) \<longrightarrow> \<not> m_isConnected t \<and> \<not> m_tryConnecting t)"
proof (cases "permanent_failure c")
  case False
  then have "threadConnectExecution k S s \<noteq> (Inr (), t)" for k t
    using thread_keeps_trying [OF assms(1)] assms(2) by (metis runs_value)
  with False show ?thesis by simp
next
  case True
  obtain w where w: "connect_answer S s = (c, w)" using answers_with_connect [OF assms(1), of s] by (metis prod.collapse)
  let ?t = "s\<lparr>su_world := w, m_isConnected := False, m_tryConnecting := False\<rparr>"
  have first: "threadConnectExecution (Suc k) S s = threadConnectExecution k S ?t" for k
    using connect_failed [OF w permanent_failure_bad [OF True]] True assms(2,3)
    by (simp add: connect_round_def seq_assoc) (simp add: act_defs)
  have stop: "threadConnectExecution (Suc k) S ?t = (Inr (), ?t)" for k by (simp add: act_defs)
  have ends: "threadConnectExecution (Suc (Suc 0)) S s = (Inr (), ?t)" by (simp only: first stop)
  have same: "t = ?t" if "threadConnectExecution k S s = (Inr (), t)" for k t
  proof (cases k)
    case 0
    with that show ?thesis by (simp add: act_defs)
  next
    case (Suc j)
    with that have "threadConnectExecution j S ?t = (Inr (), t)" by (simp only: first)
    then show ?thesis by (cases j) (simp_all add: act_defs)
  qed
  show ?thesis
  proof (intro conjI allI impI)
    show "(\<exists>k t. threadConnectExecution k S s = (Inr (), t)) \<longleftrightarrow> permanent_failure c"
      using True ends by blast
  next
    fix k t assume "threadConnectExecution k S s = (Inr (), t)"
    from same [OF this] show "\<not> m_isConnected t" "\<not> m_tryConnecting t" by simp_all
  qed
qed

lemma connect_thread_ends_witness:
  "(\<exists>k t. threadConnectExecution k (example_stack UA_STATUSCODE_BADUSERACCESSDENIED)
       (example_ua_client [''urn:a''] :: (string list, nat) ua_client) = (Inr (), t)) \<and>
   \<not> (\<exists>k t. threadConnectExecution k (example_stack UA_STATUSCODE_GOOD)
       (example_ua_client [''urn:a''] :: (string list, nat) ua_client) = (Inr (), t))"
proof -
  have answers: "answers_with (example_stack c) c" for c by (simp add: answers_with_def example_stack_def)
  have flags: "m_tryConnecting (example_ua_client us)" "\<not> m_isConnected (example_ua_client us)" for us
    by (simp_all add: example_ua_client_def ua_client_fields_def)
  have "permanent_failure UA_STATUSCODE_BADUSERACCESSDENIED" "\<not> permanent_failure UA_STATUSCODE_GOOD"
    by (simp_all add: permanent_failure_def UA_STATUSCODE_GOOD_def UA_STATUSCODE_BADDISCONNECT_def
      UA_STATUSCODE_BADUSERACCESSDENIED_def UA_STATUSCODE_BADCONNECTIONCLOSED_def
      UA_STATUSCODE_BADAPPLICATIONSIGNATUREINVALID_def)
  then show ?thesis using connect_thread_ends [OF answers flags] by simp
qed

text \<open>
  The destructor of a client that never got a connection uses the subscription id, which
  has no value then: whatever number of rounds the connecting thread has run against a server
  that refuses every attempt, and whatever the reason, the destructor is undefined behaviour.
\<close>

theorem delete_without_connection:
  assumes "answers_with S c" and "UA_StatusCode_isBad c"
  shows "\<forall>k. fst (OpcUaClient_delete S (snd (threadConnectExecution k S
    (snd (OpcUaClient_new S uri user password next_id w) :: ('w, 'cb) ua_client)))) = Inl Undefined"
proof
  fix k
  let ?none = "\<lambda>s :: ('w, 'cb) ua_client. m_pSubscriptionID s = None"
  let ?any = "\<lambda>_ :: exn abrupt. True"
  have connect: "runs ?none ?any (\<lambda>_. True) (connect S)"
  proof (rule runsI)
    fix s r t assume s: "?none s" and run: "connect S s = (r, t)"
    obtain w where "connect_answer S s = (c, w)" using answers_with_connect [OF assms(1), of s] by (metis prod.collapse)
    from connect_failed [OF this assms(2)] run s
    show "?none t \<and> (case r of Inl e \<Rightarrow> ?any e | Inr x \<Rightarrow> True)" by (auto split: sum.splits)
  qed
  have round: "runs ?none ?any (\<lambda>_. True) (connect_round S)"
    unfolding connect_round_def by (auto intro!: runs_seq_any [OF runs_reads_any] runs_seq_any [OF connect] runs_ret)
  have thread: "runs ?none ?any (\<lambda>_. True) (threadConnectExecution k S)"
  proof (induction k)
    case (Suc k)
    show ?case
      unfolding threadConnectExecution.simps
      by (rule runs_seq_any [OF runs_reads_any]) (auto intro!: runs_seq_any [OF round] Suc.IH runs_ret)
  qed (simp add: runs_no_fuel)
  have "?none (snd (OpcUaClient_new S uri user password next_id w))"
    unfolding OpcUaClient_new_def by (rule runs_state [OF connect]) (simp add: ua_client_fields_def)
  then have "?none (snd (threadConnectExecution k S (snd (OpcUaClient_new S uri user password next_id w))))"
    by (rule runs_state [OF thread])
  then show "fst (OpcUaClient_delete S (snd (threadConnectExecution k S
      (snd (OpcUaClient_new S uri user password next_id w) :: ('w, 'cb) ua_client)))) = Inl Undefined"
    by (simp add: OpcUaClient_delete_def deleteSubscription_def defined_value_def seq_assoc) (simp add: act_defs)
qed

lemma delete_without_connection_witness:
  "fst (OpcUaClient_delete (example_stack UA_STATUSCODE_BADDISCONNECT)
     (snd (threadConnectExecution 2 (example_stack UA_STATUSCODE_BADDISCONNECT)
       (snd (OpcUaClient_new (example_stack UA_STATUSCODE_BADDISCONNECT) ''opc.tcp://host:4840'' '''' '''' 1 [''urn:a''])
         :: (string list, nat) ua_client)))) = Inl Undefined"
proof -
  have answers: "answers_with (example_stack c) c" for c by (simp add: answers_with_def example_stack_def)
  have "UA_StatusCode_isBad UA_STATUSCODE_BADDISCONNECT"
    by (simp add: permanent_failure_bad permanent_failure_def)
  from delete_without_connection [OF answers this] show ?thesis by (rule spec)
qed

end
