(* ===== verification/Opcua_Super_Types.thy ===== *)
theory Opcua_Super_Types
  imports Opcua_Connection
begin

text \<open>
  The search for super types and its cache: on a hierarchy without cycle it decides the subtype
  relation, and the cache does not change its answers; on a cycle it never ends, whatever
  maximal depth it is given.
\<close>

section \<open>The relation\<close>

inductive subtype_of :: "(ua_node_id \<Rightarrow> bool) \<Rightarrow> (ua_node_id \<Rightarrow> ua_node_id) \<Rightarrow> ua_node_id \<Rightarrow> ua_node_id \<Rightarrow> bool"
  for isNull parent where
  same: "subtype_of isNull parent c c" if "\<not> isNull c"
| super: "subtype_of isNull parent c e" if "\<not> isNull c" and "subtype_of isNull parent (parent c) e"

code_pred subtype_of .

inductive_simps subtype_of_step: "subtype_of isNull parent c e"

lemma subtype_of_null: "isNull c \<Longrightarrow> \<not> subtype_of isNull parent c e"
  by (subst subtype_of_step) simp

lemma subtype_of_trans:
  "subtype_of isNull parent a b \<Longrightarrow> subtype_of isNull parent b c \<Longrightarrow> subtype_of isNull parent a c"
  by (induction rule: subtype_of.induct) (auto intro: subtype_of.intros)

section \<open>A server with a type hierarchy\<close>

text \<open>
  The documented behaviour of a server whose session is up, for the types \<open>T\<close> of its address space;
  nothing is said of its other nodes. A type has the class of an object or variable type, which
  the read returns, and at most one super type, which is a type of the same class. Browsing
  a type backwards along HasSubtype gives the super type, unless the node class mask of the
  request leaves its class out (an empty mask leaves out none). The id of a super type is not a string: otherwise
  the code reads it after it has been freed.
\<close>

definition session_up :: "'w ua_stack \<Rightarrow> bool" where
  "session_up S \<longleftrightarrow> (\<forall>w. fst (st_getState S w) = (ChannelOpen, SessionActivated, UA_STATUSCODE_GOOD))"

definition mask_includes :: "ua_browse_description \<Rightarrow> nat \<Rightarrow> bool" where
  "mask_includes d nodeClass \<longleftrightarrow> bdNodeClassMask d = 0 \<or> and (bdNodeClassMask d) (of_nat nodeClass) \<noteq> 0"

definition type_node ::
    "'w ua_stack \<Rightarrow> ua_node_id set \<Rightarrow> (ua_node_id \<Rightarrow> nat) \<Rightarrow> (ua_node_id \<Rightarrow> ua_node_id) \<Rightarrow> ua_node_id \<Rightarrow> bool" where
  "type_node S T cls parent n \<longleftrightarrow> \<not> ids_isNull (st_ids S) n \<and> (cls n = 8 \<or> cls n = 16) \<and>
     (parent n = null_node \<or>
        parent n \<in> T \<and> cls (parent n) = cls n \<and> \<not> owns_memory (uaIdentifier (parent n))) \<and>
     (\<forall>w. fst (st_readNodeClass S n w) = (UA_STATUSCODE_GOOD, cls n)) \<and>
     (\<forall>d w. bdReferenceTypeId d = ua_numeric UA_NS0ID_HASSUBTYPE \<and> bdDirection d = BACKWARD \<longrightarrow>
        (\<exists>refs. fst (st_browse S n d w) = [(UA_STATUSCODE_GOOD, refs)] \<and>
           (if parent n = null_node \<or> \<not> mask_includes d (cls (parent n)) then refs = []
            else \<exists>r. refs = [r] \<and> rfNodeId r = parent n)))"

definition has_hierarchy ::
    "'w ua_stack \<Rightarrow> ua_node_id set \<Rightarrow> (ua_node_id \<Rightarrow> nat) \<Rightarrow> (ua_node_id \<Rightarrow> ua_node_id) \<Rightarrow> bool" where
  "has_hierarchy S T cls parent \<longleftrightarrow> session_up S \<and> ids_isNull (st_ids S) null_node \<and>
     (\<forall>n \<in> T. type_node S T cls parent n)"

lemma session_up_check:
  assumes "session_up S" and "m_isConnected s"
  shows "checkConnection S s = (Inr (), s\<lparr>su_world := snd (st_getState S (su_world s))\<rparr>)"
  using assms by (simp add: checkConnection_def SessionIsConnected_def session_up_def
      UA_StatusCode_isBad_def UA_STATUSCODE_GOOD_def seq_assoc) (simp add: act_defs)

text \<open>Only the world changes when a super type is looked up.\<close>

lemma readNodeClass_run:
  assumes "session_up S" and "type_node S T cls parent n" and "m_isConnected s"
  shows "\<exists>w. readNodeClass S n s = (Inr (cls n), s\<lparr>su_world := w\<rparr>)"
proof -
  have "fst (st_readNodeClass S n w) = (UA_STATUSCODE_GOOD, cls n)" for w
    using assms(2) by (simp add: type_node_def)
  then show ?thesis
    by (auto simp: readNodeClass_def session_up_check [OF assms(1,3)] seq_def [of "checkConnection S"]
        UA_StatusCode_isBad_def UA_STATUSCODE_GOOD_def ret_def)
qed

lemma mask_of_super_type:
  "c = 8 \<or> c = 16 \<Longrightarrow> mask_includes (superType_context c) c"
  by (auto simp: mask_includes_def superType_context_def)

lemma browseSuperType_run:
  assumes "session_up S" and "type_node S T cls parent n" and "m_isConnected s"
  shows "\<exists>w. browseSuperType S n s = (Inr (parent n), s\<lparr>su_world := w\<rparr>)"
proof -
  obtain w where c: "readNodeClass S n s = (Inr (cls n), s\<lparr>su_world := w\<rparr>)"
    using readNodeClass_run [OF assms] by blast
  have n: "cls n = 8 \<or> cls n = 16"
      "parent n = null_node \<or> cls (parent n) = cls n \<and> \<not> owns_memory (uaIdentifier (parent n))"
    using assms(2) by (auto simp: type_node_def)
  obtain refs where refs: "fst (st_browse S n (superType_context (cls n)) w) = [(UA_STATUSCODE_GOOD, refs)]"
      "if parent n = null_node \<or> \<not> mask_includes (superType_context (cls n)) (cls (parent n)) then refs = []
       else \<exists>r. refs = [r] \<and> rfNodeId r = parent n"
    using assms(2) unfolding type_node_def
    by (metis (no_types, lifting) superType_context_def ua_browse_description.select_convs(1,2))
  then show ?thesis
    using c n mask_of_super_type [OF n(1)]
    by (auto simp: browseSuperType_def seq_def [of "readNodeClass S n"] SessionBrowse_def seq_assoc
        UA_StatusCode_isBad_def UA_STATUSCODE_GOOD_def ret_def split: if_splits)
qed

section \<open>The search\<close>

definition cache_agrees :: "ua_node_id set \<Rightarrow> (ua_node_id \<Rightarrow> ua_node_id) \<Rightarrow> ('w, 'cb) ua_client \<Rightarrow> bool" where
  "cache_agrees T parent s \<longleftrightarrow> (\<forall>n \<in> T. \<forall>m. m_superTypes s n = Some m \<longrightarrow> m = parent n)"

text \<open>
  C15: the subtype test is the subtype relation. On a connected server, for a type of its
  hierarchy (or the null id) whose super types have ids without memory of their own (not
  strings), if the hierarchy has no cycle (a rank decreases from a type to its super type),
  the cache of super types agrees with the server and the fuel is above the rank of the type,
  then the search ends without exception and answers exactly whether the expected id is reached
  from the checked one; the cache still agrees afterwards. The remaining depth plays no part.
\<close>

theorem isSameOrSubtype_decides:
  assumes "has_hierarchy S T cls parent" and "\<forall>n \<in> T. parent n \<noteq> null_node \<longrightarrow> rank (parent n) < rank n"
    and "m_isConnected s" and "cache_agrees T parent s" and "c \<in> T \<or> ids_isNull (st_ids S) c"
    and "rank c + 1 < k"
  shows "\<exists>t. isSameOrSubtype_ua k S e c depth s = (Inr (subtype_of (ids_isNull (st_ids S)) parent c e), t) \<and>
    cache_agrees T parent t \<and> m_isConnected t"
  using assms(3-6)
proof (induction k arbitrary: c depth s)
  case 0
  then show ?case by simp
next
  case (Suc k)
  let ?null = "ids_isNull (st_ids S)"
  show ?case
  proof (cases "?null c \<or> e = c")
    case True
    then show ?thesis using Suc.prems by (auto simp: ret_def subtype_of_null intro: subtype_of.same)
  next
    case False
    then have c: "c \<in> T" using Suc.prems(3) by blast
    have up: "session_up S" and node: "type_node S T cls parent c" and null: "?null null_node"
      using assms(1) c by (simp_all add: has_hierarchy_def)
    from False have rel: "subtype_of ?null parent c e \<longleftrightarrow> subtype_of ?null parent (parent c) e"
      using subtype_of_step [of ?null parent c e] by auto
    have next_call: "\<exists>t. isSameOrSubtype_ua k S e (parent c) depth' u = (Inr (subtype_of ?null parent (parent c) e), t) \<and>
        cache_agrees T parent t \<and> m_isConnected t"
      if "m_isConnected u" "cache_agrees T parent u" for u :: "('a, 'b) ua_client" and depth'
    proof (cases "parent c = null_node")
      case True
      moreover obtain j where "k = Suc j" using Suc.prems(4) by (cases k) auto
      ultimately show ?thesis using that null by (auto simp: ret_def subtype_of_null)
    next
      case False
      with node have "parent c \<in> T" by (auto simp: type_node_def)
      moreover have "rank (parent c) < rank c" using assms(2) c False by blast
      with Suc.prems(4) have "rank (parent c) + 1 < k" by simp
      ultimately show ?thesis using Suc.IH [OF that] by blast
    qed
    show ?thesis
    proof (cases "m_superTypes s c")
      case None
      obtain w where w: "browseSuperType S c s = (Inr (parent c), s\<lparr>su_world := w\<rparr>)"
        using browseSuperType_run [OF up node Suc.prems(1)] by blast
      let ?u = "s\<lparr>su_world := w, m_superTypes := (m_superTypes s)(c \<mapsto> parent c)\<rparr>"
      have "m_isConnected ?u" "cache_agrees T parent ?u" using Suc.prems(1,2) by (auto simp: cache_agrees_def)
      from next_call [OF this] False None w show ?thesis by (simp add: rel seq_def [of "browseSuperType S c"])
    next
      case (Some m)
      then have "m = parent c" using Suc.prems(2) c by (simp add: cache_agrees_def)
      with next_call [OF Suc.prems(1,2)] False Some show ?thesis by (simp add: rel)
    qed
  qed
qed

text \<open>
  The example server with two types of its own, one below the other. Its other nodes are
  variables, and it honours the node class mask.
\<close>

definition example_parent :: "ua_node_id \<Rightarrow> ua_node_id" where
  "example_parent n = (if n = ua_numeric 10 then ua_numeric 5 else null_node)"

definition example_reference :: "ua_node_id \<Rightarrow> ua_reference" where
  "example_reference n =
     \<lparr>rfReferenceTypeId = ua_numeric UA_NS0ID_HASSUBTYPE, rfNodeId = n, rfBrowseName = (0, ''T''),
      rfNodeClass = 8, rfTypeDefinition = null_node\<rparr>"

definition example_types :: "ua_node_id set" where
  "example_types = {ua_numeric 5, ua_numeric 10}"

definition example_types_stack :: "string list ua_stack" where
  "example_types_stack = (example_stack 0)
     \<lparr>st_readNodeClass := (\<lambda>n w. ((0, if n \<in> example_types then 8 else 2), w)),
      st_browse := (\<lambda>n d w. ([(0,
        if example_parent n = null_node \<or> \<not> mask_includes d 8 then []
        else [example_reference (example_parent n)])], w))\<rparr>"

lemma example_hierarchy: "has_hierarchy example_types_stack example_types (\<lambda>_. 8) example_parent"
  by (auto simp: has_hierarchy_def type_node_def session_up_def example_types_stack_def example_types_def
      example_stack_def example_ids_def example_parent_def example_reference_def null_node_def ua_numeric_def
      UA_STATUSCODE_GOOD_def)

lemma isSameOrSubtype_decides_witness:
  "\<exists>t. isSameOrSubtype_ua 3 example_types_stack (ua_numeric 5) (ua_numeric 10) 100
     ((example_ua_client [''urn:a''] :: (string list, nat) ua_client)\<lparr>m_isConnected := True\<rparr>) = (Inr True, t) \<and>
   m_isConnected t"
proof -
  let ?rank = "\<lambda>n. if n = ua_numeric 10 then 1 else (0 :: nat)"
  let ?s = "(example_ua_client [''urn:a''] :: (string list, nat) ua_client)\<lparr>m_isConnected := True\<rparr>"
  let ?null = "ids_isNull (st_ids example_types_stack)"
  have null: "?null n \<longleftrightarrow> n = null_node" for n
    by (simp add: example_types_stack_def example_stack_def example_ids_def)
  have "\<forall>n \<in> example_types. example_parent n \<noteq> null_node \<longrightarrow> ?rank (example_parent n) < ?rank n"
    by (simp add: example_types_def example_parent_def null_node_def ua_numeric_def)
  moreover have "cache_agrees example_types example_parent ?s"
    by (simp add: cache_agrees_def example_ua_client_def ua_client_fields_def)
  ultimately have "\<exists>t. isSameOrSubtype_ua 3 example_types_stack (ua_numeric 5) (ua_numeric 10) 100 ?s =
      (Inr (subtype_of ?null example_parent (ua_numeric 10) (ua_numeric 5)), t) \<and>
      cache_agrees example_types example_parent t \<and> m_isConnected t"
    by (intro isSameOrSubtype_decides [OF example_hierarchy, where rank = ?rank]) (simp_all add: example_types_def)
  moreover have "subtype_of ?null example_parent (ua_numeric 10) (ua_numeric 5)"
    by (rule subtype_of.super) (auto intro: subtype_of.same simp: null example_parent_def null_node_def ua_numeric_def)
  ultimately show ?thesis by auto
qed

section \<open>Cycles\<close>

text \<open>
  The maximal depth does not stop the search. If the cache of super types holds a cycle
  (every type of a set has its super type in the set, as after one round through a cycle of
  HasSubtype references of the server) and the expected type is not in it, the search from a
  type of the cycle never ends: it uses up any fuel, for every maximal depth.
\<close>

theorem isSameOrSubtype_cycle:
  assumes "\<forall>n \<in> C. \<not> ids_isNull (st_ids S) n \<and> (\<exists>m \<in> C. m_superTypes s n = Some m)"
    and "e \<notin> C" and "c \<in> C"
  shows "isSameOrSubtype_ua k S e c depth s = (Inl OutOfFuel, s)"
  using assms(3)
proof (induction k arbitrary: c depth)
  case 0
  show ?case by (simp add: no_fuel_def)
next
  case (Suc k)
  with assms(1) obtain m where m: "m \<in> C" "m_superTypes s c = Some m" by blast
  have "\<not> ids_isNull (st_ids S) c" "e \<noteq> c" using assms(1,2) Suc.prems by auto
  then show ?case using Suc.IH [OF m(1)] m(2) by simp
qed

lemma isSameOrSubtype_cycle_witness:
  "fst (isSameOrSubtype_ua 1000 example_types_stack (ua_numeric 5) (ua_numeric 10) 3
     ((example_ua_client [''urn:a''] :: (string list, nat) ua_client)
        \<lparr>m_superTypes := [ua_numeric 10 \<mapsto> ua_numeric 11, ua_numeric 11 \<mapsto> ua_numeric 10]\<rparr>)) = Inl OutOfFuel"
  by (subst isSameOrSubtype_cycle [where C = "{ua_numeric 10, ua_numeric 11}"])
    (simp_all add: example_types_stack_def example_stack_def example_ids_def null_node_def ua_numeric_def)

end
