(* ===== verification/Opcua_Subscriptions.thy ===== *)
theory Opcua_Subscriptions
  imports Opcua_Super_Types
begin

text \<open>
  Monitored items of the OPC UA client: what a subscription returns, what its removal does on
  the server and in the map of callbacks, and which values reach a callback.
\<close>

section \<open>Subscribing\<close>

lemma find_fold_erase_handles:
  "sm_find (fold (\<lambda>h. sm_erase (sint h)) hs m) k = (if k \<in> sint ` set hs then None else sm_find m k)"
  by (induction hs arbitrary: m) (auto simp: smap_simps)

text \<open>The answer of the server to the request for the next monitored item.\<close>

definition item_answer :: "'w ua_stack \<Rightarrow> 32 word \<Rightarrow> NodeId_t \<Rightarrow> ('w, 'cb) ua_client \<Rightarrow> (status \<times> 32 word \<times> 32 word) \<times> 'w" where
  "item_answer S sid n s =
     st_createDataChange S sid (ModelNodeIdToUaNodeId (st_ids S) (m_uriToIndexCache (m_cache s)) n) (nextId s) (su_world s)"

lemma Subscribe_accepted:
  assumes "m_pSubscriptionID s = Some sid" and "item_answer S sid n s = ((st, m, 1), w)" and "\<not> UA_StatusCode_isBad st"
  shows "Subscribe S n cb s =
    (Inr (Some \<lparr>m_unsubscribed = False, m_clientHandle = m, m_monitoredItemId = nextId s, m_nodeId = n\<rparr>),
     s\<lparr>su_world := w, nextId := nextId s + 1, m_callbacks := sm_insert (sint (nextId s)) cb (m_callbacks s)\<rparr>)"
  using assms
  by (simp add: Subscribe_def Subscription_Subscribe_def prepareMonItemCreateReq_def item_answer_def seq_assoc
      validateMonitorItemResult_def defined_value_def ValueSubscriptionHandle_new_def)
    (simp add: act_defs)

lemma Subscribe_rejected:
  assumes "m_pSubscriptionID s = Some sid" and "item_answer S sid n s = ((st, m, q), w)"
    and "UA_StatusCode_isBad st \<or> q \<noteq> 1"
  shows "Subscribe S n cb s =
    (Inr None, snd (updateNamespaceCache S (s\<lparr>nextId := nextId s + 1, su_world := w\<rparr>)))"
proof -
  let ?u = "s\<lparr>nextId := nextId s + 1, su_world := w\<rparr>"
  obtain t where "updateNamespaceCache S ?u = (Inr (), t)"
    using updateNamespaceCache_flags(1) by (metis prod.collapse)
  with assms show ?thesis
    by (simp add: Subscribe_def Subscription_Subscribe_def prepareMonItemCreateReq_def item_answer_def seq_assoc
        validateMonitorItemResult_def defined_value_def)
      (auto simp: act_defs)
qed

lemma Unsubscribe_one:
  assumes "m_pSubscriptionID s = Some sid" and "length (snd (fst (st_deleteMonitoredItems S sid [h] (su_world s)))) = 1"
  shows "Unsubscribe_items S [i] [h] s =
    (Inr (), s\<lparr>m_callbacks := sm_erase (sint h) (m_callbacks s), su_world := snd (st_deleteMonitoredItems S sid [h] (su_world s))\<rparr>)"
proof -
  obtain st rs w where "st_deleteMonitoredItems S sid [h] (su_world s) = ((st, rs), w)" by (metis prod.collapse)
  moreover from this assms(2) obtain r where "rs = [r]" by (auto simp: length_Suc_conv)
  ultimately show ?thesis using assms(1)
    by (simp add: Unsubscribe_items_def Subscription_Unsubscribe_def ids_of_request_def lift_sum_def
        defined_value_def seq_assoc) (simp add: act_defs)
qed

text \<open>
  C23: subscribe, then unsubscribe with the handle that was returned. The handle has the id that
  the server gave the item and the client handle in exchanged places. As the removal exchanges
  them again, the server is asked to delete the right item; but the map of callbacks, whose keys
  are client handles, loses the entry at the server's id instead. So the callback of the item
  stays registered unless the two numbers agree, and the callback of another item, whose client
  handle equals the server's id, is lost.
\<close>

theorem Unsubscribe_removes_wrong_callback:
  assumes "m_pSubscriptionID s = Some sid" and "item_answer S sid n s = ((st, m, 1), w)" and "\<not> UA_StatusCode_isBad st"
    and "\<forall>ids w. length (snd (fst (st_deleteMonitoredItems S sid ids w))) = length ids"
    and "sm_ok (m_callbacks s)" and "sm_find (m_callbacks s) (sint (nextId s)) = None"
  shows "\<exists>h t u. Subscribe S n cb s = (Inr (Some h), t) \<and> m_clientHandle h = m \<and> m_monitoredItemId h = nextId s \<and>
    sm_find (m_callbacks t) (sint (nextId s)) = Some cb \<and>
    Unsubscribe_items S [m_monitoredItemId h] [m_clientHandle h] t = (Inr (), u) \<and>
    su_world u = snd (st_deleteMonitoredItems S sid [m] w) \<and>
    sm_find (m_callbacks u) (sint (nextId s)) = (if m = nextId s then None else Some cb) \<and>
    (\<forall>k. k \<noteq> sint (nextId s) \<longrightarrow>
       sm_find (m_callbacks u) k = (if k = sint m then None else sm_find (m_callbacks s) k))"
proof -
  let ?h = "\<lparr>m_unsubscribed = False, m_clientHandle = m, m_monitoredItemId = nextId s, m_nodeId = n\<rparr>"
  let ?t = "s\<lparr>su_world := w, nextId := nextId s + 1, m_callbacks := sm_insert (sint (nextId s)) cb (m_callbacks s)\<rparr>"
  let ?u = "?t\<lparr>m_callbacks := sm_erase (sint m) (m_callbacks ?t),
    su_world := snd (st_deleteMonitoredItems S sid [m] (su_world ?t))\<rparr>"
  have "Subscribe S n cb s = (Inr (Some ?h), ?t)" by (rule Subscribe_accepted [OF assms(1-3)])
  moreover have "Unsubscribe_items S [nextId s] [m] ?t = (Inr (), ?u)"
    by (rule Unsubscribe_one) (use assms(1,4) in simp_all)
  moreover have "sm_find (m_callbacks ?t) k = (if k = sint (nextId s) then Some cb else sm_find (m_callbacks s) k)" for k
    using assms(5,6) by (simp add: smap_simps)
  moreover have "sm_find (m_callbacks ?u) k = (if k = sint m then None else sm_find (m_callbacks ?t) k)" for k
    by (simp add: smap_simps)
  ultimately show ?thesis by (intro exI conjI allI impI) (auto dest: signed_word_eqI)
qed

lemma Unsubscribe_removes_wrong_callback_witness:
  "\<exists>h t u. Subscribe (example_stack 0) (NodeId '''' ''i=1'') 7
       ((example_ua_client [''urn:a''])\<lparr>m_pSubscriptionID := Some 1, nextId := 2\<rparr>) = (Inr (Some h), t) \<and>
     Unsubscribe_items (example_stack 0) [m_monitoredItemId h] [m_clientHandle h] t = (Inr (), u) \<and>
     sm_find (m_callbacks u) 2 = Some (7 :: nat)"
proof -
  let ?s = "(example_ua_client [''urn:a''] :: (string list, nat) ua_client)\<lparr>m_pSubscriptionID := Some 1, nextId := 2\<rparr>"
  have "item_answer (example_stack 0) 1 (NodeId '''' ''i=1'') ?s = ((0, 40, 1), [''urn:a''])"
    by (simp add: item_answer_def example_stack_def example_ua_client_def ua_client_fields_def)
  from Unsubscribe_removes_wrong_callback [of ?s 1 "example_stack 0", OF _ this, of 7] show ?thesis
    by (fastforce simp: UA_StatusCode_isBad_def example_stack_def example_ua_client_def ua_client_fields_def)
qed

section \<open>Received values\<close>

lemma dataChange_cons:
  "dataChange S (x # xs) infos = for_each [0..<Suc (length xs)] (\<lambda>i. dataChange_item S x)"
  by (simp add: dataChange_def)

lemma for_each_const: "for_each xs (\<lambda>i. f) = for_each (replicate (length xs) ()) (\<lambda>_. f)"
  by (induction xs) simp_all

lemma deliver_repeatedly:
  assumes "sm_find (m_callbacks s) (sint h) = Some cb" and "UaDataValueToJsonValue (st_lib S) False v = Some j"
  shows "for_each (replicate n ()) (\<lambda>_. dataChange_item S (h, v)) s =
    (Inr (), s\<lparr>su_delivered := su_delivered s @ replicate n (cb, j)\<rparr>)"
  using assms(1)
proof (induction n arbitrary: s)
  case 0
  then show ?case by (simp add: ret_def)
next
  case (Suc n)
  have "dataChange_item S (h, v) s = (Inr (), s\<lparr>su_delivered := su_delivered s @ [(cb, j)]\<rparr>)"
    using assms(2) Suc.prems by (simp add: dataChange_item_def defined_value_def) (simp add: act_defs)
  then show ?case using Suc.prems Suc.IH [of "s\<lparr>su_delivered := su_delivered s @ [(cb, j)]\<rparr>"]
    by (simp add: seq_def)
qed

text \<open>
  A notification with several values delivers the first one as many times as there are
  values, and none of the others. With one value, which is all that the callback of the program
  ever passes on, the value reaches the callback of its client handle once, and nothing else
  changes.
\<close>

theorem dataChange_repeats_first:
  assumes "sm_find (m_callbacks s) (sint h) = Some cb" and "UaDataValueToJsonValue (st_lib S) False v = Some j"
  shows "dataChange S ((h, v) # rest) infos s =
      (Inr (), s\<lparr>su_delivered := su_delivered s @ replicate (Suc (length rest)) (cb, j)\<rparr>) \<and>
    createDataChangeCallback S h v s = (Inr (), s\<lparr>su_delivered := su_delivered s @ [(cb, j)]\<rparr>)"
  using deliver_repeatedly [OF assms, of "Suc (length rest)"] deliver_repeatedly [OF assms, of 1]
  by (simp add: createDataChangeCallback_def dataChange_cons for_each_const [of "[0..<n]" for n] del: upt_Suc replicate_Suc)
    (simp add: replicate_Suc)

lemma dataChange_repeats_first_witness:
  "su_delivered (snd (dataChange (example_stack 0)
      [(2, \<lparr>dvStatus = 0, dvValue = ScalarVariant (Leaf (LBoolean True))\<rparr>),
       (3, \<lparr>dvStatus = 0, dvValue = ScalarVariant (Leaf (LBoolean False))\<rparr>)] None
      ((example_ua_client [''urn:a''])\<lparr>m_callbacks := [(2, 7 :: nat), (3, 8)]\<rparr>))) =
    [(7, JBool True), (7, JBool True)]"
proof -
  let ?s = "(example_ua_client [''urn:a''])\<lparr>m_callbacks := [(2, 7 :: nat), (3, 8)]\<rparr>"
  let ?v = "\<lparr>dvStatus = 0, dvValue = ScalarVariant (Leaf (LBoolean True))\<rparr>"
  have "UaDataValueToJsonValue (st_lib (example_stack 0)) False ?v = Some (JBool True)" by code_simp
  from dataChange_repeats_first [of ?s 2 7, OF _ this] show ?thesis
    by (simp add: example_ua_client_def ua_client_fields_def)
qed

end
