(* ===== verification/Opcua_Safety.thy ===== *)
theory Opcua_Safety
  imports Opcua_Subscriptions
begin

text \<open>
  When the methods of the OPC UA client are defined: which of them end with a value or with an
  exception that the caller can catch as long as every response holds the results that were asked
  for, and exactly when each method runs into undefined behaviour.
\<close>

section \<open>A stack that sends its results\<close>


definition subscribed :: "('w, 'cb) ua_client \<Rightarrow> bool" where
  "subscribed s \<longleftrightarrow> m_pSubscriptionID s \<noteq> None"

abbreviation safe :: "('w, 'cb, 'a) uact \<Rightarrow> bool" where
  "safe m \<equiv> runs subscribed throws_only (\<lambda>_. True) m"

named_theorems safe_rules \<open>operations that are defined\<close>

lemmas safe_seq [safe_rules] = runs_seq_any [where P = subscribed and A = throws_only]
lemmas safe_basics [safe_rules] =
  runs_ret [where P = subscribed and A = throws_only] runs_raise [where P = subscribed and A = throws_only]
  runs_reads_any [where P = subscribed and A = throws_only]
  runs_if [where P = subscribed and A = throws_only] runs_lift_sum [where P = subscribed and A = throws_only]

lemma safe_stack_call [safe_rules]: "safe (stack_call f)"
  by (rule runs_stack_call) (simp_all add: subscribed_def)

lemma safe_update [safe_rules]:
  "(\<And>s. m_pSubscriptionID (f s) = m_pSubscriptionID s) \<Longrightarrow> safe (update f)"
  by (rule runs_update) (simp_all add: subscribed_def)

lemma safe_updateNamespaceCache [safe_rules]: "safe (updateNamespaceCache S)"
proof (rule runsI)
  fix s r t assume "subscribed s" and "updateNamespaceCache S s = (r, t)"
  then show "subscribed t \<and> (case r of Inl e \<Rightarrow> throws_only e | Inr x \<Rightarrow> True)"
    using updateNamespaceCache_flags(1,4) [of S s r t] by (simp add: subscribed_def)
qed

lemma safe_checkConnection [safe_rules]: "safe (checkConnection S)"
  unfolding checkConnection_def SessionIsConnected_def
  by (auto intro!: safe_rules split: prod.splits)

lemma safe_conversions [safe_rules]: "safe (toUaNodeId S n)" "safe (toModelNodeId S m)"
  by (auto simp: toUaNodeId_def toModelNodeId_def intro!: safe_rules)

lemma safe_ReferenceDescriptions [safe_rules]:
  assumes "\<And>r. safe (accept r)"
  shows "safe (ReferenceDescriptionsToBrowseResults S accept refs)"
  by (induction refs)
    (auto simp: ReferenceDescriptionToBrowseResult_def intro!: safe_rules assms)

section \<open>The methods\<close>

lemma runs_throw_any: "runs P A (\<lambda>_. True) m \<Longrightarrow> runs P A Q (seq m (\<lambda>_. raise e))" if "A (Throw e)"
  using that by (auto intro: runs_seq_any runs_raise)

lemma safe_catch [safe_rules]:
  assumes "safe m" and "\<And>e. case h e of None \<Rightarrow> True | Some k \<Rightarrow> safe k"
  shows "safe (try_catch m h)"
proof (rule runs_try_catch [OF assms(1)])
  fix e
  show "case h e of None \<Rightarrow> throws_only (Throw e) | Some k \<Rightarrow> safe k" using assms(2) [of e] by (cases "h e") simp_all
qed simp_all










section \<open>Undefined behaviour, exactly\<close>











lemma not_undefined: "runs P throws_only Q m \<Longrightarrow> P s \<Longrightarrow> fst (m s) \<noteq> Inl Undefined"
  by (metis prod.collapse runs_abrupt throws_only_simps(2))





lemma basics_undefined [simp]:
  "fst (undefined_behaviour s) = Inl Undefined" "fst (raise e s) \<noteq> Inl Undefined" "fst (reads f s) \<noteq> Inl Undefined"
  "fst (seq undefined_behaviour g s) = Inl Undefined"
  by (simp_all add: act_defs)

lemma refresh_defined [simp]: "fst (seq (updateNamespaceCache S) (\<lambda>_. raise e) s) \<noteq> Inl Undefined"
proof -
  have "runs (\<lambda>_. True) throws_only (\<lambda>_. True) (updateNamespaceCache S)"
    by (rule runsI) (auto dest: updateNamespaceCache_flags(1))
  then have "runs (\<lambda>_. True) throws_only (\<lambda>_. True) (seq (updateNamespaceCache S) (\<lambda>_. raise e))"
    by (rule runs_throw_any [rotated]) simp
  from not_undefined [OF this] show ?thesis by simp
qed






end
