(* ===== verification/Gateway_Properties.thy ===== *)
theory Gateway_Properties
  imports Gateway Observer_Machines Opcua_Safety
begin

text \<open>
  The main loop: how long a stop takes, what the exit codes and counters mean, how often the
  machines are published and the connection is verified.
\<close>

section \<open>Stopping\<close>

fun steps_to_stop :: "main_pc \<Rightarrow> nat" where
  "steps_to_stop Connecting = 5"
| "steps_to_stop Connect_ends = 4"
| "steps_to_stop ReadingTypes = 3"
| "steps_to_stop Iterating = 2"
| "steps_to_stop Outer = 1"
| "steps_to_stop (Exited c) = 0"
| "steps_to_stop Terminated = 0"

lemma stop_step:
  assumes "main_step s e t" and "\<not> running s"
  shows "\<not> running t \<and> steps_to_stop (pc t) + (if progress_event e then 1 else 0) \<le> steps_to_stop (pc s)"
  using assms by (cases rule: main_step.cases) (auto simp: has_client_def)

lemma main_thread_not_stuck:
  assumes "0 < steps_to_stop (pc s)"
  shows "\<exists>e t. main_step s e t \<and> progress_event e"
proof (cases "pc s")
  case Outer
  then show ?thesis using main_step.construct [of s] main_step.leave [of s] by (cases "running s") force+
next
  case Connecting
  then show ?thesis using main_step.wait [of s] main_step.stop_waiting [of s]
    by (cases "running s \<and> \<not> connected s \<and> waits s < 60") force+
next
  case Connect_ends
  then show ?thesis using main_step.connect_ok [of s] main_step.connect_fails [of s] by (cases "connected s") force+
next
  case ReadingTypes
  then show ?thesis using main_step.types_ok [of s] by force
next
  case Iterating
  then show ?thesis using main_step.iterate_ok [of s] main_step.leave_iteration [of s]
    by (cases "running s \<and> \<not> reset s") force+
qed (use assms in simp_all)

lemma retries_run:
  "pc s = ReadingTypes \<Longrightarrow> main_run s (replicate n (Types_read (Inl (ClientNotConnected m)))) s"
proof (induction n)
  case (Suc n)
  have "main_step s (Types_read (Inl (ClientNotConnected m))) s"
    by (rule main_step.types_retry) (simp_all add: Suc.prems)
  from main_run.cons [OF this Suc.IH [OF Suc.prems]] show ?case by simp
qed (simp add: main_run.nil)

text \<open>
  C16: what a stop signal guarantees. Once the signal has arrived, the main thread takes at most
  five more steps (fewer the later in the cycle it is) before the program has ended, and as
  long as it has not ended it can take one of them. Failed attempts to read the types are not
  counted, and there can be any number of them: the loop around \<^verbatim>\<open>ReadTypes\<close> does not look
  at the signal, so a server that keeps refusing keeps the program from ending.
\<close>

theorem main_stops:
  assumes "main_run s es t" and "\<not> running s"
  shows "length (filter progress_event es) + steps_to_stop (pc t) \<le> steps_to_stop (pc s) \<and>
    steps_to_stop (pc s) \<le> 5 \<and>
    (0 < steps_to_stop (pc t) \<longrightarrow> (\<exists>e u. main_step t e u \<and> progress_event e)) \<and>
    (pc t = ReadingTypes \<longrightarrow> (\<forall>n m. main_run t (replicate n (Types_read (Inl (ClientNotConnected m)))) t))"
proof (intro conjI impI allI)
  show "length (filter progress_event es) + steps_to_stop (pc t) \<le> steps_to_stop (pc s)"
    using assms
  proof (induction rule: main_run.induct)
    case (cons s e t es u)
    from stop_step [OF cons.hyps(1) cons.prems] cons.IH show ?case by (auto split: if_splits)
  qed simp
  show "steps_to_stop (pc s) \<le> 5" by (cases "pc s") simp_all
  show "\<exists>e u. main_step t e u \<and> progress_event e" if "0 < steps_to_stop (pc t)"
    using that by (rule main_thread_not_stuck)
  show "main_run t (replicate n (Types_read (Inl (ClientNotConnected m)))) t" if "pc t = ReadingTypes" for n m
    using that by (rule retries_run)
qed

definition stop_example :: main_state where
  "stop_example = \<lparr>pc = ReadingTypes, running = False, reset = False, resetCounter = 0, connected = True,
    waits = 2, constructed = 1\<rparr>"

lemma main_stops_witness:
  "main_run stop_example [Types_read (Inr ()), Leave_iteration, Leave]
     (stop_example\<lparr>pc := Exited 0\<rparr>) \<and>
   length (filter progress_event [Types_read (Inr ()), Leave_iteration, Leave]) \<le> steps_to_stop (pc stop_example)"
proof -
  have run: "main_run stop_example [Types_read (Inr ()), Leave_iteration, Leave] (stop_example\<lparr>pc := Exited 0\<rparr>)"
  proof (intro main_run.intros)
    show "main_step stop_example (Types_read (Inr ())) (stop_example\<lparr>pc := Iterating\<rparr>)"
      by (rule main_step.types_ok) (simp add: stop_example_def)
    show "main_step (stop_example\<lparr>pc := Iterating\<rparr>) Leave_iteration (stop_example\<lparr>pc := Outer\<rparr>)"
      using main_step.leave_iteration [of "stop_example\<lparr>pc := Iterating\<rparr>"] by (simp add: stop_example_def)
    show "main_step (stop_example\<lparr>pc := Outer\<rparr>) Leave (stop_example\<lparr>pc := Exited 0\<rparr>)"
      using main_step.leave [of "stop_example\<lparr>pc := Outer\<rparr>"] by (simp add: stop_example_def)
  qed (rule main_run.nil)
  have stopped: "\<not> running stop_example" by (simp add: stop_example_def)
  from main_stops [OF run stopped] run show ?thesis by simp
qed

section \<open>Counters and exit codes\<close>

text \<open>
  In every reachable state of the program the waiting for a connection has lasted at most
  sixty rounds, the clients constructed so far are one more than the resets that were counted
  (there is one client at a time, and a new one only after a reset), and the exit code 0 means
  that a signal was received.
\<close>

theorem main_reachable:
  assumes "main_run main_init es t"
  shows "waits t \<le> 60 \<and> constructed t = length (filter (\<lambda>e. e = Construct) es) \<and>
    (0 < constructed t \<longrightarrow> constructed t = Suc (resetCounter t)) \<and>
    (pc t = Exited 0 \<longrightarrow> Signal \<in> set es)"
proof -
  have counts: "constructed u = constructed s + length (filter (\<lambda>e. e = Construct) es) \<and>
      (running u \<longleftrightarrow> running s \<and> Signal \<notin> set es)" if "main_run s es u" for s es u
    using that
  proof (induction rule: main_run.induct)
    case (cons s e t es u)
    from cons.hyps(1) have "constructed t = constructed s + (if e = Construct then 1 else 0) \<and>
        (running t \<longleftrightarrow> running s \<and> e \<noteq> Signal)"
      by (cases rule: main_step.cases) auto
    with cons.IH show ?case by auto
  qed simp
  have "main_inv t" by (rule main_run_invariant [where Q = main_inv, OF assms main_inv_init main_step_inv])
  with counts [OF assms] show ?thesis by (auto simp: main_inv_def main_init_def)
qed

lemma main_reachable_witness:
  "main_run main_init [Signal, Leave] (main_init\<lparr>running := False, pc := Exited 0\<rparr>) \<and> Signal \<in> set [Signal, Leave]"
proof -
  have run: "main_run main_init [Signal, Leave] (main_init\<lparr>running := False, pc := Exited 0\<rparr>)"
    using main_step.signal [of main_init] main_step.leave [of "main_init\<lparr>running := False\<rparr>"]
    by (auto intro!: main_run.intros simp: main_init_def)
  from main_reachable [OF run] run show ?thesis by simp
qed

section \<open>The wait for a connection\<close>

lemma connect_rounds_bound: "i \<le> 60 \<Longrightarrow> connect_rounds r c i \<le> 60"
proof (induction r c i rule: connect_rounds.induct)
  case (1 r c i)
  then show ?case by (subst connect_rounds.simps) simp
qed

text \<open>
  What \<^verbatim>\<open>connect\<close> does for any sequence of values of the two flags is a run of the program: the
  rounds are its waiting steps, with the signal and the changes of the connection between them.
\<close>

lemma connect_waits:
  assumes "pc s = Connecting" and "waits s = i" and "i \<le> 60" and "running s = r i" and "Gateway.connected s = c i"
  shows "\<exists>es t. main_run s es t \<and> pc t = Connect_ends \<and> waits t = connect_rounds r c i \<and>
    Gateway.connected t = c (Suc (connect_rounds r c i))"
  using assms
proof (induction r c i arbitrary: s rule: connect_rounds.induct)
  case (1 r c i)
  have flags: "\<exists>es t. main_run u es t \<and> pc t = pc u \<and> waits t = waits u \<and> running t = (running u \<and> a) \<and> Gateway.connected t = b"
    if "has_client (pc u)" for u a b
  proof -
    let ?v = "u\<lparr>connected := b\<rparr>"
    have "main_run u [Connection_changed b] ?v"
      by (rule main_run.cons [OF main_step.connection_changed [OF that] main_run.nil])
    moreover have "main_run ?v (if a then [] else [Signal]) (if a then ?v else stopHandler ?v)"
      using main_run.cons [OF main_step.signal main_run.nil] by (simp add: main_run.nil)
    ultimately have "main_run u ([Connection_changed b] @ (if a then [] else [Signal])) (if a then ?v else stopHandler ?v)"
      by (rule main_run_append)
    then show ?thesis by (intro exI, intro conjI) (assumption, simp_all)
  qed
  show ?case
  proof (cases "r i \<and> \<not> c i \<and> i < 60")
    case True
    let ?w = "s\<lparr>waits := Suc i\<rparr>"
    have "main_run s [Wait] ?w"
      using main_step.wait [of s] 1(2-) True by (auto intro!: main_run.intros)
    moreover obtain es t where t: "main_run ?w es t" "pc t = Connecting" "waits t = Suc i"
      "running t = r (Suc i)" "Gateway.connected t = c (Suc i)"
      using flags [of ?w "r (Suc i)" "c (Suc i)"] 1(2-) True by (auto simp: has_client_def)
    moreover obtain es' u where "main_run t es' u" "pc u = Connect_ends" "waits u = connect_rounds r c (Suc i)"
      "Gateway.connected u = c (Suc (connect_rounds r c (Suc i)))"
      using 1(1) [OF True t(2,3) _ t(4,5)] True by auto
    moreover have "connect_rounds r c i = connect_rounds r c (Suc i)"
      using True by (simp add: connect_rounds.simps [of r c i])
    ultimately show ?thesis by (metis main_run_append)
  next
    case False
    have "main_run s [Stop_waiting] (s\<lparr>pc := Connect_ends\<rparr>)"
      using main_step.stop_waiting [of s] 1(2-) False by (auto intro!: main_run.intros)
    moreover obtain es t where "main_run (s\<lparr>pc := Connect_ends\<rparr>) es t" "pc t = Connect_ends" "waits t = i"
      "Gateway.connected t = c (Suc i)"
      using flags [of "s\<lparr>pc := Connect_ends\<rparr>" True "c (Suc i)"] 1(2-) by (auto simp: has_client_def)
    moreover have "connect_rounds r c i = i" using False by (subst connect_rounds.simps) auto
    ultimately show ?thesis by (metis main_run_append)
  qed
qed

lemma connect_simulated:
  assumes "pc s = Connecting" and "waits s = 0" and "running s = r 0" and "Gateway.connected s = c 0"
  shows "\<exists>es t. main_run s (es @ [Connect_returns (DashboardOpcUaClient_connect r c)]) t \<and> waits t \<le> 60 \<and>
    pc t = (if DashboardOpcUaClient_connect r c then ReadingTypes else Exited (-1))"
proof -
  obtain es t where t: "main_run s es t" "pc t = Connect_ends" "waits t = connect_rounds r c 0"
    "Gateway.connected t = DashboardOpcUaClient_connect r c"
    using connect_waits [of s 0 r c] assms by (auto simp: DashboardOpcUaClient_connect_def)
  have "main_run t [Connect_returns (DashboardOpcUaClient_connect r c)]
      (t\<lparr>pc := (if DashboardOpcUaClient_connect r c then ReadingTypes else Exited (-1))\<rparr>)"
    using main_step.connect_ok [of t] main_step.connect_fails [of t] t(2,4) by (auto intro!: main_run.intros)
  from main_run_append [OF t(1) this] show ?thesis
    by (intro exI conjI) (auto simp: t(3) connect_rounds_bound)
qed

section \<open>The period of publication\<close>

lemma Iterate_lastPublish:
  assumes "Iterate D dump received now g = (r, h)"
  shows "m_lastPublish h = (if now - m_lastPublish g > 900 then now else m_lastPublish g)"
  using assms
  by (auto simp: Iterate_def on_observer_def act_defs split: if_splits prod.splits sum.splits)

text \<open>The messages that were handed to the publisher.\<close>

definition messages_sent :: "'w gateway \<Rightarrow> (string \<times> string) list" where
  "messages_sent g = published (ob_env (m_pMachineObserver g))"

lemma Iterate_messages:
  "messages_sent (snd (Iterate D dump received now g)) =
     published (ob_env (if now - m_lastPublish g > 900 then snd (PublishAll dump (received (m_pMachineObserver g)))
       else received (m_pMachineObserver g)))"
  by (auto simp: Iterate_def on_observer_def ob_world_def messages_sent_def act_defs split: prod.splits sum.splits)

text \<open>
  The times of the iterations in which a message was sent, seen from outside: after the iteration
  there are other messages than before. An exception ends the program and so the list.
\<close>

fun sending_times ::
    "('w, callback) data_client \<Rightarrow> (nat \<Rightarrow> json \<Rightarrow> exn + string) \<Rightarrow>
      (('w dashboard_observer \<Rightarrow> 'w dashboard_observer) \<times> int) list \<Rightarrow> 'w gateway \<Rightarrow> int list" where
  "sending_times D dump [] g = []"
| "sending_times D dump ((received, now) # its) g =
     (case Iterate D dump received now g of
        (r, h) \<Rightarrow>
          (if messages_sent h = messages_sent g then [] else [now]) @
          (case r of Inl e \<Rightarrow> [] | Inr _ \<Rightarrow> sending_times D dump its h))"

text \<open>What happens between two iterations sends nothing by itself: only \<^verbatim>\<open>PublishAll\<close> calls the publisher.\<close>

definition sends_nothing :: "('w dashboard_observer \<Rightarrow> 'w dashboard_observer) \<Rightarrow> bool" where
  "sends_nothing received \<longleftrightarrow> (\<forall>ob. published (ob_env (received ob)) = published (ob_env ob))"

text \<open>
  C38: how often machines are published. In any sequence of iterations at any times, the
  iterations that send messages are more than 900 milliseconds after the start of the observer
  and more than 900 milliseconds after the one that sent before. And an iteration that is more than
  900 milliseconds after the last publication sends what \<^verbatim>\<open>PublishAll\<close> sends. The
  hypothesis is that the values received by \<^verbatim>\<open>UA_Client_run_iterate\<close> (and what other threads
  do meanwhile) send no messages themselves.
\<close>

theorem publish_period:
  assumes "\<forall>it \<in> set its. sends_nothing (fst it)"
  shows "sorted_wrt (\<lambda>a b. a + 900 < b) (m_lastPublish g # sending_times D dump its g) \<and>
    (\<forall>received now. m_lastPublish g + 900 < now \<longrightarrow>
       messages_sent (snd (Iterate D dump received now g)) =
         published (ob_env (snd (PublishAll dump (received (m_pMachineObserver g))))))"
proof
  show "sorted_wrt (\<lambda>a b. a + 900 < b) (m_lastPublish g # sending_times D dump its g)"
    using assms
  proof (induction D dump its g rule: sending_times.induct)
    case (2 D dump received now its g)
    obtain r h where run: "Iterate D dump received now g = (r, h)" by fastforce
    note last = Iterate_lastPublish [OF run]
    have sent: "m_lastPublish g + 900 < now" if "messages_sent h \<noteq> messages_sent g"
      using that 2(2) Iterate_messages [of D dump received now g]
      by (fastforce simp: run messages_sent_def sends_nothing_def split: if_splits)
    show ?case
    proof (cases r)
      case (Inl e)
      with run sent show ?thesis by auto
    next
      case (Inr u)
      have "sorted_wrt (\<lambda>a b. a + 900 < b) (m_lastPublish h # sending_times D dump its h)"
        using "2.IH" [OF run [symmetric] Inr] "2.prems" by simp
      with Inr last run sent show ?thesis by (auto split: if_splits)
    qed
  qed simp
  show "\<forall>received now. m_lastPublish g + 900 < now \<longrightarrow>
      messages_sent (snd (Iterate D dump received now g)) =
        published (ob_env (snd (PublishAll dump (received (m_pMachineObserver g)))))"
    by (auto simp: Iterate_messages)
qed

text \<open>
  A gateway with one machine: the iterations at 1000 and 1950 milliseconds send messages, those at
  500, 1400 and 1900 milliseconds do not.
\<close>

definition period_example :: "unit gateway" where
  "period_example = StartMachineObserver
     (snd (UpdateMachines (plant_client [node_A]) (dmo_methods (plant_client [node_A]) 1) 1 fresh_plant)) 0"

lemma publish_period_witness:
  "sending_times (plant_client []) (\<lambda>_ _. Inr ''x'') (map (Pair id) [500, 1000, 1400, 1900, 1950]) period_example = [1000, 1950] \<and>
   sorted_wrt (\<lambda>a b. a + 900 < b) [0, 1000, 1950::int]"
proof -
  let ?its = "map (Pair id) [500, 1000, 1400, 1900, 1950] :: ((unit dashboard_observer \<Rightarrow> unit dashboard_observer) \<times> int) list"
  have times: "sending_times (plant_client []) (\<lambda>_ _. Inr ''x'') ?its period_example = [1000, 1950]"
    by code_simp
  have start: "m_lastPublish period_example = 0" by (simp add: period_example_def StartMachineObserver_def)
  have "\<forall>it \<in> set ?its. sends_nothing (fst it)" by (simp add: sends_nothing_def)
  from publish_period [OF this, of period_example "plant_client []" "\<lambda>_ _. Inr ''x''"]
  show ?thesis unfolding times start by blast
qed

end
