(* ===== verification/Observer_Search.thy ===== *)
theory Observer_Search
  imports Observer_Properties
begin

text \<open>
  The search of \<^verbatim>\<open>MachineObserver\<close> through the folders of components: it ends if these
  folders form no cycle, and has no guard against a cycle.
\<close>

text \<open>
  A rank for an address space without a cycle of components: the folder that a node found in a
  folder leads to has a smaller rank. The answers may change between the calls, but not beyond
  the rank.
\<close>

definition components_below :: "('w \<Rightarrow> bool) \<Rightarrow> (NodeId_t \<Rightarrow> nat) \<Rightarrow> ('w, 'cb) data_client \<Rightarrow> bool" where
  "components_below I rank D \<longleftrightarrow>
     (\<forall>n. runs I any_end (\<lambda>rs. \<forall>m \<in> set rs.
        runs I any_end (\<lambda>c. \<not> NodeId_isNull c \<longrightarrow> rank c < rank n)
          (dc_TranslateBrowsePathToNodeId D (brNodeId m) QualifiedName_ComponentsFolder))
        (dc_Browse D n ctx_Hierarchical))"

text \<open>
  Operations of the observer that end, in whatever way, and keep the invariant of the data
  source.
\<close>

definition world_ok :: "('w \<Rightarrow> bool) \<Rightarrow> ('w, 'm) machine_observer_scheme \<Rightarrow> bool" where
  "world_ok I s \<longleftrightarrow> I (world (ob_env s))"

definition fuelled :: "('w \<Rightarrow> bool) \<Rightarrow> ('a \<Rightarrow> bool) \<Rightarrow> ('w, 'm, 'a) oact \<Rightarrow> bool" where
  "fuelled I Q m \<longleftrightarrow> runs (world_ok I) any_end Q m"

lemma fuelled_ob_world: "runs I any_end Q m \<Longrightarrow> fuelled I Q (ob_world m)"
  unfolding fuelled_def ob_world_def by (rule runs_zoom [of I]) (simp_all add: world_ok_def)

lemma fuelled_seq: "fuelled I R m \<Longrightarrow> (\<And>x. R x \<Longrightarrow> fuelled I Q (f x)) \<Longrightarrow> fuelled I Q (seq m f)"
  unfolding fuelled_def by (rule runs_seq)

lemma fuelled_seq_any: "fuelled I (\<lambda>_. True) m \<Longrightarrow> (\<And>x. fuelled I Q (f x)) \<Longrightarrow> fuelled I Q (seq m f)"
  by (blast intro: fuelled_seq)

lemma fuelled_update: "(\<And>s. ob_env (g s) = ob_env s) \<Longrightarrow> fuelled I (\<lambda>_. True) (update g)"
  unfolding fuelled_def by (auto intro: runs_update simp: world_ok_def)

lemma fuelled_end:
  "Q x \<Longrightarrow> fuelled I Q (ret x)" "fuelled I Q (raise e)" "fuelled I Q undefined_behaviour"
  "(\<And>s. Q (f s)) \<Longrightarrow> fuelled I Q (reads f)" "(\<And>x. r = Inr x \<Longrightarrow> Q x) \<Longrightarrow> fuelled I Q (lift_sum r)"
  unfolding fuelled_def by (auto intro: runs_ret runs_raise runs_undefined runs_reads runs_lift_sum)

lemmas fuelled_basic = fuelled_end fuelled_update

lemma fuelled_try_catch:
  "fuelled I Q m \<Longrightarrow> (\<And>e k. h e = Some k \<Longrightarrow> fuelled I Q k) \<Longrightarrow> fuelled I Q (try_catch m h)"
  unfolding fuelled_def
  by (rule runs_try_catch [where A' = any_end]) (auto split: option.splits)

lemma runs_forget: "runs P A Q m \<Longrightarrow> runs P A (\<lambda>_. True) m"
  by (erule runs_weaken) simp_all

lemma fuelled_client:
  assumes "client_ok I U D"
  shows "fuelled I (\<lambda>_. True) (ob_world (dc_Browse D n c))"
    and "fuelled I (\<lambda>_. True) (ob_world (dc_BrowseWithResultTypeFilter D n c t))"
    and "fuelled I (\<lambda>_. True) (ob_world (dc_isSameOrSubtype D a b k))"
    and "fuelled I (\<lambda>_. True) (ob_world (dc_ReadeNodeValues D ns))"
    and "fuelled I (\<lambda>_. True) (ob_world (dc_readNodeBrowseName D n))"
  using assms unfolding client_ok_def by (blast intro: fuelled_ob_world runs_forget)+

lemma fuelled_skip_invalid: "skip_invalid x ex = Some k \<Longrightarrow> Q x \<Longrightarrow> fuelled I Q k"
  by (auto simp: skip_invalid_def fuelled_basic split: if_splits)

lemma fuelled_find_supertype:
  "client_ok I U D \<Longrightarrow> fuelled I (\<lambda>_. True) (find_supertype D t mds)"
  by (induction D t mds rule: find_supertype.induct)
    (auto simp: ob_subtypes_def intro!: fuelled_basic fuelled_seq_any fuelled_client)

lemma fuelled_identify:
  assumes D: "client_ok I U D"
  shows "fuelled I (\<lambda>r. \<forall>m'. r = Some m' \<longrightarrow> brNodeId m' = brNodeId m) (identify D m)"
proof -
  have resolve: "fuelled I (\<lambda>_. True) (resolve_type D t)" for t
    unfolding resolve_type_def ob_subtypes_def
    by (intro fuelled_seq_any) (auto intro!: fuelled_basic fuelled_seq_any fuelled_find_supertype D split: option.splits)
  note ask = fuelled_client [OF D]
  show ?thesis
    unfolding identify_def
    by (intro fuelled_seq_any resolve ask) (auto intro!: fuelled_basic fuelled_seq_any ask split: list.splits)
qed

lemma fuelled_fix_missing_type:
  assumes D: "client_ok I U D"
  shows "fuelled I (\<lambda>m'. brNodeId m' = brNodeId m) (fix_missing_type D m)"
proof -
  note ask = fuelled_client [OF D]
  show ?thesis
    unfolding fix_missing_type_def
    by (auto intro!: fuelled_try_catch fuelled_seq_any ask fuelled_basic split: list.splits if_splits)
qed

lemma fuelled_candidates:
  assumes D: "client_ok I U D" and "\<And>m. m \<in> set ms \<Longrightarrow> fuelled I (\<lambda>_. True) (go (brNodeId m))"
  shows "fuelled I (\<lambda>_. True) (browse_candidates D go p flt ms ns)"
  using assms(2)
proof (induction ms arbitrary: ns)
  case (Cons m ms)
  have found: "fuelled I (\<lambda>r. \<forall>m'. r = Some m' \<longrightarrow> brNodeId m' = brNodeId m)
      (try_catch (identify D m1) (skip_invalid None))" if "brNodeId m1 = brNodeId m" for m1
    using fuelled_identify [OF D, of m1] that
    by (intro fuelled_try_catch) (auto intro: fuelled_skip_invalid)
  have inner: "fuelled I (\<lambda>_. True) (case r of None \<Rightarrow> ret ns | Some m' \<Rightarrow>
      try_catch (seq (go (brNodeId m')) (\<lambda>inner.
        seq (update (\<lambda>s. s\<lparr>m_parentOfMachine := sm_insert (brNodeId m') p (m_parentOfMachine s)\<rparr>))
          (\<lambda>_. ret (ns @ m' # inner)))) (skip_invalid (ns @ [m'])))"
    if "\<forall>m'. r = Some m' \<longrightarrow> brNodeId m' = brNodeId m" for r
  proof (cases r)
    case (Some m')
    with that Cons.prems [of m] have "fuelled I (\<lambda>_. True) (go (brNodeId m'))" by simp
    then show ?thesis
      unfolding Some option.case
      by (intro fuelled_try_catch fuelled_seq_any fuelled_basic) (auto elim: fuelled_skip_invalid)
  qed (simp add: fuelled_basic)
  have "fuelled I (\<lambda>_. True) (seq (fix_missing_type D m) (\<lambda>m1.
      seq (try_catch (identify D m1) (skip_invalid None)) (\<lambda>r. case r of None \<Rightarrow> ret ns | Some m' \<Rightarrow>
      try_catch (seq (go (brNodeId m')) (\<lambda>inner.
        seq (update (\<lambda>s. s\<lparr>m_parentOfMachine := sm_insert (brNodeId m') p (m_parentOfMachine s)\<rparr>))
          (\<lambda>_. ret (ns @ m' # inner)))) (skip_invalid (ns @ [m'])))))"
    by (rule fuelled_seq [OF fuelled_fix_missing_type [OF D]], rule fuelled_seq [OF found], simp, rule inner)
  then have "fuelled I (\<lambda>_. True) (browse_candidate D go p flt m ns)"
    unfolding browse_candidate_def by (cases flt) (auto intro: fuelled_basic)
  then show ?case using Cons by (auto intro!: fuelled_seq_any)
qed (simp add: fuelled_basic)

lemma fuelled_browseForMachines:
  assumes D: "client_ok I U D" and "components_below I rank D"
  shows "rank n < fuel \<Longrightarrow> fuelled I (\<lambda>_. True) (browseForMachines D fuel flt n p :: ('w, 'm, BrowseResult_t list) oact)"
proof (induction fuel arbitrary: flt n p)
  case (Suc fuel)
  let ?folder = "\<lambda>m. dc_TranslateBrowsePathToNodeId D (brNodeId m) QualifiedName_ComponentsFolder"
  let ?below = "runs I any_end (\<lambda>c. \<not> NodeId_isNull c \<longrightarrow> rank c < rank n)"
  have found: "fuelled I (\<lambda>rs. \<forall>m \<in> set rs. ?below (?folder m)) (ob_world (dc_Browse D n ctx_Hierarchical) :: ('w, 'm, BrowseResult_t list) oact)"
    using assms(2) unfolding components_below_def by (intro fuelled_ob_world) blast
  have inner: "fuelled I (\<lambda>_. True) (findComponentsFolder_body D (browseForMachines D fuel None) (brNodeId m)
      :: ('w, 'm, BrowseResult_t list) oact)" if "?below (?folder m)" for m
  proof -
    have "fuelled I (\<lambda>_. True) ((if NodeId_isNull c then ret [] else browseForMachines D fuel None c (brNodeId m))
        :: ('w, 'm, BrowseResult_t list) oact)" if "\<not> NodeId_isNull c \<longrightarrow> rank c < rank n" for c
      using that Suc.IH [of c None "brNodeId m"] Suc.prems by (cases "NodeId_isNull c") (auto simp: fuelled_basic)
    with fuelled_ob_world [OF that] have "fuelled I (\<lambda>_. True)
        (seq (ob_world (?folder m)) (\<lambda>c. if NodeId_isNull c then ret [] else browseForMachines D fuel None c (brNodeId m))
         :: ('w, 'm, BrowseResult_t list) oact)"
      by (rule fuelled_seq)
    then show ?thesis
      unfolding findComponentsFolder_body_def
      by (rule fuelled_try_catch) (auto simp: fuelled_basic split: if_splits)
  qed
  have "fuelled I (\<lambda>_. True) (seq (ob_world (dc_Browse D n ctx_Hierarchical)) (\<lambda>ms.
      browse_candidates D (findComponentsFolder_body D (browseForMachines D fuel None)) p flt ms [])
        :: ('w, 'm, BrowseResult_t list) oact)"
    by (rule fuelled_seq [OF found fuelled_candidates [OF D]]) (auto intro: inner)
  then show ?case by simp
qed simp

text \<open>
  C34: the search for machines ends on every address space whose component folders form no
  cycle, with the depth of the folders as fuel. It is then the search of the code: the fuel is
  never used up, so the code's recursion is finite. The contract of the data source is kept.
\<close>

theorem browseForMachines_terminates:
  fixes s :: "('w, 'm) machine_observer_scheme"
  assumes "client_ok I U D" and "components_below I rank D" and "rank n < fuel" and "I (world (ob_env s))"
  shows "fst (browseForMachines D fuel flt n p s) \<noteq> Inl OutOfFuel \<and>
    I (world (ob_env (snd (browseForMachines D fuel flt n p s))))"
proof -
  obtain r u where run: "browseForMachines D fuel flt n p s = (r, u)" by fastforce
  have "world_ok I s" using assms(4) by (simp add: world_ok_def)
  from runsD [OF fuelled_browseForMachines [OF assms(1-3), unfolded fuelled_def] this run] run
  show ?thesis by (auto simp: world_ok_def)
qed

definition nested_client :: "NodeId_t \<Rightarrow> (unit, callback) data_client" where
  "nested_client c = (plant_client [node_A])
     \<lparr>dc_Browse := \<lambda>n ctx. ret (if n = NodeId_MachinesFolder then [plant_machine node_A]
        else if n = node_B then [plant_machine c] else []),
      dc_TranslateBrowsePathToNodeId := \<lambda>n q. ret (if n = node_A then node_B else NodeId '''' '''')\<rparr>"

theorem browseForMachines_terminates_witness:
  "fst (browseForMachines (nested_client node_B) 2 None NodeId_MachinesFolder NodeId_MachinesFolder plant_state) \<noteq> Inl OutOfFuel"
proof (rule browseForMachines_terminates [where rank = "\<lambda>n. if n = NodeId_MachinesFolder then 1 else 0", THEN conjunct1])
  let ?D = "nested_client node_B"
  let ?rank = "\<lambda>n. if n = NodeId_MachinesFolder then 1 else (0 :: nat)"
  show "client_ok (\<lambda>_. True) {node_A, node_B, plant_ident} ?D"
    by (auto simp: client_ok_def nested_client_def plant_client_def plant_machine_def from_nodes_def NodeId_isNull_def
        intro!: runs_ret)
  show "components_below (\<lambda>_. True) ?rank ?D"
    unfolding components_below_def
    by (auto simp: nested_client_def plant_client_def plant_machine_def node_A_def node_B_def
        NodeId_isNull_def NodeId_MachinesFolder_def nsUriMachinery_def intro!: runs_ret)
qed simp_all

text \<open>
  There is no guard against a cycle of components. If the folder of a machine holds the
  machine itself, the search never ends, whatever the fuel, and it ends neither with a list
  nor with an exception.
\<close>

theorem browseForMachines_cycle:
  "fst (browseForMachines (nested_client node_A) fuel None NodeId_MachinesFolder NodeId_MachinesFolder plant_state) =
     Inl OutOfFuel"
proof -
  let ?D = "nested_client node_A"
  have fix_type: "fix_missing_type ?D (plant_machine node_A) s = (Inr (plant_machine node_A), s)" for s :: "unit dashboard_observer"
    by (simp add: fix_missing_type_def plant_machine_def plant_type_def NodeId_MissingType_def NodeId_eq_def ret_def)
  have cache: "sm_find (m_subTypeDefinitionToKnownMachineTypeDefinition plant_reader) plant_type = Some plant_type"
    "getIdentificationTypeNodeId plant_reader plant_type = Inr plant_ident"
    by code_simp+
  have plant_id: "brNodeId (plant_machine n) = n" for n by (simp add: plant_machine_def)
  have plain: "\<not> NodeId_eq plant_type NodeId_UndefinedType" "\<not> NodeId_eq plant_type NodeId_BaseObjectType"
    by code_simp+
  have ident: "identify ?D (plant_machine node_A) s = (Inr (Some (plant_machine node_A)), s)"
    if "ob_reader s = plant_reader" for s :: "unit dashboard_observer"
    using that by (simp add: identify_def resolve_type_def plant_machine_def cache plain)
      (simp add: nested_client_def plant_client_def ob_world_def act_defs cache plain)
  have browse: "ob_world (dc_Browse ?D n ctx_Hierarchical) s = (Inr [plant_machine node_A], s)"
    if "n \<in> {NodeId_MachinesFolder, node_B}" for n and s :: "unit dashboard_observer"
    using that by (auto simp: nested_client_def ob_world_def act_defs)
  have folder: "ob_world (dc_TranslateBrowsePathToNodeId ?D node_A q) s = (Inr node_B, s)"
    for q and s :: "unit dashboard_observer"
    by (simp add: nested_client_def ob_world_def act_defs)
  have "fst (browseForMachines ?D fuel None n p s) = Inl OutOfFuel"
    if "n \<in> {NodeId_MachinesFolder, node_B}" "ob_reader s = plant_reader" for n p and s :: "unit dashboard_observer"
    using that
  proof (induction fuel arbitrary: n p)
    case (Suc fuel)
    obtain u where "browseForMachines ?D fuel None node_B node_A s = (Inl OutOfFuel, u)"
      using Suc.IH [of node_B node_A] Suc.prems(2) by (metis insertCI prod.collapse)
    then have "findComponentsFolder_body ?D (browseForMachines ?D fuel None) node_A s = (Inl OutOfFuel, u)"
      using folder by (simp add: findComponentsFolder_body_def node_B_def NodeId_isNull_def seq_def try_catch_def)
    then show ?case
      using browse [OF Suc.prems(1)] ident [OF Suc.prems(2)] fix_type plant_id
      by (simp add: seq_def browse_candidate_def try_catch_def ret_def)
  qed (simp add: no_fuel_def)
  then show ?thesis by (simp add: plant_state_def DashboardMachineObserver_new_def)
qed

end
