(* ===== verification/Update_Round.thy ===== *)
theory Update_Round
  imports Observer_Search
begin

text \<open>
  One round of the update thread, end to end: on a data source that keeps its contract and
  whose component folders form no cycle, the search for machines, the test of every machine,
  the removal of clients and the creation of new ones end, and leave the data source with its
  invariant.
\<close>

section \<open>The operations of the dashboard client\<close>

abbreviation dash_ok :: "('w \<Rightarrow> bool) \<Rightarrow> 'w dstate \<Rightarrow> bool" where
  "dash_ok I \<equiv> client_pred I (\<lambda>_. True)"

lemma ends_addDataSet:
  assumes "client_ok I U D" and "finite U" and "Suc (card U) < fuel"
  shows "runs (dash_ok I) any_end (\<lambda>_. True) (addDataSet D ts fuel start t chan onl)"
proof (rule runsI)
  fix s r u assume s: "dash_ok I s" and run: "addDataSet D ts fuel start t chan onl s = (r, u)"
  have U: "client_ok I (insert start U) D" by (rule client_ok_mono [OF assms(1)]) blast
  have "card (insert start U) < fuel"
    using assms(2,3) card_insert_le_m1 [of "Suc (card U)" U start] by (simp add: card_insert_if)
  from addDataSet_cases [where q = "\<lambda>_. True", OF U _ _ this _ _ _ _ runs_subscribeValue [OF U] run] assms(2) s
  show "dash_ok I u \<and> (case r of Inl e \<Rightarrow> any_end e | Inr x \<Rightarrow> True)"
    by (auto simp: client_pred_def)
qed

lemma ends_Unsubscribe:
  assumes "client_ok I U D"
  shows "runs (dash_ok I) any_end (\<lambda>_. True) (Unsubscribe D)"
proof -
  have ask: "runs (dash_ok I) any_end (\<lambda>_. True) (on_world (dc_Unsubscribe D ms hs))" for ms hs
    by (rule runs_weaken [OF client_okD(5) [OF assms]]) (auto intro: throws_any_end)
  show ?thesis
    unfolding Unsubscribe_def Let_def
    by (intro runs_seq_any ask runs_reads runs_on_client) simp_all
qed

section \<open>The operations of the observer\<close>

lemma fuelled_at_client:
  "runs (dash_ok I) any_end (\<lambda>_. True) m \<Longrightarrow> fuelled I (\<lambda>_. True) (at_client n m)"
  unfolding fuelled_def at_client_def
  by (rule runs_zoom [of "dash_ok I"]) (simp_all add: client_pred_def world_ok_def)

lemma fuelled_with_new_client:
  assumes "runs (dash_ok I) any_end (\<lambda>_. True) m"
  shows "fuelled I (\<lambda>_. True) (with_new_client c m)"
  unfolding fuelled_def
proof (rule runsI)
  fix s r u assume "world_ok I s" and run: "with_new_client c m s = (r, u)"
  then have start: "dash_ok I \<lparr>env = ob_env s, client = c\<rparr>" by (simp add: client_pred_def world_ok_def)
  obtain x t where "m \<lparr>env = ob_env s, client = c\<rparr> = (x, t)" by fastforce
  with runsD [OF assms start this] run show "world_ok I u \<and> (case r of Inl e \<Rightarrow> any_end e | Inr x \<Rightarrow> True)"
    by (auto simp: with_new_client_def client_pred_def world_ok_def split: sum.splits)
qed

lemma fuelled_if: "(c \<Longrightarrow> fuelled I Q m) \<Longrightarrow> (\<not> c \<Longrightarrow> fuelled I Q n) \<Longrightarrow> fuelled I Q (if c then m else n)"
  by simp

lemma fuelled_for_each:
  "(\<And>x. fuelled I (\<lambda>_. True) (f x)) \<Longrightarrow> fuelled I (\<lambda>_. True) (for_each xs f)"
  unfolding fuelled_def by (rule runs_for_each)

lemma fuelled_dmo_addMachine:
  assumes "client_ok I U D" and "finite U" and "Suc (card U) < fuel"
  shows "fuelled I (\<lambda>_. True) (dmo_addMachine D fuel m)"
  unfolding dmo_addMachine_def Let_def
  by (intro fuelled_try_catch fuelled_if fuelled_seq_any fuelled_at_client fuelled_with_new_client
      ends_Unsubscribe [OF assms(1)] ends_addDataSet [OF assms] fuelled_basic)
    (auto simp: fuelled_basic split: if_splits)

lemma fuelled_dmo_removeMachine:
  assumes "client_ok I U D"
  shows "fuelled I (\<lambda>_. True) (dmo_removeMachine D n)"
  unfolding dmo_removeMachine_def
  by (intro fuelled_if fuelled_seq_any fuelled_at_client ends_Unsubscribe [OF assms] fuelled_basic) simp_all

lemma fuelled_dmo_isOnline:
  assumes "client_ok I U D"
  shows "fuelled I (\<lambda>_. True) (dmo_isOnline D n typ)"
proof -
  have "fuelled I (\<lambda>_. True) (browseIdentificationValues D n typ b j)" for b j
    unfolding browseIdentificationValues_def FillIdentificationValuesFromBrowseResult_def Let_def
    by (auto intro!: fuelled_seq_any fuelled_client [OF assms] fuelled_basic split: prod.splits)
  then show ?thesis
    unfolding dmo_isOnline_def dc_BrowseHasComponent_def
    by (auto intro!: fuelled_try_catch fuelled_seq_any fuelled_client [OF assms] fuelled_basic
        split: option.splits list.splits)
qed

section \<open>The update of the machines\<close>

text \<open>The virtual methods of the observer, as far as the update relies on them.\<close>

definition methods_end :: "('w \<Rightarrow> bool) \<Rightarrow> ('w, 'm) observer_methods \<Rightarrow> bool" where
  "methods_end I M \<longleftrightarrow> (\<forall>m. fuelled I (\<lambda>_. True) (vm_addMachine M m)) \<and>
     (\<forall>n. fuelled I (\<lambda>_. True) (vm_removeMachine M n)) \<and> (\<forall>n t. fuelled I (\<lambda>_. True) (vm_isOnline M n t))"

lemma dmo_methods_end:
  assumes "client_ok I U D" and "finite U" and "Suc (card U) < fuel"
  shows "methods_end I (dmo_methods D fuel)"
  by (simp add: methods_end_def dmo_methods_def fuelled_dmo_addMachine [OF assms]
      fuelled_dmo_removeMachine [OF assms(1)] fuelled_dmo_isOnline [OF assms(1)])

lemma fuelled_removeOfflineMachines:
  "methods_end I M \<Longrightarrow> fuelled I (\<lambda>_. True) (removeOfflineMachines M ns)"
  unfolding removeOfflineMachines_def methods_end_def by (blast intro: fuelled_for_each)

lemma fuelled_findNewAndOfflineMachines:
  "methods_end I M \<Longrightarrow> fuelled I (\<lambda>_. True) (findNewAndOfflineMachines M ms rem new ids)"
proof (induction M ms rem new ids rule: findNewAndOfflineMachines.induct)
  case (2 M m ms rem new ids)
  have "fuelled I (\<lambda>_. True) (try_catch (vm_isOnline M (brNodeId m) (brTypeDefinition m))
      (\<lambda>ex. if is_OpcUaException ex then Some (ret (False, JNull)) else None))"
    using 2(3) unfolding methods_end_def by (intro fuelled_try_catch) (auto simp: fuelled_basic split: if_splits)
  with 2 show ?case by (auto intro!: fuelled_seq_any split: prod.splits)
qed (simp add: fuelled_basic)

lemma fuelled_add_if_due:
  assumes "methods_end I M"
  shows "fuelled I (\<lambda>_. True) (add_if_due M ml n)"
proof -
  have "fuelled I (\<lambda>_. True) (addNewMachine M m)" for m
    using assms unfolding addNewMachine_def methods_end_def
    by (intro fuelled_try_catch fuelled_seq_any fuelled_update) (auto intro!: fuelled_update split: if_splits)
  moreover have "fuelled I (\<lambda>_. True) (ignoreInvalidMachinesTemporarily n)"
    unfolding ignoreInvalidMachinesTemporarily_def
    by (auto intro!: fuelled_seq_any fuelled_basic split: option.splits)
  ultimately show ?thesis
    unfolding add_if_due_def by (auto intro!: fuelled_seq_any fuelled_basic)
qed

lemma fuelled_update_with_list:
  assumes "methods_end I M"
  shows "fuelled I (\<lambda>_. True) (update_with_list M rem ml)"
  unfolding update_with_list_def machineListsNotEqual_def recreateKnownMachineToolsMap_def
  by (auto intro!: fuelled_seq_any fuelled_removeOfflineMachines fuelled_findNewAndOfflineMachines
      fuelled_for_each fuelled_add_if_due assms fuelled_basic split: prod.splits)

lemma fuelled_UpdateMachines:
  assumes "client_ok I U D" and "components_below I rank D" and "rank NodeId_MachinesFolder < fuel" and "methods_end I M"
  shows "fuelled I (\<lambda>_. True) (UpdateMachines D M fuel)"
proof -
  have "fuelled I (\<lambda>_. True) (canBrowseMachineList D fuel)"
    unfolding canBrowseMachineList_def
    by (intro fuelled_try_catch fuelled_seq_any fuelled_browseForMachines [OF assms(1,2)] assms(3) fuelled_basic)
      (auto simp: fuelled_basic split: if_splits)
  then show ?thesis
    unfolding UpdateMachines_def
    by (auto intro!: fuelled_seq_any fuelled_update_with_list assms(4) fuelled_basic split: option.splits)
qed

lemma fuelled_update_tick:
  assumes "client_ok I U D" and "finite U" and "Suc (card U) < fuel"
    and "components_below I rank D" and "rank NodeId_MachinesFolder < fuel"
  shows "fuelled I (\<lambda>_. True) (update_tick D fuel cnt)"
  unfolding update_tick_def
  by (intro fuelled_seq_any fuelled_if fuelled_UpdateMachines [OF assms(1,4,5)] dmo_methods_end [OF assms(1-3)] fuelled_basic)
    simp_all

end
