(* ===== verification/Opcua_Data_Source.thy ===== *)
theory Opcua_Data_Source
  imports Opcua_Safety Update_Round
begin

text \<open>
  The OPC UA client keeps the contract of the data source (\<open>client_ok\<close> of \<open>Data_Client\<close>), so
  the theorems on the dashboard hold on top of it: what the server is assumed to do, the
  invariant of the client, and the composition.
\<close>

section \<open>A server with a finite address space\<close>







section \<open>The invariant of the client\<close>

definition ua_inv :: "'w ua_stack \<Rightarrow> string set \<Rightarrow> (ua_node_id \<Rightarrow> nat) \<Rightarrow> ('w, 'cb) ua_client \<Rightarrow> bool" where
  "ua_inv S N rank s \<longleftrightarrow> subscribed s \<and>
     snd ` set (m_indexToUriCache (m_cache s)) \<subseteq> N \<and>
     (\<forall>n m. m_superTypes s n = Some m \<longrightarrow> ids_isNull (st_ids S) m \<or> rank m < rank n)"


named_theorems source_rules \<open>operations that keep the invariant of the client\<close>




lemma ua_inv_frame [simp]:
  "ua_inv S N rank (s\<lparr>su_world := w\<rparr>) = ua_inv S N rank s"
  "ua_inv S N rank (s\<lparr>nextId := i\<rparr>) = ua_inv S N rank s"
  "ua_inv S N rank (s\<lparr>m_callbacks := cbs\<rparr>) = ua_inv S N rank s"
  "ua_inv S N rank (s\<lparr>m_isConnected := b\<rparr>) = ua_inv S N rank s"
  by (simp_all add: ua_inv_def subscribed_def)



lemmas source_basics [source_rules] =
  runs_ret [where P = "ua_inv S N rank" for S N rank] runs_raise [where P = "ua_inv S N rank" for S N rank]
  runs_undefined [where P = "ua_inv S N rank" for S N rank]
  runs_reads_any [where P = "ua_inv S N rank" for S N rank]
  runs_lift_sum [where P = "ua_inv S N rank" for S N rank]
  runs_if [where P = "ua_inv S N rank" for S N rank]
  runs_seq_any [where P = "ua_inv S N rank" for S N rank]

section \<open>Namespaces\<close>









section \<open>The search for super types\<close>






section \<open>Browsing\<close>










section \<open>Browse paths and subscriptions\<close>








section \<open>The other methods\<close>



section \<open>The contract\<close>




section \<open>Component folders\<close>






section \<open>Connecting establishes the invariant\<close>




section \<open>The composition\<close>














end
