(* ===== verification/Retained_Messages.thy ===== *)
theory Retained_Messages
  imports Machine_Clients Mqtt_Publisher
begin

text \<open>
  What the broker shows. The publisher sends every message as a retained one, so the broker
  keeps the last message of each topic, and this is what a dashboard that connects later sees.
  The theory follows the messages of the machines through all operations of the observer: the
  rounds of the update, the publication of all machines and the values that arrive in between.
\<close>

section \<open>The retained message of a topic\<close>

definition retained :: "(string \<times> string) list \<Rightarrow> string \<Rightarrow> string option" where
  "retained ms t = map_of (rev ms) t"

lemma retained_append:
  "retained (ms @ ns) t = (case retained ns t of None \<Rightarrow> retained ms t | Some m \<Rightarrow> Some m)"
  by (simp add: retained_def map_add_def split: option.splits)

lemma retained_Cons: "retained ((t, m) # ms) = (\<lambda>x. case retained ms x of None \<Rightarrow> if x = t then Some m else None | Some y \<Rightarrow> Some y)"
  by (rule ext) (simp add: retained_def map_add_def split: option.splits)

lemma retained_Nil [simp]: "retained [] t = None"
  by (simp add: retained_def)

lemma retained_mem: "retained ms t = Some m \<Longrightarrow> (t, m) \<in> set ms"
  by (auto simp: retained_def dest: map_of_SomeD)

lemma retained_frame: "\<forall>(t', m) \<in> set ns. t' \<noteq> t \<Longrightarrow> retained (ms @ ns) t = retained ms t"
  by (auto simp: retained_append dest!: retained_mem split: option.splits)

text \<open>
  What the broker shows after the messages: the retained ones of those that the library accepted.
  A message that is refused is lost, as the publisher only logs the exception.
\<close>

fun accepted :: "'w mqtt_lib \<Rightarrow> 'w \<Rightarrow> (string \<times> string) list \<Rightarrow> (string \<times> string) list" where
  "accepted L w [] = []"
| "accepted L w ((t, m) # ms) =
     (if accepts L w t m then [(t, m)] else []) @ accepted L (snd (ml_publish L t m 0 True w)) ms"

lemma broker_shows_retained:
  assumes "retaining_broker L view"
  shows "\<exists>w. for_each ms (\<lambda>(t, m). MqttPublisher_Publish L t m) p = (Inr (), p\<lparr>m_cli := w\<rparr>) \<and>
    view w = (\<lambda>t. case retained (accepted L (m_cli p) ms) t of None \<Rightarrow> view (m_cli p) t | Some m \<Rightarrow> Some m)"
proof (induction ms arbitrary: p)
  case Nil
  then show ?case by (intro exI [of _ "m_cli p"]) (simp add: ret_def)
next
  case (Cons x ms)
  obtain t m where x: "x = (t, m)" by fastforce
  from Publish_retains [OF assms, of t m p] obtain w where
    one: "MqttPublisher_Publish L t m p = (Inr (), p\<lparr>m_cli := w\<rparr>)" "w = snd (ml_publish L t m 0 True (m_cli p))"
      "view w = (if accepts L (m_cli p) t m then (view (m_cli p))(t \<mapsto> m) else view (m_cli p))"
    by blast
  from Cons.IH [of "p\<lparr>m_cli := w\<rparr>"] obtain w' where
    rest: "for_each ms (\<lambda>(t, m). MqttPublisher_Publish L t m) (p\<lparr>m_cli := w\<rparr>) = (Inr (), p\<lparr>m_cli := w'\<rparr>)"
      "view w' = (\<lambda>t. case retained (accepted L w ms) t of None \<Rightarrow> view w t | Some m \<Rightarrow> Some m)"
    by (auto simp del: fun_upd_apply cong del: option.case_cong_weak)
  have "view w' = (\<lambda>t'. case retained (accepted L (m_cli p) (x # ms)) t' of None \<Rightarrow> view (m_cli p) t' | Some m \<Rightarrow> Some m)"
    by (rule ext) (simp add: rest(2) one(3) x retained_Cons flip: one(2) split: option.splits)
  with one(1) rest(1) x show ?case by (intro exI [of _ w']) (simp add: seq_def)
qed

section \<open>Topics of the machines\<close>

text \<open>
  Type names that do not collide with the other topics of the gateway. A type called
  \<^verbatim>\<open>online\<close> would publish its payloads on the online topics of its machines.
\<close>

definition proper_name :: "string \<Rightarrow> bool" where
  "proper_name spec \<longleftrightarrow> CHR ''/'' \<notin> set spec \<and> spec \<notin> {''online'', ''list'', ''bad_list''}"

definition machine_topic :: "topic_config \<Rightarrow> NodeId_t \<Rightarrow> string \<Rightarrow> bool" where
  "machine_topic tc n t \<longleftrightarrow> (\<exists>spec. proper_name spec \<and> t = Topics_Machine tc spec (NodeId_to_string n))"

definition online_topic :: "topic_config \<Rightarrow> NodeId_t \<Rightarrow> string" where
  "online_topic tc n = Topics_OnlineStatus tc (NodeId_to_string n)"

definition list_topic :: "topic_config \<Rightarrow> string \<Rightarrow> bool" where
  "list_topic tc t \<longleftrightarrow> t \<in> range (Topics_List tc) \<union> range (Topics_ErrorList tc)"

lemma first_level:
  assumes "a @ CHR ''/'' # x = b @ CHR ''/'' # y" and "CHR ''/'' \<notin> set a" and "CHR ''/'' \<notin> set b"
  shows "a = b"
  using assms by (induction a arbitrary: b) (auto simp: Cons_eq_append_conv split: if_splits)

lemma machine_topic_other: "machine_topic tc n t \<Longrightarrow> t \<noteq> online_topic tc m \<and> \<not> list_topic tc t"
proof -
  assume "machine_topic tc n t"
  then obtain spec where spec: "proper_name spec" and t: "t = Topics_Machine tc spec (NodeId_to_string n)"
    by (auto simp: machine_topic_def)
  have level: "spec @ CHR ''/'' # x = k @ CHR ''/'' # y \<Longrightarrow> k = ''online'' \<or> k = ''list'' \<or> k = ''bad_list'' \<Longrightarrow> False"
    for k x y using first_level [of spec x k y] spec by (auto simp: proper_name_def)
  show ?thesis
    using level [of _ "''online''"] level [of _ "''list''"] level [of _ "''bad_list''"]
    by (auto simp: t Topics_Machine_def online_topic_def list_topic_def Topics_OnlineStatus_def Topics_List_def
        Topics_ErrorList_def)
qed

lemma online_topic_not_list: "\<not> list_topic tc (online_topic tc n)"
  by (auto simp: list_topic_def online_topic_def Topics_OnlineStatus_def Topics_List_def Topics_ErrorList_def)

lemma machine_topics_apart:
  assumes "NodeId_plain m" and "NodeId_plain n" and "machine_topic tc m t" and "machine_topic tc n t"
  shows "m = n"
proof -
  from assms(3,4) obtain s1 s2 where
    "Topics_Machine tc s1 (NodeId_to_string m) = Topics_Machine tc s2 (NodeId_to_string n)"
    by (auto simp: machine_topic_def)
  then have "s1 @ CHR ''/'' # IdEncode (NodeId_to_string m) = s2 @ CHR ''/'' # IdEncode (NodeId_to_string n)"
    by (simp add: Topics_Machine_def)
  from IdEncode_last_level [OF this] NodeId_to_string_inj [OF assms(1,2)] show ?thesis by simp
qed

lemma online_topics_apart:
  assumes "NodeId_plain m" and "NodeId_plain n" and "online_topic tc m = online_topic tc n"
  shows "m = n"
proof -
  have "''online'' @ CHR ''/'' # IdEncode (NodeId_to_string m) = ''online'' @ CHR ''/'' # IdEncode (NodeId_to_string n)"
    using assms(3) by (simp add: online_topic_def Topics_OnlineStatus_def)
  from IdEncode_last_level [OF this] NodeId_to_string_inj [OF assms(1,2)] show ?thesis by simp
qed

section \<open>The invariant\<close>

text \<open>
  The client of a machine has at most one data set, with the topics of the machine, and every
  last message that it remembers is the one that the broker shows.
\<close>

definition client_shown :: "topic_config \<Rightarrow> (string \<times> string) list \<Rightarrow> NodeId_t \<Rightarrow> dashboard_client \<Rightarrow> bool" where
  "client_shown tc ms n c \<longleftrightarrow>
     length (m_dataSets c) \<le> 1 \<and>
     (\<forall>d \<in> set (m_dataSets c). machine_topic tc n (channel d) \<and> onlineChannel d = online_topic tc n) \<and>
     sm_ok (m_latestMessages c) \<and>
     (\<forall>t lm. sm_find (m_latestMessages c) t = Some lm \<longrightarrow>
        machine_topic tc n t \<and> retained ms t = Some (lmPayload lm))"

definition proper_types :: "type_reader \<Rightarrow> bool" where
  "proper_types r \<longleftrightarrow>
     list_all (\<lambda>(t, i). proper_name (qName (SpecifiedBrowseName (sn_at (heap r) i)))) (m_typeMap r)"

definition gateway_shown :: "topic_config \<Rightarrow> 'w dashboard_observer \<Rightarrow> bool" where
  "gateway_shown tc s \<longleftrightarrow>
     topics s = tc \<and> proper_types (ob_reader s) \<and> sm_ok (m_dashboardClients s) \<and>
     (\<forall>n c. sm_find (m_dashboardClients s) n = Some c \<longrightarrow> client_shown tc (published (ob_env s)) n c)"

definition plain_machines :: "'w dashboard_observer \<Rightarrow> bool" where
  "plain_machines s \<longleftrightarrow> (\<forall>n \<in> clients s. NodeId_plain n)"

lemma client_shown_frame:
  assumes "client_shown tc ms n c" and "\<forall>(t, m) \<in> set ns. \<not> machine_topic tc n t"
  shows "client_shown tc (ms @ ns) n c"
proof -
  have "retained (ms @ ns) t = retained ms t" if "machine_topic tc n t" for t
    by (rule retained_frame) (use assms(2) that in auto)
  with assms(1) show ?thesis by (auto simp: client_shown_def)
qed

lemma client_shown_new: "client_shown tc ms n DashboardClient_new"
  by (simp add: client_shown_def DashboardClient_new_def)

section \<open>Publishing one machine\<close>

lemma Publish_single:
  "m_dataSets (client s) = [d] \<Longrightarrow> Publish dump s = Publish_dataSet dump d s"
  by (simp add: Publish_def)

text \<open>A message that is not sent again is the one that the broker shows already.\<close>

lemma messages_shown:
  assumes pl: "to_publish dump d = Some pl"
    and shown: "\<And>lm. sm_find m (channel d) = Some lm \<Longrightarrow> retained ms (channel d) = Some (lmPayload lm)"
    and apart: "onlineChannel d \<noteq> channel d"
  shows "retained (ms @ messages_of dump now m d) (channel d) = Some pl \<and>
    retained (ms @ messages_of dump now m d) (onlineChannel d) = Some ''1''"
proof (cases "up_to_date dump now m d")
  case True
  then have "retained ms (channel d) = Some pl" using pl shown by (auto simp: up_to_date_def)
  with True pl apart show ?thesis by (simp add: messages_of_def retained_append retained_Cons)
next
  case False
  with pl apart show ?thesis by (simp add: messages_of_def retained_append retained_Cons)
qed

text \<open>The messages of one data set keep what the broker shows in step with the client.\<close>

lemma messages_keep_shown:
  assumes shown: "client_shown tc ms n c" and one: "m_dataSets c = [d]"
    and "sm_ok m'" and "up_to_date dump now m' d"
    and others: "\<And>ch. ch \<noteq> channel d \<Longrightarrow> sm_find m' ch = sm_find (m_latestMessages c) ch"
    and none: "to_publish dump d = None \<Longrightarrow> m' = m_latestMessages c"
  defines "ns \<equiv> messages_of dump now (m_latestMessages c) d"
  shows "to_publish dump d = Some pl \<Longrightarrow>
      retained (ms @ ns) (channel d) = Some pl \<and> retained (ms @ ns) (onlineChannel d) = Some ''1''"
    and "client_shown tc (ms @ ns) n (c\<lparr>m_latestMessages := m'\<rparr>)"
proof -
  have topic: "machine_topic tc n (channel d)" "onlineChannel d = online_topic tc n"
    using shown one by (auto simp: client_shown_def)
  have known: "sm_find (m_latestMessages c) u = Some lm \<Longrightarrow>
      machine_topic tc n u \<and> retained ms u = Some (lmPayload lm)" for u lm
    using shown by (simp add: client_shown_def)
  have apart: "onlineChannel d \<noteq> channel d" using machine_topic_other [OF topic(1), of n] topic(2) by auto
  show sent: "retained (ms @ ns) (channel d) = Some pl \<and> retained (ms @ ns) (onlineChannel d) = Some ''1''"
    if "to_publish dump d = Some pl" for pl
    unfolding ns_def by (rule messages_shown) (use that known apart in auto)
  have other: "retained (ms @ ns) u = retained ms u" if "machine_topic tc n u" "u \<noteq> channel d" for u
    by (rule retained_frame) (use that machine_topic_other [OF that(1), of n] topic(2) in
      \<open>auto simp: ns_def messages_of_def split: option.splits\<close>)
  have "machine_topic tc n u \<and> retained (ms @ ns) u = Some (lmPayload lm)" if found: "sm_find m' u = Some lm" for u lm
  proof (cases "u = channel d")
    case False
    with found others known other show ?thesis by metis
  next
    case eq: True
    show ?thesis
    proof (cases "to_publish dump d")
      case None
      with found none known [of u lm] show ?thesis by (simp add: ns_def messages_of_def)
    next
      case (Some pl)
      with assms(4) found eq have "lmPayload lm = pl" by (auto simp: up_to_date_def)
      with sent [OF Some] topic(1) eq show ?thesis by simp
    qed
  qed
  with assms(3) shown show "client_shown tc (ms @ ns) n (c\<lparr>m_latestMessages := m'\<rparr>)"
    by (auto simp: client_shown_def)
qed

lemma Publish_machine:
  assumes "client_shown tc (published (env s)) n (client s)" and run: "Publish dump s = (r, t)"
  obtains ns where "published (env t) = published (env s) @ ns"
    and "\<forall>(u, m) \<in> set ns. machine_topic tc n u \<or> u = online_topic tc n \<and> m = ''1''"
    and "client_shown tc (published (env t)) n (client t)"
    and "m_dataSets (client t) = m_dataSets (client s)"
    and "(\<forall>d \<in> set (m_dataSets (client s)). serializable dump d) \<longrightarrow> r = Inr ()"
    and "\<forall>d \<in> set (m_dataSets (client s)). \<forall>pl. to_publish dump d = Some pl \<longrightarrow>
      retained (published (env t)) (channel d) = Some pl \<and>
      retained (published (env t)) (onlineChannel d) = Some ''1''"
proof (cases "m_dataSets (client s)")
  case Nil
  with run have "r = Inr () \<and> t = s" by (simp add: Publish_def ret_def)
  with Nil assms(1) show ?thesis by (intro that [of "[]"]) auto
next
  case (Cons d ds)
  with assms(1) have one: "m_dataSets (client s) = [d]" and topic: "machine_topic tc n (channel d)"
    "onlineChannel d = online_topic tc n" and ok: "sm_ok (m_latestMessages (client s))"
    by (auto simp: client_shown_def)
  from run have run: "Publish_dataSet dump d s = (r, t)" by (simp add: Publish_single [OF one])
  show ?thesis
  proof (cases "serializable dump d")
    case False
    then obtain e where e: "getJson dump d = Inl e" by (cases "getJson dump d") (auto simp: serializable_def)
    with run have "t = s \<and> r = Inl (Throw e)" by (simp add: Publish_dataSet_def) (simp add: act_defs)
    with e one False assms(1) show ?thesis by (intro that [of "[]"]) (auto simp: to_publish_def)
  next
    case True
    let ?ns = "messages_of dump (clock (env s)) (m_latestMessages (client s)) d"
    obtain m' where m': "Publish_dataSet dump d s =
        (Inr (), s\<lparr>env := (env s)\<lparr>published := published (env s) @ ?ns\<rparr>,
          client := (client s)\<lparr>m_latestMessages := m'\<rparr>\<rparr>)" "sm_ok m'" "up_to_date dump (clock (env s)) m' d"
      "\<And>ch. ch \<noteq> channel d \<Longrightarrow> sm_find m' ch = sm_find (m_latestMessages (client s)) ch"
      "to_publish dump d = None \<Longrightarrow> m' = m_latestMessages (client s)"
      using Publish_dataSet_run [OF True ok] by blast
    note shown = messages_keep_shown [OF assms(1) one m'(2-)]
    have "\<forall>(u, m) \<in> set ?ns. machine_topic tc n u \<or> u = online_topic tc n \<and> m = ''1''"
      using topic by (auto simp: messages_of_def split: option.splits)
    with run m'(1) shown one show ?thesis by (intro that [of ?ns]) auto
  qed
qed

section \<open>Publishing all machines\<close>

definition data_sets :: "'w dashboard_observer \<Rightarrow> NodeId_t \<Rightarrow> DataSetStorage_t list" where
  "data_sets s n = (case sm_find (m_dashboardClients s) n of None \<Rightarrow> [] | Some c \<Rightarrow> m_dataSets c)"

definition message_of :: "topic_config \<Rightarrow> NodeId_t \<Rightarrow> string \<times> string \<Rightarrow> bool" where
  "message_of tc n = (\<lambda>(u, m). machine_topic tc n u \<or> u = online_topic tc n \<and> m = ''1'')"

text \<open>The broker shows the current text of every data set that has one, and that its machine is online.\<close>

definition shows_payloads ::
    "(nat \<Rightarrow> json \<Rightarrow> exn + string) \<Rightarrow> (string \<times> string) list \<Rightarrow> DataSetStorage_t list \<Rightarrow> bool" where
  "shows_payloads dump ms ds \<longleftrightarrow>
     (\<forall>d \<in> set ds. \<forall>pl. to_publish dump d = Some pl \<longrightarrow>
        retained ms (channel d) = Some pl \<and> retained ms (onlineChannel d) = Some ''1'')"

lemma message_of_other:
  assumes "NodeId_plain m" and "NodeId_plain n" and "m \<noteq> n" and "message_of tc m (u, x)"
  shows "\<not> machine_topic tc n u \<and> u \<noteq> online_topic tc n"
  using assms machine_topics_apart [OF assms(1,2)] online_topics_apart [OF assms(1,2), of tc]
    machine_topic_other [of tc n u m] machine_topic_other [of tc m u n]
  by (auto simp: message_of_def)

lemma shows_payloads_frame:
  assumes "shows_payloads dump ms ds" and "\<forall>d \<in> set ds. machine_topic tc n (channel d) \<and> onlineChannel d = online_topic tc n"
    and "\<forall>(u, m) \<in> set ns. \<not> machine_topic tc n u \<and> u \<noteq> online_topic tc n"
  shows "shows_payloads dump (ms @ ns) ds"
proof -
  have "retained (ms @ ns) u = retained ms u" if "machine_topic tc n u \<or> u = online_topic tc n" for u
    by (rule retained_frame) (use that assms(3) in auto)
  with assms(1,2) show ?thesis by (simp add: shows_payloads_def)
qed

lemma gateway_shownD:
  assumes "gateway_shown tc s" and "n \<in> clients s"
  obtains c where "sm_find (m_dashboardClients s) n = Some c" and "client_shown tc (published (ob_env s)) n c"
    and "data_sets s n = m_dataSets c"
proof -
  from assms(2) obtain c where "sm_find (m_dashboardClients s) n = Some c"
    using sm_find_None_iff by (metis not_None_eq)
  with assms(1) that show thesis by (simp add: gateway_shown_def data_sets_def)
qed

lemma data_sets_topics:
  "gateway_shown tc s \<Longrightarrow> \<forall>d \<in> set (data_sets s n). machine_topic tc n (channel d) \<and> onlineChannel d = online_topic tc n"
  by (cases "sm_find (m_dashboardClients s) n") (auto simp: gateway_shown_def data_sets_def client_shown_def)

lemma publish_one:
  assumes G: "gateway_shown tc s" and plain: "plain_machines s" and n: "n \<in> clients s"
    and run: "at_client n (Publish dump) s = (r, t)"
  obtains ns where "published (ob_env t) = published (ob_env s) @ ns" and "\<forall>x \<in> set ns. message_of tc n x"
    and "gateway_shown tc t" and "clients t = clients s" and "data_sets t = data_sets s"
    and "(\<forall>d \<in> set (data_sets s n). serializable dump d) \<longrightarrow> r = Inr ()"
    and "shows_payloads dump (published (ob_env t)) (data_sets s n)"
proof -
  obtain c where c: "sm_find (m_dashboardClients s) n = Some c" "client_shown tc (published (ob_env s)) n c"
    "data_sets s n = m_dataSets c" by (rule gateway_shownD [OF G n])
  let ?d = "\<lparr>env = ob_env s, client = c\<rparr>"
  obtain u where pub: "Publish dump ?d = (r, u)" and t: "t = s\<lparr>ob_env := env u,
      m_dashboardClients := sm_assign n (client u) (m_dashboardClients s)\<rparr>"
    using run c(1) by (auto simp: at_client_def zoom_def split: prod.splits)
  have shown: "client_shown tc (published (env ?d)) n (client ?d)" using c(2) by simp
  from Publish_machine [OF shown pub] obtain ns where
    ns: "published (env u) = published (ob_env s) @ ns" "\<forall>x \<in> set ns. message_of tc n x"
    and u: "client_shown tc (published (env u)) n (client u)" "m_dataSets (client u) = m_dataSets c"
      "(\<forall>d \<in> set (m_dataSets c). serializable dump d) \<longrightarrow> r = Inr ()"
      "shows_payloads dump (published (env u)) (m_dataSets c)"
    by (auto simp: message_of_def shows_payloads_def)
  have ok: "sm_ok (m_dashboardClients s)" using G by (simp add: gateway_shown_def)
  have "client_shown tc (published (env u)) m c'" if m: "sm_find (m_dashboardClients s) m = Some c'" "m \<noteq> n" for m c'
  proof -
    have "NodeId_plain m" "NodeId_plain n"
      using plain n sm_find_Some_key [OF m(1)] by (auto simp: plain_machines_def)
    then have "\<forall>(w, x) \<in> set ns. \<not> machine_topic tc m w"
      using message_of_other [of n m] ns(2) m(2) by blast
    moreover have "client_shown tc (published (ob_env s)) m c'" using G m(1) by (simp add: gateway_shown_def)
    ultimately show ?thesis unfolding ns(1) by (intro client_shown_frame)
  qed
  then have "gateway_shown tc t"
    using G ok u(1) by (auto simp: gateway_shown_def t smap_simps)
  moreover have "data_sets t = data_sets s"
    by (rule ext) (simp add: data_sets_def t smap_simps ok c(1) u(2))
  ultimately show thesis
    using that [of ns] ns u c(3) n by (simp add: t insert_absorb)
qed

lemma publish_all:
  assumes "gateway_shown tc s" and "plain_machines s" and "set ns \<subseteq> clients s"
    and "for_each ns (\<lambda>n. at_client n (Publish dump)) s = (r, t)"
  shows "gateway_shown tc t \<and> clients t = clients s \<and> data_sets t = data_sets s \<and>
    (\<exists>ms. published (ob_env t) = published (ob_env s) @ ms \<and> (\<forall>x \<in> set ms. \<exists>n \<in> set ns. message_of tc n x)) \<and>
    ((\<forall>n \<in> set ns. \<forall>d \<in> set (data_sets s n). serializable dump d) \<longrightarrow>
       r = Inr () \<and> (\<forall>n \<in> set ns. shows_payloads dump (published (ob_env t)) (data_sets s n)))"
  using assms
proof (induction ns arbitrary: s)
  case Nil
  then show ?case by (simp add: ret_def)
next
  case (Cons n ns)
  obtain x u where one: "at_client n (Publish dump) s = (x, u)" by fastforce
  from Cons.prems(3) have n: "n \<in> clients s" by simp
  from publish_one [OF Cons.prems(1,2) n one] obtain ms where
    ms: "published (ob_env u) = published (ob_env s) @ ms" "\<forall>x \<in> set ms. message_of tc n x"
    and u: "gateway_shown tc u" "clients u = clients s" "data_sets u = data_sets s"
    and ok: "(\<forall>d \<in> set (data_sets s n). serializable dump d) \<longrightarrow> x = Inr ()"
    and shown: "shows_payloads dump (published (ob_env u)) (data_sets s n)" by blast
  show ?case
  proof (cases x)
    case (Inl e)
    with one Cons.prems(4) have "t = u \<and> r = Inl e" by (simp add: seq_def)
    with Inl ms u ok show ?thesis by auto
  next
    case (Inr y)
    with one Cons.prems(4) have rest: "for_each ns (\<lambda>n. at_client n (Publish dump)) u = (r, t)" by (simp add: seq_def)
    have "plain_machines u" "set ns \<subseteq> clients u"
      using Cons.prems(2,3) u(2) by (auto simp: plain_machines_def)
    note IH = Cons.IH [OF u(1) this rest, unfolded u(2,3)]
    then obtain ms' where ms': "published (ob_env t) = published (ob_env u) @ ms'"
      "\<forall>x \<in> set ms'. \<exists>m \<in> set ns. message_of tc m x" by blast
    have "shows_payloads dump (published (ob_env t)) (data_sets s n)" if "n \<notin> set ns"
      unfolding ms'(1)
    proof (rule shows_payloads_frame [OF shown data_sets_topics [OF Cons.prems(1)]])
      have "NodeId_plain m \<and> NodeId_plain n" if "m \<in> set ns" for m
        using Cons.prems(2,3) that by (auto simp: plain_machines_def)
      then show "\<forall>(w, z) \<in> set ms'. \<not> machine_topic tc n w \<and> w \<noteq> online_topic tc n"
        using ms'(2) message_of_other \<open>n \<notin> set ns\<close> by blast
    qed
    with IH ms ms' show ?thesis by (auto simp: ms)
  qed
qed

text \<open>The lists go to topics of their own.\<close>

definition env_extends :: "(string \<Rightarrow> bool) \<Rightarrow> 'w env \<Rightarrow> 'w env \<Rightarrow> bool" where
  "env_extends f e e' \<longleftrightarrow> (\<exists>ms. e' = e\<lparr>published := published e @ ms\<rparr> \<and> (\<forall>(u, m) \<in> set ms. f u))"

lemma env_extends_refl: "env_extends f e e"
  by (auto simp: env_extends_def intro: exI [of _ "[]"])

lemma env_extends_trans: "env_extends f e e' \<Longrightarrow> env_extends f e' e'' \<Longrightarrow> env_extends f e e''"
  unfolding env_extends_def by (elim exE conjE, rule exI [of _ "a @ b" for a b]) auto

lemma PublishMachinesList_topics:
  assumes "\<And>spec. f (g spec)"
  shows "runs (env_extends f e) (\<lambda>_. True) (\<lambda>_. True) (PublishMachinesList_Publish dump g p)"
proof -
  have send: "runs (env_extends f e) (\<lambda>_. True) (\<lambda>_. True) (env_send (g spec) m)" for spec m
    unfolding env_send_def
  proof (rule runs_update)
    fix e' assume "env_extends f e e'"
    moreover have "env_extends f e' (e'\<lparr>published := published e' @ [(g spec, m)]\<rparr>)"
      unfolding env_extends_def using assms by (intro exI [of _ "[(g spec, m)]"]) simp
    ultimately show "env_extends f e (e'\<lparr>published := published e' @ [(g spec, m)]\<rparr>)"
      by (rule env_extends_trans)
  qed simp
  show ?thesis
    unfolding PublishMachinesList_Publish_def
    by (auto intro!: runs_seq_any runs_for_each runs_if runs_ret runs_lift_sum send split: prod.splits)
qed

lemma gateway_shown_lists:
  assumes "gateway_shown tc s" and "env_extends (list_topic tc) (ob_env s) e"
  shows "gateway_shown tc (s\<lparr>ob_env := e\<rparr>)"
proof -
  obtain ms where e: "e = (ob_env s)\<lparr>published := published (ob_env s) @ ms\<rparr>" "\<forall>(u, m) \<in> set ms. list_topic tc u"
    using assms(2) by (auto simp: env_extends_def)
  have "client_shown tc (published (ob_env s) @ ms) n c" if "client_shown tc (published (ob_env s)) n c" for n c
    by (rule client_shown_frame [OF that]) (use e(2) machine_topic_other in blast)
  with assms(1) show ?thesis by (simp add: gateway_shown_def e(1))
qed

text \<open>The publication of the lists, as a change of the environment only.\<close>

lemma publishMachinesList_env:
  assumes "topics s = tc" and "publishMachinesList dump s = (r, t)"
  shows "\<exists>e. t = s\<lparr>ob_env := e\<rparr> \<and> env_extends (list_topic tc) (ob_env s) e"
proof -
  let ?P = "\<lambda>x. topics x = tc \<and> (\<exists>e. x = s\<lparr>ob_env := e\<rparr> \<and> env_extends (list_topic tc) (ob_env s) e)"
  have "runs ?P (\<lambda>_. True) (\<lambda>_. True) (on_env (PublishMachinesList_Publish dump g p))"
    if "\<And>spec. list_topic tc (g spec)" for g p
    unfolding on_env_def
    by (rule runs_zoom [OF PublishMachinesList_topics [of "list_topic tc" g "ob_env s", OF that]]) auto
  then have "runs ?P (\<lambda>_. True) (\<lambda>_. True) (publishMachinesList dump)"
    unfolding publishMachinesList_def
    by (intro runs_seq_any runs_reads runs_lift_sum TrueI runs_seq [where R = "\<lambda>x. x = tc"])
      (auto simp: list_topic_def)
  moreover have "?P s"
    by (intro conjI exI [of _ "ob_env s"]) (simp_all add: env_extends_refl assms(1))
  ultimately have "?P t" using runsD [of ?P "\<lambda>_. True" "\<lambda>_. True" "publishMachinesList dump" s r t] assms(2) by blast
  then show ?thesis by blast
qed

text \<open>The messages of the gateway, machine by machine and list by list.\<close>

definition gateway_message :: "topic_config \<Rightarrow> string \<times> string \<Rightarrow> bool" where
  "gateway_message tc x \<longleftrightarrow> (\<exists>n. message_of tc n x) \<or> list_topic tc (fst x)"

definition sends_more :: "topic_config \<Rightarrow> 'w dashboard_observer \<Rightarrow> 'w dashboard_observer \<Rightarrow> bool" where
  "sends_more tc s t \<longleftrightarrow>
     (\<exists>ms. published (ob_env t) = published (ob_env s) @ ms \<and> (\<forall>x \<in> set ms. gateway_message tc x))"

lemma sends_more_refl: "published (ob_env t) = published (ob_env s) \<Longrightarrow> sends_more tc s t"
  by (auto simp: sends_more_def)

lemma sends_more_trans: "sends_more tc s t \<Longrightarrow> sends_more tc t u \<Longrightarrow> sends_more tc s u"
  unfolding sends_more_def by (elim exE conjE, rule exI [of _ "a @ b" for a b]) auto

lemma PublishAll_shown:
  assumes G: "gateway_shown tc s" and plain: "plain_machines s" and run: "PublishAll dump s = (r, t)"
  shows "gateway_shown tc t \<and> clients t = clients s \<and> data_sets t = data_sets s \<and> sends_more tc s t \<and>
    ((\<forall>n \<in> clients s. \<forall>d \<in> set (data_sets s n). serializable dump d) \<longrightarrow>
       (\<forall>n \<in> clients s. shows_payloads dump (published (ob_env t)) (data_sets s n)))"
proof -
  have all: "gateway_shown tc u \<and> clients u = clients s \<and> data_sets u = data_sets s \<and> sends_more tc s u \<and>
    ((\<forall>n \<in> clients s. \<forall>d \<in> set (data_sets s n). serializable dump d) \<longrightarrow>
       x = Inr () \<and> (\<forall>n \<in> clients s. shows_payloads dump (published (ob_env u)) (data_sets s n)))"
    if "for_each (sm_keys (m_dashboardClients s)) (\<lambda>n. at_client n (Publish dump)) s = (x, u)" for x u
  proof -
    note P = publish_all [OF G plain order_refl that]
    then have "sends_more tc s u" unfolding sends_more_def gateway_message_def by blast
    with P show ?thesis by blast
  qed
  have count: "gateway_shown tc (u\<lparr>m_publishMachinesOnline := c\<rparr>) = gateway_shown tc u"
    "data_sets (u\<lparr>m_publishMachinesOnline := c\<rparr>) = data_sets u" "data_sets (u\<lparr>ob_env := e\<rparr>) = data_sets u"
    for u :: "'a dashboard_observer" and c e
    by (simp_all add: gateway_shown_def data_sets_def fun_eq_iff)
  from run show ?thesis
  proof (cases rule: PublishAll_cases)
    case (machine e)
    from all [OF machine(2)] show ?thesis by auto
  next
    case (quiet u)
    from all [OF quiet(3)] show ?thesis by (simp add: quiet(4) count) (auto simp: sends_more_def)
  next
    case (lists u x v)
    let ?u = "u\<lparr>m_publishMachinesOnline := m_publishMachinesOnline s + 1\<rparr>"
    note u = all [OF lists(2)]
    then have tc: "topics ?u = tc" and G': "gateway_shown tc ?u" by (simp_all add: count) (simp add: gateway_shown_def)
    obtain e where v: "v = ?u\<lparr>ob_env := e\<rparr>" and ext: "env_extends (list_topic tc) (ob_env ?u) e"
      using publishMachinesList_env [OF tc lists(3)] by blast
    obtain ms where ms: "published e = published (ob_env u) @ ms" "\<forall>(w, m) \<in> set ms. list_topic tc w"
      using ext by (auto simp: env_extends_def)
    have "shows_payloads dump (published e) (data_sets s n)" if "shows_payloads dump (published (ob_env u)) (data_sets s n)" for n
      unfolding ms(1)
      by (rule shows_payloads_frame [OF that data_sets_topics [OF G]])
        (use ms(2) machine_topic_other online_topic_not_list in blast)
    moreover have "sends_more tc u v"
      using ms by (auto simp: sends_more_def v gateway_message_def)
    moreover have "gateway_shown tc v" using gateway_shown_lists [OF G' ext] by (simp add: v)
    ultimately have "gateway_shown tc v \<and> clients v = clients s \<and> data_sets v = data_sets s \<and> sends_more tc s v \<and>
      ((\<forall>n \<in> clients s. \<forall>d \<in> set (data_sets s n). serializable dump d) \<longrightarrow>
         (\<forall>n \<in> clients s. shows_payloads dump (published (ob_env v)) (data_sets s n)))"
      using u sends_more_trans [of tc s u v] by (auto simp: v count)
    with lists(5) show ?thesis by (cases x) (simp_all add: count sends_more_def)
  qed
qed

section \<open>Adding, removing and updating machines\<close>

text \<open>A new client sends nothing and ends with at most one data set, that of its machine.\<close>

definition quiet_view where
  "quiet_view s = (published (env s), m_dataSets (client s), m_latestMessages (client s))"

lemma keeps_quiet [keeps_rules]:
  "keeps quiet_view (on_world m)" "keeps quiet_view fresh_ptr"
  "keeps quiet_view (on_client (\<lambda>c. c\<lparr>browsedNodes := f c\<rparr>))"
  "keeps quiet_view (on_client (\<lambda>c. c\<lparr>browsedNodesChildNodes := g c\<rparr>))"
  "keeps quiet_view (on_client (\<lambda>c. c\<lparr>m_subscribedValues := h c\<rparr>))"
  unfolding on_world_def fresh_ptr_def on_client_def by (intro keeps_rules; simp add: quiet_view_def)+

lemma keeps_quiet_placeholder:
  assumes "\<And>n t. keeps quiet_view (transform n t)"
  shows "keeps quiet_view (preparePlaceholderNodesTypeId D ts transform rs insts)"
proof (induction rs arbitrary: insts)
  case (Cons r rs)
  show ?case unfolding preparePlaceholderNodesTypeId.simps
    by (intro keeps_rules assms Cons)
qed (simp add: keeps_basic)

lemma keeps_quiet_body:
  assumes "\<And>n t. keeps quiet_view (transform n t)"
  shows "keeps quiet_view (TransformToNodeIds_body D ts transform n t)"
proof -
  have one: "keeps quiet_view (OptionalAndMandatoryTransformToNodeId D ts transform n found c)" for found c
    unfolding OptionalAndMandatoryTransformToNodeId_def Let_def
    by (intro keeps_rules assms) (auto split: exn.splits if_splits intro: keeps_rules)
  have placeholder: "keeps quiet_view (OptionalAndMandatoryPlaceholderTransformToNodeId D ts transform n found c)" for found c
    unfolding OptionalAndMandatoryPlaceholderTransformToNodeId_def BrowsePlaceholder_def Let_def
    by (intro keeps_rules assms keeps_quiet_placeholder) (auto split: if_splits intro: keeps_rules)
  have "keeps quiet_view (transform_children D ts transform n cs found)" for cs found
    by (induction cs arbitrary: found)
      (auto intro!: keeps_rules one placeholder split: ModellingRule_t.splits)
  then show ?thesis
    unfolding TransformToNodeIds_body_def Let_def by (intro keeps_rules)
qed

lemma keeps_quiet_transform: "keeps quiet_view (TransformToNodeIds D ts fuel n t)"
  by (induction fuel arbitrary: n t) (auto intro: keeps_rules keeps_quiet_body)

lemma keeps_quiet_subscribe: "keeps quiet_view (subscribeValues D sid n)"
proof -
  have one: "keeps quiet_view (subscribeValue D sid n)" for sid n
    unfolding subscribeValue_def by (intro keeps_rules) (auto intro: keeps_rules)
  show ?thesis
    unfolding keeps_def by (intro allI runs_subscribeValues(1) one [unfolded keeps_def, THEN spec])
qed

lemma addDataSet_quiet:
  assumes "addDataSet D ts fuel start t chan onl s = (r, u)"
  shows "published (env u) = published (env s) \<and> m_latestMessages (client u) = m_latestMessages (client s) \<and>
    (m_dataSets (client u) = m_dataSets (client s) \<or>
     (\<exists>d. m_dataSets (client u) = m_dataSets (client s) @ [d] \<and> channel d = chan \<and> onlineChannel d = onl))"
proof -
  obtain x v where prep: "prepareDataSetStorage D ts fuel start t chan onl s = (x, v)" by fastforce
  have "keeps quiet_view (prepareDataSetStorage D ts fuel start t chan onl)"
    unfolding prepareDataSetStorage_def by (intro keeps_rules keeps_quiet_transform)
  from keepsD [OF this prep] have v: "quiet_view v = quiet_view s" .
  show ?thesis
  proof (cases x)
    case (Inl e)
    with assms prep have "u = v"
      by (auto simp: addDataSet_def try_catch_def seq_def ret_def raise_def split: abrupt.splits if_splits)
    with v show ?thesis by (simp add: quiet_view_def)
  next
    case (Inr d)
    obtain y w where sub: "subscribeValues D (storage_ptr d) (dsNode d) v = (y, w)" by fastforce
    have d: "channel d = chan \<and> onlineChannel d = onl"
      using prep Inr by (auto simp: prepareDataSetStorage_def seq_def ret_def split: prod.splits sum.splits)
    from keepsD [OF keeps_quiet_subscribe sub] v have w: "quiet_view w = quiet_view s" by simp
    have "u = w \<or> u = w\<lparr>client := (client w)\<lparr>m_dataSets := m_dataSets (client w) @ [d]\<rparr>\<rparr>"
      using assms prep Inr sub
      by (cases y) (auto simp: addDataSet_def try_catch_def seq_def ret_def raise_def on_client_def update_def
          split: abrupt.splits if_splits)
    with w d show ?thesis by (auto simp: quiet_view_def)
  qed
qed

text \<open>The invariant with the messages so far fixed: what the update of the machines keeps.\<close>

definition quiet_gateway :: "topic_config \<Rightarrow> (string \<times> string) list \<Rightarrow> 'w dashboard_observer \<Rightarrow> bool" where
  "quiet_gateway tc ms s \<longleftrightarrow> gateway_shown tc s \<and> published (ob_env s) = ms"

abbreviation quietly :: "topic_config \<Rightarrow> (string \<times> string) list \<Rightarrow> ('w, 'a) mact \<Rightarrow> bool" where
  "quietly tc ms \<equiv> runs (quiet_gateway tc ms) (\<lambda>_. True) (\<lambda>_. True)"

lemma Unsubscribe_quiet:
  "Unsubscribe D s = (r, u) \<Longrightarrow> published (env u) = published (env s) \<and>
     m_latestMessages (client u) = m_latestMessages (client s) \<and>
     (m_dataSets (client u) = [] \<or> m_dataSets (client u) = m_dataSets (client s))"
  by (auto simp: Unsubscribe_def on_client_def on_world_def Let_def act_defs split: prod.splits sum.splits)

lemma quiet_gateway_clients:
  "quiet_gateway tc ms s \<Longrightarrow> client_shown tc ms n c \<Longrightarrow>
     quiet_gateway tc ms (s\<lparr>m_dashboardClients := sm_insert n c (m_dashboardClients s)\<rparr>)"
  "quiet_gateway tc ms s \<Longrightarrow> quiet_gateway tc ms (s\<lparr>m_dashboardClients := sm_erase n (m_dashboardClients s)\<rparr>)"
  by (auto simp: quiet_gateway_def gateway_shown_def smap_simps split: if_splits option.splits)

lemma quiet_gateway_free:
  "quiet_gateway tc ms (s\<lparr>m_onlineMachines := i\<rparr>) = quiet_gateway tc ms s"
  "quiet_gateway tc ms (s\<lparr>m_machineNames := j\<rparr>) = quiet_gateway tc ms s"
  "quiet_gateway tc ms (s\<lparr>m_knownMachines := k\<rparr>) = quiet_gateway tc ms s"
  by (simp_all add: quiet_gateway_def gateway_shown_def)

lemma quiet_gateway_env:
  "published e = published (ob_env s) \<Longrightarrow> quiet_gateway tc ms (s\<lparr>ob_env := e\<rparr>) = quiet_gateway tc ms s"
  by (simp add: quiet_gateway_def gateway_shown_def)

lemma quietly_drop_client: "quietly tc ms (drop_client D n)"
proof (rule runsI)
  fix s t :: "'a dashboard_observer" and r
  assume P: "quiet_gateway tc ms s" and run: "drop_client D n s = (r, t)"
  have "quiet_gateway tc ms t"
  proof (cases "sm_find (m_dashboardClients s) n")
    case None
    with run P show ?thesis by (simp add: drop_client_def ret_def)
  next
    case (Some c)
    obtain x u where un: "Unsubscribe D \<lparr>env = ob_env s, client = c\<rparr> = (x, u)" by fastforce
    note u = Unsubscribe_quiet [OF un, simplified]
    let ?s = "s\<lparr>ob_env := env u, m_dashboardClients := sm_assign n (client u) (m_dashboardClients s)\<rparr>"
    have "client_shown tc ms n c" using P Some by (auto simp: quiet_gateway_def gateway_shown_def)
    then have "client_shown tc ms n (client u)" using u by (auto simp: client_shown_def)
    with P u have "quiet_gateway tc ms ?s"
      by (auto simp: quiet_gateway_def gateway_shown_def smap_simps split: if_splits)
    moreover have "at_client n (Unsubscribe D) s = (x, ?s)"
      using un Some by (simp add: at_client_def zoom_def)
    ultimately show ?thesis
      using run Some quiet_gateway_clients(2) [of tc ms ?s n]
      by (cases x) (auto simp: drop_client_def seq_def reads_def update_def)
  qed
  then show "quiet_gateway tc ms t \<and> (case r of Inl e \<Rightarrow> True | Inr x \<Rightarrow> True)" by (simp split: sum.splits)
qed

lemma quietly_removeMachine: "quietly tc ms (dmo_removeMachine D n)"
  unfolding dmo_removeMachine_eq
  by (intro runs_seq_any runs_update quietly_drop_client TrueI) (simp_all add: quiet_gateway_free)

lemma new_client_shown:
  assumes "machine_topic tc n chan" and "onl = online_topic tc n"
  shows "runs (quiet_gateway tc ms) (\<lambda>_. True) (client_shown tc ms n)
     (with_new_client DashboardClient_new (addDataSet D ts fuel start t chan onl))"
proof (rule runsI)
  fix s s' :: "'a dashboard_observer" and r
  assume P: "quiet_gateway tc ms s"
    and run: "with_new_client DashboardClient_new (addDataSet D ts fuel start t chan onl) s = (r, s')"
  obtain x u where add: "addDataSet D ts fuel start t chan onl \<lparr>env = ob_env s, client = DashboardClient_new\<rparr> = (x, u)"
    by fastforce
  note u = addDataSet_quiet [OF add, simplified]
  have s': "s' = s\<lparr>ob_env := env u\<rparr>" and r: "r = (case x of Inl e \<Rightarrow> Inl e | Inr y \<Rightarrow> Inr (client u))"
    using run add by (cases x; simp add: with_new_client_def)+
  have "client_shown tc ms n (client u)"
    using u assms by (auto simp: client_shown_def DashboardClient_new_def)
  moreover have "quiet_gateway tc ms s'" using P u by (simp add: s' quiet_gateway_env)
  ultimately show "quiet_gateway tc ms s' \<and> (case r of Inl e \<Rightarrow> True | Inr y \<Rightarrow> client_shown tc ms n y)"
    by (simp add: r split: sum.splits)
qed

lemma proper_type_name:
  "proper_types reader \<Longrightarrow> typeDefinitionToStructureNode reader t = Inr i \<Longrightarrow>
   proper_name (qName (SpecifiedBrowseName (sn_at (heap reader) i)))"
  by (auto simp: proper_types_def list_all_iff typeDefinitionToStructureNode_def dest!: sm_find_mem split: option.splits)

lemma quietly_addMachine: "quietly tc ms (dmo_addMachine D fuel m)"
  unfolding dmo_addMachine_eq
  apply (rule runs_try_catch [where A' = "\<lambda>_. True"])
     apply (intro runs_if runs_ret TrueI)
     apply (rule runs_seq_any, rule runs_reads, rule TrueI)
     apply (rule runs_seq [OF runs_reads [where Q = proper_types]])
      apply (simp add: quiet_gateway_def gateway_shown_def)
  subgoal for par reader
    apply (rule runs_seq [OF runs_lift_sum
        [where Q = "\<lambda>i. proper_name (qName (SpecifiedBrowseName (sn_at (heap reader) i)))"] runs_seq_any
        [OF quietly_drop_client runs_seq [OF runs_reads [where Q = "\<lambda>x. x = tc"] runs_seq [OF new_client_shown]]]])
          apply simp
         apply (erule (1) proper_type_name)
        apply (simp add: quiet_gateway_def gateway_shown_def)
       apply (auto simp: machine_topic_def online_topic_def quiet_gateway_clients quiet_gateway_free intro!: runs_update)
    done
  apply (auto intro: runs_raise)
  done

interpretation quiet_search: search_view "quiet_gateway tc ms" for tc ms
  by unfold_locales (auto simp: quiet_gateway_def gateway_shown_def proper_types_def)

interpretation quiet: observer_invariant "quiet_gateway tc ms" "dmo_methods D fuel" for tc ms D fuel
proof
  show "quietly tc ms (vm_isOnline (dmo_methods D fuel) n t)" for n t
    using keeps_isOnline [OF quiet_search.search_view_axioms, of tc ms D n t]
    by (auto simp: dmo_methods_def dest: keepsD intro!: runsI split: sum.splits)
qed (auto simp: quiet_gateway_def gateway_shown_def proper_types_def dmo_methods_def
    intro: quietly_removeMachine quietly_addMachine)

section \<open>All runs of the gateway\<close>

text \<open>
  What happens to the observer between two points in time: a round of the update thread, a
  publication of all machines, a value for a machine, and anything that changes the data source
  or the clock. Every outcome counts, exceptions included.
\<close>

inductive gateway_step ::
    "('w, callback) data_client \<Rightarrow> nat \<Rightarrow> (nat \<Rightarrow> json \<Rightarrow> exn + string) \<Rightarrow>
      'w dashboard_observer \<Rightarrow> 'w dashboard_observer \<Rightarrow> bool"
  for D fuel dump where
  updates: "update_tick D fuel cnt s = (r, t) \<Longrightarrow> gateway_step D fuel dump s t"
| publishes: "PublishAll dump s = (r, t) \<Longrightarrow> gateway_step D fuel dump s t"
| value_arrives: "n \<in> clients s \<Longrightarrow> at_client n (on_value cb v) s = (r, t) \<Longrightarrow> gateway_step D fuel dump s t"
| surroundings: "gateway_step D fuel dump s (s\<lparr>ob_env := (ob_env s)\<lparr>world := w, clock := c\<rparr>\<rparr>)"

text \<open>Runs on a server whose machines have ids that their printed form identifies.\<close>

inductive gateway_runs ::
    "('w, callback) data_client \<Rightarrow> nat \<Rightarrow> (nat \<Rightarrow> json \<Rightarrow> exn + string) \<Rightarrow>
      'w dashboard_observer \<Rightarrow> 'w dashboard_observer \<Rightarrow> bool"
  for D fuel dump s where
  start: "gateway_runs D fuel dump s s"
| step: "gateway_runs D fuel dump s t \<Longrightarrow> gateway_step D fuel dump t u \<Longrightarrow> plain_machines u \<Longrightarrow> gateway_runs D fuel dump s u"

lemma on_value_shown:
  assumes "on_value cb v s = (r, t)" and "client_shown tc ms n (client s)"
  shows "env t = env s \<and> client_shown tc ms n (client t)"
proof (cases r)
  case (Inl e)
  with assms show ?thesis
    by (auto simp: on_value_def on_client_def seq_def reads_def update_def undefined_behaviour_def split: if_splits)
next
  case (Inr x)
  with assms(1) have t: "t = s\<lparr>client := (client s)\<lparr>m_dataSets := map (\<lambda>d.
      if storage_ptr d = fst cb then d\<lparr>dsValues := sm_assign (snd cb) v (dsValues d)\<rparr> else d) (m_dataSets (client s))\<rparr>\<rparr>"
    by (auto simp: on_value_def on_client_def seq_def reads_def update_def undefined_behaviour_def split: if_splits)
  show ?thesis using assms(2) by (auto simp: t client_shown_def)
qed

lemma step_shown:
  assumes "gateway_step D fuel dump s t" and "gateway_shown tc s" and "plain_machines s"
  shows "gateway_shown tc t \<and> sends_more tc s t"
  using assms
proof (induction rule: gateway_step.induct)
  case (updates cnt s r t)
  let ?ms = "published (ob_env s)"
  have "quietly tc ?ms (update_tick D fuel cnt)"
    unfolding update_tick_def by (intro runs_seq_any runs_if runs_ret quiet.updates TrueI)
  moreover have "quiet_gateway tc ?ms s" using updates(2) by (simp add: quiet_gateway_def)
  ultimately have "quiet_gateway tc ?ms t" using runsD updates(1) by fast
  then show ?case by (simp add: quiet_gateway_def sends_more_refl)
next
  case (publishes s r t)
  from PublishAll_shown [OF publishes(2,3,1)] show ?case by blast
next
  case (value_arrives n s cb v r t)
  obtain c where c: "sm_find (m_dashboardClients s) n = Some c" "client_shown tc (published (ob_env s)) n c"
    by (rule gateway_shownD [OF value_arrives(3,1)])
  let ?d = "\<lparr>env = ob_env s, client = c\<rparr>"
  obtain u where run: "on_value cb v ?d = (r, u)"
    and t: "t = s\<lparr>ob_env := env u, m_dashboardClients := sm_assign n (client u) (m_dashboardClients s)\<rparr>"
    using value_arrives(2) c(1) by (auto simp: at_client_def zoom_def split: prod.splits)
  have "env u = ob_env s \<and> client_shown tc (published (ob_env s)) n (client u)"
    using on_value_shown [OF run] c(2) by auto
  with value_arrives(3) show ?case
    by (auto simp: t gateway_shown_def smap_simps sends_more_refl split: if_splits)
next
  case (surroundings s w c)
  then show ?case by (simp add: gateway_shown_def sends_more_refl)
qed

lemma runs_shown:
  assumes "gateway_runs D fuel dump s t" and "gateway_shown tc s" and "plain_machines s"
  shows "gateway_shown tc t \<and> plain_machines t \<and> sends_more tc s t"
  using assms
proof (induction rule: gateway_runs.induct)
  case start
  then show ?case by (simp add: sends_more_refl)
next
  case (step t u)
  with step_shown [OF step.hyps(2)] sends_more_trans show ?case by blast
qed

lemma new_observer_shown:
  "proper_types reader \<Longrightarrow> gateway_shown tc (DashboardMachineObserver_new e reader flt tc) \<and>
     plain_machines (DashboardMachineObserver_new e reader flt tc)"
  by (simp add: gateway_shown_def plain_machines_def DashboardMachineObserver_new_def)

lemma retained_is_latest:
  assumes "proper_types reader" and "gateway_runs D fuel dump (DashboardMachineObserver_new e reader flt tc) s"
    and "sm_find (m_dashboardClients s) n = Some c" and "sm_find (m_latestMessages c) t = Some lm"
  shows "retained (published (ob_env s)) t = Some (lmPayload lm)"
proof -
  have "gateway_shown tc s" using runs_shown [OF assms(2)] new_observer_shown [OF assms(1)] by blast
  with assms(3) have "client_shown tc (published (ob_env s)) n c" by (simp add: gateway_shown_def)
  with assms(4) show ?thesis by (simp add: client_shown_def)
qed


text \<open>A server with one machine while its state is true, and none otherwise.\<close>

definition switched_client :: "(bool, callback) data_client" where
  "switched_client =
     \<lparr>dc_Browse = (\<lambda>n c. reads (\<lambda>w. if n = NodeId_MachinesFolder \<and> w then [plant_machine node_A] else [])),
      dc_isSameOrSubtype = (\<lambda>a b m. ret True),
      dc_BrowseWithResultTypeFilter = (\<lambda>n c t. ret [plant_machine plant_ident]),
      dc_TranslateBrowsePathToNodeId = (\<lambda>n q. ret (NodeId '''' '''')),
      dc_readNodeBrowseName = (\<lambda>n. ret ''name''), dc_getTypeName = (\<lambda>n. ret ''type''),
      dc_Subscribe = (\<lambda>n cb. ret None), dc_Unsubscribe = (\<lambda>a b. ret ()), dc_ReadeNodeValues = (\<lambda>ns. ret []),
      dc_Namespaces = ret [], dc_VerifyConnection = ret True\<rparr>"

definition switched_dump :: "nat \<Rightarrow> json \<Rightarrow> exn + string" where
  "switched_dump indent j = Inr ''x''"

definition switched_new :: "bool dashboard_observer" where
  "switched_new = DashboardMachineObserver_new \<lparr>world = True, published = [], clock = 100, next_ptr = 0\<rparr>
     plant_reader [] \<lparr>Prefix = ''p'', ClientId = ''c''\<rparr>"

definition switched_found :: "bool dashboard_observer" where
  "switched_found = snd (update_tick switched_client 1 0 switched_new)"

definition switched_published :: "bool dashboard_observer" where
  "switched_published = snd (PublishAll switched_dump switched_found)"

definition switched_off :: "bool dashboard_observer" where
  "switched_off = switched_published\<lparr>ob_env := (ob_env switched_published)\<lparr>world := False, clock := 110\<rparr>\<rparr>"

definition switched_gone :: "bool dashboard_observer" where
  "switched_gone = snd (update_tick switched_client 1 10 switched_off)"

lemma switched_types: "proper_types plant_reader"
  by code_simp

lemma switched_clients:
  "clients switched_found = {node_A}" "clients switched_published = {node_A}" "clients switched_gone = {}"
  by code_simp+


lemma switched_run:
  "gateway_runs switched_client 1 switched_dump switched_new switched_found"
  "gateway_runs switched_client 1 switched_dump switched_new switched_published"
  "gateway_runs switched_client 1 switched_dump switched_published switched_gone"
proof -
  have plain: "NodeId_plain node_A" by (simp add: node_A_def NodeId_plain_def)
  have "gateway_step switched_client 1 switched_dump switched_new switched_found"
    unfolding switched_found_def by (rule gateway_step.updates [OF prod.collapse [symmetric]])
  with gateway_runs.start show found: "gateway_runs switched_client 1 switched_dump switched_new switched_found"
    by (rule gateway_runs.step) (simp add: plain_machines_def switched_clients plain)
  have "gateway_step switched_client 1 switched_dump switched_found switched_published"
    unfolding switched_published_def by (rule gateway_step.publishes [OF prod.collapse [symmetric]])
  with found show "gateway_runs switched_client 1 switched_dump switched_new switched_published"
    by (rule gateway_runs.step) (simp add: plain_machines_def switched_clients plain)
  have "gateway_step switched_client 1 switched_dump switched_published switched_off"
    unfolding switched_off_def by (rule gateway_step.surroundings)
  with gateway_runs.start have off: "gateway_runs switched_client 1 switched_dump switched_published switched_off"
    by (rule gateway_runs.step) (simp add: plain_machines_def switched_off_def switched_clients plain)
  have "gateway_step switched_client 1 switched_dump switched_off switched_gone"
    unfolding switched_gone_def by (rule gateway_step.updates [OF prod.collapse [symmetric]])
  with off show "gateway_runs switched_client 1 switched_dump switched_published switched_gone"
    by (rule gateway_runs.step) (simp add: plain_machines_def switched_clients)
qed


text \<open>
  The documentation of the online topic of a machine (\<^verbatim>\<open>doc/publishing_documentation.md\<close>,
  \<^verbatim>\<open>Online detection per machine instance\<close>: payload 1 or 0, online and offline detection): the
  topic shows 1 for machines that are online only, where online is to have a client.
\<close>

definition online_as_documented :: "topic_config \<Rightarrow> 'w dashboard_observer \<Rightarrow> bool" where
  "online_as_documented tc s \<longleftrightarrow>
     (\<forall>n. retained (published (ob_env s)) (Topics_OnlineStatus tc (NodeId_to_string n)) = Some ''1'' \<longrightarrow> n \<in> clients s)"

text \<open>
  C11: the code does not provide the offline detection that the documentation of the online topic
  promises (payload 1 or 0). It never publishes a 0: once the broker shows 1 on the online topic of a
  machine, it shows 1 there in every later state, whatever happens, including rounds that remove the
  machine because the server no longer has it or no longer answers. So every state in which a
  machine that was published has no client contradicts the documentation. A receiver can notice
  the loss only by the absence of the message that \<^verbatim>\<open>PublishAll\<close> repeats every second.
\<close>

theorem online_never_cleared:
  assumes "proper_types reader" and "gateway_runs D fuel dump (DashboardMachineObserver_new e reader flt tc) s"
    and "gateway_runs D fuel dump s t"
    and "retained (published (ob_env s)) (Topics_OnlineStatus tc (NodeId_to_string n)) = Some ''1''"
  shows "retained (published (ob_env t)) (Topics_OnlineStatus tc (NodeId_to_string n)) = Some ''1'' \<and>
    (n \<notin> clients t \<longrightarrow> \<not> online_as_documented tc t)"
proof -
  have "gateway_shown tc s" "plain_machines s"
    using runs_shown [OF assms(2)] new_observer_shown [OF assms(1)] by blast+
  from runs_shown [OF assms(3) this] obtain ms where
    ms: "published (ob_env t) = published (ob_env s) @ ms" "\<forall>x \<in> set ms. gateway_message tc x"
    by (auto simp: sends_more_def)
  have "m = ''1''" if "(online_topic tc n, m) \<in> set ms" for m
    using ms(2) that machine_topic_other online_topic_not_list by (fastforce simp: gateway_message_def message_of_def)
  then have "retained ms (online_topic tc n) = Some m \<Longrightarrow> m = ''1''" for m
    by (auto dest: retained_mem)
  with assms(4) have "retained (published (ob_env t)) (Topics_OnlineStatus tc (NodeId_to_string n)) = Some ''1''"
    by (auto simp: ms(1) retained_append online_topic_def split: option.splits)
  then show ?thesis by (auto simp: online_as_documented_def)
qed

text \<open>A machine that was published and is then taken off the server stays online for the broker.\<close>

theorem online_never_cleared_witness:
  "clients switched_gone = {} \<and>
   retained (published (ob_env switched_gone)) ''p/c/online/nsu=urn:x;s=A'' = Some ''1'' \<and>
   \<not> online_as_documented \<lparr>Prefix = ''p'', ClientId = ''c''\<rparr> switched_gone"
proof -
  have topic: "Topics_OnlineStatus \<lparr>Prefix = ''p'', ClientId = ''c''\<rparr> (NodeId_to_string node_A) = ''p/c/online/nsu=urn:x;s=A''"
    "retained (published (ob_env switched_published)) ''p/c/online/nsu=urn:x;s=A'' = Some ''1''"
    by code_simp+
  from online_never_cleared [OF switched_types switched_run(2) [unfolded switched_new_def] switched_run(3), of node_A] topic
  show ?thesis by (simp add: switched_clients)
qed

end
