(* ===== verification/Value_Flow.thy ===== *)
theory Value_Flow
  imports Opcua_Subscriptions Retained_Messages
begin

text \<open>
  The way of a value, composed from the dashboard client, the OPC UA client and its
  subscription: the dashboard client registers a callback for a node, the server reports a
  value for the monitored item, the value arrives at the node of the data set, and the next
  publication makes it visible at the broker.
\<close>

text \<open>
  A report of the server: \<^verbatim>\<open>createDataChangeCallback\<close> calls the callback that is registered
  for the client handle, which is the one the dashboard client made.
\<close>

definition server_reports ::
    "'w ua_stack \<Rightarrow> 32 word \<Rightarrow> ua_data_value \<Rightarrow> (('w, callback) ua_client, unit) dact" where
  "server_reports S h v =
     seq (reads (\<lambda>s. length (su_delivered (world (env s))))) (\<lambda>n.
     seq (on_world (createDataChangeCallback S h v)) (\<lambda>_.
     seq (reads (\<lambda>s. drop n (su_delivered (world (env s))))) (\<lambda>calls.
     for_each calls (\<lambda>(cb, j). on_value cb j))))"

lemma subscribeValue_accepted:
  assumes "m_pSubscriptionID (world (env s)) = Some sid"
    and "item_answer S sid (simpleNodeId n) (world (env s)) = ((st, m, 1), w)" and "\<not> UA_StatusCode_isBad st"
    and "\<forall>i \<in> set (subscribed_ids (client s)). \<not> NodeId_eq i (simpleNodeId n)"
  shows "\<exists>h c. subscribeValue (OpcUaClient_methods fuel S) ptr n s =
      (Inr (), s\<lparr>env := (env s)\<lparr>world := c\<rparr>,
        client := (client s)\<lparr>m_subscribedValues := m_subscribedValues (client s) @ [Some h]\<rparr>\<rparr>) \<and>
    m_nodeId h = simpleNodeId n \<and>
    m_callbacks c = sm_insert (sint (nextId (world (env s)))) (ptr, node_ptr n) (m_callbacks (world (env s)))"
proof -
  have new: "\<not> (\<exists>v \<in> set (m_subscribedValues (client s)).
      case v of None \<Rightarrow> False | Some h \<Rightarrow> NodeId_eq (m_nodeId h) (simpleNodeId n))"
    using assms(4) by (force simp: subscribed_ids_def split: option.splits)
  let ?h = "\<lparr>m_unsubscribed = False, m_clientHandle = m, m_monitoredItemId = nextId (world (env s)), m_nodeId = simpleNodeId n\<rparr>"
  let ?c = "(world (env s))\<lparr>su_world := w, nextId := nextId (world (env s)) + 1,
    m_callbacks := sm_insert (sint (nextId (world (env s)))) (ptr, node_ptr n) (m_callbacks (world (env s)))\<rparr>"
  have "Subscribe S (simpleNodeId n) (ptr, node_ptr n) (world (env s)) = (Inr (Some ?h), ?c)"
    by (rule Subscribe_accepted [OF assms(1-3)])
  then have "on_world (dc_Subscribe (OpcUaClient_methods fuel S) (simpleNodeId n) (ptr, node_ptr n)) s =
      (Inr (Some ?h), s\<lparr>env := (env s)\<lparr>world := ?c\<rparr>\<rparr>)"
    by (simp add: OpcUaClient_methods_def on_world_def zoom_def)
  with new have "subscribeValue (OpcUaClient_methods fuel S) ptr n s =
      (Inr (), s\<lparr>env := (env s)\<lparr>world := ?c\<rparr>,
        client := (client s)\<lparr>m_subscribedValues := m_subscribedValues (client s) @ [Some ?h]\<rparr>\<rparr>)"
    by (simp add: subscribeValue_def on_client_def seq_def try_catch_def reads_def update_def)
  then show ?thesis by (intro exI [of _ ?h] exI [of _ ?c]) simp
qed

lemma server_reports_run:
  assumes "sm_find (m_callbacks (world (env s))) (sint h) = Some cb" and "UaDataValueToJsonValue (st_lib S) False v = Some j"
  shows "\<exists>c. server_reports S h v s = on_value cb j (s\<lparr>env := (env s)\<lparr>world := c\<rparr>\<rparr>)"
proof -
  let ?c = "(world (env s))\<lparr>su_delivered := su_delivered (world (env s)) @ [(cb, j)]\<rparr>"
  have "createDataChangeCallback S h v (world (env s)) = (Inr (), ?c)"
    using dataChange_repeats_first [OF assms] by blast
  then have "server_reports S h v s = on_value cb j (s\<lparr>env := (env s)\<lparr>world := ?c\<rparr>\<rparr>)"
    by (simp add: server_reports_def on_world_def) (simp add: act_defs)
  then show ?thesis by blast
qed

text \<open>A registered callback writes its value at its node, and nothing else.\<close>

lemma on_value_run:
  assumes "m_dataSets (client s) = [d]"
  shows "on_value (storage_ptr d, p) j s =
    (Inr (), s\<lparr>client := (client s)\<lparr>m_dataSets := [d\<lparr>dsValues := sm_assign p j (dsValues d)\<rparr>]\<rparr>\<rparr>)"
  using assms by (auto simp: on_value_def on_client_def seq_def reads_def update_def)

text \<open>Subscribing a node and a report for it, together.\<close>

lemma subscribed_report:
  assumes "m_pSubscriptionID (world (env s)) = Some sid"
    and "item_answer S sid (simpleNodeId n) (world (env s)) = ((st, m, 1), w)" and "\<not> UA_StatusCode_isBad st"
    and "\<forall>i \<in> set (subscribed_ids (client s)). \<not> NodeId_eq i (simpleNodeId n)"
    and "sm_ok (m_callbacks (world (env s)))" and "sm_find (m_callbacks (world (env s))) (sint (nextId (world (env s)))) = None"
    and "UaDataValueToJsonValue (st_lib S) False v = Some j"
  obtains t x where "subscribeValue (OpcUaClient_methods fuel S) ptr n s = (Inr (), t)"
    and "server_reports S (nextId (world (env s))) v t = on_value (ptr, node_ptr n) j x"
    and "m_dataSets (client x) = m_dataSets (client s)" and "m_latestMessages (client x) = m_latestMessages (client s)"
    and "published (env x) = published (env s)"
proof -
  obtain h c where sub: "subscribeValue (OpcUaClient_methods fuel S) ptr n s =
      (Inr (), s\<lparr>env := (env s)\<lparr>world := c\<rparr>,
        client := (client s)\<lparr>m_subscribedValues := m_subscribedValues (client s) @ [Some h]\<rparr>\<rparr>)" (is "_ = (_, ?t)")
    and cbs: "m_callbacks c = sm_insert (sint (nextId (world (env s)))) (ptr, node_ptr n) (m_callbacks (world (env s)))"
    using subscribeValue_accepted [OF assms(1-4), of fuel ptr] by blast
  have "sm_find (m_callbacks (world (env ?t))) (sint (nextId (world (env s)))) = Some (ptr, node_ptr n)"
    using assms(5,6) by (simp add: cbs smap_simps)
  from server_reports_run [OF this assms(7)] obtain c' where
    rep: "server_reports S (nextId (world (env s))) v ?t = on_value (ptr, node_ptr n) j (?t\<lparr>env := (env ?t)\<lparr>world := c'\<rparr>\<rparr>)"
    by blast
  show thesis by (rule that [OF sub rep]) simp_all
qed

text \<open>
  A value of the server reaches the payload of its machine, among any number of data sets: it
  becomes the value of exactly this node in exactly this data set; all other values of all
  machines stay as they are.
\<close>

theorem reported_value_arrives:
  assumes "m_pSubscriptionID (world (env s)) = Some sid"
    and "item_answer S sid (simpleNodeId n) (world (env s)) = ((st, m, 1), w)" and "\<not> UA_StatusCode_isBad st"
    and "\<forall>i \<in> set (subscribed_ids (client s)). \<not> NodeId_eq i (simpleNodeId n)"
    and "sm_ok (m_callbacks (world (env s)))" and "sm_find (m_callbacks (world (env s))) (sint (nextId (world (env s)))) = None"
    and "UaDataValueToJsonValue (st_lib S) False v = Some j"
    and "d \<in> set (m_dataSets (client s))" and "distinct (map storage_ptr (m_dataSets (client s)))"
    and "\<forall>d \<in> set (m_dataSets (client s)). sm_ok (dsValues d)"
  shows "\<exists>t u. subscribeValue (OpcUaClient_methods fuel S) (storage_ptr d) n s = (Inr (), t) \<and>
    server_reports S (nextId (world (env s))) v t = (Inr (), u) \<and>
    length (m_dataSets (client u)) = length (m_dataSets (client s)) \<and>
    (\<forall>i < length (m_dataSets (client s)). \<forall>p.
      getValueCallback (m_dataSets (client u) ! i) p =
        (if m_dataSets (client s) ! i = d \<and> p = node_ptr n then j
         else getValueCallback (m_dataSets (client s) ! i) p))"
proof -
  obtain t x where t: "subscribeValue (OpcUaClient_methods fuel S) (storage_ptr d) n s = (Inr (), t)"
    and rep: "server_reports S (nextId (world (env s))) v t = on_value (storage_ptr d, node_ptr n) j x"
    and ds: "m_dataSets (client x) = m_dataSets (client s)"
    by (rule subscribed_report [OF assms(1-7)])
  obtain u where u: "on_value (storage_ptr d, node_ptr n) j x = (Inr (), u)"
    "map storage_ptr (m_dataSets (client u)) = map storage_ptr (m_dataSets (client s))"
    "\<forall>i < length (m_dataSets (client s)). \<forall>p. getValueCallback (m_dataSets (client u) ! i) p =
      (if m_dataSets (client s) ! i = d \<and> p = node_ptr n then j else getValueCallback (m_dataSets (client s) ! i) p)"
    using on_value_writes_value [of d x "node_ptr n" j] assms(8-10) unfolding ds by blast
  have "length (m_dataSets (client u)) = length (m_dataSets (client s))"
    using u(2) by (rule map_eq_imp_length_eq)
  with t rep u show ?thesis by simp
qed

text \<open>
  C9: a value of the server reaches the broker. A machine has its data set, the dashboard
  client subscribes a node that it has not subscribed yet over the OPC UA client, the server
  accepts the monitored item, and no callback is registered under the next client handle. When
  the server then reports a value for that handle and \<^verbatim>\<open>Publish\<close> runs, all three calls return.
  The value, converted to JSON, is the value of exactly this node, all other values are
  unchanged, and the retained message of the machine is the text of its payload with this
  value, whether it was sent now or shown before.
\<close>

theorem reported_value_published:
  assumes "m_pSubscriptionID (world (env s)) = Some sid"
    and "item_answer S sid (simpleNodeId n) (world (env s)) = ((st, m, 1), w)" and "\<not> UA_StatusCode_isBad st"
    and "\<forall>i \<in> set (subscribed_ids (client s)). \<not> NodeId_eq i (simpleNodeId n)"
    and "sm_ok (m_callbacks (world (env s)))" and "sm_find (m_callbacks (world (env s))) (sint (nextId (world (env s)))) = None"
    and "UaDataValueToJsonValue (st_lib S) False v = Some j"
    and "client_shown tc (published (env s)) machine (client s)" and "m_dataSets (client s) = [d]" and "sm_ok (dsValues d)"
    and "getJson dump (d\<lparr>dsValues := sm_assign (node_ptr n) j (dsValues d)\<rparr>) = Inr pl" and "pl \<noteq> ''''" and "pl \<noteq> ''null''"
  shows "\<exists>t u x e. subscribeValue (OpcUaClient_methods fuel S) (storage_ptr d) n s = (Inr (), t) \<and>
    server_reports S (nextId (world (env s))) v t = (Inr (), u) \<and> Publish dump u = (Inr (), x) \<and>
    m_dataSets (client x) = [e] \<and> getJson dump e = Inr pl \<and>
    (\<forall>p. getValueCallback e p = (if p = node_ptr n then j else getValueCallback d p)) \<and>
    retained (published (env x)) (channel d) = Some pl \<and> retained (published (env x)) (onlineChannel d) = Some ''1''"
proof -
  let ?e = "d\<lparr>dsValues := sm_assign (node_ptr n) j (dsValues d)\<rparr>"
  obtain t y where t: "subscribeValue (OpcUaClient_methods fuel S) (storage_ptr d) n s = (Inr (), t)"
    and rep: "server_reports S (nextId (world (env s))) v t = on_value (storage_ptr d, node_ptr n) j y"
    and y: "m_dataSets (client y) = m_dataSets (client s)" "m_latestMessages (client y) = m_latestMessages (client s)"
      "published (env y) = published (env s)"
    by (rule subscribed_report [OF assms(1-7)])
  from on_value_run [of y d "node_ptr n" j] y(1) assms(9) obtain u where
    u: "on_value (storage_ptr d, node_ptr n) j y = (Inr (), u)" "m_dataSets (client u) = [?e]"
      "m_latestMessages (client u) = m_latestMessages (client s)" "published (env u) = published (env s)"
    using y(2,3) by simp
  then have shown: "client_shown tc (published (env u)) machine (client u)"
    using assms(8,9) by (simp add: client_shown_def)
  obtain r x where pub: "Publish dump u = (r, x)" by fastforce
  have "to_publish dump ?e = Some pl" "serializable dump ?e"
    using assms(11-13) by (simp_all add: to_publish_def serializable_def)
  moreover have "m_dataSets (client x) = [?e]" and "serializable dump ?e \<longrightarrow> r = Inr ()"
    and "to_publish dump ?e = Some pl \<Longrightarrow> retained (published (env x)) (channel ?e) = Some pl \<and>
      retained (published (env x)) (onlineChannel ?e) = Some ''1''"
    by (rule Publish_machine [OF shown pub]; simp add: u(2))+
  moreover have "getValueCallback ?e p = (if p = node_ptr n then j else getValueCallback d p)" for p
    using assms(10) by (simp add: getValueCallback_def smap_simps)
  ultimately show ?thesis using t rep u(1) pub assms(11)
    by (intro exI [of _ t] exI [of _ u] exI [of _ x] exI [of _ ?e]) auto
qed

text \<open>A machine with one variable, on the server of the examples.\<close>

definition flow_client :: "(string list, callback) ua_client" where
  "flow_client = (ua_client_fields ''opc.tcp://host:4840'' '''' '''' 2 [''urn:a''])\<lparr>m_pSubscriptionID := Some 1\<rparr>"

definition flow_state :: "(string list, callback) ua_client dstate" where
  "flow_state =
     \<lparr>env = \<lparr>world = flow_client, published = [], clock = 0, next_ptr = 20\<rparr>,
      client = DashboardClient_new\<lparr>m_dataSets := [example_dataSet]\<rparr>\<rparr>"

lemma reported_value_arrives_witness:
  "\<exists>t u. subscribeValue (OpcUaClient_methods 1 (example_stack 0)) 9 (dsNode example_dataSet) flow_state = (Inr (), t) \<and>
     server_reports (example_stack 0) 2 \<lparr>dvStatus = 0, dvValue = ScalarVariant (Leaf (LBoolean True))\<rparr> t = (Inr (), u) \<and>
     getValueCallback (m_dataSets (client u) ! 0) (node_ptr (dsNode example_dataSet)) = JBool True"
proof -
  let ?v = "\<lparr>dvStatus = 0, dvValue = ScalarVariant (Leaf (LBoolean True))\<rparr>"
  let ?n = "dsNode example_dataSet"
  have sid: "m_pSubscriptionID (world (env flow_state)) = Some 1" and handle: "nextId (world (env flow_state)) = 2"
    and cbs: "m_callbacks (world (env flow_state)) = []" and ds: "m_dataSets (client flow_state) = [example_dataSet]"
    and none: "subscribed_ids (client flow_state) = []"
    by (simp_all add: flow_state_def flow_client_def ua_client_fields_def subscribed_ids_def DashboardClient_new_def)
  have item: "item_answer (example_stack 0) 1 (simpleNodeId ?n) (world (env flow_state)) = ((0, 40, 1), [''urn:a''])"
    by (simp add: item_answer_def example_stack_def flow_state_def flow_client_def ua_client_fields_def)
  have json: "UaDataValueToJsonValue (st_lib (example_stack 0)) False ?v = Some (JBool True)" by code_simp
  have ptr: "storage_ptr example_dataSet = 9" "sm_ok (dsValues example_dataSet)" by (simp_all add: example_dataSet_def)
  have good: "\<not> UA_StatusCode_isBad 0" by (simp add: UA_StatusCode_isBad_def)
  from reported_value_arrives [OF sid item good _ _ _ json, of example_dataSet 1] ptr show ?thesis
    by (auto simp: none cbs ds handle)
qed

text \<open>The same machine with the topics of a machine.\<close>

definition flow_topics :: topic_config where
  "flow_topics = \<lparr>Prefix = ''p'', ClientId = ''c''\<rparr>"

definition flow_dataSet :: DataSetStorage_t where
  "flow_dataSet = example_dataSet\<lparr>channel := Topics_Machine flow_topics ''T'' (NodeId_to_string node_A),
     onlineChannel := Topics_OnlineStatus flow_topics (NodeId_to_string node_A)\<rparr>"

definition flow_machine :: "(string list, callback) ua_client dstate" where
  "flow_machine = flow_state\<lparr>client := DashboardClient_new\<lparr>m_dataSets := [flow_dataSet]\<rparr>\<rparr>"

lemma reported_value_published_witness:
  "\<exists>t u x. subscribeValue (OpcUaClient_methods 1 (example_stack 0)) 9 (dsNode example_dataSet) flow_machine = (Inr (), t) \<and>
     server_reports (example_stack 0) 2 \<lparr>dvStatus = 0, dvValue = ScalarVariant (Leaf (LBoolean True))\<rparr> t = (Inr (), u) \<and>
     Publish example_dump u = (Inr (), x) \<and> retained (published (env x)) (channel flow_dataSet) = Some ''{}''"
proof -
  let ?v = "\<lparr>dvStatus = 0, dvValue = ScalarVariant (Leaf (LBoolean True))\<rparr>"
  let ?n = "dsNode example_dataSet" and ?s = flow_machine
  have sid: "m_pSubscriptionID (world (env ?s)) = Some 1" and handle: "nextId (world (env ?s)) = 2"
    and ds: "m_dataSets (client ?s) = [flow_dataSet]" and callbacks: "sm_ok (m_callbacks (world (env ?s)))"
      "sm_find (m_callbacks (world (env ?s))) (sint (nextId (world (env ?s)))) = None"
    and none: "\<forall>i \<in> set (subscribed_ids (client ?s)). \<not> NodeId_eq i (simpleNodeId ?n)"
    by (simp_all add: flow_machine_def flow_state_def flow_client_def ua_client_fields_def subscribed_ids_def DashboardClient_new_def)
  have item: "item_answer (example_stack 0) 1 (simpleNodeId ?n) (world (env ?s)) = ((0, 40, 1), [''urn:a''])"
    by (simp add: item_answer_def example_stack_def flow_machine_def flow_state_def flow_client_def ua_client_fields_def)
  have json: "UaDataValueToJsonValue (st_lib (example_stack 0)) False ?v = Some (JBool True)" by code_simp
  have good: "\<not> UA_StatusCode_isBad 0" by (simp add: UA_StatusCode_isBad_def)
  have ptr: "storage_ptr flow_dataSet = 9" "sm_ok (dsValues flow_dataSet)"
    by (simp_all add: flow_dataSet_def example_dataSet_def)
  have "proper_name ''T''" by (simp add: proper_name_def)
  then have shown: "client_shown flow_topics (published (env ?s)) node_A (client ?s)"
    by (auto simp: client_shown_def flow_machine_def DashboardClient_new_def flow_dataSet_def machine_topic_def online_topic_def)
  have text_of: "getJson example_dump (flow_dataSet\<lparr>dsValues := sm_assign (node_ptr ?n) (JBool True) (dsValues flow_dataSet)\<rparr>) = Inr ''{}''"
    by code_simp
  from reported_value_published [OF sid item good none callbacks json shown ds ptr(2) text_of, of 1] ptr(1) handle
  show ?thesis by auto
qed

section \<open>After a reconnection\<close>

text \<open>
  A new connection gets a new subscription, in which the server monitors nothing yet
  (\<open>items\<close>: the handles that the server monitors for a subscription). The callbacks stay
  registered, but no item is created for them; and the dashboard client, which still has the
  handles of the old subscription, does not subscribe its nodes again. So when the connection
  comes back before the check of every thirty seconds has noticed its loss, the values of a
  machine that the server still lists never change again.
\<close>

lemma reconnect_has_no_items:
  assumes "connect S s = (Inr True, t)"
    and "\<And>w st sid w'. st_createSubscription S w = ((st, sid), w') \<Longrightarrow> \<not> UA_StatusCode_isBad st \<and> items w' sid = {}"
  shows "\<exists>sid. m_pSubscriptionID t = Some sid \<and> items (su_world t) sid = {} \<and> m_callbacks t = m_callbacks s"
proof -
  have reset: "keeps m_callbacks (SessionConnect_any S)" "keeps m_callbacks (updateNamespaceCache S)"
    unfolding SessionConnect_any_def updateNamespaceCache_def initializeNamespaceCache_def SessionUpdateNamespaceTable_def
      m_issueReset_def SessionConnect_def SessionConnectUsername_def SessionGetNamespaceTable_def stack_call_def
    by (intro keeps_rules; (rule keepsI)?; auto split: prod.splits)+
  obtain x u where first: "SessionConnect_any S s = (x, u)" by fastforce
  obtain y v where cache: "updateNamespaceCache S (u\<lparr>m_isConnected := True\<rparr>) = (y, v)" by fastforce
  from keepsD [OF reset(1) first] keepsD [OF reset(2) cache] have cbs: "m_callbacks v = m_callbacks s" by simp
  obtain st sid w where sub: "st_createSubscription S (su_world v) = ((st, sid), w)" by (metis prod.exhaust)
  have "t = v\<lparr>su_world := w, m_pSubscriptionID := Some sid\<rparr>"
    using assms(1) first cache sub assms(2) [OF sub]
    by (auto simp: connect_def on_connected_def createSubscription_def stack_call_def seq_def update_def ret_def
        split: sum.splits if_splits)
  with assms(2) [OF sub] cbs show ?thesis by simp
qed

lemma known_node_not_subscribed:
  "i \<in> set (subscribed_ids (client s)) \<Longrightarrow> NodeId_eq i (simpleNodeId n) \<Longrightarrow> subscribeValue D ptr n s = (Inr (), s)"
  by (force simp: subscribeValue_def subscribed_ids_def try_catch_def seq_def reads_def ret_def split: option.splits)

end
