(* ===== verification/Troubleshooter.thy ===== *)
theory Troubleshooter
  imports Mqtt_Publisher Configuration
begin

text \<open>
  \<^verbatim>\<open>WssTroubleshooter.cpp\<close>: a second program that connects to the MQTT broker of the
  configuration and prints what arrives. Its callbacks run on the threads of the MQTT library;
  each is an action that ends with the exit code of the process if it calls \<^verbatim>\<open>exit\<close>. What is
  printed is left out.
\<close>

section \<open>State\<close>

record 'w trouble_lib = "'w mqtt_lib" +
  ml_subscribe :: "string \<Rightarrow> nat \<Rightarrow> ('w, exn, unit) act"

record 'w troubleshooter =
  ts_cli :: 'w
  nretry :: int
  ts_connOpts :: connect_options

type_synonym ('w, 'a) tact = "('w troubleshooter, exn, 'a) act"

definition on_ts_cli :: "('w, exn, 'a) act \<Rightarrow> ('w, 'a) tact" where
  "on_ts_cli = zoom ts_cli (\<lambda>w s. s\<lparr>ts_cli := w\<rparr>)"

definition TOPIC :: string where "TOPIC = ''umati/v2/#''"
definition QOS :: nat where "QOS = 1"
definition N_RETRY_ATTEMPTS :: int where "N_RETRY_ATTEMPTS = 5"

section \<open>Callbacks\<close>

definition reconnect :: "'w trouble_lib \<Rightarrow> ('w, nat option) tact" where
  "reconnect L =
     try_catch
       (seq (reads ts_connOpts) (\<lambda>opts. seq (on_ts_cli (ml_connect L opts)) (\<lambda>_. ret None)))
       (\<lambda>exc. if is_mqtt_exception exc then Some (ret (Some 1)) else None)"

definition on_failure :: "'w trouble_lib \<Rightarrow> ('w, nat option) tact" where
  "on_failure L =
     seq (update (\<lambda>s. s\<lparr>nretry := nretry s + 1\<rparr>)) (\<lambda>_.
     seq (reads nretry) (\<lambda>n.
     if n > N_RETRY_ATTEMPTS then ret (Some 1) else reconnect L))"

definition connected :: "'w trouble_lib \<Rightarrow> ('w, unit) tact" where
  "connected L = on_ts_cli (ml_subscribe L TOPIC QOS)"

definition connection_lost :: "'w trouble_lib \<Rightarrow> ('w, nat option) tact" where
  "connection_lost L = seq (update (\<lambda>s. s\<lparr>nretry := 0\<rparr>)) (\<lambda>_. reconnect L)"

section \<open>The program\<close>

definition wss_getUri :: "string \<Rightarrow> string \<Rightarrow> 16 word \<Rightarrow> string" where
  "wss_getUri protocol host port = protocol @ ''://'' @ host @ '':'' @ show_nat (unat port) @ ''/ws''"

text \<open>The build that is not for Windows: the directories of the caller are not used.\<close>

definition wss_getOptions :: "string \<Rightarrow> string \<Rightarrow> string \<Rightarrow> string \<Rightarrow> connect_options" where
  "wss_getOptions username password caCertDirPath caCertFilePath =
     \<lparr>coKeepAlive = 10, coCleanSession = True, coReconnect = (2, 10),
      coUserName = (if username \<noteq> '''' then Some username else None),
      coPassword = (if password \<noteq> '''' then Some password else None),
      coHttpsProxy = None, coHttpProxy = None,
      coSsl = Some \<lparr>soCaPath = ''/etc/ssl/certs/'', soTrustStore = '''', soVerify = True\<rparr>, coWill = None\<rparr>"

definition wss_options :: "MqttConfig \<Rightarrow> connect_options" where
  "wss_options c =
     (let o0 = wss_getOptions (mqttUsername c) (mqttPassword c) (CaCertPath c) (CaTrustStorePath c);
          o1 = (if length (HttpProxy c) \<noteq> 0 then o0\<lparr>coHttpProxy := Some (HttpProxy c)\<rparr> else o0);
          o2 = (if length (HttpsProxy c) \<noteq> 0 then o1\<lparr>coHttpsProxy := Some (HttpsProxy c)\<rparr> else o1)
      in o2\<lparr>coCleanSession := False\<rparr>)"

definition config_filename :: "string list \<Rightarrow> string" where
  "config_filename argv = (if 2 \<le> length argv then argv ! 1 else ''configuration.json'')"

text \<open>
  The loop that waits for the user reads one character at a time; \<^verbatim>\<open>get\<close> gives the end of
  file again and again once the input is used up. The end of the loop is the position behind the
  character.
\<close>

fun wait_for_q :: "nat \<Rightarrow> string \<Rightarrow> string option" where
  "wait_for_q 0 input = None"
| "wait_for_q (Suc k) [] = wait_for_q k []"
| "wait_for_q (Suc k) (c # input) = (if c = CHR ''q'' \<or> c = CHR ''Q'' then Some input else wait_for_q k input)"

text \<open>
  \<^verbatim>\<open>main\<close>, with the client that the library makes for a URI and an id: every exception
  becomes exit code 1.
\<close>

definition wss_main ::
    "'w trouble_lib \<Rightarrow> (string \<Rightarrow> string \<Rightarrow> exn + 'w) \<Rightarrow> (string \<Rightarrow> exn + configuration) \<Rightarrow> nat \<Rightarrow> string list \<Rightarrow> string \<Rightarrow>
      ('w option, exn, nat) act" where
  "wss_main L new_client load fuel argv input =
     try_catch
       (seq (lift_sum (load (config_filename argv))) (\<lambda>config.
        seq (lift_sum (new_client (wss_getUri (mqttProtocol (Mqtt config)) (mqttHostname (Mqtt config)) (mqttPort (Mqtt config)))
               (mqttClientId (Mqtt config)))) (\<lambda>cli.
        seq (update (\<lambda>_. Some cli)) (\<lambda>_.
        seq (try_catch
               (seq (zoom the (\<lambda>w _. Some w) (ml_connect L (wss_options (Mqtt config)))) (\<lambda>_. ret True))
               (\<lambda>exc. if is_mqtt_exception exc then Some (ret False) else None)) (\<lambda>ok.
        if \<not> ok then ret 1
        else seq (case wait_for_q fuel input of None \<Rightarrow> no_fuel | Some rest \<Rightarrow> ret ()) (\<lambda>_.
             try_catch
               (seq (zoom the (\<lambda>w _. Some w) (ml_disconnect L)) (\<lambda>_. ret 0))
               (\<lambda>exc. if is_mqtt_exception exc then Some (ret 1) else None)))))))
       (\<lambda>ex. Some (ret 1))"

section \<open>Properties\<close>

text \<open>The loop ends exactly on an input that holds a q: at its end the loop does not stop.\<close>

lemma wait_for_q_Nil: "wait_for_q k [] = None"
  by (induction k) simp_all

lemma wait_for_q_ends:
  "(\<exists>k rest. wait_for_q k input = Some rest) \<longleftrightarrow> CHR ''q'' \<in> set input \<or> CHR ''Q'' \<in> set input"
proof
  assume "\<exists>k rest. wait_for_q k input = Some rest"
  then obtain k rest where "wait_for_q k input = Some rest" by blast
  then show "CHR ''q'' \<in> set input \<or> CHR ''Q'' \<in> set input"
    by (induction k input rule: wait_for_q.induct) (auto split: if_splits)
next
  assume "CHR ''q'' \<in> set input \<or> CHR ''Q'' \<in> set input"
  then show "\<exists>k rest. wait_for_q k input = Some rest"
  proof (induction input)
    case (Cons c input)
    show ?case
    proof (cases "c = CHR ''q'' \<or> c = CHR ''Q''")
      case True
      then have "wait_for_q 1 (c # input) = Some input" by auto
      then show ?thesis by blast
    next
      case False
      with Cons obtain k rest where "wait_for_q k input = Some rest" by auto
      with False have "wait_for_q (Suc k) (c # input) = Some rest" by simp
      then show ?thesis by blast
    qed
  qed simp
qed

text \<open>
  After a loss of the connection, five failed attempts are followed by another one and the sixth
  ends the process, if the library accepts the calls.
\<close>

definition accepts_connect :: "'w trouble_lib \<Rightarrow> bool" where
  "accepts_connect L \<longleftrightarrow> (\<forall>opts w. \<exists>w'. ml_connect L opts w = (Inr (), w'))"

lemma reconnect_run:
  assumes "accepts_connect L"
  shows "\<exists>w. reconnect L s = (Inr None, s\<lparr>ts_cli := w\<rparr>)"
proof -
  obtain w where "ml_connect L (ts_connOpts s) (ts_cli s) = (Inr (), w)"
    using assms unfolding accepts_connect_def by blast
  then show ?thesis by (intro exI [of _ w]) (simp add: reconnect_def on_ts_cli_def act_defs)
qed

fun failures :: "nat \<Rightarrow> 'w trouble_lib \<Rightarrow> ('w, nat option) tact" where
  "failures 0 L = ret None"
| "failures (Suc n) L = seq (on_failure L) (\<lambda>r. case r of Some code \<Rightarrow> ret (Some code) | None \<Rightarrow> failures n L)"

lemma failures_from:
  assumes "accepts_connect L" and "0 \<le> nretry s" and "nretry s \<le> N_RETRY_ATTEMPTS"
  shows "fst (failures n L s) = Inr (if N_RETRY_ATTEMPTS - nretry s < int n then Some 1 else None)"
  using assms(2,3)
proof (induction n arbitrary: s)
  case (Suc n)
  show ?case
  proof (cases "nretry s + 1 > N_RETRY_ATTEMPTS")
    case True
    with Suc.prems show ?thesis by (simp add: on_failure_def seq_assoc) (simp add: ret_def)
  next
    case False
    let ?s = "s\<lparr>nretry := nretry s + 1\<rparr>"
    obtain w where w: "reconnect L ?s = (Inr None, ?s\<lparr>ts_cli := w\<rparr>)"
      using reconnect_run [OF assms(1)] by blast
    have "fst (failures n L (?s\<lparr>ts_cli := w\<rparr>)) = Inr (if N_RETRY_ATTEMPTS - (nretry s + 1) < int n then Some 1 else None)"
      using Suc.IH [of "?s\<lparr>ts_cli := w\<rparr>"] Suc.prems False by simp
    with False w show ?thesis by (simp add: on_failure_def seq_assoc) (simp add: seq_def)
  qed
qed (simp add: ret_def)

lemma sixth_failure_exits:
  assumes "accepts_connect L" and "connection_lost L s = (Inr None, t)"
  shows "fst (failures n L t) = Inr (if n < 6 then None else Some 1)"
proof -
  obtain w where "reconnect L (s\<lparr>nretry := 0\<rparr>) = (Inr None, s\<lparr>nretry := 0, ts_cli := w\<rparr>)"
    using reconnect_run [OF assms(1)] by fastforce
  with assms(2) have "nretry t = 0" by (auto simp: connection_lost_def)
  with failures_from [OF assms(1), of t n] show ?thesis by (auto simp: N_RETRY_ATTEMPTS_def)
qed

end
