(* ===== verification/Setup_Security.thy ===== *)
theory Setup_Security
  imports Exceptions
begin

text \<open>
  \<^verbatim>\<open>OpcUaClient/SetupSecurity.cpp\<close>: the directories and key files of the client. The state is
  the file system: its directories (slash-separated paths) and the contents of its files. Which
  directories cannot be made, which files cannot be opened for writing, and the generation of
  certificates are parameters.
\<close>

record file_system =
  dirs :: "string set"
  files :: "string \<rightharpoonup> string"

record os =
  os_mkdir_fails :: "string \<Rightarrow> bool"
  os_writable :: "string \<Rightarrow> file_system \<Rightarrow> bool"

type_synonym 'a fact = "(file_system, exn, 'a) act"

definition ClientPubCert :: string where "ClientPubCert = ''./pki/client_cert.der''"
definition ClientPrivCert :: string where "ClientPrivCert = ''./pki/client_key.der''"
definition ServerTrustedCerts :: string where "ServerTrustedCerts = ''./pki/server/trusted/''"
definition ServerRevokedCerts :: string where "ServerRevokedCerts = ''./pki/server/revoked/''"
definition IssuerTrustedCerts :: string where "IssuerTrustedCerts = ''./pki/issuer/trusted/''"
definition IssuerRevokedCerts :: string where "IssuerRevokedCerts = ''./pki/issuer/revoked/''"

definition m_applicationName :: string where "m_applicationName = ''umati Dashboard Gateway''"
definition m_applicationUri :: string where "m_applicationUri = ''http://umati.app/OPCUA_Gateway''"
definition m_productUri :: string where "m_productUri = ''KonI40OpcUaClient_Product''"

section \<open>Directories\<close>

text \<open>The parts of a path, each ended by a slash; what follows the last slash is left out.\<close>

fun path_parts :: "string \<Rightarrow> string \<Rightarrow> string list" where
  "path_parts pathPart [] = []"
| "path_parts pathPart (c # cs) =
     (if c \<noteq> CHR ''/'' then path_parts (pathPart @ [c]) cs else pathPart # path_parts [] cs)"

text \<open>\<^verbatim>\<open>mkdir\<close>: an existing directory is not an error for the caller.\<close>

definition mkdir :: "os \<Rightarrow> string \<Rightarrow> bool fact" where
  "mkdir K d =
     seq (reads (\<lambda>fs. d \<in> dirs fs)) (\<lambda>exists.
     if exists then ret True
     else if os_mkdir_fails K d then ret False
     else seq (update (\<lambda>fs. fs\<lparr>dirs := insert d (dirs fs)\<rparr>)) (\<lambda>_. ret True))"

fun make_parts :: "os \<Rightarrow> string \<Rightarrow> bool \<Rightarrow> string list \<Rightarrow> bool fact" where
  "make_parts K ss is_first [] = ret True"
| "make_parts K ss is_first (part # parts) =
     (if part = [] then make_parts K ss is_first parts
      else let ss' = (if is_first then part else ss @ ''/'' @ part) in
        if part = ''.'' \<or> part = ''..'' then make_parts K ss' False parts
        else seq (mkdir K ss') (\<lambda>ok. if ok then make_parts K ss' False parts else ret False))"

definition createDirs :: "os \<Rightarrow> string \<Rightarrow> bool fact" where
  "createDirs K directory =
     (if directory = [] then ret True else make_parts K [] True (path_parts [] directory))"

section \<open>Files\<close>

text \<open>
  \<^verbatim>\<open>saveFile\<close> prints the data as a C string: it needs a terminator in it, and it uses the
  result of \<^verbatim>\<open>fopen\<close> without a look at it.
\<close>

definition saveFile :: "os \<Rightarrow> string \<Rightarrow> string \<Rightarrow> int fact" where
  "saveFile K data path =
     seq (reads (os_writable K path)) (\<lambda>opened.
     if \<not> opened \<or> CHR 0x00 \<notin> set data then undefined_behaviour
     else let content = takeWhile (\<lambda>c. c \<noteq> CHR 0x00) data in
       seq (update (\<lambda>fs. fs\<lparr>files := (files fs)(path \<mapsto> content)\<rparr>)) (\<lambda>_.
       ret (if 0 < length content then 0 else -1)))"

definition loadFile :: "string \<Rightarrow> string fact" where
  "loadFile path = reads (\<lambda>fs. case files fs path of None \<Rightarrow> [] | Some content \<Rightarrow> content)"

section \<open>The client configuration\<close>

record client_config =
  cfCertificate :: string
  cfPrivateKey :: string
  cfApplicationName :: string
  cfApplicationUri :: string
  cfProductUri :: string
  cfBypass :: bool

text \<open>The generator gives no pair when it fails; buffers are byte strings.\<close>

definition createNewClientCert :: "os \<Rightarrow> (string \<times> string) option \<Rightarrow> unit fact" where
  "createNewClientCert K generated =
     (case generated of
        None \<Rightarrow> ret ()
      | Some (certificate, privateKey) \<Rightarrow>
          seq (saveFile K certificate ClientPubCert) (\<lambda>_.
          seq (saveFile K privateKey ClientPrivCert) (\<lambda>_. ret ())))"

definition setupSecurity :: "os \<Rightarrow> (string \<times> string) option \<Rightarrow> bool \<Rightarrow> client_config fact" where
  "setupSecurity K generated bypassCertVerification =
     seq (reads (\<lambda>fs. files fs ClientPrivCert = None)) (\<lambda>missing.
     seq (if missing
          then seq (createDirs K ServerRevokedCerts) (\<lambda>_.
               seq (createDirs K ServerTrustedCerts) (\<lambda>_.
               seq (createDirs K IssuerRevokedCerts) (\<lambda>_.
               seq (createDirs K IssuerTrustedCerts) (\<lambda>_. ret ()))))
          else ret ()) (\<lambda>_.
     seq (loadFile ClientPubCert) (\<lambda>certificate0.
     seq (loadFile ClientPrivCert) (\<lambda>privateKey0.
     seq (if length certificate0 = 0 \<or> length privateKey0 = 0
          then seq (createNewClientCert K generated) (\<lambda>_.
               seq (loadFile ClientPubCert) (\<lambda>certificate.
               seq (loadFile ClientPrivCert) (\<lambda>privateKey.
               ret (certificate, privateKey))))
          else ret (certificate0, privateKey0)) (\<lambda>(certificate, privateKey).
     ret \<lparr>cfCertificate = certificate, cfPrivateKey = privateKey,
          cfApplicationName = m_applicationName, cfApplicationUri = m_applicationUri,
          cfProductUri = m_productUri, cfBypass = bypassCertVerification\<rparr>)))))"

section \<open>Which directories are made\<close>

lemma path_parts_join:
  assumes "\<forall>p \<in> set ps. CHR ''/'' \<notin> set p" and "CHR ''/'' \<notin> set rest"
  shows "path_parts [] (concat (map (\<lambda>p. p @ ''/'') ps) @ rest) = ps"
proof -
  have part: "path_parts acc (p @ CHR ''/'' # cs) = (acc @ p) # path_parts [] cs" if "CHR ''/'' \<notin> set p" for acc p cs
    using that by (induction p arbitrary: acc) auto
  have tail: "path_parts acc rest = []" for acc
    using assms(2) by (induction rest arbitrary: acc) auto
  show ?thesis using assms(1) by (induction ps) (simp_all add: part tail)
qed

text \<open>The directories that a list of parts stands for.\<close>

fun prefixes_of :: "string \<Rightarrow> bool \<Rightarrow> string list \<Rightarrow> string list" where
  "prefixes_of ss is_first [] = []"
| "prefixes_of ss is_first (part # parts) =
     (let ss' = (if is_first then part else ss @ ''/'' @ part) in
      (if part = ''.'' \<or> part = ''..'' then [] else [ss']) @ prefixes_of ss' False parts)"

lemma make_parts_run:
  assumes "\<forall>p \<in> set parts. p \<noteq> []" and "\<forall>d. \<not> os_mkdir_fails K d"
  shows "make_parts K ss is_first parts fs = (Inr True, fs\<lparr>dirs := dirs fs \<union> set (prefixes_of ss is_first parts)\<rparr>)"
  using assms(1)
proof (induction parts arbitrary: ss is_first fs)
  case (Cons part parts)
  have "mkdir K d fs' = (Inr True, fs'\<lparr>dirs := insert d (dirs fs')\<rparr>)" for d fs'
    using assms(2) by (auto simp: mkdir_def act_defs insert_absorb)
  with Cons show ?case by (auto simp: Let_def seq_def)
qed (simp add: ret_def)

lemma make_parts_skip_empty: "make_parts K ss is_first parts = make_parts K ss is_first [p \<leftarrow> parts. p \<noteq> []]"
  by (induction parts arbitrary: ss is_first) (simp_all add: Let_def cong: if_cong)

text \<open>
  The directories that are made for a path. When no call of mkdir fails, a path of parts,
  each followed by a slash, makes exactly the directories of its initial parts, in order,
  without those of the parts \<^verbatim>\<open>.\<close> and \<^verbatim>\<open>..\<close> and without what follows the last slash.
  Empty parts are skipped, also the one before a leading slash: an absolute path is made
  relative to the working directory.
\<close>

theorem createDirs_makes_prefixes:
  assumes "\<forall>p \<in> set ps. CHR ''/'' \<notin> set p" and "CHR ''/'' \<notin> set rest" and "\<forall>d. \<not> os_mkdir_fails K d"
  shows "createDirs K (concat (map (\<lambda>p. p @ ''/'') ps) @ rest) fs =
      (Inr True, fs\<lparr>dirs := dirs fs \<union> set (prefixes_of [] True [p \<leftarrow> ps. p \<noteq> []])\<rparr>) \<and>
    createDirs K (CHR ''/'' # concat (map (\<lambda>p. p @ ''/'') ps) @ rest) =
      createDirs K (concat (map (\<lambda>p. p @ ''/'') ps) @ rest)"
proof -
  let ?dir = "concat (map (\<lambda>p. p @ ''/'') ps) @ rest"
  have parts: "path_parts [] ?dir = ps" by (rule path_parts_join [OF assms(1,2)])
  have run: "createDirs K ?dir = make_parts K [] True [p \<leftarrow> ps. p \<noteq> []]"
  proof (cases "?dir = []")
    case True
    then have "ps = []" by (cases ps) auto
    with True show ?thesis by (simp add: createDirs_def)
  next
    case False
    then show ?thesis using make_parts_skip_empty [of K "[]" True ps] by (simp add: createDirs_def parts)
  qed
  have "createDirs K (CHR ''/'' # ?dir) = make_parts K [] True [p \<leftarrow> ps. p \<noteq> []]"
    using make_parts_skip_empty [of K "[]" True ps] by (simp add: createDirs_def parts)
  with run show ?thesis
    using make_parts_run [of "[p \<leftarrow> ps. p \<noteq> []]" K "[]" True fs, OF _ assms(3)] by simp
qed

lemma createDirs_makes_prefixes_witness:
  "dirs (snd (createDirs \<lparr>os_mkdir_fails = (\<lambda>_. False), os_writable = (\<lambda>_ _. True)\<rparr> ServerRevokedCerts
     \<lparr>dirs = {}, files = (\<lambda>_. None)\<rparr>)) = {''./pki'', ''./pki/server'', ''./pki/server/revoked''}"
  using createDirs_makes_prefixes [of "[''.'', ''pki'', ''server'', ''revoked'']" "[]"
      "\<lparr>os_mkdir_fails = (\<lambda>_. False), os_writable = (\<lambda>_ _. True)\<rparr>" "\<lparr>dirs = {}, files = (\<lambda>_. None)\<rparr>"]
  by (simp add: ServerRevokedCerts_def Let_def insert_commute)

section \<open>Which keys are used\<close>

lemma createDirs_files: "files (snd (createDirs K d fs)) = files fs" "fst (createDirs K d fs) \<noteq> Inl e"
proof -
  have "runs (\<lambda>fs'. files fs' = files fs) (\<lambda>_. False) (\<lambda>_. True) (make_parts K ss b parts)" for ss b parts
    by (induction parts arbitrary: ss b)
      (auto simp: mkdir_def Let_def intro!: runs_ret runs_seq_any runs_reads runs_update)
  then have run: "runs (\<lambda>fs'. files fs' = files fs) (\<lambda>_. False) (\<lambda>_. True) (createDirs K d)"
    by (simp add: createDirs_def runs_ret)
  show "files (snd (createDirs K d fs)) = files fs" by (rule runs_state [OF run refl])
  show "fst (createDirs K d fs) \<noteq> Inl e" using runs_abrupt [OF run refl] by (metis prod.collapse)
qed

definition has_keys :: "file_system \<Rightarrow> bool" where
  "has_keys fs \<longleftrightarrow> (\<exists>c k. files fs ClientPubCert = Some c \<and> files fs ClientPrivCert = Some k \<and> c \<noteq> [] \<and> k \<noteq> [])"

definition c_string :: "string \<Rightarrow> string" where
  "c_string = takeWhile (\<lambda>c. c \<noteq> CHR 0x00)"

lemma saveFile_run:
  assumes "CHR 0x00 \<in> set data" and "os_writable K path fs"
  shows "saveFile K data path fs =
    (Inr (if c_string data \<noteq> [] then 0 else -1), fs\<lparr>files := (files fs)(path \<mapsto> c_string data)\<rparr>)"
  using assms by (simp add: saveFile_def Let_def c_string_def) (simp add: act_defs)

lemma createDirs_seq:
  "seq (createDirs K d) (\<lambda>_. m) fs = m (snd (createDirs K d fs))"
proof -
  obtain b where "fst (createDirs K d fs) = Inr b" using createDirs_files(2) by (metis sum.exhaust)
  then show ?thesis by (auto simp: seq_def split: prod.splits)
qed

text \<open>The file system after the directories are made, which is done if there is no key file.\<close>

definition with_dirs :: "os \<Rightarrow> file_system \<Rightarrow> file_system" where
  "with_dirs K fs =
     (if files fs ClientPrivCert = None
      then foldl (\<lambda>fs d. snd (createDirs K d fs)) fs
             [ServerRevokedCerts, ServerTrustedCerts, IssuerRevokedCerts, IssuerTrustedCerts]
      else fs)"

lemma with_dirs_files [simp]: "files (with_dirs K fs) = files fs"
  by (simp add: with_dirs_def createDirs_files(1))

text \<open>The configuration with a certificate and a key, and what a file holds.\<close>

definition config_with :: "bool \<Rightarrow> string \<times> string \<Rightarrow> client_config" where
  "config_with bypass keys =
     \<lparr>cfCertificate = fst keys, cfPrivateKey = snd keys, cfApplicationName = m_applicationName,
      cfApplicationUri = m_applicationUri, cfProductUri = m_productUri, cfBypass = bypass\<rparr>"

definition content_of :: "file_system \<Rightarrow> string \<Rightarrow> string" where
  "content_of fs path = (case files fs path of None \<Rightarrow> [] | Some content \<Rightarrow> content)"

lemma has_keys_content: "has_keys fs \<longleftrightarrow> content_of fs ClientPubCert \<noteq> [] \<and> content_of fs ClientPrivCert \<noteq> []"
  by (auto simp: has_keys_def content_of_def split: option.splits)

text \<open>The directories leave the files alone; with existing keys nothing else happens.\<close>

lemma setupSecurity_run:
  "setupSecurity K generated bypass fs =
      seq (if has_keys fs then ret (content_of fs ClientPubCert, content_of fs ClientPrivCert)
           else seq (createNewClientCert K generated) (\<lambda>_.
                seq (loadFile ClientPubCert) (\<lambda>certificate.
                seq (loadFile ClientPrivCert) (\<lambda>privateKey.
                ret (certificate, privateKey))))) (\<lambda>p. ret (config_with bypass p)) (with_dirs K fs)"
proof -
  have dirs: "(if files fs ClientPrivCert = None
      then seq (createDirs K ServerRevokedCerts) (\<lambda>_. seq (createDirs K ServerTrustedCerts) (\<lambda>_.
           seq (createDirs K IssuerRevokedCerts) (\<lambda>_. seq (createDirs K IssuerTrustedCerts) (\<lambda>_. ret ()))))
      else ret ()) fs = (Inr (), with_dirs K fs)"
    by (simp add: createDirs_seq with_dirs_def ret_def)
  show ?thesis
    unfolding setupSecurity_def seq_reads has_keys_content
    by (subst seq_def) (simp add: dirs loadFile_def content_of_def config_with_def case_prod_beta')
qed

text \<open>
  Whether data can be saved: the file can be opened and the data has a terminator, as the code
  neither looks at the result of \<^verbatim>\<open>fopen\<close> nor at the length of the data. \<open>saved\<close> is the file system
  with the new contents.
\<close>

definition can_save :: "os \<Rightarrow> string \<Rightarrow> string \<Rightarrow> file_system \<Rightarrow> bool" where
  "can_save K data path fs \<longleftrightarrow> os_writable K path fs \<and> CHR 0x00 \<in> set data"

definition saved :: "string \<Rightarrow> string \<Rightarrow> file_system \<Rightarrow> file_system" where
  "saved data path fs = fs\<lparr>files := (files fs)(path \<mapsto> c_string data)\<rparr>"

lemma saveFile_seq:
  "seq (saveFile K data path) (\<lambda>_. m) fs = (if can_save K data path fs then m (saved data path fs) else (Inl Undefined, fs))"
  using saveFile_run [of data K path fs]
  by (auto simp: can_save_def saved_def seq_def) (auto simp: saveFile_def act_defs)

lemma createNewClientCert_run:
  "seq (createNewClientCert K (Some (c, k))) (\<lambda>_. m) fs =
    (if \<not> can_save K c ClientPubCert fs then (Inl Undefined, fs)
     else if \<not> can_save K k ClientPrivCert (saved c ClientPubCert fs) then (Inl Undefined, saved c ClientPubCert fs)
     else m (saved k ClientPrivCert (saved c ClientPubCert fs)))"
  by (simp add: createNewClientCert_def seq_assoc saveFile_seq)

text \<open>
  C40: the keys of the client, in every case. Existing keys are kept: if both files are there and
  not empty, nothing is written and the files are used, whatever could be generated. Otherwise
  the directories are made first, and it depends on the generation of a pair. When it fails, the
  set-up goes on and reports success all the same, with an empty certificate or key. When it gives a pair,
  both parts are saved up to their terminators and used, provided that both buffers have a
  terminator and both files can be opened; if one of them cannot, the behaviour is undefined, since
  the buffers are printed as C strings to files that nothing checks.
\<close>

theorem setupSecurity_keys:
  "setupSecurity K generated bypass fs =
    (if has_keys fs then (Inr (config_with bypass (content_of fs ClientPubCert, content_of fs ClientPrivCert)), fs)
     else case generated of
         None \<Rightarrow> (Inr (config_with bypass (content_of fs ClientPubCert, content_of fs ClientPrivCert)), with_dirs K fs)
       | Some (c, k) \<Rightarrow>
           if \<not> can_save K c ClientPubCert (with_dirs K fs) then (Inl Undefined, with_dirs K fs)
           else if \<not> can_save K k ClientPrivCert (saved c ClientPubCert (with_dirs K fs))
           then (Inl Undefined, saved c ClientPubCert (with_dirs K fs))
           else (Inr (config_with bypass (c_string c, c_string k)),
                 saved k ClientPrivCert (saved c ClientPubCert (with_dirs K fs)))) \<and>
   (has_keys fs \<longleftrightarrow> content_of fs ClientPubCert \<noteq> [] \<and> content_of fs ClientPrivCert \<noteq> []) \<and>
   files (with_dirs K fs) = files fs"
proof (intro conjI has_keys_content with_dirs_files)
  have paths: "ClientPubCert \<noteq> ClientPrivCert" by (simp add: ClientPubCert_def ClientPrivCert_def)
  show "setupSecurity K generated bypass fs =
    (if has_keys fs then (Inr (config_with bypass (content_of fs ClientPubCert, content_of fs ClientPrivCert)), fs)
     else case generated of
         None \<Rightarrow> (Inr (config_with bypass (content_of fs ClientPubCert, content_of fs ClientPrivCert)), with_dirs K fs)
       | Some (c, k) \<Rightarrow>
           if \<not> can_save K c ClientPubCert (with_dirs K fs) then (Inl Undefined, with_dirs K fs)
           else if \<not> can_save K k ClientPrivCert (saved c ClientPubCert (with_dirs K fs))
           then (Inl Undefined, saved c ClientPubCert (with_dirs K fs))
           else (Inr (config_with bypass (c_string c, c_string k)),
                 saved k ClientPrivCert (saved c ClientPubCert (with_dirs K fs))))"
  proof (cases "has_keys fs")
    case True
    then have "with_dirs K fs = fs" by (auto simp: has_keys_def with_dirs_def)
    with True show ?thesis by (simp add: setupSecurity_run ret_def)
  next
    case False
    have loads: "seq (loadFile ClientPubCert) (\<lambda>c. seq (loadFile ClientPrivCert) (\<lambda>k. ret (config_with bypass (c, k)))) fs' =
        (Inr (config_with bypass (content_of fs' ClientPubCert, content_of fs' ClientPrivCert)), fs')" for fs'
      by (simp add: loadFile_def content_of_def ret_def)
    show ?thesis
    proof (cases generated)
      case None
      with False loads [of "with_dirs K fs"] show ?thesis
        by (simp add: setupSecurity_run createNewClientCert_def seq_assoc) (simp add: content_of_def)
    next
      case (Some p)
      obtain c k where p: "p = (c, k)" by fastforce
      have "content_of (saved k ClientPrivCert (saved c ClientPubCert fs')) ClientPubCert = c_string c"
        "content_of (saved k ClientPrivCert (saved c ClientPubCert fs')) ClientPrivCert = c_string k" for fs'
        using paths by (simp_all add: saved_def content_of_def)
      with False Some p loads show ?thesis
        by (simp add: setupSecurity_run createNewClientCert_run seq_assoc)
    qed
  qed
qed

end
