(* ===== verification/Stack_Wrapper.thy ===== *)
theory Stack_Wrapper
  imports Opcua_Client
begin

text \<open>
  The members of \<^verbatim>\<open>OpcUaWrapper\<close> (\<^verbatim>\<open>OpcUaInterface.hpp\<close>) that \<open>Opcua_Client\<close> leaves out: the
  states of the connection that \<^verbatim>\<open>SessionIsConnected\<close> stores, the pointer to the subscription, and
  the two calls of discovery, which the program never makes. The client's model calls the
  subscription directly; the lemmas show that this is what the wrapper does once the constructor
  of the client has set the pointer.
\<close>

section \<open>State\<close>

text \<open>The pointer has no initial value.\<close>

datatype subscription_pointer = Indeterminate | NullPointer | ToSubscription

record ('w, 'cb) opcua_wrapper = "('w, 'cb) ua_client" +
  p_subscr :: subscription_pointer
  m_pSessionState :: "session_state option"
  m_pChannelState :: "channel_state option"

type_synonym ('w, 'cb, 'a) wact = "(('w, 'cb) opcua_wrapper, exn, 'a) act"

definition OpcUaWrapper_new :: "('w, 'cb) ua_client \<Rightarrow> ('w, 'cb) opcua_wrapper" where
  "OpcUaWrapper_new c = ua_client.extend c
     \<lparr>p_subscr = Indeterminate, m_pSessionState = None, m_pChannelState = None\<rparr>"

text \<open>\<^verbatim>\<open>exit\<close> ends the program with a code.\<close>

datatype 'a or_exit = Exits nat | Goes_on 'a

definition SIGTERM :: nat where "SIGTERM = 15"

section \<open>The state of the connection\<close>

definition setChannelState :: "channel_state \<Rightarrow> ('w, 'cb, unit) wact" where
  "setChannelState channelState = update (\<lambda>s. s\<lparr>m_pChannelState := Some channelState\<rparr>)"

definition setSessionState :: "session_state \<Rightarrow> ('w, 'cb, unit) wact" where
  "setSessionState sessionState = update (\<lambda>s. s\<lparr>m_pSessionState := Some sessionState\<rparr>)"

definition Wrapper_SessionIsConnected :: "'w ua_stack \<Rightarrow> ('w, 'cb, bool) wact" where
  "Wrapper_SessionIsConnected S =
     seq (stack_call (st_getState S)) (\<lambda>(secureChannelState, sessionState, statusCode).
     seq (setChannelState secureChannelState) (\<lambda>_.
     seq (setSessionState sessionState) (\<lambda>_.
     ret (\<not> UA_StatusCode_isBad statusCode \<and> sessionState = SessionActivated \<and> secureChannelState = ChannelOpen))))"

section \<open>The subscription\<close>

definition setSubscription :: "subscription_pointer \<Rightarrow> ('w, 'cb, unit) wact" where
  "setSubscription p_in_subscr = update (\<lambda>s. s\<lparr>p_subscr := p_in_subscr\<rparr>)"

text \<open>A test for the null pointer, which ends the program; an indeterminate pointer is undefined.\<close>

definition with_subscription :: "('w, 'cb, 'a) wact \<Rightarrow> ('w, 'cb, 'a or_exit) wact" where
  "with_subscription m =
     seq (reads p_subscr) (\<lambda>p.
     case p of
       Indeterminate \<Rightarrow> undefined_behaviour
     | NullPointer \<Rightarrow> ret (Exits SIGTERM)
     | ToSubscription \<Rightarrow> seq m (\<lambda>x. ret (Goes_on x)))"

definition SubscriptionCreateSubscription :: "'w ua_stack \<Rightarrow> ('w, 'cb, unit or_exit) wact" where
  "SubscriptionCreateSubscription S = with_subscription (createSubscription S)"

definition SubscriptionSubscribe ::
    "'w ua_stack \<Rightarrow> NodeId_t \<Rightarrow> 'cb \<Rightarrow> ('w, 'cb, ValueSubscriptionHandle or_exit) wact" where
  "SubscriptionSubscribe S nodeId callback =
     with_subscription
       (seq (reads m_cache) (\<lambda>cache.
        try_catch (Subscription_Subscribe S cache nodeId callback) (\<lambda>ex. Some (raise (rethrow_sliced ex)))))"

text \<open>Without the test.\<close>

definition SubscriptionUnsubscribe :: "'w ua_stack \<Rightarrow> 32 word list \<Rightarrow> 32 word list \<Rightarrow> ('w, 'cb, unit) wact" where
  "SubscriptionUnsubscribe S monItemIds clientHandles =
     seq (reads p_subscr) (\<lambda>p.
     if p = ToSubscription then Subscription_Unsubscribe S monItemIds clientHandles else undefined_behaviour)"

section \<open>Discovery\<close>

text \<open>
  The two calls are parameters. \<^verbatim>\<open>DiscoveryFindServers\<close> passes characters that nothing
  terminates as a C string, and their number as the length of an array of server URIs whose
  pointer is null, so it is defined for the empty URL at most.
\<close>

record ('w, 'e, 'd) discovery =
  ds_getEndpoints :: "string \<Rightarrow> 'w \<Rightarrow> (status \<times> 'e list) \<times> 'w"
  ds_findServers :: "string \<Rightarrow> 'w \<Rightarrow> (status \<times> 'd list) \<times> 'w"

definition DiscoveryGetEndpoints :: "('w, 'e, 'd) discovery \<Rightarrow> string \<Rightarrow> ('w, 'cb, status \<times> 'e list) wact" where
  "DiscoveryGetEndpoints V sDiscoveryURL = stack_call (ds_getEndpoints V (c_str sDiscoveryURL))"

definition DiscoveryFindServers :: "('w, 'e, 'd) discovery \<Rightarrow> string \<Rightarrow> ('w, 'cb, status \<times> 'd list) wact" where
  "DiscoveryFindServers V sDiscoveryURL =
     (if sDiscoveryURL \<noteq> '''' then undefined_behaviour else stack_call (ds_findServers V ''''))"

lemma findServers_undefined: "url \<noteq> '''' \<Longrightarrow> DiscoveryFindServers V url s = (Inl Undefined, s)"
  by (simp add: DiscoveryFindServers_def act_defs)

section \<open>The wrapper and the client\<close>

text \<open>
  With the pointer set, the wrapper runs the operations of the subscription that the model of
  the client calls, and never ends the program; before that, and with a null pointer, it does
  not reach them.
\<close>

lemma wrapper_forwards:
  assumes "p_subscr s = ToSubscription"
  shows "SubscriptionCreateSubscription S s = seq (createSubscription S) (\<lambda>x. ret (Goes_on x)) s"
    and "SubscriptionSubscribe S n cb s =
      seq (try_catch (Subscription_Subscribe S (m_cache s) n cb) (\<lambda>ex. Some (raise (rethrow_sliced ex))))
        (\<lambda>x. ret (Goes_on x)) s"
    and "SubscriptionUnsubscribe S ms hs s = Subscription_Unsubscribe S ms hs s"
  using assms
  by (simp_all add: SubscriptionCreateSubscription_def SubscriptionSubscribe_def SubscriptionUnsubscribe_def
      with_subscription_def seq_assoc)

lemma wrapper_unset:
  "p_subscr s = NullPointer \<Longrightarrow> SubscriptionCreateSubscription S s = (Inr (Exits SIGTERM), s)"
  "p_subscr s = NullPointer \<Longrightarrow> SubscriptionSubscribe S n cb s = (Inr (Exits SIGTERM), s)"
  "p_subscr s \<noteq> ToSubscription \<Longrightarrow> SubscriptionUnsubscribe S ms hs s = (Inl Undefined, s)"
  "p_subscr s = Indeterminate \<Longrightarrow> SubscriptionCreateSubscription S s = (Inl Undefined, s)"
  by (simp_all add: SubscriptionCreateSubscription_def SubscriptionSubscribe_def SubscriptionUnsubscribe_def
      with_subscription_def) (simp_all add: act_defs)

text \<open>The constructor of the client sets the pointer before it connects, and nothing changes it.\<close>

lemma keeps_pointer:
  "p_subscr (snd (createSubscription S (s :: ('w, 'cb) opcua_wrapper))) = p_subscr s"
  "p_subscr (snd (Subscription_Subscribe S c n cb s)) = p_subscr s"
  "p_subscr (snd (Subscription_Unsubscribe S ms hs s)) = p_subscr s"
  "p_subscr (snd (Wrapper_SessionIsConnected S s)) = p_subscr s"
proof -
  show "p_subscr (snd (createSubscription S s)) = p_subscr s"
    by (simp add: createSubscription_def stack_call_def act_defs split: prod.splits)
  show "p_subscr (snd (Subscription_Subscribe S c n cb s)) = p_subscr s"
    by (simp add: Subscription_Subscribe_def prepareMonItemCreateReq_def stack_call_def defined_value_def
        validateMonitorItemResult_def act_defs lift_sum_def split: prod.splits option.splits sum.splits)
  show "p_subscr (snd (Subscription_Unsubscribe S ms hs s)) = p_subscr s"
    by (simp add: Subscription_Unsubscribe_def stack_call_def defined_value_def ids_of_request_def lift_sum_def
        act_defs split: prod.splits option.splits sum.splits)
  show "p_subscr (snd (Wrapper_SessionIsConnected S s)) = p_subscr s"
    by (simp add: Wrapper_SessionIsConnected_def setChannelState_def setSessionState_def stack_call_def act_defs
        split: prod.splits)
qed

lemma stored_states:
  "Wrapper_SessionIsConnected S s = (Inr True, t) \<Longrightarrow>
     m_pSessionState t = Some SessionActivated \<and> m_pChannelState t = Some ChannelOpen"
  by (auto simp: Wrapper_SessionIsConnected_def setChannelState_def setSessionState_def stack_call_def act_defs
      split: prod.splits)

end
