(* ===== verification/Log_Output.thy ===== *)
theory Log_Output
  imports Opcua_Client Machine_Observer Troubleshooter
begin

text \<open>
  What the program writes to its log by functions of its own: the callbacks of the stack for the
  state of the connection, the lists of machines, the reports of the transformation, the set-up
  of the log, and the lines that the troubleshooter prints. A line of the log is a level and a
  text; printed text is a string. Other log statements stand inside operations that are modelled
  without them.
\<close>

datatype log_level = INFO | WARNING | ERROR

type_synonym log_line = "log_level \<times> string"

definition newline :: string where [simp]: "newline = [CHR 0x0A]"

section \<open>The state of the connection\<close>

fun channel_text :: "channel_state \<Rightarrow> string" where
  "channel_text ChannelClosed = ''The client is disconnected''"
| "channel_text ChannelOpen = ''A SecureChannel to the server is open''"
| "channel_text ChannelConnecting = ''Client is connecting''"
| "channel_text ChannelConnected = ''Client is connected''"
| "channel_text ChannelHelSent = ''Client hello sent''"
| "channel_text ChannelHelReceived = ''Client hello received''"
| "channel_text ChannelAckSent = ''Client ack sent''"
| "channel_text ChannelAckReceived = ''Client ack received''"
| "channel_text ChannelOpnSent = ''Client open sent''"
| "channel_text ChannelClosing = ''Client closing''"
| "channel_text (ChannelOther n) = ''Unknown securechannel state: '' @ show_nat n"

fun session_text :: "session_state \<Rightarrow> string" where
  "session_text SessionActivated = ''A session with the server is activated''"
| "session_text SessionClosed = ''Session disconnected''"
| "session_text SessionCreateRequested = ''Session create requested''"
| "session_text SessionCreated = ''Session created''"
| "session_text SessionActivateRequested = ''Session activate requested''"
| "session_text SessionClosing = ''Session closing''"
| "session_text (SessionOther n) = ''Unknown session state: '' @ show_nat n"

definition stateCallback :: "channel_state \<Rightarrow> session_state \<Rightarrow> status \<Rightarrow> log_line list" where
  "stateCallback channelState sessionState connectState =
     [(INFO, channel_text channelState), (INFO, session_text sessionState)] @
     (if connectState = UA_STATUSCODE_BADDISCONNECT then [(INFO, ''Bad Disconnect'')] else [])"

definition inactivityCallback :: "log_line list" where
  "inactivityCallback =
     [(ERROR, newline @ newline @ newline @ ''INACTIVITYCALLBACK'' @ newline @ newline @ newline)]"

text \<open>The log tells the states of the connection apart.\<close>

lemma channel_text_inj: "channel_text c = channel_text d \<Longrightarrow> c = d"
  by (cases c; cases d) (auto simp: show_nat_inj)

lemma session_text_inj: "session_text c = session_text d \<Longrightarrow> c = d"
  by (cases c; cases d) (auto simp: show_nat_inj)

lemma stateCallback_tells_states:
  "stateCallback c s st = stateCallback c' s' st' \<longleftrightarrow>
     c = c' \<and> s = s' \<and> (st = UA_STATUSCODE_BADDISCONNECT \<longleftrightarrow> st' = UA_STATUSCODE_BADDISCONNECT)"
  by (auto simp: stateCallback_def dest: channel_text_inj session_text_inj)

section \<open>Machines\<close>

text \<open>The overload for a map and the one for a set print the URIs of the ids only.\<close>

definition logMachinesChanging_map :: "string \<Rightarrow> (NodeId_t, BrowseResult_t) smap \<Rightarrow> log_line list" where
  "logMachinesChanging_map header machines =
     [(INFO, header @ newline @ c_str (concat (map (\<lambda>machine. nUri (fst machine) @ newline) machines)))]"

definition logMachinesChanging_set :: "string \<Rightarrow> NodeId_t sset \<Rightarrow> log_line list" where
  "logMachinesChanging_set header machines =
     [(INFO, header @ newline @ c_str (concat (map (\<lambda>machine. nUri machine @ newline) machines)))]"

lemma logMachinesChanging_keys:
  "logMachinesChanging_map header machines = logMachinesChanging_set header (sm_keys machines)"
  by (simp add: logMachinesChanging_map_def logMachinesChanging_set_def sm_keys_def comp_def)

definition LogOptionalAndMandatoryTransformToNodeIdError ::
    "NodeId_t \<Rightarrow> QualifiedName_t \<Rightarrow> string \<Rightarrow> log_line list" where
  "LogOptionalAndMandatoryTransformToNodeIdError nodeId childBrowsName err =
     [(ERROR, ''Forwarding exception, cause:'' @ ''Could not find '' @ [CHR 0x27] @ NodeId_to_string nodeId @
        [CHR 0x27] @ ''->'' @ [CHR 0x27] @ QualifiedName_to_string childBrowsName @ [CHR 0x27] @
        ''Unknown ID caused exception: '' @ err)]"

section \<open>The set-up of the log\<close>

text \<open>
  The logging library as a parameter: a configuration starts from the defaults, is changed by a
  text and by single settings, and becomes that of the default logger.
\<close>

record ('conf, 'l) log_lib =
  el_default :: 'conf
  el_parseFromText :: "string \<Rightarrow> 'conf \<Rightarrow> 'conf"
  el_setFilename :: "string \<Rightarrow> 'conf \<Rightarrow> 'conf"
  el_reconfigure :: "'conf \<Rightarrow> 'l \<Rightarrow> 'l"

definition LOG_CONFIG :: string where
  "LOG_CONFIG = newline @ concat (map (\<lambda>l. l @ newline)
     [''* GLOBAL:'',
      ''  FORMAT = '' @ [CHR 0x22] @ ''%datetime [%logger] %level %func:%line %msg'' @ [CHR 0x22],
      ''  ENABLED = true'',
      ''  TO_FILE = true'',
      ''  TO_STANDARD_OUTPUT = true'',
      ''  SUBSECOND_PRECISION = 3'',
      ''  PERFORMANCE_TRACKING = false'',
      ''  MAX_LOG_FILE_SIZE = 2097152'',
      ''* DEBUG:'',
      ''  TO_STANDARD_OUTPUT = false'',
      ''* TRACE:'',
      ''  TO_STANDARD_OUTPUT = false'',
      ''* VERBOSE:'',
      ''  TO_STANDARD_OUTPUT = false''])"

definition ConfigureLogger :: "('conf, 'l) log_lib \<Rightarrow> string \<Rightarrow> 'l \<Rightarrow> 'l \<times> log_line list" where
  "ConfigureLogger L name logger =
     (el_reconfigure L (el_setFilename L (name @ ''-%datetime{%Y%M%d}.log'') (el_parseFromText L LOG_CONFIG (el_default L))) logger,
      [(INFO, ''Logger Configured: '' @ name)])"

section \<open>The troubleshooter\<close>

text \<open>A token of the MQTT library, with the topics it may have.\<close>

record mqtt_token =
  tok_message_id :: nat
  tok_topics :: "string list option"

definition traceCallback :: "nat \<Rightarrow> string \<Rightarrow> string" where
  "traceCallback level message = ''TRACE('' @ show_nat level @ ''): '' @ message @ newline"

definition for_token :: "mqtt_token \<Rightarrow> string" where
  "for_token tok =
     (if tok_message_id tok \<noteq> 0 then '' for token: ['' @ show_nat (tok_message_id tok) @ '']'' @ newline else '''')"

definition listener_on_failure :: "string \<Rightarrow> mqtt_token \<Rightarrow> string" where
  "listener_on_failure name tok = name @ '' failure'' @ for_token tok @ newline"

definition listener_on_success :: "string \<Rightarrow> mqtt_token \<Rightarrow> string" where
  "listener_on_success name tok =
     name @ '' success'' @ for_token tok @
     (case tok_topics tok of
        Some (t # ts) \<Rightarrow> [CHR 0x09] @ ''token topic: '' @ [CHR 0x27] @ t @ [CHR 0x27] @ '', ...'' @ newline
      | _ \<Rightarrow> '''') @ newline"

definition message_arrived :: "string \<Rightarrow> string" where
  "message_arrived topic =
     ''Message arrived'' @ newline @ [CHR 0x09] @ ''topic: '' @ [CHR 0x27] @ topic @ [CHR 0x27] @ newline"

end
