(* ===== verification/Type_Dictionary.thy ===== *)
theory Type_Dictionary
  imports Exceptions
begin

text \<open>
  \<^verbatim>\<open>DashboardClient/TypeDictionary/TypeDictionary.hpp\<close>: the graph of dependencies between
  data types and its topological sort. Pointers are numbers; the head of \<open>resultStack\<close> is its
  top.
\<close>

record dependency_graph =
  adj :: "(nat, nat list) smap"
  visited :: "(nat, bool) smap"
  resultStack :: "nat list"

definition DependecyGraph :: dependency_graph where
  "DependecyGraph = \<lparr>adj = [], visited = [], resultStack = []\<rparr>"

type_synonym 'a graph_act = "(dependency_graph, exn, 'a) act"

definition succs :: "dependency_graph \<Rightarrow> nat \<Rightarrow> nat list" where
  "succs g v = (case sm_find (adj g) v of None \<Rightarrow> [] | Some ws \<Rightarrow> ws)"

definition is_visited :: "dependency_graph \<Rightarrow> nat \<Rightarrow> bool" where
  "is_visited g v = (case sm_find (visited g) v of None \<Rightarrow> False | Some b \<Rightarrow> b)"

definition addEdge :: "nat \<Rightarrow> nat \<Rightarrow> dependency_graph \<Rightarrow> dependency_graph" where
  "addEdge v w g = g\<lparr>adj := sm_assign v (succs g v @ [w]) (adj g),
     visited := sm_assign w False (sm_assign v False (visited g))\<rparr>"

text \<open>\<^verbatim>\<open>operator[]\<close> inserts a missing entry.\<close>

definition adj_at :: "nat \<Rightarrow> nat list graph_act" where
  "adj_at v = seq (update (\<lambda>g. g\<lparr>adj := sm_insert v [] (adj g)\<rparr>)) (\<lambda>_. reads (\<lambda>g. succs g v))"

definition visited_at :: "nat \<Rightarrow> bool graph_act" where
  "visited_at v = seq (update (\<lambda>g. g\<lparr>visited := sm_insert v False (visited g)\<rparr>)) (\<lambda>_. reads (\<lambda>g. is_visited g v))"

fun topologicalSortUtil :: "nat \<Rightarrow> nat \<Rightarrow> unit graph_act" where
  "topologicalSortUtil 0 v = no_fuel"
| "topologicalSortUtil (Suc k) v =
     seq (update (\<lambda>g. g\<lparr>visited := sm_assign v True (visited g)\<rparr>)) (\<lambda>_.
     seq (adj_at v) (\<lambda>ws.
     seq (for_each ws (\<lambda>w. seq (visited_at w) (\<lambda>b. if \<not> b then topologicalSortUtil k w else ret ()))) (\<lambda>_.
     update (\<lambda>g. g\<lparr>resultStack := v # resultStack g\<rparr>))))"

definition topologicalSort :: "nat \<Rightarrow> unit graph_act" where
  "topologicalSort fuel =
     seq (reads (\<lambda>g. sm_keys (visited g))) (\<lambda>els.
     for_each els (\<lambda>el. seq (visited_at el) (\<lambda>b. if \<not> b then topologicalSortUtil fuel el else ret ())))"

section \<open>Lookups\<close>

definition graph_ok :: "dependency_graph \<Rightarrow> bool" where
  "graph_ok g \<longleftrightarrow> sm_ok (adj g) \<and> sm_ok (visited g) \<and>
     (\<forall>v. \<forall>w \<in> set (succs g v). w \<in> set (sm_keys (visited g)))"

lemma graph_ok_empty: "graph_ok DependecyGraph"
  by (simp add: graph_ok_def DependecyGraph_def succs_def)

lemma addEdge_succs:
  "graph_ok g \<Longrightarrow> succs (addEdge v w g) u = (if u = v then succs g v @ [w] else succs g u)"
  by (simp add: graph_ok_def addEdge_def succs_def smap_simps)

lemma addEdge_ok:
  assumes "graph_ok g"
  shows "graph_ok (addEdge v w g)"
proof -
  have "set (sm_keys (visited (addEdge v w g))) = insert v (insert w (set (sm_keys (visited g))))"
    by (auto simp: addEdge_def)
  with assms addEdge_succs [OF assms] show ?thesis
    by (auto simp: graph_ok_def addEdge_def smap_simps split: if_splits)
qed

lemma fold_addEdge:
  assumes "graph_ok g" and "h = fold (\<lambda>(v, w). addEdge v w) es g"
  shows "graph_ok h \<and> (\<forall>v w. w \<in> set (succs h v) \<longleftrightarrow> w \<in> set (succs g v) \<or> (v, w) \<in> set es) \<and>
    set (sm_keys (visited h)) = set (sm_keys (visited g)) \<union> fst ` set es \<union> snd ` set es \<and>
    resultStack h = resultStack g \<and> (\<forall>u. is_visited h u \<longrightarrow> is_visited g u)"
  using assms
proof (induction es arbitrary: g)
  case (Cons e es)
  obtain a b where e: "e = (a, b)" by fastforce
  have ok: "graph_ok (addEdge a b g)" by (rule addEdge_ok [OF Cons.prems(1)])
  have "is_visited (addEdge a b g) x \<longrightarrow> is_visited g x" for x
    using Cons.prems(1) by (simp add: addEdge_def is_visited_def graph_ok_def smap_simps)
  moreover have "set (sm_keys (visited (addEdge a b g))) = insert a (insert b (set (sm_keys (visited g))))"
    "resultStack (addEdge a b g) = resultStack g"
    by (auto simp: addEdge_def)
  ultimately show ?case
    using Cons.IH [OF ok] Cons.prems e addEdge_succs [OF Cons.prems(1), of a b] by auto
qed simp

section \<open>The order of the result\<close>

text \<open>Every node of the stack lies above all nodes that it has an edge to.\<close>

fun topological :: "(nat \<Rightarrow> nat list) \<Rightarrow> nat list \<Rightarrow> bool" where
  "topological f [] \<longleftrightarrow> True"
| "topological f (v # st) \<longleftrightarrow> v \<notin> set st \<and> set (f v) \<subseteq> set st \<and> topological f st"

lemma topological_distinct: "topological f st \<Longrightarrow> distinct st"
  by (induction st) auto

lemma topological_below:
  "topological f st \<Longrightarrow> v \<in> set st \<Longrightarrow> w \<in> set (f v) \<Longrightarrow> \<exists>xs ys. st = xs @ v # ys \<and> w \<in> set ys"
proof (induction st)
  case (Cons u st)
  show ?case
  proof (cases "v = u")
    case True
    then show ?thesis using Cons.prems by (intro exI [of _ "[]"] exI [of _ st]) auto
  next
    case False
    with Cons obtain xs ys where "st = xs @ v # ys" "w \<in> set ys" by auto
    then show ?thesis by (intro exI [of _ "u # xs"] exI [of _ ys]) simp
  qed
qed simp

text \<open>
  The state during the sort: the stack is in order and its nodes are visited; the visited nodes
  that are not on it are the ones whose call has not ended.
\<close>

definition sorting :: "dependency_graph \<Rightarrow> bool" where
  "sorting g \<longleftrightarrow> graph_ok g \<and> topological (succs g) (resultStack g) \<and>
     (\<forall>v \<in> set (resultStack g). is_visited g v) \<and> (\<forall>v. is_visited g v \<longrightarrow> v \<in> set (sm_keys (visited g)))"

definition open_nodes :: "dependency_graph \<Rightarrow> nat set" where
  "open_nodes g = {v. is_visited g v \<and> v \<notin> set (resultStack g)}"

text \<open>What a call keeps: the edges, the nodes, the open nodes, and the order.\<close>

definition extends :: "dependency_graph \<Rightarrow> dependency_graph \<Rightarrow> bool" where
  "extends g h \<longleftrightarrow> sorting h \<and> succs h = succs g \<and> set (sm_keys (visited h)) = set (sm_keys (visited g)) \<and>
     open_nodes h = open_nodes g \<and> set (resultStack g) \<subseteq> set (resultStack h)"

lemma extends_refl: "sorting g \<Longrightarrow> extends g g"
  by (simp add: extends_def)

lemma extends_trans: "extends g h \<Longrightarrow> extends h k \<Longrightarrow> extends g k"
  by (auto simp: extends_def)

lemma visited_at_run:
  assumes "sorting g" and "w \<in> set (sm_keys (visited g))"
  shows "\<exists>h. visited_at w g = (Inr (is_visited g w), h) \<and> extends g h \<and> is_visited h = is_visited g \<and>
    resultStack h = resultStack g"
proof -
  let ?h = "g\<lparr>visited := sm_insert w False (visited g)\<rparr>"
  obtain b where "sm_find (visited g) w = Some b" using assms(2) sm_find_None_iff by fastforce
  with assms(1) have look: "sm_find (visited ?h) u = sm_find (visited g) u" for u
    by (auto simp: sorting_def graph_ok_def smap_simps)
  then have v: "is_visited ?h = is_visited g" by (simp add: is_visited_def fun_eq_iff)
  have keys: "set (sm_keys (visited ?h)) = set (sm_keys (visited g))" using assms(2) by auto
  have s: "succs ?h = succs g" by (simp add: succs_def fun_eq_iff)
  have "sorting ?h"
    using assms(1) v s keys by (simp add: sorting_def graph_ok_def smap_simps)
  then have "extends g ?h" using v s keys by (simp add: extends_def open_nodes_def)
  with v show ?thesis by (auto simp: visited_at_def act_defs)
qed

lemma adj_at_run:
  assumes "graph_ok g"
  shows "adj_at v g = (Inr (succs g v), g\<lparr>adj := sm_insert v [] (adj g)\<rparr>)"
    and "succs (g\<lparr>adj := sm_insert v [] (adj g)\<rparr>) = succs g"
  using assms by (auto simp: adj_at_def act_defs succs_def graph_ok_def smap_simps fun_eq_iff split: option.splits)

text \<open>The loop over the successors of an open node.\<close>

lemma visit_all:
  assumes call: "\<And>w g. sorting g \<Longrightarrow> P w \<Longrightarrow> w \<in> set (sm_keys (visited g)) \<Longrightarrow> \<not> is_visited g w \<Longrightarrow> open_nodes g = G \<Longrightarrow>
      succs g = f \<Longrightarrow> \<exists>h. call w g = (Inr (), h) \<and> extends g h \<and> w \<in> set (resultStack h)"
    and "sorting g" and "\<forall>w \<in> set ws. P w \<and> w \<notin> G \<and> w \<in> set (sm_keys (visited g))" and "open_nodes g = G" and "succs g = f"
  shows "\<exists>h. for_each ws (\<lambda>w. seq (visited_at w) (\<lambda>b. if \<not> b then call w else ret ())) g = (Inr (), h) \<and>
    extends g h \<and> set ws \<subseteq> set (resultStack h)"
  using assms(2-)
proof (induction ws arbitrary: g)
  case Nil
  then show ?case by (simp add: ret_def extends_refl)
next
  case (Cons w ws)
  obtain g1 where g1: "visited_at w g = (Inr (is_visited g w), g1)" "extends g g1" "is_visited g1 = is_visited g"
      "resultStack g1 = resultStack g"
    using visited_at_run [OF Cons.prems(1), of w] Cons.prems(2) by auto
  have step: "\<exists>h. (if \<not> is_visited g w then call w else ret ()) g1 = (Inr (), h) \<and> extends g1 h \<and> w \<in> set (resultStack h)"
  proof (cases "is_visited g w")
    case True
    with Cons.prems have "w \<in> set (resultStack g)" by (auto simp: open_nodes_def)
    with True g1(2,4) show ?thesis by (auto simp: ret_def extends_def)
  next
    case False
    then show ?thesis
      using call [of g1 w] g1(2,3) Cons.prems by (auto simp: extends_def)
  qed
  then obtain h where h: "(if \<not> is_visited g w then call w else ret ()) g1 = (Inr (), h)" "extends g1 h" "w \<in> set (resultStack h)"
    by blast
  have gh: "extends g h" by (rule extends_trans [OF g1(2) h(2)])
  have "\<exists>k. for_each ws (\<lambda>w. seq (visited_at w) (\<lambda>b. if \<not> b then call w else ret ())) h = (Inr (), k) \<and>
      extends h k \<and> set ws \<subseteq> set (resultStack k)"
    by (rule Cons.IH) (use gh Cons.prems in \<open>auto simp: extends_def\<close>)
  then obtain k where k: "for_each ws (\<lambda>w. seq (visited_at w) (\<lambda>b. if \<not> b then call w else ret ())) h = (Inr (), k)"
      "extends h k" "set ws \<subseteq> set (resultStack k)" by blast
  have "for_each (w # ws) (\<lambda>w. seq (visited_at w) (\<lambda>b. if \<not> b then call w else ret ())) g = (Inr (), k)"
    using g1(1) h(1) k(1) by (simp add: seq_def)
  moreover have "w \<in> set (resultStack k)" using h(3) k(2) by (auto simp: extends_def)
  ultimately show ?case using extends_trans [OF gh k(2)] k(3) by auto
qed

lemma Util_run:
  assumes "\<forall>v w. w \<in> set (f v) \<longrightarrow> rank w < rank v"
    and "sorting g" and "succs g = f" and "\<not> is_visited g v" and "v \<in> set (sm_keys (visited g))"
    and "\<forall>u \<in> open_nodes g. rank v < rank u" and "rank v < k"
  shows "\<exists>h. topologicalSortUtil k v g = (Inr (), h) \<and> extends g h \<and> v \<in> set (resultStack h)"
  using assms(2-)
proof (induction k arbitrary: v g)
  case (Suc k)
  let ?g1 = "g\<lparr>visited := sm_assign v True (visited g)\<rparr>"
  let ?g2 = "?g1\<lparr>adj := sm_insert v [] (adj ?g1)\<rparr>"
  have ok: "graph_ok g" using Suc.prems(1) by (simp add: sorting_def)
  have s1: "succs ?g1 = f" using Suc.prems(2) by (simp add: succs_def fun_eq_iff)
  have keys: "set (sm_keys (visited ?g1)) = set (sm_keys (visited g))" using Suc.prems(4) by auto
  have ok1: "graph_ok ?g1" using ok s1 Suc.prems(2) keys by (simp add: graph_ok_def smap_simps)
  note g2 = adj_at_run [OF ok1, of v]
  have s2: "succs ?g2 = f" using g2(2) s1 by simp
  have v1: "is_visited ?g2 u \<longleftrightarrow> u = v \<or> is_visited g u" for u
    using ok by (simp add: is_visited_def graph_ok_def smap_simps)
  have ok2: "graph_ok ?g2" using ok1 s1 s2 by (simp add: graph_ok_def smap_simps)
  have new: "v \<notin> set (resultStack g)" using Suc.prems(1,3) by (auto simp: sorting_def)
  have sort2: "sorting ?g2"
    using Suc.prems(1,2,4) ok2 s2 v1 keys by (auto simp: sorting_def)
  have open2: "open_nodes ?g2 = insert v (open_nodes g)" using v1 new by (auto simp: open_nodes_def)
  have "\<exists>h. for_each (succs ?g1 v) (\<lambda>w. seq (visited_at w) (\<lambda>b. if \<not> b then topologicalSortUtil k w else ret ())) ?g2 = (Inr (), h) \<and>
      extends ?g2 h \<and> set (succs ?g1 v) \<subseteq> set (resultStack h)"
  proof (rule visit_all [where P = "\<lambda>w. rank w < rank v" and G = "open_nodes ?g2" and f = f])
    show "\<exists>h. topologicalSortUtil k w g' = (Inr (), h) \<and> extends g' h \<and> w \<in> set (resultStack h)"
      if "sorting g'" "rank w < rank v" "w \<in> set (sm_keys (visited g'))" "\<not> is_visited g' w"
        "open_nodes g' = open_nodes ?g2" "succs g' = f" for w g'
      by (rule Suc.IH [OF that(1) that(6,4,3)]) (use that(2,5) open2 Suc.prems(5,6) in \<open>auto intro: less_trans\<close>)
    show "\<forall>w \<in> set (succs ?g1 v). rank w < rank v \<and> w \<notin> open_nodes ?g2 \<and> w \<in> set (sm_keys (visited ?g2))"
      using assms(1) s1 open2 Suc.prems(5) ok1 by (fastforce simp: graph_ok_def)
  qed (use sort2 s2 in simp_all)
  then obtain h where h: "for_each (succs ?g1 v) (\<lambda>w. seq (visited_at w) (\<lambda>b. if \<not> b then topologicalSortUtil k w else ret ())) ?g2 = (Inr (), h)"
    "extends ?g2 h" "set (f v) \<subseteq> set (resultStack h)" using s1 by auto
  let ?k = "h\<lparr>resultStack := v # resultStack h\<rparr>"
  have "v \<in> open_nodes h" using h(2) open2 by (simp add: extends_def)
  then have v: "is_visited h v" "v \<notin> set (resultStack h)" by (simp_all add: open_nodes_def)
  have same: "succs ?k = succs h" "is_visited ?k = is_visited h" by (simp_all add: succs_def is_visited_def fun_eq_iff)
  have "sorting ?k"
    using h(2,3) v s2 same by (auto simp: sorting_def graph_ok_def extends_def)
  moreover have "open_nodes ?k = open_nodes h - {v}" using same by (auto simp: open_nodes_def)
  ultimately have "extends g ?k"
    using h(2) s2 Suc.prems(2,3) open2 keys same v(2) by (auto simp: extends_def open_nodes_def)
  moreover have "topologicalSortUtil (Suc k) v g = (Inr (), ?k)"
    using h(1) g2(1) by (simp add: seq_def [of "adj_at v"] seq_def [of "for_each xs m" for xs m]) (simp add: update_def)
  ultimately show ?case by auto
qed simp

text \<open>
  C20: the topological sort. For a graph of dependencies built from a list of edges without
  cycle (a rank decreases along every edge), and fuel above all ranks, the sort ends, the stack
  then holds every node exactly once, and each node lies above all nodes that it depends on, so
  that they are popped in the order of dependency.
\<close>

theorem topologicalSort_order:
  assumes "\<forall>(v, w) \<in> set edges. rank w < rank v" and "\<forall>v \<in> fst ` set edges \<union> snd ` set edges. rank v < fuel"
  shows "\<exists>h. topologicalSort fuel (fold (\<lambda>(v, w). addEdge v w) edges DependecyGraph) = (Inr (), h) \<and>
    distinct (resultStack h) \<and> set (resultStack h) = fst ` set edges \<union> snd ` set edges \<and>
    (\<forall>(v, w) \<in> set edges. \<exists>xs ys. resultStack h = xs @ v # ys \<and> w \<in> set ys)"
proof -
  define g where "g = fold (\<lambda>(v, w). addEdge v w) edges DependecyGraph"
  have empty: "succs DependecyGraph v = []" "\<not> is_visited DependecyGraph v" for v
    by (simp_all add: DependecyGraph_def succs_def is_visited_def)
  have g: "graph_ok g" "w \<in> set (succs g v) \<longleftrightarrow> (v, w) \<in> set edges"
      "set (sm_keys (visited g)) = fst ` set edges \<union> snd ` set edges" "resultStack g = []" "\<not> is_visited g v" for v w
    using fold_addEdge [OF graph_ok_empty g_def] empty by (auto simp: DependecyGraph_def)
  have sort: "sorting g" using g by (simp add: sorting_def)
  have none: "open_nodes g = {}" using g(5) by (simp add: open_nodes_def)
  have rank: "\<forall>v w. w \<in> set (succs g v) \<longrightarrow> rank w < rank v" using g(2) assms(1) by auto
  have "\<exists>h. for_each (sm_keys (visited g)) (\<lambda>w. seq (visited_at w) (\<lambda>b. if \<not> b then topologicalSortUtil fuel w else ret ())) g = (Inr (), h) \<and>
      extends g h \<and> set (sm_keys (visited g)) \<subseteq> set (resultStack h)"
  proof (rule visit_all [where P = "\<lambda>w. rank w < fuel" and G = "{}" and f = "succs g"])
    show "\<exists>h. topologicalSortUtil fuel w g' = (Inr (), h) \<and> extends g' h \<and> w \<in> set (resultStack h)"
      if "sorting g'" "rank w < fuel" "w \<in> set (sm_keys (visited g'))" "\<not> is_visited g' w"
        "open_nodes g' = {}" "succs g' = succs g" for w g'
      by (rule Util_run [OF rank that(1,6,4,3)]) (use that in simp_all)
  qed (use sort none g(3) assms(2) in auto)
  then obtain h where h: "topologicalSort fuel g = (Inr (), h)" "extends g h" "set (sm_keys (visited g)) \<subseteq> set (resultStack h)"
    by (auto simp: topologicalSort_def)
  have "succs h = succs g" and "topological (succs h) (resultStack h)"
    using h(2) unfolding extends_def sorting_def by blast+
  then have top: "topological (succs g) (resultStack h)" by (simp only:)
  have "set (resultStack h) \<subseteq> set (sm_keys (visited g))" using h(2) by (auto simp: extends_def sorting_def)
  with h(3) g(3) have all: "set (resultStack h) = fst ` set edges \<union> snd ` set edges" by blast
  have "\<exists>xs ys. resultStack h = xs @ v # ys \<and> w \<in> set ys" if "(v, w) \<in> set edges" for v w
    by (rule topological_below [OF top]) (use that all g(2) in force)+
  then show ?thesis
    using h(1) topological_distinct [OF top] all unfolding g_def [symmetric] by auto
qed

lemma topologicalSort_order_witness:
  "\<exists>h. topologicalSort 3 (fold (\<lambda>(v, w). addEdge v w) [(1, 2), (2, 3), (1, 3)] DependecyGraph) = (Inr (), h) \<and>
     distinct (resultStack h) \<and> set (resultStack h) = {1, 2, 3}"
  using topologicalSort_order [of "[(1, 2), (2, 3), (1, 3)]" "\<lambda>v. 3 - v" 3] by auto

end
