(* ===== verification/Type_Printing.thy ===== *)
theory Type_Printing
  imports Type_Reader
begin

text \<open>
  The printed forms of types: \<^verbatim>\<open>StructureNode::printType\<close> and
  \<^verbatim>\<open>StructureNode::printYamlIntern\<close> of \<^verbatim>\<open>ModelDefinition.cpp\<close>, and
  \<^verbatim>\<open>OpcUaTypeReader::printTypeMapYaml\<close>, which are for inspection. A type can be its own
  descendant once child lists are shared, so the recursion has fuel; \<open>None\<close> is its end. A
  stream is the string written to it.
\<close>

section \<open>Paths\<close>

definition printed_rule :: "ModellingRule_t \<Rightarrow> string" where
  "printed_rule r = (case r of
       Optional \<Rightarrow> ''Optional'' | Mandatory \<Rightarrow> ''Mandatory''
     | MandatoryPlaceholder \<Rightarrow> ''MandatoryPlaceholder'' | OptionalPlaceholder \<Rightarrow> ''OptionalPlaceholder''
     | RuleNone \<Rightarrow> '''')"

definition printed_class :: "NodeClass_t \<Rightarrow> string" where
  "printed_class c = (case c of
       Object \<Rightarrow> ''Object'' | Variable \<Rightarrow> ''Variable'' | Method \<Rightarrow> ''Method''
     | ObjectType \<Rightarrow> ''ObjectType'' | VariableType \<Rightarrow> ''VariableType''
     | NodeClass_t.ReferenceType \<Rightarrow> ''ReferenceType'' | DataType \<Rightarrow> ''DataType'' | View \<Rightarrow> ''View'')"

definition printed_self :: "type_heap \<Rightarrow> nat \<Rightarrow> string \<Rightarrow> string" where
  "printed_self h a parentTree =
     (let n = sn_at h a; rule = printed_rule (ModellingRule n)
      in parentTree @ ''->'' @ qName (SpecifiedBrowseName n) @ '' ('' @ printed_class (NodeClass n) @
         (if rule = '''' then '''' else ''|'') @ rule @ '')'')"

fun printType :: "nat \<Rightarrow> type_heap \<Rightarrow> nat \<Rightarrow> string \<Rightarrow> string option" where
  "printType 0 h a parentTree = None"
| "printType (Suc k) h a parentTree =
     map_option (\<lambda>ss. printed_self h a parentTree @ [CHR 0x0A] @ concat ss)
       (those (map (\<lambda>c. printType k h c (printed_self h a parentTree)) (children_at h a)))"

section \<open>YAML\<close>

definition yaml_self :: "type_heap \<Rightarrow> nat \<Rightarrow> nat \<Rightarrow> string" where
  "yaml_self h a tabs =
     (let n = sn_at h a; tab = concat (replicate tabs ''    ''); tab2 = tab @ ''    '';
          line = (\<lambda>label t. tab2 @ label @ t @ [CHR 0x0A])
      in tab @ qName (SpecifiedBrowseName n) @ '':'' @ [CHR 0x0A] @
         line ''ModellingRule: '' (ModellingRuleToString (ModellingRule n)) @
         line ''NodeClass: '' (NodeClassToString (NodeClass_value (NodeClass n))) @
         line ''ReferenceType: '' (NodeId_to_string (ReferenceType n)) @
         line ''TypeDefinition: '' (NodeId_to_string (SpecifiedTypeNodeId n)) @
         line ''OfBaseDataVariableType: '' (if ofBaseDataVariableType n then ''1'' else ''0''))"

text \<open>The parameter \<^verbatim>\<open>parentTree\<close> is passed down and not used.\<close>

fun printYamlIntern :: "nat \<Rightarrow> type_heap \<Rightarrow> nat \<Rightarrow> string \<Rightarrow> nat \<Rightarrow> string option" where
  "printYamlIntern 0 h a parentTree tabs = None"
| "printYamlIntern (Suc k) h a parentTree tabs =
     (if children_at h a = [] then Some (yaml_self h a tabs)
      else map_option
        (\<lambda>ss. yaml_self h a tabs @ concat (replicate (Suc tabs) ''    '') @ ''Children:'' @ [CHR 0x0A] @ concat ss)
        (those (map (\<lambda>c. printYamlIntern k h c (yaml_self h a tabs) (tabs + 2)) (children_at h a))))"

definition printTypeMapYaml :: "nat \<Rightarrow> type_reader \<Rightarrow> string option" where
  "printTypeMapYaml fuel r =
     map_option concat (those (map (\<lambda>(typ, a).
       map_option (\<lambda>t. CHR 0x0A # t) (printYamlIntern fuel (heap r) a (NodeId_to_string typ) 1)) (m_typeMap r)))"

section \<open>Ends on types without cycle\<close>

lemma those_all_Some: "(\<And>x. x \<in> set xs \<Longrightarrow> f x \<noteq> None) \<Longrightarrow> \<exists>ys. those (map f xs) = Some ys \<and> length ys = length xs"
  by (induction xs) (force split: option.splits)+

definition types_ranked :: "type_heap \<Rightarrow> (nat \<Rightarrow> nat) \<Rightarrow> bool" where
  "types_ranked h rank \<longleftrightarrow> (\<forall>a. \<forall>c \<in> set (children_at h a). rank c < rank a)"

lemma printType_ends: "types_ranked h rank \<Longrightarrow> rank a < k \<Longrightarrow> printType k h a p \<noteq> None"
proof (induction k arbitrary: a p)
  case (Suc k)
  then have "printType k h c q \<noteq> None" if "c \<in> set (children_at h a)" for c q
    using that by (intro Suc.IH) (fastforce simp: types_ranked_def)+
  from those_all_Some [OF this] show ?case by fastforce
qed simp

lemma printYamlIntern_ends: "types_ranked h rank \<Longrightarrow> rank a < k \<Longrightarrow> printYamlIntern k h a p tabs \<noteq> None"
proof (induction k arbitrary: a p tabs)
  case (Suc k)
  then have "printYamlIntern k h c q t \<noteq> None" if "c \<in> set (children_at h a)" for c q t
    using that by (intro Suc.IH) (fastforce simp: types_ranked_def)+
  from those_all_Some [OF this] show ?case by fastforce
qed simp

text \<open>On a type that has a child of its own type the printing does not end.\<close>

lemma printType_cycle: "a \<in> set (children_at h a) \<Longrightarrow> printType k h a p = None"
proof (induction k arbitrary: p)
  case (Suc k)
  have none: "x \<in> set xs \<Longrightarrow> f x = None \<Longrightarrow> those (map f xs) = None" for x xs and f :: "nat \<Rightarrow> string option"
    by (induction xs) (auto split: option.splits)
  from none [OF Suc.prems] Suc show ?case by simp
qed simp

text \<open>The unused parameter does not matter.\<close>

lemma printYamlIntern_parentTree: "printYamlIntern k h a p tabs = printYamlIntern k h a q tabs"
  by (cases k) simp_all

text \<open>Every path of the tree is one line: the number of lines is the number of its nodes.\<close>

fun tree_size :: "nat \<Rightarrow> type_heap \<Rightarrow> nat \<Rightarrow> nat" where
  "tree_size 0 h a = 0"
| "tree_size (Suc k) h a = Suc (sum_list (map (tree_size k h) (children_at h a)))"

definition one_line :: "type_heap \<Rightarrow> bool" where
  "one_line h \<longleftrightarrow> (\<forall>a. CHR 0x0A \<notin> set (qName (SpecifiedBrowseName (sn_at h a))))"

lemma those_map_all: "those (map f xs) = Some ys \<Longrightarrow> map (\<lambda>x. the (f x)) xs = ys \<and> (\<forall>x \<in> set xs. f x \<noteq> None)"
  by (induction xs arbitrary: ys) (auto split: option.splits)

lemma printType_lines:
  assumes "one_line h" and "CHR 0x0A \<notin> set p" and "printType k h a p = Some out"
  shows "count_list out (CHR 0x0A) = tree_size k h a"
  using assms(2,3)
proof (induction k arbitrary: a p out)
  case (Suc k)
  let ?self = "printed_self h a p"
  have clean: "CHR 0x0A \<notin> set ?self"
    using assms(1) Suc.prems(1)
    by (auto simp: printed_self_def one_line_def printed_rule_def printed_class_def Let_def
        split: ModellingRule_t.splits NodeClass_t.splits if_splits)
  obtain ss where ss: "those (map (\<lambda>c. printType k h c ?self) (children_at h a)) = Some ss"
      and out: "out = ?self @ [CHR 0x0A] @ concat ss"
    using Suc.prems(2) by auto
  have each: "count_list (the (printType k h c ?self)) (CHR 0x0A) = tree_size k h c" if "c \<in> set (children_at h a)" for c
    using those_map_all [OF ss] that clean by (intro Suc.IH) auto
  have "count_list (concat ss) (CHR 0x0A) = sum_list (map (tree_size k h) (children_at h a))"
    using those_map_all [OF ss] each by (auto simp: count_list_concat comp_def intro!: arg_cong [where f = sum_list])
  moreover have "count_list ?self (CHR 0x0A) = 0" using clean by (simp add: count_list_0_iff)
  ultimately show ?case by (simp add: out)
qed simp

end
