(* ===== verification/Type_Tables.thy ===== *)
theory Type_Tables
  imports Ua_Model "HOL-Library.Word"
begin

text \<open>
  \<^verbatim>\<open>DashboardClient/TypeDictionary\<close>: the records of a parsed type dictionary, and the
  operator that prints an array of data types of the stack as C tables. Of the stack's
  descriptions the fields that are printed are modelled; a pointer to the type of a member is
  the name of that type, which is all that is read through it.
\<close>

section \<open>Dictionaries\<close>

record Field =
  fTypeName :: string
  fName :: string
  fLength :: "64 word"
  fLengthField :: string
  fIsLengthInBytes :: bool
  fSwitchField :: string
  fSwitchValue :: "64 word"
  fSwitchOperand :: string
  fTerminator :: string
  fRedundant :: bool

record StructuredType =
  stBaseType :: string
  stName :: string
  stFields :: "Field list"
  stDocumentation :: string
  stNodeId :: NodeId_t
  stBinaryNodeId :: NodeId_t
  stKind :: "64 word"

record EnumeratedValue =
  evName :: string
  evValue :: "64 word"

record EnumeratedType =
  etName :: string
  etLengthInBits :: "64 word"
  etEnumeratedValues :: "EnumeratedValue list"
  etNodeId :: NodeId_t

record TypeDictionary =
  tdStructuredTypes :: "StructuredType list"
  tdEnumeratedTypes :: "EnumeratedType list"
  tdTargetNamespace :: string

section \<open>Printed tables\<close>

record ua_type_id =
  tiNamespaceIndex :: "16 word"
  tiIdentifierType :: nat
  tiNumeric :: "32 word"

record ua_member =
  memberName :: string
  memberTypeName :: string
  padding :: "8 word"
  isArray :: bool
  isOptional :: bool

record ua_data_type =
  typeName :: string
  typeId :: ua_type_id
  binaryEncodingId :: ua_type_id
  memSize :: nat
  typeKind :: nat
  pointerFree :: bool
  overlayable :: bool
  members :: "ua_member list"

abbreviation nl :: string where "nl \<equiv> [CHR 0x0A]"

definition printed_bool :: "bool \<Rightarrow> string" where
  "printed_bool b = (if b then ''1'' else ''0'')"

definition printed_id :: "ua_type_id \<Rightarrow> string" where
  "printed_id i = ''   {'' @ show_nat (unat (tiNamespaceIndex i)) @ '', '' @ show_nat (tiIdentifierType i) @
     ''{'' @ show_nat (unat (tiNumeric i)) @ ''}}, ''"

definition printed_type :: "ua_data_type \<Rightarrow> string" where
  "printed_type t =
     ''{'' @ nl @
     ''   UA_TYPENAME('' @ typeName t @ ''), /* .typeName */'' @ nl @
     printed_id (typeId t) @ ''/* .typeId */'' @ nl @
     printed_id (binaryEncodingId t) @ ''/* .binaryEncodingId */'' @ nl @
     ''   '' @ show_nat (memSize t) @ '', /* .memSize */'' @ nl @
     ''   '' @ show_nat (typeKind t) @ '', /* .typeKind */'' @ nl @
     ''   '' @ printed_bool (pointerFree t) @ '', /* .pointerFree */'' @ nl @
     ''   '' @ printed_bool (overlayable t) @ '', /* .overlayable */'' @ nl @
     ''   '' @ show_nat (length (members t)) @ '', /* .membersSize */'' @ nl @
     ''   '' @ typeName t @ ''_members /* .members */'' @ nl @
     ''}'' @ nl @ nl"

definition printed_member :: "ua_member \<Rightarrow> string" where
  "printed_member m =
     ''{'' @ nl @
     ''  UA_TYPENAME('' @ memberName m @ ''), /* .memberName */'' @ nl @
     ''  &'' @ memberTypeName m @ '', /* .memberType */'' @ nl @
     ''  '' @ show_nat (unat (padding m)) @ '', /* .padding */'' @ nl @
     ''  '' @ printed_bool (isArray m) @ '', /* .isArray */'' @ nl @
     ''  '' @ printed_bool (isOptional m) @ '', /* .isOptional */'' @ nl @
     ''},'' @ nl"

definition printed_members :: "ua_data_type \<Rightarrow> string" where
  "printed_members t =
     ''/* '' @ typeName t @ ''*/'' @ nl @
     ''static UA_DataTypeMember '' @ typeName t @ ''_members['' @ show_nat (length (members t)) @ ''] = {'' @ nl @
     concat (map printed_member (members t)) @
     ''};'' @ nl @ nl"

definition printed_types :: "ua_data_type list \<Rightarrow> string" where
  "printed_types ts =
     nl @ nl @ ''---------------------'' @ nl @ nl @
     concat (map printed_type ts) @ concat (map printed_members ts)"

section \<open>Every table that is used is printed\<close>

text \<open>Every type names a table of members, and a table with that name and length is printed.\<close>

definition infix_of :: "string \<Rightarrow> string \<Rightarrow> bool" where
  "infix_of s t \<longleftrightarrow> (\<exists>u v. t = u @ s @ v)"

lemma infix_of_concat: "x \<in> set xs \<Longrightarrow> infix_of s (f x) \<Longrightarrow> infix_of s (concat (map f xs))"
  by (induction xs) (fastforce simp: infix_of_def, metis append.assoc concat.simps(2) infix_of_def list.simps(9) set_ConsD)

lemma infix_of_append: "infix_of s t \<Longrightarrow> infix_of s (u @ t)" "infix_of s t \<Longrightarrow> infix_of s (t @ u)"
  unfolding infix_of_def by (metis append.assoc)+

lemma infix_of_here:
  "infix_of (a @ b @ c) (a @ b @ c @ v)" "infix_of (a @ b @ c @ d @ e) (a @ b @ c @ d @ e @ v)"
  unfolding infix_of_def by (metis append.assoc append_Nil)+

lemma printed_tables:
  assumes "t \<in> set ts"
  shows "infix_of (''   '' @ typeName t @ ''_members /* .members */'') (printed_types ts) \<and>
    infix_of (''static UA_DataTypeMember '' @ typeName t @ ''_members['' @ show_nat (length (members t)) @ ''] = {'') (printed_types ts)"
proof
  have "infix_of (''   '' @ typeName t @ ''_members /* .members */'') (printed_type t)"
    unfolding printed_type_def by (rule infix_of_here(1) | rule infix_of_append(1))+
  from infix_of_concat [where f = printed_type, OF assms this]
  show "infix_of (''   '' @ typeName t @ ''_members /* .members */'') (printed_types ts)"
    unfolding printed_types_def by (intro infix_of_append(1) infix_of_append(2))
  have "infix_of (''static UA_DataTypeMember '' @ typeName t @ ''_members['' @ show_nat (length (members t)) @ ''] = {'') (printed_members t)"
    unfolding printed_members_def by (rule infix_of_here(2) | rule infix_of_append(1))+
  from infix_of_concat [where f = printed_members, OF assms this]
  show "infix_of (''static UA_DataTypeMember '' @ typeName t @ ''_members['' @ show_nat (length (members t)) @ ''] = {'') (printed_types ts)"
    unfolding printed_types_def by (intro infix_of_append(1))
qed

end
