(* ===== verification/Spec2Isabelle.thy ===== *)
theory Spec2Isabelle
  imports Thread_Safety Machine_Clients Custom_Types Type_Inheritance Startup
    Gateway_Properties Opcua_Data_Source Value_Flow Troubleshooter
    Setup_Security Stack_Wrapper Log_Output Type_Dictionary Type_Printing
    Type_Tables
begin

text \<open>
  A verification of the OPC UA to MQTT gateway \<^verbatim>\<open>Dashboard-OPCUA-Client\<close>.

  \<^bold>\<open>The program.\<close> The gateway connects to one OPC UA server, reads the types of the companion
  specifications it is configured for, looks for machines on the server, subscribes the values of
  every machine and publishes them as JSON over MQTT. \<^verbatim>\<open>Main.cpp\<close> runs a loop around
  \<^verbatim>\<open>DashboardOpcUaClient\<close>, which owns the parts: \<^verbatim>\<open>OpcUaClient\<close> (the data source, with its
  \<^verbatim>\<open>Subscription\<close>, converters and namespace cache), \<^verbatim>\<open>OpcUaTypeReader\<close> (the types),
  \<^verbatim>\<open>DashboardMachineObserver\<close> on \<^verbatim>\<open>MachineObserver\<close> (the machines), one
  \<^verbatim>\<open>DashboardClient\<close> per machine (its nodes, subscriptions and data sets), \<^verbatim>\<open>ModelToJson\<close>
  (the payloads) and \<^verbatim>\<open>MqttPublisher_Paho\<close>. The observer and the clients call the data source
  through \<^verbatim>\<open>IDashboardDataClient\<close>; values come back through callbacks.

  \<^bold>\<open>The model.\<close> A C++ member function is an action (\<open>act\<close> of \<open>Prelude\<close>): a function from the
  state to a result and a state. The result is a value or an abrupt end, which is an exception,
  undefined behaviour (null or dangling pointers that are read, \<^verbatim>\<open>front()\<close> of an empty
  container, values without initialisation), or the end of the fuel. Only exceptions are caught,
  and the state reached is kept. Pure code that may throw is a sum, integers that wrap are words,
  \<^verbatim>\<open>std::map\<close> and \<^verbatim>\<open>std::set\<close> are sorted lists (\<open>Std_Map\<close>, with the contract
  \<open>finite_map\<close>), strings are lists of characters, exceptions one datatype (\<open>Exceptions\<close>).
  The judgements \<open>hoare\<close> and \<open>runs\<close> of \<open>Prelude\<close> carry most proofs about actions.

  \<^bold>\<open>Theories and code.\<close>
  \<^item> \<open>Ua_Model\<close>, \<open>Type_Heap\<close>: \<^verbatim>\<open>ModelOpcUa\<close>. Node ids and their two comparisons, names,
    browse results, instances; type nodes are cells of a heap, since the code shares and changes
    them through pointers.
  \<^item> \<open>Data_Client\<close>: \<^verbatim>\<open>IDashboardDataClient\<close>, a record with one field per virtual method, and the
    contract of a data source (\<open>client_ok\<close>) with an invariant of its state.
  \<^item> \<open>Json\<close>, \<open>Model_To_Json\<close>: payloads (\<^verbatim>\<open>Converter/ModelToJson.cpp\<close>).
  \<^item> \<open>Dashboard_Client\<close>, with the properties in \<open>Dashboard_Transform\<close> (from a type to the nodes of
    a machine) and \<open>Dashboard_Publish\<close> (data sets, subscriptions, publication, callbacks).
  \<^item> \<open>Configuration\<close>: \<^verbatim>\<open>Util/ConfigurationJsonFile.cpp\<close> from the parsed JSON value on.
  \<^item> \<open>Type_Reader\<close>, \<open>Type_Inheritance\<close>: \<^verbatim>\<open>OpcUaTypeReader.cpp\<close>.
  \<^item> \<open>Machine_Observer\<close>, \<open>Dashboard_Machine_Observer\<close>, \<open>Publish_Machines_List\<close>:
    \<^verbatim>\<open>MachineObserver/\<close>; properties in \<open>Observer_Properties\<close> (one round of the update),
    \<open>Observer_Search\<close> (the search for machines), \<open>Observer_Machines\<close> (clients and lists),
    \<open>Machine_Clients\<close> (clients belong to known machines, so one branch of \<^verbatim>\<open>addMachine\<close> is dead) and
    \<open>Update_Round\<close> (a whole round of the update thread ends on a data source with the contract). The
    virtual methods of the observer are the interface \<open>machine_methods\<close>, interpreted on those of
    the dashboard observer; \<open>search_view\<close> and \<open>observer_invariant\<close> are the locales for what the search
    for machines and a round of the update leave alone.
  \<^item> \<open>Retained_Messages\<close>: what the broker shows. The retained messages follow from the history of
    publications, an invariant ties them to what every dashboard client remembers as sent, and
    \<open>gateway_runs\<close> are all sequences of updates, publications, values and changes of the server.
  \<^item> \<open>Id_Encode\<close>, \<open>Topics\<close>: topics and the encoding of ids in them.
  \<^item> \<open>Ua_Value\<close>, \<open>Value_Json\<close>, \<open>Value_Json_Properties\<close>: \<^verbatim>\<open>UaDataValueToJsonValue.cpp\<close>.
  \<^item> \<open>C_Layout\<close>, \<open>Generated_Types\<close>, \<open>Custom_Types\<close>: \<^verbatim>\<open>Converter/CustomDataTypes\<close>. The first has C
    structs with their layout on an arbitrary abi and the meaning of a description of a type; the
    second the structs, members and tables of the generated files, translated entry by entry; the
    third the arrays that \<^verbatim>\<open>OpcUaClient.cpp\<close> registers with the stack and the typed reads of the
    converter, with the properties: descriptions and structs agree, the converter reads memory as
    the type it has, and the stack leaves encoded what the converter decodes.
  \<^item> \<open>Ua_Stack\<close>, \<open>Namespace_Cache\<close>: the calls of the open62541 stack as a parameter, the
    converters of \<^verbatim>\<open>OpcUaClient/Converter\<close> and the cache of namespaces.
  \<^item> \<open>Subscription\<close>, \<open>Opcua_Client\<close>: \<^verbatim>\<open>Subscription.cpp\<close>, \<^verbatim>\<open>OpcUaClient.cpp\<close> and the
    wrapper of \<^verbatim>\<open>OpcUaInterface.hpp\<close>; properties in \<open>Opcua_Connection\<close> (connection, resets),
    \<open>Opcua_Super_Types\<close> (the subtype test), \<open>Opcua_Subscriptions\<close> (handles and callbacks),
    \<open>Opcua_Safety\<close> (when the methods are undefined, exactly), \<open>Opcua_Data_Source\<close> (the client keeps the
    contract of the data source, so the observer and the dashboard clients run on top of it) and
    \<open>Value_Flow\<close> (a value from the server through the data set of a machine to the broker, and what
    a new connection loses). \<open>Stack_Wrapper\<close> has the members of the wrapper that the client's model
    does without: stored states, the pointer to the subscription with its checks, and discovery.
  \<^item> \<open>Mqtt_Publisher\<close>, \<open>Setup_Security\<close>: the MQTT publisher on a parameter for its library, the
    key files on a model of the file system.
  \<^item> \<open>Type_Dictionary\<close>, \<open>Type_Tables\<close>, \<open>Type_Printing\<close>: the dependency graph and its topological
    sort, the records and printed tables of \<^verbatim>\<open>TypeDictionary\<close>, the printed forms of types.
  \<^item> \<open>Troubleshooter\<close>: \<^verbatim>\<open>WssTroubleshooter.cpp\<close>, the second program of the repository.
  \<^item> \<open>Log_Output\<close>: functions that only write to the log, and the set-up of the log.
  \<^item> \<open>Gateway\<close>, \<open>Gateway_Properties\<close>: one iteration of the gateway and \<^verbatim>\<open>main\<close> as a step relation
    labelled with events; invariants by rule induction over its runs; the loop that waits for a
    connection as a function, whose executions are runs of the program. \<open>Startup\<close> is what comes before
    the loop: the configuration file and the constructor of \<^verbatim>\<open>DashboardOpcUaClient\<close>.
  \<^item> \<open>Lock_Semantics\<close>, \<open>Lock_Discipline\<close>, \<open>Thread_Code\<close>, \<open>Thread_Safety\<close>: the main thread, the
    connecting thread and the update thread under all interleavings. \<open>Lock_Semantics\<close> is a language of
    scopes of mutexes, accesses to shared members, calls, exceptions and threads, with its steps;
    \<open>Lock_Discipline\<close> shows in a locale that threads which lock in one order and access a member
    under its mutex neither block each other nor race; \<open>Thread_Code\<close> has the skeleton of every
    function that the threads run, and \<open>Thread_Safety\<close> the interpretation and the properties.
    Values and conditions are choices of the scheduler there, and every call of the stack may
    deliver notifications on the thread that made it.

  \<^bold>\<open>Fuel.\<close> Recursions that follow references of the server have fuel: the transformation of a
  type (enough: the number of node ids of the address space, as every id is expanded once), the
  inheritance of types (the length of the chain of ancestors), the search for machines (the rank of
  the folders), the subtype test (the rank of the type plus two), the topological sort (the largest
  rank plus one). That this fuel is enough is proved; where the server can make the recursion
  endless by a cycle, that is proved too. The connecting thread has fuel because only a failure
  ends it.

  \<^bold>\<open>Findings.\<close> Several properties state what the code does where that is not what it seems to
  mean: the two comparisons of node ids disagree, rows of matrices overlap, a changed list of
  machines drops all of them for one round, the ignored maximal depth of the subtype test, the
  exchanged members of a subscription handle, the loop around the reading of types that a signal
  does not end, settings of the wrong type that end the program by an exception that is not caught,
  an online message that is never taken back, although the documentation says so, monitored items
  that a new connection does not have, and values without terminator that error paths print as C
  strings: ids of nodes, bodies of extension objects, generated keys.

  \<^bold>\<open>Not modelled.\<close> Log statements inside other operations, unless printing can be undefined: the
  statements that print an id (\<open>log_string_data\<close> in \<open>Opcua_Client\<close>) or the body of an extension object
  (\<open>printed_body\<close> in \<open>Value_Json\<close>) as a C string are part of the model; the reference that
  \<^verbatim>\<open>createDataChangeCallback\<close> makes of a null pointer and nobody reads, which the standard leaves
  undefined; the threads of the MQTT library, which lock nothing of the program; the values that
  the threads compute while they are interleaved (the theories of the components have the values,
  for operations that run as a whole; \<open>Gateway\<close> interleaves the main thread with events from
  outside); the text form of identifiers, the JSON parser and printer, the MQTT library, the
  generation of certificates and the calls of the stack, which are parameters; the binary decoding
  of structures, of which \<open>Ua_Value\<close> has the fields that are converted; the table \<^verbatim>\<open>XMLtoUaType\<close>, a
  member that nothing reads. Clearing memory is modelled where a later access depends on it:
  reading ids with memory of their own after the response they belong to was cleared is undefined
  behaviour in \<open>Opcua_Client\<close>.

  \<^bold>\<open>Open.\<close> The values of one data set while callbacks and publication are interleaved: no mutex
  protects them in the code (nor the namespace cache and the invalid machines), and the properties
  about values are for operations that run as a whole. \<open>Thread_Safety\<close> claims nothing of members
  without protection, as conditions on data are left to the scheduler there.
\<close>

end
